(* ===== verification/Prelude.thy ===== *)
theory Prelude
  imports Main "HOL-Library.AList"
begin

text \<open>
  Shared vocabulary of the development: the pieces of the JavaScript language that the
  interface code uses and the generic lemmas about them.

  A plain object or a \<open>Map\<close> is an association list in insertion order: \<open>AList.update\<close>
  overwrites in place and appends a new key at the end, \<open>AList.delete\<close> removes, \<open>map_of\<close>
  reads. A \<open>Set\<close> is a list without repetitions in insertion order. A nullable or optional
  value is an \<open>option\<close>. A string is a \<open>char list\<close> (bytes of its UTF-8 form).
\<close>

named_theorems js_simps \<open>characteristic equations of the JavaScript vocabulary\<close>

section \<open>Nullish values\<close>

fun nullish :: "'a option \<Rightarrow> 'a \<Rightarrow> 'a" where
  "nullish None d = d"
| "nullish (Some v) d = v"

fun optional_call :: "('a \<Rightarrow> 'w \<Rightarrow> 'w) option \<Rightarrow> 'a \<Rightarrow> 'w \<Rightarrow> 'w" where
  "optional_call None a w = w"
| "optional_call (Some f) a w = f a w"

section \<open>Sets in insertion order\<close>

fun uniq_onto :: "'a list \<Rightarrow> 'a list \<Rightarrow> 'a list" where
  "uniq_onto acc [] = acc"
| "uniq_onto acc (x # xs) = uniq_onto (if x \<in> set acc then acc else acc @ [x]) xs"

text \<open>\<open>Array.from(new Set(xs))\<close>: the first occurrence of every element, in order.\<close>

definition uniq :: "'a list \<Rightarrow> 'a list" where
  "uniq xs = uniq_onto [] xs"

definition set_add :: "'a \<Rightarrow> 'a list \<Rightarrow> 'a list" where
  "set_add x xs = (if x \<in> set xs then xs else xs @ [x])"

definition set_delete :: "'a \<Rightarrow> 'a list \<Rightarrow> 'a list" where
  "set_delete x xs = filter (\<lambda>y. y \<noteq> x) xs"

lemma set_uniq_onto: "set (uniq_onto acc xs) = set acc \<union> set xs"
  by (induction acc xs rule: uniq_onto.induct) auto

lemma distinct_uniq_onto: "distinct acc \<Longrightarrow> distinct (uniq_onto acc xs)"
  by (induction acc xs rule: uniq_onto.induct) auto

lemma set_uniq [simp]: "set (uniq xs) = set xs"
  by (simp add: uniq_def set_uniq_onto)

lemma distinct_uniq [simp]: "distinct (uniq xs)"
  by (simp add: uniq_def distinct_uniq_onto)

lemma set_set_add [simp]: "set (set_add x xs) = insert x (set xs)"
  by (auto simp: set_add_def)

lemma distinct_set_add [simp]: "distinct (set_add x xs) = distinct xs"
  by (auto simp: set_add_def)

lemma set_set_delete [simp]: "set (set_delete x xs) = set xs - {x}"
  by (auto simp: set_delete_def)

lemma distinct_set_delete [simp]: "distinct xs \<Longrightarrow> distinct (set_delete x xs)"
  by (simp add: set_delete_def)

section \<open>Objects and maps in insertion order\<close>

text \<open>\<open>new Map(entries)\<close> and \<open>Object.fromEntries(entries)\<close>: later entries win.\<close>

definition from_entries :: "('k \<times> 'v) list \<Rightarrow> ('k \<times> 'v) list" where
  "from_entries es = fold (\<lambda>(k, v) m. AList.update k v m) es []"

lemma map_of_fold_update:
  "map_of (fold (\<lambda>(k, v) m. AList.update k v m) es m) = map_of m ++ map_of (rev es)"
proof (induction es arbitrary: m)
  case Nil
  then show ?case by simp
next
  case (Cons e es)
  obtain k v where e: "e = (k, v)" by (cases e)
  have "map_of m ++ map_of (rev (e # es)) = map_of m ++ ([k \<mapsto> v] ++ map_of (rev es))"
    by (simp add: e)
  also have "\<dots> = map_of (AList.update k v m) ++ map_of (rev es)"
    by (simp add: update_conv' map_add_assoc [symmetric] del: map_add_assoc)
      (simp add: map_add_def fun_eq_iff split: option.splits)
  finally show ?case using Cons.IH [of "AList.update k v m"] by (simp add: e)
qed

lemma map_of_from_entries: "map_of (from_entries es) = map_of (rev es)"
  by (simp add: from_entries_def map_of_fold_update)

lemma distinct_keys_fold_update:
  "distinct (map fst m) \<Longrightarrow>
   distinct (map fst (fold (\<lambda>(k, v) m. AList.update k v m) es m))"
proof (induction es arbitrary: m)
  case Nil
  then show ?case by simp
next
  case (Cons e es)
  then show ?case by (cases e) (simp add: distinct_update)
qed

lemma distinct_keys_from_entries [simp]: "distinct (map fst (from_entries es))"
  by (simp add: from_entries_def distinct_keys_fold_update)

lemma distinct_keys_filter: "distinct (map fst m) \<Longrightarrow> distinct (map fst (filter P m))"
  by (induction m) auto

lemma map_of_filter_Some:
  "distinct (map fst m) \<Longrightarrow>
   map_of (filter P m) k = Some v \<longleftrightarrow> map_of m k = Some v \<and> P (k, v)"
  by (induction m) (auto dest: map_of_SomeD simp: image_iff split: if_splits)

lemma delete_as_filter: "AList.delete k m = filter (\<lambda>e. fst e \<noteq> k) m"
  unfolding AList.delete_eq by (rule filter_cong) auto

lemma length_filter_eq_iff: "length (filter P xs) = length xs \<longleftrightarrow> filter P xs = xs"
  by (metis filter_True length_filter_less less_irrefl)

lemma update_entries: "e \<in> set (AList.update k v m) \<Longrightarrow> e = (k, v) \<or> e \<in> set m"
  by (induction m) (auto split: if_splits)

lemma update_fresh: "k \<notin> fst ` set m \<Longrightarrow> AList.update k v m = m @ [(k, v)]"
  by (induction m) auto

lemma from_entries_distinct: "distinct (map fst es) \<Longrightarrow> from_entries es = es"
proof -
  have "distinct (map fst (m @ es)) \<Longrightarrow>
      fold (\<lambda>(k, v) m. AList.update k v m) es m = m @ es" for m
  proof (induction es arbitrary: m)
    case Nil
    then show ?case by simp
  next
    case (Cons e es)
    obtain k v where e: "e = (k, v)" by (cases e)
    from Cons.prems have "AList.update k v m = m @ [(k, v)]"
      by (intro update_fresh) (auto simp: e)
    with Cons.IH [of "m @ [(k, v)]"] Cons.prems show ?case by (simp add: e)
  qed
  from this [of "[]"] show "distinct (map fst es) \<Longrightarrow> from_entries es = es"
    by (simp add: from_entries_def)
qed

text \<open>
  A loop over the entries of an object that deletes some of them from a copy and records
  that it did.
\<close>

lemma fold_delete_filter:
  "fold (\<lambda>e acc. if P e then (AList.delete (fst e) (fst acc), True) else acc) es (m, b) =
     (filter (\<lambda>x. \<forall>e \<in> set es. P e \<longrightarrow> fst e \<noteq> fst x) m, b \<or> list_ex P es)"
proof (induction es arbitrary: m b)
  case Nil
  then show ?case by simp
next
  case (Cons e es)
  show ?case
  proof (cases "P e")
    case True
    then show ?thesis
      by (simp add: Cons.IH delete_as_filter) (auto intro: filter_cong)
  next
    case False
    then show ?thesis by (simp add: Cons.IH)
  qed
qed

lemma fold_delete_self:
  assumes "distinct (map fst m)"
  shows "fold (\<lambda>e acc. if P e then (AList.delete (fst e) (fst acc), True) else acc) m (m, b) =
     (filter (\<lambda>e. \<not> P e) m, b \<or> list_ex P m)"
proof -
  have "(\<forall>e \<in> set m. P e \<longrightarrow> fst e \<noteq> fst x) \<longleftrightarrow> \<not> P x" if "x \<in> set m" for x
    using that assms by (auto simp: distinct_map inj_on_def)
  then show ?thesis by (simp add: fold_delete_filter cong: filter_cong)
qed

lemma filter_not_none: "\<not> list_ex P xs \<Longrightarrow> filter (\<lambda>x. \<not> P x) xs = xs"
  by (induction xs) auto

section \<open>Strings\<close>

definition em_dash :: string where
  "em_dash = [CHR 0xE2, CHR 0x80, CHR 0x94]"

definition ellipsis :: string where
  "ellipsis = [CHR 0xE2, CHR 0x80, CHR 0xA6]"

definition right_quote :: string where
  "right_quote = [CHR 0xE2, CHR 0x80, CHR 0x99]"

fun join :: "string \<Rightarrow> string list \<Rightarrow> string" where
  "join sep [] = []"
| "join sep [x] = x"
| "join sep (x # y # ys) = x @ sep @ join sep (y # ys)"

fun split_on :: "char \<Rightarrow> string \<Rightarrow> string list" where
  "split_on c [] = [[]]"
| "split_on c (x # xs) =
     (if x = c then [] # split_on c xs
      else (case split_on c xs of [] \<Rightarrow> [[x]] | p # ps \<Rightarrow> (x # p) # ps))"

definition starts_with :: "string \<Rightarrow> string \<Rightarrow> bool" where
  "starts_with s p \<longleftrightarrow> take (length p) s = p"

definition is_space :: "char \<Rightarrow> bool" where
  "is_space c \<longleftrightarrow> c \<in> {CHR '' '', CHR 0x09, CHR 0x0A, CHR 0x0B, CHR 0x0C, CHR 0x0D}"

definition trim :: "string \<Rightarrow> string" where
  "trim s = rev (dropWhile is_space (rev (dropWhile is_space s)))"

lemma starts_with_append: "starts_with s p \<longleftrightarrow> (\<exists>r. s = p @ r)"
  by (metis append_eq_conv_conj append_take_drop_id starts_with_def)

lemma split_on_nonempty [simp]: "split_on c s \<noteq> []"
  by (induction s) (auto split: list.splits)

lemma join_split_on: "join [c] (split_on c s) = s"
proof (induction s)
  case Nil
  then show ?case by simp
next
  case (Cons x xs)
  obtain p ps where "split_on c xs = p # ps"
    by (cases "split_on c xs") (auto dest: arg_cong [of _ _ "\<lambda>l. l = []"])
  with Cons show ?case by (cases ps) auto
qed

lemma dropWhile_idem': "dropWhile P (dropWhile P xs) = dropWhile P xs"
  by (induction xs) auto

lemma dropWhile_rev_dropWhile:
  "dropWhile P (rev (dropWhile P (rev (dropWhile P xs)))) = rev (dropWhile P (rev (dropWhile P xs)))"
proof (cases "dropWhile P xs")
  case Nil
  show ?thesis unfolding Nil by simp
next
  case (Cons y ys)
  then have "\<not> P y" by (metis dropWhile_eq_Cons_conv)
  then have "\<exists>zs. dropWhile P (rev (y # ys)) = zs @ [y]"
    by (simp add: dropWhile_append)
  with Cons \<open>\<not> P y\<close> show ?thesis by auto
qed

lemma trim_trim [simp]: "trim (trim s) = trim s"
  by (simp add: trim_def dropWhile_rev_dropWhile dropWhile_idem')

end
