(* ===== verification/Inertia.thy ===== *)
theory Inertia
  imports Prelude
begin

text \<open>
  The interface to the Inertia client that the hooks and libraries under
  \<^verbatim>\<open>resources/js\<close> program against: the options of a visit, with their callbacks, and
  the delivery of the lifecycle events of a request. The client itself is a third-party
  package: nothing is assumed here about which events it delivers and in which order.

  A callback closes over mutable state. It is modelled as a transformer of an explicit
  world \<open>'w\<close>; an absent callback is \<open>None\<close>. A cancel token is identified with the identity
  of its \<open>cancel\<close> function, a number; opaque arguments (visits, errors) are numbers too.
\<close>

datatype Method = Get | Post | Put | Delete | Patch | Head | Options

record page =
  props_listRevision :: "string option" \<comment> \<open>\<open>None\<close>: not a string\<close>

type_synonym cancel_token = nat

record 'w visit_options =
  vo_data :: "(string \<times> string option) list"
  vo_only :: "string list"
  vo_reset :: "string list"
  vo_headers :: "(string \<times> string) list"
  vo_preserveUrl :: "bool option"
  vo_showProgress :: "bool option"
  vo_async :: "bool option"
  vo_method :: "Method option"
  vo_prefetch :: "bool option"
  vo_component :: "string option"
  vo_poll :: "bool option"
  onCancelToken :: "(cancel_token \<Rightarrow> 'w \<Rightarrow> 'w) option"
  onStart :: "(nat \<Rightarrow> 'w \<Rightarrow> 'w) option"
  onSuccess :: "(page \<Rightarrow> 'w \<Rightarrow> 'w) option"
  onError :: "(nat \<Rightarrow> 'w \<Rightarrow> 'w) option"
  onNetworkError :: "(nat \<Rightarrow> 'w \<Rightarrow> bool option \<times> 'w) option"
  onHttpException :: "(nat \<Rightarrow> 'w \<Rightarrow> bool option \<times> 'w) option"
  onCancel :: "('w \<Rightarrow> 'w) option"
  onFinish :: "(nat \<Rightarrow> 'w \<Rightarrow> 'w) option"

definition empty_options :: "'w visit_options" where
  "empty_options = \<lparr>vo_data = [], vo_only = [], vo_reset = [], vo_headers = [],
     vo_preserveUrl = None, vo_showProgress = None, vo_async = None, vo_method = None,
     vo_prefetch = None, vo_component = None, vo_poll = None,
     onCancelToken = None, onStart = None, onSuccess = None, onError = None,
     onNetworkError = None, onHttpException = None, onCancel = None, onFinish = None\<rparr>"

datatype lifecycle =
    CancelTokenIssued cancel_token
  | Started nat
  | Succeeded page
  | Errored nat
  | NetworkFailed nat
  | HttpFailed nat
  | Cancelled
  | Finished nat

text \<open>
  The client calls the callback of an event if there is one. The reply of
  \<open>onNetworkError\<close> and \<open>onHttpException\<close> (\<open>Some False\<close> suppresses the default handling)
  is returned by \<open>reply\<close>.
\<close>

fun deliver :: "'w visit_options \<Rightarrow> lifecycle \<Rightarrow> 'w \<Rightarrow> 'w" where
  "deliver opts (CancelTokenIssued t) w = optional_call (onCancelToken opts) t w"
| "deliver opts (Started v) w = optional_call (onStart opts) v w"
| "deliver opts (Succeeded p) w = optional_call (onSuccess opts) p w"
| "deliver opts (Errored e) w = optional_call (onError opts) e w"
| "deliver opts (NetworkFailed e) w =
     (case onNetworkError opts of None \<Rightarrow> w | Some f \<Rightarrow> snd (f e w))"
| "deliver opts (HttpFailed e) w =
     (case onHttpException opts of None \<Rightarrow> w | Some f \<Rightarrow> snd (f e w))"
| "deliver opts Cancelled w = (case onCancel opts of None \<Rightarrow> w | Some f \<Rightarrow> f w)"
| "deliver opts (Finished v) w = optional_call (onFinish opts) v w"

fun reply :: "'w visit_options \<Rightarrow> lifecycle \<Rightarrow> 'w \<Rightarrow> bool option" where
  "reply opts (NetworkFailed e) w =
     (case onNetworkError opts of None \<Rightarrow> None | Some f \<Rightarrow> fst (f e w))"
| "reply opts (HttpFailed e) w =
     (case onHttpException opts of None \<Rightarrow> None | Some f \<Rightarrow> fst (f e w))"
| "reply opts _ w = None"

lemma deliver_empty_options [simp]: "deliver empty_options ev w = w"
  by (cases ev) (simp_all add: empty_options_def)

end
