(* ===== verification/Auto_Refresh.thy ===== *)
theory Auto_Refresh
  imports Inertia
begin

text \<open>
  \<^verbatim>\<open>resources/js/lib/auto-refresh-status.ts\<close>: the module state behind the auto-refresh
  indicator (a count of running background requests, a failure flag, the subscribed
  listeners) and \<open>trackBackgroundRefresh\<close>, which wraps the options of a request so that its
  lifecycle is counted. Each call of \<open>trackBackgroundRefresh\<close> has its own closure variables
  \<open>began\<close>, \<open>settled\<close> and \<open>outcome\<close>; they are a \<open>tracker\<close> cell, named by the number of the
  call. The module state is an extensible record, so that the hooks which issue tracked
  requests add their own state to it.
\<close>

section \<open>State\<close>

datatype AutoRefreshStatus = Idle | Refreshing | Failed

datatype outcome = Success | Failure | Cancel

record tracker =
  began :: bool
  settled :: bool
  outcome :: "outcome option"

record refresh_world =
  activeCount :: int
  failed :: bool
  listeners :: "nat list"
  notified :: "nat list" \<comment> \<open>the listener calls made so far\<close>
  trackers :: "nat \<Rightarrow> tracker"
  nextTracker :: nat

definition fresh_tracker :: tracker where
  "fresh_tracker = \<lparr>began = False, settled = False, outcome = None\<rparr>"

definition initial_refresh :: refresh_world where
  "initial_refresh = \<lparr>activeCount = 0, failed = False, listeners = [], notified = [],
     trackers = (\<lambda>_. fresh_tracker), nextTracker = 0\<rparr>"

section \<open>Operations\<close>

definition currentStatus :: "'a refresh_world_scheme \<Rightarrow> AutoRefreshStatus" where
  "currentStatus w =
     (if activeCount w > 0 then Refreshing else if failed w then Failed else Idle)"

definition emit :: "'a refresh_world_scheme \<Rightarrow> 'a refresh_world_scheme" where
  "emit w = w\<lparr>notified := notified w @ listeners w\<rparr>"

definition subscribeAutoRefreshStatus ::
  "nat \<Rightarrow> 'a refresh_world_scheme \<Rightarrow> 'a refresh_world_scheme" where
  "subscribeAutoRefreshStatus l w = w\<lparr>listeners := set_add l (listeners w)\<rparr>"

definition unsubscribeAutoRefreshStatus ::
  "nat \<Rightarrow> 'a refresh_world_scheme \<Rightarrow> 'a refresh_world_scheme" where
  "unsubscribeAutoRefreshStatus l w = w\<lparr>listeners := set_delete l (listeners w)\<rparr>"

definition resetAutoRefreshStatusForTests ::
  "'a refresh_world_scheme \<Rightarrow> 'a refresh_world_scheme" where
  "resetAutoRefreshStatusForTests w = emit (w\<lparr>activeCount := 0, failed := False\<rparr>)"

definition set_tracker ::
  "nat \<Rightarrow> tracker \<Rightarrow> 'a refresh_world_scheme \<Rightarrow> 'a refresh_world_scheme" where
  "set_tracker i t w = w\<lparr>trackers := (trackers w)(i := t)\<rparr>"

definition track_begin :: "nat \<Rightarrow> 'a refresh_world_scheme \<Rightarrow> 'a refresh_world_scheme" where
  "track_begin i w =
     (let t = trackers w i in
      if began t then w
      else emit (set_tracker i (t\<lparr>began := True\<rparr>) (w\<lparr>activeCount := activeCount w + 1\<rparr>)))"

definition track_settle :: "nat \<Rightarrow> 'a refresh_world_scheme \<Rightarrow> 'a refresh_world_scheme" where
  "track_settle i w =
     (let t = trackers w i in
      if \<not> began t \<or> settled t then w
      else emit (set_tracker i (t\<lparr>settled := True\<rparr>)
        (w\<lparr>activeCount := max 0 (activeCount w - 1),
           failed := (if outcome t = Some Success then False
                      else if outcome t = Some Failure then True
                      else failed w)\<rparr>)))"

definition track_outcome ::
  "nat \<Rightarrow> outcome \<Rightarrow> 'a refresh_world_scheme \<Rightarrow> 'a refresh_world_scheme" where
  "track_outcome i x w = set_tracker i ((trackers w i)\<lparr>outcome := Some x\<rparr>) w"

definition track_outcome_unset ::
  "nat \<Rightarrow> outcome \<Rightarrow> 'a refresh_world_scheme \<Rightarrow> 'a refresh_world_scheme" where
  "track_outcome_unset i x w =
     (if outcome (trackers w i) = None then track_outcome i x w else w)"

definition markFailure :: "nat \<Rightarrow> 'a refresh_world_scheme \<Rightarrow> 'a refresh_world_scheme" where
  "markFailure i w = track_outcome_unset i Failure w"

definition trackBackgroundRefresh ::
  "nat \<Rightarrow> 'a refresh_world_scheme visit_options \<Rightarrow> 'a refresh_world_scheme visit_options" where
  "trackBackgroundRefresh i options = options\<lparr>
     onCancelToken := Some (\<lambda>token w.
       optional_call (onCancelToken options) token (track_begin i w)),
     onStart := Some (\<lambda>visit w.
       optional_call (onStart options) visit (track_begin i w)),
     onSuccess := Some (\<lambda>page w.
       optional_call (onSuccess options) page (track_outcome i Success w)),
     onError := Some (\<lambda>errors w.
       optional_call (onError options) errors (markFailure i w)),
     onNetworkError := Some (\<lambda>error w.
       (case onNetworkError options of
          Some f \<Rightarrow> f error (markFailure i w)
        | None \<Rightarrow> (Some False, markFailure i w))),
     onHttpException := Some (\<lambda>response w.
       (case onHttpException options of
          Some f \<Rightarrow> f response (markFailure i w)
        | None \<Rightarrow> (Some False, markFailure i w))),
     onCancel := Some (\<lambda>w.
       let w' = track_settle i (track_outcome_unset i Cancel w)
       in case onCancel options of None \<Rightarrow> w' | Some f \<Rightarrow> f w'),
     onFinish := Some (\<lambda>visit w.
       optional_call (onFinish options) visit (track_settle i w))\<rparr>"

text \<open>Calling \<open>trackBackgroundRefresh\<close> creates a new closure.\<close>

definition new_tracker :: "'a refresh_world_scheme \<Rightarrow> nat \<times> 'a refresh_world_scheme" where
  "new_tracker w =
     (nextTracker w,
      w\<lparr>trackers := (trackers w)(nextTracker w := fresh_tracker),
        nextTracker := nextTracker w + 1\<rparr>)"

text \<open>What an event of a tracked request does to the module state.\<close>

definition track_event ::
  "nat \<Rightarrow> lifecycle \<Rightarrow> 'a refresh_world_scheme \<Rightarrow> 'a refresh_world_scheme" where
  "track_event i ev w = deliver (trackBackgroundRefresh i empty_options) ev w"

section \<open>Events of one request\<close>

lemmas refresh_op_defs = track_begin_def track_settle_def track_outcome_def
  track_outcome_unset_def markFailure_def set_tracker_def emit_def Let_def

lemma track_event_simps:
  "track_event i (CancelTokenIssued t) w = track_begin i w"
  "track_event i (Started v) w = track_begin i w"
  "track_event i (Succeeded p) w = track_outcome i Success w"
  "track_event i (Errored e) w = markFailure i w"
  "track_event i (NetworkFailed e) w = markFailure i w"
  "track_event i (HttpFailed e) w = markFailure i w"
  "track_event i Cancelled w = track_settle i (track_outcome_unset i Cancel w)"
  "track_event i (Finished v) w = track_settle i w"
  by (simp_all add: track_event_def trackBackgroundRefresh_def empty_options_def Let_def)

lemma track_event_frame [simp]:
  "listeners (track_event i ev w) = listeners w"
  "nextTracker (track_event i ev w) = nextTracker w"
  "j \<noteq> i \<Longrightarrow> trackers (track_event i ev w) j = trackers w j"
  by (cases ev; simp add: track_event_simps refresh_op_defs)+

text \<open>The refresh state of a world, without what the hooks add to it.\<close>

definition refresh_core :: "'a refresh_world_scheme \<Rightarrow> refresh_world" where
  "refresh_core w = \<lparr>activeCount = activeCount w, failed = failed w, listeners = listeners w,
     notified = notified w, trackers = trackers w, nextTracker = nextTracker w\<rparr>"

lemma refresh_core_sel [simp]:
  "activeCount (refresh_core w) = activeCount w" "failed (refresh_core w) = failed w"
  "listeners (refresh_core w) = listeners w" "notified (refresh_core w) = notified w"
  "trackers (refresh_core w) = trackers w" "nextTracker (refresh_core w) = nextTracker w"
  by (simp_all add: refresh_core_def)

lemma refresh_core_id [simp]: "refresh_core (w::refresh_world) = w"
  by (simp add: refresh_core_def)

lemma refresh_core_op [simp]:
  "refresh_core (track_begin i w) = track_begin i (refresh_core w)"
  "refresh_core (track_settle i w) = track_settle i (refresh_core w)"
  "refresh_core (track_outcome i x w) = track_outcome i x (refresh_core w)"
  "refresh_core (track_outcome_unset i x w) = track_outcome_unset i x (refresh_core w)"
  "refresh_core (markFailure i w) = markFailure i (refresh_core w)"
  by (simp_all add: refresh_op_defs refresh_core_def)

lemma refresh_core_track_event [simp]:
  "refresh_core (track_event i ev w) = track_event i ev (refresh_core w)"
  by (cases ev) (simp_all add: track_event_simps)

text \<open>
  The contract between a caller of \<open>trackBackgroundRefresh\<close> and the module: the caller's own
  callbacks leave the module state alone. Under it, a wrapped event acts on the module
  state exactly as the bare tracker does, whatever the caller's callbacks do elsewhere.
\<close>

locale quiet_callbacks =
  fixes options :: "'a refresh_world_scheme visit_options"
  assumes quiet: "refresh_core (deliver options ev w) = refresh_core w"
begin

lemma quiet_call:
  "refresh_core (optional_call (onCancelToken options) t w) = refresh_core w"
  "refresh_core (optional_call (onStart options) v w) = refresh_core w"
  "refresh_core (optional_call (onSuccess options) p w) = refresh_core w"
  "refresh_core (optional_call (onError options) e w) = refresh_core w"
  "refresh_core (optional_call (onFinish options) v w) = refresh_core w"
  using quiet [of "CancelTokenIssued t" w] quiet [of "Started v" w] quiet [of "Succeeded p" w]
    quiet [of "Errored e" w] quiet [of "Finished v" w]
  by simp_all

lemma quiet_reply:
  "onNetworkError options = Some f \<Longrightarrow> refresh_core (snd (f e w)) = refresh_core w"
  "onHttpException options = Some f \<Longrightarrow> refresh_core (snd (f e w)) = refresh_core w"
  "onCancel options = Some g \<Longrightarrow> refresh_core (g w) = refresh_core w"
  using quiet [of "NetworkFailed e" w] quiet [of "HttpFailed e" w] quiet [of Cancelled w]
  by simp_all

lemma wrapped_event:
  "refresh_core (deliver (trackBackgroundRefresh i options) ev w) =
   track_event i ev (refresh_core w)"
  by (cases ev)
    (simp_all add: track_event_simps trackBackgroundRefresh_def quiet_call quiet_reply Let_def
      split: option.split)

end

interpretation bare: quiet_callbacks "empty_options :: 'a refresh_world_scheme visit_options"
  by unfold_locales simp

section \<open>The count of running requests\<close>

definition open_tracker :: "tracker \<Rightarrow> bool" where
  "open_tracker t \<longleftrightarrow> began t \<and> \<not> settled t"

definition open_requests :: "'a refresh_world_scheme \<Rightarrow> nat set" where
  "open_requests w = {i. i < nextTracker w \<and> open_tracker (trackers w i)}"

definition refresh_inv :: "'a refresh_world_scheme \<Rightarrow> bool" where
  "refresh_inv w \<longleftrightarrow>
     activeCount w = int (card (open_requests w)) \<and>
     distinct (listeners w) \<and>
     (\<forall>i. nextTracker w \<le> i \<longrightarrow> trackers w i = fresh_tracker) \<and>
     (\<forall>i. settled (trackers w i) \<longrightarrow> began (trackers w i))"

lemma finite_open_requests [simp]: "finite (open_requests w)"
  by (simp add: open_requests_def)

lemma open_requests_begin:
  assumes "i < nextTracker w" and "\<not> began (trackers w i)" and "refresh_inv w"
  shows "open_requests (track_begin i w) = insert i (open_requests w)" "i \<notin> open_requests w"
  using assms
  by (auto simp: open_requests_def refresh_op_defs open_tracker_def refresh_inv_def)

lemma open_requests_settle:
  assumes "i < nextTracker w" and "began (trackers w i)" and "\<not> settled (trackers w i)"
  shows "open_requests (track_settle i w) = open_requests w - {i}" "i \<in> open_requests w"
  using assms by (auto simp: open_requests_def refresh_op_defs open_tracker_def)

lemma refresh_inv_begin:
  assumes inv: "refresh_inv w" and i: "i < nextTracker w"
  shows "refresh_inv (track_begin i w)"
proof (cases "began (trackers w i)")
  case True
  with inv show ?thesis by (simp add: track_begin_def Let_def)
next
  case False
  note o = open_requests_begin [OF i False inv]
  have "activeCount (track_begin i w) = activeCount w + 1"
    using False by (simp add: refresh_op_defs)
  moreover have "card (open_requests (track_begin i w)) = Suc (card (open_requests w))"
    using o by simp
  ultimately show ?thesis
    using inv i False by (auto simp: refresh_inv_def) (auto simp: refresh_op_defs split: if_splits)
qed

lemma refresh_inv_settle:
  assumes inv: "refresh_inv w" and i: "i < nextTracker w"
  shows "refresh_inv (track_settle i w)"
proof (cases "\<not> began (trackers w i) \<or> settled (trackers w i)")
  case True
  with inv show ?thesis by (simp add: track_settle_def Let_def)
next
  case False
  then have o: "open_requests (track_settle i w) = open_requests w - {i}" "i \<in> open_requests w"
    using open_requests_settle [OF i] by auto
  then have "0 < card (open_requests w)" by (auto simp: card_gt_0_iff)
  moreover have "card (open_requests (track_settle i w)) = card (open_requests w) - 1"
    using o by simp
  moreover have "activeCount (track_settle i w) = max 0 (activeCount w - 1)"
    using False by (simp add: refresh_op_defs)
  ultimately show ?thesis
    using inv i False by (auto simp: refresh_inv_def) (auto simp: refresh_op_defs split: if_splits)
qed

lemma refresh_inv_set_outcome:
  assumes "refresh_inv w" and "i < nextTracker w"
  shows "refresh_inv (track_outcome i x w)" "refresh_inv (track_outcome_unset i x w)"
    "refresh_inv (markFailure i w)"
proof -
  have "open_requests (track_outcome i x w) = open_requests w" for x
    by (auto simp: open_requests_def refresh_op_defs open_tracker_def)
  then have *: "refresh_inv (track_outcome i x w)" for x
    using assms by (auto simp: refresh_inv_def) (auto simp: refresh_op_defs)
  from * show "refresh_inv (track_outcome i x w)" .
  from * assms(1) show "refresh_inv (track_outcome_unset i x w)"
    by (simp add: track_outcome_unset_def)
  from * assms(1) show "refresh_inv (markFailure i w)"
    by (simp add: markFailure_def track_outcome_unset_def)
qed

lemma track_op_frame [simp]:
  "nextTracker (track_begin i w) = nextTracker w"
  "nextTracker (track_settle i w) = nextTracker w"
  "nextTracker (track_outcome i x w) = nextTracker w"
  "nextTracker (track_outcome_unset i x w) = nextTracker w"
  by (simp_all add: refresh_op_defs)

lemma refresh_inv_event:
  assumes "refresh_inv w" and "i < nextTracker w"
  shows "refresh_inv (track_event i ev w)"
  using assms
  by (cases ev)
    (simp_all add: track_event_simps refresh_inv_begin refresh_inv_settle refresh_inv_set_outcome)

lemma refresh_inv_new: "refresh_inv w \<Longrightarrow> refresh_inv (snd (new_tracker w))"
proof -
  assume inv: "refresh_inv w"
  have "open_requests (snd (new_tracker w)) = open_requests w"
    using inv by (auto simp: open_requests_def new_tracker_def refresh_inv_def open_tracker_def
        fresh_tracker_def less_Suc_eq)
  with inv show ?thesis by (auto simp: refresh_inv_def new_tracker_def fresh_tracker_def)
qed

lemma refresh_inv_listeners:
  assumes "refresh_inv w"
  shows "refresh_inv (subscribeAutoRefreshStatus l w)" "refresh_inv (unsubscribeAutoRefreshStatus l w)"
  using assms
  by (simp_all add: refresh_inv_def subscribeAutoRefreshStatus_def
      unsubscribeAutoRefreshStatus_def open_requests_def)

section \<open>Reachable states\<close>

text \<open>
  Any number of tracked requests, created at any time, receive any events in any order and
  interleaving, while components subscribe and unsubscribe.
\<close>

inductive refresh_step :: "refresh_world \<Rightarrow> refresh_world \<Rightarrow> bool" where
  create: "refresh_step w (snd (new_tracker w))"
| event: "i < nextTracker w \<Longrightarrow> refresh_step w (track_event i ev w)"
| subscribe: "refresh_step w (subscribeAutoRefreshStatus l w)"
| unsubscribe: "refresh_step w (unsubscribeAutoRefreshStatus l w)"

inductive refresh_reachable :: "refresh_world \<Rightarrow> bool" where
  initial: "refresh_reachable initial_refresh"
| step: "refresh_reachable w \<Longrightarrow> refresh_step w w' \<Longrightarrow> refresh_reachable w'"

lemma refresh_inv_initial: "refresh_inv initial_refresh"
  by (simp add: refresh_inv_def initial_refresh_def open_requests_def fresh_tracker_def)

lemma refresh_inv_step: "refresh_step w w' \<Longrightarrow> refresh_inv w \<Longrightarrow> refresh_inv w'"
  by (induction rule: refresh_step.induct)
    (simp_all add: refresh_inv_new refresh_inv_event refresh_inv_listeners)

lemma refresh_inv_reachable: "refresh_reachable w \<Longrightarrow> refresh_inv w"
  by (induction rule: refresh_reachable.induct) (auto intro: refresh_inv_initial refresh_inv_step)

lemma refresh_inv_status:
  "refresh_inv w \<Longrightarrow> currentStatus w = Refreshing \<longleftrightarrow> open_requests w \<noteq> {}"
  by (auto simp: currentStatus_def refresh_inv_def card_gt_0_iff)

section \<open>The outcome of a request\<close>

text \<open>
  The contract of the closure variable \<open>outcome\<close>, over the events of one request: a success
  anywhere wins; otherwise the first failure or cancellation counts.
\<close>

definition marks :: "lifecycle \<Rightarrow> outcome option" where
  "marks ev = (case ev of
     Succeeded _ \<Rightarrow> Some Success | Errored _ \<Rightarrow> Some Failure | NetworkFailed _ \<Rightarrow> Some Failure
   | HttpFailed _ \<Rightarrow> Some Failure | Cancelled \<Rightarrow> Some Cancel | _ \<Rightarrow> None)"

definition history_outcome :: "lifecycle list \<Rightarrow> outcome option" where
  "history_outcome evs =
     (let ms = List.map_filter marks evs
      in if Success \<in> set ms then Some Success else (case ms of [] \<Rightarrow> None | m # _ \<Rightarrow> Some m))"

definition own_events :: "nat \<Rightarrow> (nat \<times> lifecycle) list \<Rightarrow> lifecycle list" where
  "own_events i evs = map snd (filter (\<lambda>e. fst e = i) evs)"

definition track_run ::
  "(nat \<times> lifecycle) list \<Rightarrow> 'a refresh_world_scheme \<Rightarrow> 'a refresh_world_scheme" where
  "track_run evs w = fold (\<lambda>(i, ev). track_event i ev) evs w"

lemma track_event_outcome:
  "outcome (trackers (track_event i ev w) i) =
     (case marks ev of
        None \<Rightarrow> outcome (trackers w i)
      | Some Success \<Rightarrow> Some Success
      | Some x \<Rightarrow> (if outcome (trackers w i) = None then Some x else outcome (trackers w i)))"
  by (cases ev) (auto simp: marks_def track_event_simps refresh_op_defs)

lemma history_outcome_snoc:
  "history_outcome (evs @ [ev]) =
     (case marks ev of
        None \<Rightarrow> history_outcome evs
      | Some Success \<Rightarrow> Some Success
      | Some x \<Rightarrow> (if history_outcome evs = None then Some x else history_outcome evs))"
  by (auto simp: history_outcome_def map_filter_def Let_def split: option.splits outcome.splits
      list.splits)

lemma own_events_snoc:
  "own_events i (evs @ [(j, ev)]) = own_events i evs @ (if j = i then [ev] else [])"
  by (simp add: own_events_def)

lemma track_run_snoc: "track_run (evs @ [(j, ev)]) w = track_event j ev (track_run evs w)"
  by (simp add: track_run_def)

lemma track_run_outcome:
  assumes "trackers w i = fresh_tracker"
  shows "outcome (trackers (track_run evs w) i) = history_outcome (own_events i evs)"
proof (induction evs rule: rev_induct)
  case Nil
  with assms show ?case
    by (simp add: track_run_def own_events_def history_outcome_def map_filter_def fresh_tracker_def)
next
  case (snoc e evs)
  obtain j ev where e: "e = (j, ev)" by (cases e)
  show ?case
  proof (cases "j = i")
    case True
    then show ?thesis
      by (simp only: e track_run_snoc own_events_snoc track_event_outcome history_outcome_snoc
          snoc.IH simp_thms if_True)
  next
    case False
    with snoc show ?thesis by (simp add: e track_run_snoc own_events_snoc)
  qed
qed

section \<open>Properties\<close>

text \<open>
  C1: in every reachable state the counter is exactly the number of requests that have begun and
  not settled, so the indicator shows "refreshing" exactly while one is running, the
  clamp at zero never hides a miscount, and no listener is registered twice.
\<close>

theorem active_count_exact:
  assumes "refresh_reachable w"
  shows "activeCount w = int (card (open_requests w)) \<and>
    (currentStatus w = Refreshing \<longleftrightarrow> open_requests w \<noteq> {}) \<and> distinct (listeners w)"
  using refresh_inv_reachable [OF assms] refresh_inv_status by (auto simp: refresh_inv_def)

definition one_running :: refresh_world where
  "one_running = track_event 0 (Started 7) (snd (new_tracker initial_refresh))"

lemma one_running_reachable: "refresh_reachable one_running"
  unfolding one_running_def
  by (rule refresh_reachable.step
      [OF refresh_reachable.step [OF refresh_reachable.initial refresh_step.create]])
    (rule refresh_step.event, simp add: new_tracker_def)

theorem active_count_exact_witness:
  "activeCount one_running = 1 \<and> currentStatus one_running = Refreshing \<and>
   open_requests one_running \<noteq> {}"
proof -
  have "activeCount one_running = 1"
    by (simp add: one_running_def track_event_simps refresh_op_defs new_tracker_def
        initial_refresh_def fresh_tracker_def)
  then show ?thesis
    using active_count_exact [OF one_running_reachable] by (auto simp: currentStatus_def)
qed



text \<open>
  A component that reads the status through \<open>useSyncExternalStore\<close> never shows a stale
  one: whenever an event of a request changes the status, every listener is called.
\<close>

lemma status_change_notifies:
  assumes "refresh_inv w" and "currentStatus (track_event i ev w) \<noteq> currentStatus w"
  shows "notified (track_event i ev w) = notified w @ listeners w"
  using assms
  by (cases ev)
    (auto simp: track_event_simps refresh_op_defs currentStatus_def split: if_splits)

lemma finish_run:
  assumes "refresh_inv w" and "\<forall>i \<in> set is. i < nextTracker w"
  shows "refresh_inv (track_run (map (\<lambda>i. (i, Finished 0)) is) w) \<and>
    nextTracker (track_run (map (\<lambda>i. (i, Finished 0)) is) w) = nextTracker w \<and>
    open_requests (track_run (map (\<lambda>i. (i, Finished 0)) is) w) = open_requests w - set is"
  using assms
proof (induction "is" rule: rev_induct)
  case Nil
  then show ?case by (simp add: track_run_def)
next
  case (snoc i js)
  let ?w = "track_run (map (\<lambda>i. (i, Finished 0)) js) w"
  from snoc have inv: "refresh_inv ?w" and n: "nextTracker ?w = nextTracker w"
    and o: "open_requests ?w = open_requests w - set js" by auto
  have "open_requests (track_settle i ?w) = open_requests ?w - {i}"
    by (auto simp: open_requests_def refresh_op_defs open_tracker_def)
  with snoc.prems inv n o show ?case
    by (auto simp: track_run_snoc track_event_simps refresh_inv_settle)
qed

text \<open>
  The indicator never gets stuck: from any reachable state, once every running request
  has finished (in any order, repeated deliveries included), no request is counted any more
  and the status is not "refreshing".
\<close>

lemma all_finished_not_refreshing:
  assumes "refresh_reachable w" and "open_requests w \<subseteq> set is"
    and "\<forall>i \<in> set is. i < nextTracker w"
  shows "activeCount (track_run (map (\<lambda>i. (i, Finished 0)) is) w) = 0 \<and>
    currentStatus (track_run (map (\<lambda>i. (i, Finished 0)) is) w) \<noteq> Refreshing"
  using finish_run [OF refresh_inv_reachable [OF assms(1)] assms(3)] assms(2)
  by (auto simp: refresh_inv_def currentStatus_def)

end
