(* ===== verification/Request_Coordination.thy ===== *)
theory Request_Coordination
  imports Auto_Refresh
begin

text \<open>
  \<^verbatim>\<open>resources/js/lib/inertia-request-coordination.ts\<close>: \<open>backgroundVisitOptions\<close> rewrites
  the options of every visit (it keeps the URL of background GET requests and registers the
  cancel function of a poll while the poll runs), and the listener of
  \<open>registerForegroundVisitCancellation\<close> cancels the running polls before a foreground visit.

  The closure variable \<open>cancelRequest\<close> of the \<open>c\<close>-th call is the cell \<open>pollCells w c\<close>; a
  cancel function is named by its token. What calling a cancel function does is up to the
  client: it is the parameter \<open>cancel\<close>, under the contract \<open>cancel_function\<close>.
\<close>

record coord_world = refresh_world +
  activePollRequests :: "cancel_token list"
  pollCells :: "nat \<Rightarrow> cancel_token option"
  cancelCalls :: "cancel_token list" \<comment> \<open>the cancel functions called so far\<close>

section \<open>Operations\<close>

definition isBackgroundGet :: "'w visit_options \<Rightarrow> bool" where
  "isBackgroundGet options \<longleftrightarrow>
     vo_async options = Some True \<and>
     (vo_method options = None \<or> vo_method options = Some Get) \<and>
     vo_prefetch options \<noteq> Some True \<and>
     vo_component options = None"

definition resolved_options :: "'w visit_options \<Rightarrow> 'w visit_options" where
  "resolved_options options =
     (if \<not> isBackgroundGet options \<or> vo_preserveUrl options \<noteq> None then options
      else options\<lparr>vo_preserveUrl := Some True\<rparr>)"

definition poll_cancel_token ::
  "nat \<Rightarrow> cancel_token \<Rightarrow> 'a coord_world_scheme \<Rightarrow> 'a coord_world_scheme" where
  "poll_cancel_token c token w =
     w\<lparr>pollCells := (pollCells w)(c := Some token),
       activePollRequests := set_add token (activePollRequests w)\<rparr>"

definition poll_finish :: "nat \<Rightarrow> 'a coord_world_scheme \<Rightarrow> 'a coord_world_scheme" where
  "poll_finish c w =
     (case pollCells w c of
        None \<Rightarrow> w
      | Some t \<Rightarrow> w\<lparr>activePollRequests := set_delete t (activePollRequests w),
                   pollCells := (pollCells w)(c := None)\<rparr>)"

definition backgroundVisitOptions ::
  "nat \<Rightarrow> 'a coord_world_scheme visit_options \<Rightarrow> 'a coord_world_scheme visit_options" where
  "backgroundVisitOptions c options =
     (let resolved = resolved_options options in
      if vo_poll options \<noteq> Some True then resolved
      else resolved\<lparr>
        onCancelToken := Some (\<lambda>token w.
          optional_call (onCancelToken resolved) token (poll_cancel_token c token w)),
        onFinish := Some (\<lambda>visit w.
          optional_call (onFinish resolved) visit (poll_finish c w))\<rparr>)"

definition before_visit ::
  "(cancel_token \<Rightarrow> 'a coord_world_scheme \<Rightarrow> 'a coord_world_scheme) \<Rightarrow>
   bool \<Rightarrow> bool \<Rightarrow> 'a coord_world_scheme \<Rightarrow> 'a coord_world_scheme" where
  "before_visit cancel prefetch async w =
     (if prefetch \<or> async then w
      else (let requests = activePollRequests w
            in fold cancel requests (w\<lparr>activePollRequests := []\<rparr>)))"

section \<open>The contract of a cancel function\<close>

text \<open>
  Cancelling a request may run its \<open>onFinish\<close> (which empties its cell), but it starts no poll
  and fills no cell.
\<close>

locale cancel_function =
  fixes cancel :: "cancel_token \<Rightarrow> 'a coord_world_scheme \<Rightarrow> 'a coord_world_scheme"
  assumes cancel_active: "set (activePollRequests (cancel t w)) \<subseteq> set (activePollRequests w)"
    and cancel_cells: "pollCells (cancel t w) c = pollCells w c \<or> pollCells (cancel t w) c = None"
    and cancel_logged: "cancelCalls (cancel t w) = cancelCalls w @ [t]"
begin

lemma fold_cancel_active:
  "set (activePollRequests (fold cancel ts w)) \<subseteq> set (activePollRequests w)"
  by (induction ts arbitrary: w) (auto dest: subsetD [OF cancel_active] subsetD)

lemma fold_cancel_cells:
  "pollCells (fold cancel ts w) c = pollCells w c \<or> pollCells (fold cancel ts w) c = None"
proof (induction ts arbitrary: w)
  case (Cons t ts)
  then show ?case using cancel_cells [of t w c] by (metis fold_simps(2))
qed simp

lemma fold_cancel_logged: "cancelCalls (fold cancel ts w) = cancelCalls w @ ts"
  by (induction ts arbitrary: w) (simp_all add: cancel_logged)

lemma foreground_cancels:
  "activePollRequests (before_visit cancel False False w) = []"
  "cancelCalls (before_visit cancel False False w) = cancelCalls w @ activePollRequests w"
  using fold_cancel_active [of "activePollRequests w" "w\<lparr>activePollRequests := []\<rparr>"]
  by (simp_all add: before_visit_def fold_cancel_logged)

end

text \<open>
  The client's cancellation of a poll: the call is recorded and the request's wrapped
  \<open>onFinish\<close> runs for the cell that holds the token.
\<close>

definition cancel_poll :: "cancel_token \<Rightarrow> 'a coord_world_scheme \<Rightarrow> 'a coord_world_scheme" where
  "cancel_poll t w = w\<lparr>cancelCalls := cancelCalls w @ [t],
     activePollRequests := set_delete t (activePollRequests w),
     pollCells := (\<lambda>c. if pollCells w c = Some t then None else pollCells w c)\<rparr>"

interpretation poll: cancel_function cancel_poll
  by unfold_locales (auto simp: cancel_poll_def set_delete_def)

section \<open>Polls over time\<close>

definition initial_coord :: coord_world where
  "initial_coord = refresh_world.extend initial_refresh
     \<lparr>activePollRequests = [], pollCells = (\<lambda>_. None), cancelCalls = []\<rparr>"

text \<open>
  A poll's token is issued once and is its own; a request may finish at any time, and a visit
  of any kind may begin at any time.
\<close>

inductive poll_step :: "coord_world \<Rightarrow> coord_world \<Rightarrow> bool" where
  token: "pollCells w c = None \<Longrightarrow> (\<forall>c'. pollCells w c' \<noteq> Some t) \<Longrightarrow>
    vo_poll options = Some True \<Longrightarrow> onCancelToken options = None \<Longrightarrow>
    poll_step w (deliver (backgroundVisitOptions c options) (CancelTokenIssued t) w)"
| finish: "vo_poll options = Some True \<Longrightarrow> onFinish options = None \<Longrightarrow>
    poll_step w (deliver (backgroundVisitOptions c options) (Finished v) w)"
| before: "poll_step w (before_visit cancel_poll prefetch async w)"

inductive poll_reachable :: "coord_world \<Rightarrow> bool" where
  initial: "poll_reachable initial_coord"
| step: "poll_reachable w \<Longrightarrow> poll_step w w' \<Longrightarrow> poll_reachable w'"

definition poll_inv :: "'a coord_world_scheme \<Rightarrow> bool" where
  "poll_inv w \<longleftrightarrow>
     distinct (activePollRequests w) \<and>
     set (activePollRequests w) = {t. \<exists>c. pollCells w c = Some t} \<and>
     (\<forall>c c' t. pollCells w c = Some t \<longrightarrow> pollCells w c' = Some t \<longrightarrow> c = c')"

lemma poll_callbacks:
  "vo_poll options = Some True \<Longrightarrow> onCancelToken options = None \<Longrightarrow>
     deliver (backgroundVisitOptions c options) (CancelTokenIssued t) w = poll_cancel_token c t w"
  "vo_poll options = Some True \<Longrightarrow> onFinish options = None \<Longrightarrow>
     deliver (backgroundVisitOptions c options) (Finished v) w = poll_finish c w"
  by (simp_all add: backgroundVisitOptions_def resolved_options_def Let_def)

lemma poll_inv_token:
  "poll_inv w \<Longrightarrow> pollCells w c = None \<Longrightarrow> \<forall>c'. pollCells w c' \<noteq> Some t \<Longrightarrow>
   poll_inv (poll_cancel_token c t w)"
  unfolding poll_inv_def poll_cancel_token_def
  by (auto split: if_splits) (metis option.distinct(1))+

lemma poll_inv_finish: "poll_inv w \<Longrightarrow> poll_inv (poll_finish c w)"
  unfolding poll_inv_def poll_finish_def
  by (cases "pollCells w c") (auto split: if_splits, metis option.inject)

lemma fold_cancel_poll_cells:
  "pollCells (fold cancel_poll ts w) c =
     (case pollCells w c of None \<Rightarrow> None | Some t \<Rightarrow> if t \<in> set ts then None else Some t)"
  by (induction ts arbitrary: w) (auto simp: cancel_poll_def split: option.split)

lemma poll_inv_before: "poll_inv w \<Longrightarrow> poll_inv (before_visit cancel_poll prefetch async w)"
proof (cases "prefetch \<or> async")
  case True
  then show "poll_inv w \<Longrightarrow> ?thesis" by (simp add: before_visit_def)
next
  case False
  assume inv: "poll_inv w"
  let ?w = "before_visit cancel_poll prefetch async w"
  have "activePollRequests ?w = []" using False poll.foreground_cancels(1) [of w] by simp
  moreover have "pollCells ?w c = None" for c
    using False inv
    by (auto simp: before_visit_def Let_def fold_cancel_poll_cells poll_inv_def split: option.split)
  ultimately show ?thesis by (simp add: poll_inv_def)
qed

lemma poll_inv_step: "poll_step w w' \<Longrightarrow> poll_inv w \<Longrightarrow> poll_inv w'"
  by (induction rule: poll_step.induct)
    (simp_all add: poll_callbacks poll_inv_token poll_inv_finish poll_inv_before
      del: deliver.simps)

lemma poll_inv_reachable: "poll_reachable w \<Longrightarrow> poll_inv w"
proof (induction rule: poll_reachable.induct)
  case initial
  show ?case by (simp add: poll_inv_def initial_coord_def refresh_world.defs initial_refresh_def)
next
  case (step w w')
  then show ?case by (blast intro: poll_inv_step)
qed

section \<open>Properties\<close>


definition poll_options :: "coord_world visit_options" where
  "poll_options = empty_options\<lparr>vo_poll := Some True\<rparr>"

definition polled :: coord_world where
  "polled = deliver (backgroundVisitOptions 0 poll_options) (CancelTokenIssued 9) initial_coord"


text \<open>
  \<open>backgroundVisitOptions\<close> touches only what it says: a visit that is not a background GET
  keeps its URL behaviour, a background GET without a choice of its own keeps the current URL,
  the caller's choice is never overridden, and a visit that is no poll keeps its callbacks.
\<close>

lemma background_visit_options_scope:
  "vo_preserveUrl (backgroundVisitOptions c options) =
     (if isBackgroundGet options \<and> vo_preserveUrl options = None then Some True
      else vo_preserveUrl options) \<and>
   (vo_poll options \<noteq> Some True \<longrightarrow>
     backgroundVisitOptions c options\<lparr>vo_preserveUrl := vo_preserveUrl options\<rparr> = options) \<and>
   deliver (backgroundVisitOptions c options) (Succeeded p) w = deliver options (Succeeded p) w"
  by (simp add: backgroundVisitOptions_def resolved_options_def Let_def)

end
