(* ===== verification/Types_Dashboard.thy ===== *)
theory Types_Dashboard
  imports Prelude Complex_Main
begin

text \<open>
  The data the server sends for the dashboard and the instances page:
  \<^verbatim>\<open>resources/js/types/dashboard.ts\<close>, with the wait threshold types it takes from
  \<^verbatim>\<open>types/queues.ts\<close>. A string union is a datatype with one constructor per literal; a
  nullable or optional field is an option. Counts are integers; seconds are rationals.
\<close>

datatype HorizonStatus = Running | Paused | Inactive | Unavailable

datatype HorizonTransitionStatus = Continuing | Pausing

datatype HorizonDisplayStatus = Reported HorizonStatus | Requested HorizonTransitionStatus

text \<open>The literal that a constructor stands for.\<close>

fun status_literal :: "HorizonStatus \<Rightarrow> string" where
  "status_literal Running = ''running''"
| "status_literal Paused = ''paused''"
| "status_literal Inactive = ''inactive''"
| "status_literal Unavailable = ''unavailable''"

record ProcessTransitions =
  pt_instances :: "(string \<times> HorizonTransitionStatus) list"
  pt_supervisors :: "(string \<times> HorizonTransitionStatus) list"

datatype QueueWaitThresholdStatus = Exceeded | Calculating | Within_bounds | Disabled

record QueueWaitThresholdTarget =
  qwtt_connection :: string
  qwtt_status :: QueueWaitThresholdStatus
  qwtt_monitored :: bool
  qwtt_waitSeconds :: "rat option"
  qwtt_thresholdSeconds :: rat
  qwtt_oldestReadyAgeSeconds :: "rat option"

record QueueWaitThreshold =
  qwt_status :: QueueWaitThresholdStatus
  qwt_decisiveConnection :: string
  qwt_waitSeconds :: "rat option"
  qwt_thresholdSeconds :: rat
  qwt_oldestReadyAgeSeconds :: "rat option"
  qwt_oldestReadyConnection :: "string option"
  qwt_targets :: "QueueWaitThresholdTarget list"

record BatchPreview =
  bp_id :: string
  bp_name :: string
  bp_progress :: int

record DashboardSummary =
  ds_available :: bool
  ds_status :: HorizonStatus
  ds_failedJobs :: int
  ds_completedJobs :: int
  ds_pendingJobs :: int
  ds_pendingReserved :: "int option"
  ds_pendingReadyNow :: "int option"
  ds_pendingDelayed :: "int option"
  ds_failedJobsPastHour :: int
  ds_failedJobsPastDay :: int
  ds_recentlyFailedJobs :: int
  ds_recentlyFailedPeriodMinutes :: int
  ds_jobsPerMinute :: rat
  ds_recentJobs :: int
  ds_recentJobsPeriodMinutes :: int
  ds_processedSinceSnapshot :: int
  ds_silencedJobs :: int
  ds_completedRetentionMinutes :: int
  ds_batchesAvailable :: bool
  ds_activeBatches :: "int option"
  ds_batchPreviews :: "BatchPreview list"
  ds_processes :: int
  ds_waits :: "(string \<times> rat) list"
  ds_maxWaitQueue :: "string option"
  ds_maxWaitSeconds :: rat
  ds_queueWithMaxRuntime :: "string option"
  ds_queueWithMaxThroughput :: "string option"
  ds_message :: "string option"

record WorkloadSplitQueue =
  wsq_name :: string
  wsq_wait :: rat
  wsq_length :: int
  wsq_paused :: bool
  wsq_pausedUntil :: "rat option"
  wsq_throughput :: "rat option"
  wsq_waitThreshold :: "QueueWaitThreshold option"

record WorkloadItem =
  wi_name :: string
  wi_connection :: string
  wi_length :: int
  wi_wait :: rat
  wi_processes :: int
  wi_processesShared :: bool
  wi_paused :: bool
  wi_pausedUntil :: "rat option"
  wi_throughput :: "rat option"
  wi_waitThreshold :: "QueueWaitThreshold option"
  wi_splitQueues :: "WorkloadSplitQueue list option"

record DashboardWorkload =
  dw_available :: bool
  dw_items :: "WorkloadItem list"
  dw_message :: "string option"

datatype ScalingState = Up | Down | Steady

datatype ScalingStrategy = Time | Size

record SupervisorScaling =
  scaling_readyJobs :: int
  scaling_state :: ScalingState
  scaling_strategy :: ScalingStrategy
  scaling_targetProcesses :: int

record SupervisorItem =
  si_id :: string
  si_name :: string
  si_connection :: string
  si_queues :: "string list"
  si_processes :: int
  si_balancing :: string
  si_status :: string
  si_scaling :: "SupervisorScaling option"

record SupervisorGroup =
  sg_name :: string
  sg_environment :: "string option"
  sg_pid :: "int option"
  sg_status :: string
  sg_local :: bool
  sg_items :: "SupervisorItem list"

record DashboardSupervisors =
  dsv_available :: bool
  dsv_groups :: "SupervisorGroup list"
  dsv_message :: "string option"

record FailurePreview =
  fp_id :: string
  fp_name :: string
  fp_queue :: string
  fp_failedAt :: rat

record RecentFailures =
  rf_available :: bool
  rf_items :: "FailurePreview list"
  rf_message :: "string option"

record Capabilities =
  cap_queuePausing :: bool
  cap_timedQueuePausing :: bool

record HorizonProps =
  hz_baseUrl :: string
  hz_pollInterval :: int
  hz_status :: HorizonStatus
  hz_processing :: "bool option"
  hz_capabilities :: "Capabilities option"

record DashboardPageProps =
  dpp_horizon :: HorizonProps
  dpp_summary :: DashboardSummary
  dpp_workload :: DashboardWorkload
  dpp_supervisors :: "DashboardSupervisors option"

record RunningInstancesPageProps =
  ripp_horizon :: HorizonProps
  ripp_supervisors :: DashboardSupervisors

end
