(* ===== verification/Process_Transitions.thy ===== *)
theory Process_Transitions
  imports Types_Dashboard
begin

text \<open>
  \<^verbatim>\<open>resources/js/hooks/use-process-transitions.ts\<close>: the optimistic pause and continue
  transitions of Horizon instances and supervisors. A transition is pending from the click
  until the server reports the requested state, the request fails, the process disappears or
  the transition expires.

  Times are the milliseconds of \<open>Date.now()\<close>, passed as the argument \<open>now\<close>. The two
  dictionaries are objects in insertion order. Where the code compares object identity
  (\<open>remaining === current\<close>), the functions return the very same object when and only when
  they removed nothing, so the model compares values.
\<close>

section \<open>State\<close>

definition fallbackTransitionPollInterval :: int where
  "fallbackTransitionPollInterval = 5000"

definition minimumTransitionTimeout :: int where
  "minimumTransitionTimeout = 30000"

definition transitionPollAttempts :: int where
  "transitionPollAttempts = 6"

definition transitionTimeoutMessage :: string where
  "transitionTimeoutMessage =
     ''Horizon did not report the requested state. Showing the latest status.''"

record PendingTransition =
  pending_status :: HorizonTransitionStatus
  pending_token :: nat
  pending_expiresAt :: int

record PendingProcessTransitions =
  instances :: "(string \<times> PendingTransition) list"
  supervisors :: "(string \<times> PendingTransition) list"

text \<open>The hook's refs and state, and the toasts it has raised.\<close>

record transitions_hook =
  transitionRef :: PendingProcessTransitions
  pendingTransitions :: PendingProcessTransitions
  nextToken :: nat
  toasts :: "string list"

section \<open>Pure helpers\<close>

definition resolveProcessPollInterval :: "int \<Rightarrow> int" where
  "resolveProcessPollInterval configuredInterval =
     (if configuredInterval > 0 then configuredInterval else fallbackTransitionPollInterval)"

definition resolveProcessTransitionTimeout :: "int \<Rightarrow> int" where
  "resolveProcessTransitionTimeout configuredInterval =
     max minimumTransitionTimeout
       (resolveProcessPollInterval configuredInterval * transitionPollAttempts)"

definition emptyPendingTransitions :: PendingProcessTransitions where
  "emptyPendingTransitions = \<lparr>instances = [], supervisors = []\<rparr>"

fun targetStatus :: "HorizonTransitionStatus \<Rightarrow> HorizonStatus" where
  "targetStatus Pausing = Paused"
| "targetStatus Continuing = Running"

text \<open>The loop over the pending instances, and the one over the pending supervisors.\<close>

definition reconcile_instance ::
  "(string \<times> SupervisorGroup) list \<Rightarrow> string \<times> PendingTransition \<Rightarrow>
   (string \<times> PendingTransition) list \<times> bool \<Rightarrow> (string \<times> PendingTransition) list \<times> bool" where
  "reconcile_instance groups e acc =
     (let group = map_of groups (fst e);
          expectedStatus = status_literal (targetStatus (pending_status (snd e)));
          statuses = (case group of None \<Rightarrow> []
            | Some g \<Rightarrow> sg_status g # map si_status (sg_items g))
      in if group = None \<or> list_all (\<lambda>status. status = expectedStatus) statuses
         then (AList.delete (fst e) (fst acc), True) else acc)"

definition reconcile_supervisor ::
  "(string \<times> SupervisorItem) list \<Rightarrow> string \<times> PendingTransition \<Rightarrow>
   (string \<times> PendingTransition) list \<times> bool \<Rightarrow> (string \<times> PendingTransition) list \<times> bool" where
  "reconcile_supervisor children e acc =
     (case map_of children (fst e) of
        None \<Rightarrow> (AList.delete (fst e) (fst acc), True)
      | Some supervisor \<Rightarrow>
          if si_status supervisor = status_literal (targetStatus (pending_status (snd e)))
          then (AList.delete (fst e) (fst acc), True) else acc)"

definition reconcileTransitions ::
  "PendingProcessTransitions \<Rightarrow> DashboardSupervisors \<Rightarrow> PendingProcessTransitions" where
  "reconcileTransitions transitions sups =
     (if \<not> dsv_available sups then transitions
      else
        let groups = from_entries (map (\<lambda>g. (sg_name g, g)) (dsv_groups sups));
            children = from_entries
              (concat (map (\<lambda>g. map (\<lambda>s. (si_id s, s)) (sg_items g)) (dsv_groups sups)));
            (insts, changed) = fold (reconcile_instance groups)
              (instances transitions) (instances transitions, False);
            (sups', changed') = fold (reconcile_supervisor children)
              (supervisors transitions) (supervisors transitions, changed)
        in if changed' then \<lparr>instances = insts, supervisors = sups'\<rparr> else transitions)"

definition publicTransitions :: "PendingProcessTransitions \<Rightarrow> ProcessTransitions" where
  "publicTransitions transitions =
     \<lparr>pt_instances = from_entries (map (\<lambda>(name, t). (name, pending_status t)) (instances transitions)),
      pt_supervisors =
        from_entries (map (\<lambda>(name, t). (name, pending_status t)) (supervisors transitions))\<rparr>"

definition pending_list :: "PendingProcessTransitions \<Rightarrow> PendingTransition list" where
  "pending_list t = map snd (instances t) @ map snd (supervisors t)"

definition nextExpiry :: "PendingProcessTransitions \<Rightarrow> int option" where
  "nextExpiry transitions =
     (case map pending_expiresAt (pending_list transitions) of
        [] \<Rightarrow> None
      | e # es \<Rightarrow> Some (fold min es e))"

definition withoutExpiredTransitions ::
  "PendingProcessTransitions \<Rightarrow> int \<Rightarrow> PendingProcessTransitions" where
  "withoutExpiredTransitions transitions expiredAt =
     (let insts = filter (\<lambda>(_, t). pending_expiresAt t > expiredAt) (instances transitions);
          sups = filter (\<lambda>(_, t). pending_expiresAt t > expiredAt) (supervisors transitions)
      in if length insts = length (instances transitions) \<and>
            length sups = length (supervisors transitions)
         then transitions
         else \<lparr>instances = insts, supervisors = sups\<rparr>)"

section \<open>The hook\<close>

definition initial_transitions :: transitions_hook where
  "initial_transitions = \<lparr>transitionRef = emptyPendingTransitions,
     pendingTransitions = emptyPendingTransitions, nextToken = 0, toasts = []\<rparr>"

definition commitTransitions ::
  "PendingProcessTransitions \<Rightarrow> transitions_hook \<Rightarrow> transitions_hook" where
  "commitTransitions transitions h =
     (if transitions = transitionRef h then h
      else h\<lparr>transitionRef := transitions, pendingTransitions := transitions\<rparr>)"

text \<open>The effect that runs when the server sends new supervisors.\<close>

definition reconcile_effect ::
  "DashboardSupervisors option \<Rightarrow> transitions_hook \<Rightarrow> transitions_hook" where
  "reconcile_effect sups h =
     (case sups of None \<Rightarrow> h
      | Some s \<Rightarrow> commitTransitions (reconcileTransitions (transitionRef h) s) h)"

definition available_groups :: "DashboardSupervisors option \<Rightarrow> SupervisorGroup list" where
  "available_groups sups =
     (case sups of None \<Rightarrow> [] | Some s \<Rightarrow> if dsv_available s then dsv_groups s else [])"

definition onInstanceTransition ::
  "DashboardSupervisors option \<Rightarrow> int \<Rightarrow> int \<Rightarrow> string \<Rightarrow> HorizonTransitionStatus \<Rightarrow>
   transitions_hook \<Rightarrow> nat option \<times> transitions_hook" where
  "onInstanceTransition sups configuredPollInterval now instanceName status h =
     (let group = find (\<lambda>g. sg_name g = instanceName) (available_groups sups);
          current = transitionRef h
      in case group of
           None \<Rightarrow> (None, h)
         | Some g \<Rightarrow>
             if map_of (instances current) instanceName \<noteq> None \<or>
                list_ex (\<lambda>item. map_of (supervisors current) (si_id item) \<noteq> None) (sg_items g)
             then (None, h)
             else
               let token = nextToken h + 1;
                   pending = \<lparr>pending_status = status, pending_token = token,
                     pending_expiresAt = now + resolveProcessTransitionTimeout configuredPollInterval\<rparr>
               in (Some token,
                   commitTransitions
                     (current\<lparr>instances := AList.update instanceName pending (instances current)\<rparr>)
                     (h\<lparr>nextToken := token\<rparr>)))"

definition onSupervisorTransition ::
  "DashboardSupervisors option \<Rightarrow> int \<Rightarrow> int \<Rightarrow> string \<Rightarrow> HorizonTransitionStatus \<Rightarrow>
   transitions_hook \<Rightarrow> nat option \<times> transitions_hook" where
  "onSupervisorTransition sups configuredPollInterval now supervisorId status h =
     (let group = find (\<lambda>g. list_ex (\<lambda>item. si_id item = supervisorId) (sg_items g))
            (available_groups sups);
          current = transitionRef h
      in case group of
           None \<Rightarrow> (None, h)
         | Some g \<Rightarrow>
             if map_of (instances current) (sg_name g) \<noteq> None \<or>
                map_of (supervisors current) supervisorId \<noteq> None
             then (None, h)
             else
               let token = nextToken h + 1;
                   pending = \<lparr>pending_status = status, pending_token = token,
                     pending_expiresAt = now + resolveProcessTransitionTimeout configuredPollInterval\<rparr>
               in (Some token,
                   commitTransitions
                     (current\<lparr>supervisors :=
                       AList.update supervisorId pending (supervisors current)\<rparr>)
                     (h\<lparr>nextToken := token\<rparr>)))"

definition onInstanceTransitionFailure ::
  "string \<Rightarrow> nat \<Rightarrow> transitions_hook \<Rightarrow> transitions_hook" where
  "onInstanceTransitionFailure instanceName token h =
     (let current = transitionRef h in
      if map_option pending_token (map_of (instances current) instanceName) \<noteq> Some token then h
      else commitTransitions
        (current\<lparr>instances := AList.delete instanceName (instances current)\<rparr>) h)"

definition onSupervisorTransitionFailure ::
  "string \<Rightarrow> nat \<Rightarrow> transitions_hook \<Rightarrow> transitions_hook" where
  "onSupervisorTransitionFailure supervisorId token h =
     (let current = transitionRef h in
      if map_option pending_token (map_of (supervisors current) supervisorId) \<noteq> Some token then h
      else commitTransitions
        (current\<lparr>supervisors := AList.delete supervisorId (supervisors current)\<rparr>) h)"

definition hasPendingTransitions :: "transitions_hook \<Rightarrow> bool" where
  "hasPendingTransitions h \<longleftrightarrow>
     length (instances (pendingTransitions h)) > 0 \<or>
     length (supervisors (pendingTransitions h)) > 0"

text \<open>
  The expiry effect. \<open>expiry_delay\<close> is the delay of the first timeout; when a timeout fires
  at \<open>now\<close> it either re-arms itself (\<open>Some delay\<close>) or removes what has expired.
\<close>

definition expiry_delay :: "transitions_hook \<Rightarrow> int \<Rightarrow> int option" where
  "expiry_delay h now = map_option (\<lambda>e. max 0 (e - now)) (nextExpiry (pendingTransitions h))"

definition expireTransitions ::
  "int \<Rightarrow> int \<Rightarrow> transitions_hook \<Rightarrow> int option \<times> transitions_hook" where
  "expireTransitions expiresAt now h =
     (if now < expiresAt then (Some (expiresAt - now), h)
      else
        let current = transitionRef h;
            remaining = withoutExpiredTransitions current now
        in if remaining = current then (None, h)
           else (None, (commitTransitions remaining h)
             \<lparr>toasts := toasts h @ [transitionTimeoutMessage]\<rparr>))"

section \<open>What the helpers compute\<close>

definition instance_done ::
  "(string \<times> SupervisorGroup) list \<Rightarrow> string \<times> PendingTransition \<Rightarrow> bool" where
  "instance_done groups e =
     (case map_of groups (fst e) of
        None \<Rightarrow> True
      | Some g \<Rightarrow> sg_status g = status_literal (targetStatus (pending_status (snd e))) \<and>
          (\<forall>s \<in> set (sg_items g).
            si_status s = status_literal (targetStatus (pending_status (snd e)))))"

definition supervisor_done ::
  "(string \<times> SupervisorItem) list \<Rightarrow> string \<times> PendingTransition \<Rightarrow> bool" where
  "supervisor_done children e =
     (case map_of children (fst e) of
        None \<Rightarrow> True
      | Some s \<Rightarrow> si_status s = status_literal (targetStatus (pending_status (snd e))))"

definition reported_groups :: "DashboardSupervisors \<Rightarrow> (string \<times> SupervisorGroup) list" where
  "reported_groups sups = from_entries (map (\<lambda>g. (sg_name g, g)) (dsv_groups sups))"

definition reported_children :: "DashboardSupervisors \<Rightarrow> (string \<times> SupervisorItem) list" where
  "reported_children sups = from_entries
     (concat (map (\<lambda>g. map (\<lambda>s. (si_id s, s)) (sg_items g)) (dsv_groups sups)))"

lemma reconcile_instance_step:
  "reconcile_instance groups =
     (\<lambda>e acc. if instance_done groups e then (AList.delete (fst e) (fst acc), True) else acc)"
  by (rule ext, rule ext)
    (auto simp: reconcile_instance_def instance_done_def Let_def Ball_set list.pred_map comp_def
      split: option.split)

lemma reconcile_supervisor_step:
  "reconcile_supervisor children =
     (\<lambda>e acc. if supervisor_done children e then (AList.delete (fst e) (fst acc), True) else acc)"
  by (auto simp: reconcile_supervisor_def supervisor_done_def fun_eq_iff split: option.splits)

definition distinct_entries :: "PendingProcessTransitions \<Rightarrow> bool" where
  "distinct_entries t \<longleftrightarrow> distinct (map fst (instances t)) \<and> distinct (map fst (supervisors t))"

lemma reconcile_filters:
  assumes "distinct_entries t" and "dsv_available sups"
  shows "reconcileTransitions t sups =
    \<lparr>instances = filter (\<lambda>e. \<not> instance_done (reported_groups sups) e) (instances t),
     supervisors = filter (\<lambda>e. \<not> supervisor_done (reported_children sups) e) (supervisors t)\<rparr>"
proof -
  have i: "fold (reconcile_instance (reported_groups sups)) (instances t) (instances t, False) =
      (filter (\<lambda>e. \<not> instance_done (reported_groups sups) e) (instances t),
       list_ex (instance_done (reported_groups sups)) (instances t))"
    using assms(1)
    by (simp add: reconcile_instance_step fold_delete_self distinct_entries_def)
  have s: "fold (reconcile_supervisor (reported_children sups)) (supervisors t)
        (supervisors t, b) =
      (filter (\<lambda>e. \<not> supervisor_done (reported_children sups) e) (supervisors t),
       b \<or> list_ex (supervisor_done (reported_children sups)) (supervisors t))" for b
    using assms(1)
    by (simp add: reconcile_supervisor_step fold_delete_self distinct_entries_def)
  show ?thesis
    using assms(2) i s
    by (simp add: reconcileTransitions_def reported_groups_def [symmetric]
        reported_children_def [symmetric] filter_not_none)
qed

lemma reconcile_unavailable: "\<not> dsv_available sups \<Longrightarrow> reconcileTransitions t sups = t"
  by (simp add: reconcileTransitions_def)

lemma without_expired_filters:
  "withoutExpiredTransitions t now =
    \<lparr>instances = filter (\<lambda>e. pending_expiresAt (snd e) > now) (instances t),
     supervisors = filter (\<lambda>e. pending_expiresAt (snd e) > now) (supervisors t)\<rparr>"
  by (cases t) (simp add: withoutExpiredTransitions_def case_prod_unfold length_filter_eq_iff Let_def)

lemma fold_min_in: "fold min es (e::int) \<in> set (e # es) \<and> (\<forall>x \<in> set (e # es). fold min es e \<le> x)"
proof (induction es arbitrary: e)
  case Nil
  then show ?case by simp
next
  case (Cons x es)
  from Cons [of "min x e"] show ?case by (auto simp: min_def split: if_splits)
qed

lemma nextExpiry_None: "nextExpiry t = None \<longleftrightarrow> instances t = [] \<and> supervisors t = []"
  by (auto simp: nextExpiry_def pending_list_def split: list.splits)

lemma nextExpiry_Some:
  assumes "nextExpiry t = Some e"
  shows "(\<exists>p \<in> set (pending_list t). pending_expiresAt p = e) \<and>
    (\<forall>p \<in> set (pending_list t). e \<le> pending_expiresAt p)"
proof -
  from assms obtain x xs where xs: "map pending_expiresAt (pending_list t) = x # xs"
    and e: "e = fold min xs x"
    by (auto simp: nextExpiry_def split: list.splits)
  from fold_min_in [of xs x] have "e \<in> set (map pending_expiresAt (pending_list t)) \<and>
      (\<forall>y \<in> set (map pending_expiresAt (pending_list t)). e \<le> y)"
    unfolding xs e .
  then show ?thesis by auto
qed

section \<open>The hook's invariant\<close>

text \<open>
  The ref and the state agree, every key is pending once, and the tokens are pairwise
  different and among those handed out so far.
\<close>

definition tokens :: "PendingProcessTransitions \<Rightarrow> nat list" where
  "tokens t = map pending_token (pending_list t)"

definition hook_inv :: "transitions_hook \<Rightarrow> bool" where
  "hook_inv h \<longleftrightarrow>
     pendingTransitions h = transitionRef h \<and>
     distinct_entries (transitionRef h) \<and>
     distinct (tokens (transitionRef h)) \<and>
     (\<forall>k \<in> set (tokens (transitionRef h)). k \<le> nextToken h)"

lemma hook_inv_initial: "hook_inv initial_transitions"
  by (simp add: hook_inv_def initial_transitions_def emptyPendingTransitions_def
      distinct_entries_def tokens_def pending_list_def)

lemma commit_sel [simp]:
  "transitionRef (commitTransitions t h) = t"
  "nextToken (commitTransitions t h) = nextToken h"
  "toasts (commitTransitions t h) = toasts h"
  by (simp_all add: commitTransitions_def)

lemma commit_pending:
  "pendingTransitions h = transitionRef h \<Longrightarrow> pendingTransitions (commitTransitions t h) = t"
  by (simp add: commitTransitions_def)

text \<open>Removing entries keeps the invariant.\<close>

lemma tokens_filter:
  assumes "distinct (tokens t)"
  shows "distinct (tokens \<lparr>instances = filter P (instances t), supervisors = filter Q (supervisors t)\<rparr>)"
    and "set (tokens \<lparr>instances = filter P (instances t), supervisors = filter Q (supervisors t)\<rparr>)
      \<subseteq> set (tokens t)"
  using assms by (auto simp: tokens_def pending_list_def distinct_map_filter)

lemma hook_inv_filter:
  assumes "hook_inv h"
    and "t = \<lparr>instances = filter P (instances (transitionRef h)),
              supervisors = filter Q (supervisors (transitionRef h))\<rparr>"
  shows "hook_inv (commitTransitions t h)"
  using assms tokens_filter [of "transitionRef h" P Q]
  by (auto simp: hook_inv_def commit_pending distinct_entries_def distinct_keys_filter)

text \<open>Adding an entry with the next token keeps it, and so does raising a toast.\<close>

lemma hook_inv_add:
  assumes inv: "hook_inv h" and tok: "pending_token p = nextToken h + 1"
  shows "map_of (instances (transitionRef h)) k = None \<Longrightarrow>
      hook_inv (commitTransitions ((transitionRef h)\<lparr>instances :=
        AList.update k p (instances (transitionRef h))\<rparr>) (h\<lparr>nextToken := nextToken h + 1\<rparr>))"
    and "map_of (supervisors (transitionRef h)) k = None \<Longrightarrow>
      hook_inv (commitTransitions ((transitionRef h)\<lparr>supervisors :=
        AList.update k p (supervisors (transitionRef h))\<rparr>) (h\<lparr>nextToken := nextToken h + 1\<rparr>))"
proof -
  have fresh: "nextToken h + 1 \<notin> set (tokens (transitionRef h))"
    using inv by (fastforce simp: hook_inv_def)
  have le: "k \<in> set (tokens (transitionRef h)) \<Longrightarrow> k \<le> nextToken h + 1" for k
    using inv by (fastforce simp: hook_inv_def)
  show "map_of (instances (transitionRef h)) k = None \<Longrightarrow>
      hook_inv (commitTransitions ((transitionRef h)\<lparr>instances :=
        AList.update k p (instances (transitionRef h))\<rparr>) (h\<lparr>nextToken := nextToken h + 1\<rparr>))"
    using inv fresh le tok
    by (auto simp: hook_inv_def commit_pending distinct_entries_def distinct_update tokens_def
        pending_list_def map_of_eq_None_iff update_fresh)
  show "map_of (supervisors (transitionRef h)) k = None \<Longrightarrow>
      hook_inv (commitTransitions ((transitionRef h)\<lparr>supervisors :=
        AList.update k p (supervisors (transitionRef h))\<rparr>) (h\<lparr>nextToken := nextToken h + 1\<rparr>))"
    using inv fresh le tok
    by (auto simp: hook_inv_def commit_pending distinct_entries_def distinct_update tokens_def
        pending_list_def map_of_eq_None_iff update_fresh)
qed

lemma hook_inv_toast: "hook_inv (h\<lparr>toasts := ts\<rparr>) = hook_inv h"
  by (simp add: hook_inv_def)

lemma hook_inv_reconcile: "hook_inv h \<Longrightarrow> hook_inv (reconcile_effect sups h)"
proof (cases sups)
  case (Some s)
  assume inv: "hook_inv h"
  show ?thesis
  proof (cases "dsv_available s")
    case True
    from inv have "distinct_entries (transitionRef h)" by (simp add: hook_inv_def)
    from hook_inv_filter [OF inv reconcile_filters [OF this True]] Some show ?thesis
      by (simp add: reconcile_effect_def)
  next
    case False
    with inv Some show ?thesis
      by (simp add: reconcile_effect_def reconcile_unavailable commitTransitions_def)
  qed
qed (simp add: reconcile_effect_def)

lemma hook_inv_instance:
  "hook_inv h \<Longrightarrow> hook_inv (snd (onInstanceTransition sups interval now n status h))"
  by (auto simp: onInstanceTransition_def Let_def intro!: hook_inv_add(1) [simplified]
      split: option.split)

lemma hook_inv_supervisor:
  "hook_inv h \<Longrightarrow> hook_inv (snd (onSupervisorTransition sups interval now n status h))"
  by (auto simp: onSupervisorTransition_def Let_def intro!: hook_inv_add(2) [simplified]
      split: option.split)

lemma pending_with_deleted:
  "t\<lparr>instances := AList.delete k (instances t)\<rparr> =
     \<lparr>instances = filter (\<lambda>e. fst e \<noteq> k) (instances t),
      supervisors = filter (\<lambda>_. True) (supervisors t)\<rparr>"
  "t\<lparr>supervisors := AList.delete k (supervisors t)\<rparr> =
     \<lparr>instances = filter (\<lambda>_. True) (instances t),
      supervisors = filter (\<lambda>e. fst e \<noteq> k) (supervisors t)\<rparr>"
  by (cases t; simp add: delete_as_filter)+

lemma hook_inv_failure:
  assumes "hook_inv h"
  shows "hook_inv (onInstanceTransitionFailure n tok h)" "hook_inv (onSupervisorTransitionFailure n tok h)"
  using assms
  by (auto simp: onInstanceTransitionFailure_def onSupervisorTransitionFailure_def Let_def
      intro!: hook_inv_filter pending_with_deleted)

lemma hook_inv_expire: "hook_inv h \<Longrightarrow> hook_inv (snd (expireTransitions e now h))"
  using hook_inv_filter [OF _ without_expired_filters]
  by (simp add: expireTransitions_def Let_def hook_inv_toast)

section \<open>Runs of the hook\<close>

text \<open>
  The page over time: the server reports supervisors, the user asks for transitions, requests
  fail (with any name and token), timers fire. The clock and the configured interval are
  free in every step.
\<close>

datatype hook_event =
    Server "DashboardSupervisors option"
  | RequestInstance "DashboardSupervisors option" int int string HorizonTransitionStatus
  | RequestSupervisor "DashboardSupervisors option" int int string HorizonTransitionStatus
  | InstanceFailed string nat
  | SupervisorFailed string nat
  | TimerFired int int

fun hook_step :: "transitions_hook \<Rightarrow> hook_event \<Rightarrow> transitions_hook" where
  "hook_step h (Server sups) = reconcile_effect sups h"
| "hook_step h (RequestInstance sups interval now n status) =
     snd (onInstanceTransition sups interval now n status h)"
| "hook_step h (RequestSupervisor sups interval now n status) =
     snd (onSupervisorTransition sups interval now n status h)"
| "hook_step h (InstanceFailed n tok) = onInstanceTransitionFailure n tok h"
| "hook_step h (SupervisorFailed n tok) = onSupervisorTransitionFailure n tok h"
| "hook_step h (TimerFired e now) = snd (expireTransitions e now h)"

definition hook_run :: "hook_event list \<Rightarrow> transitions_hook \<Rightarrow> transitions_hook" where
  "hook_run evs h = foldl hook_step h evs"

lemma hook_inv_step: "hook_inv h \<Longrightarrow> hook_inv (hook_step h ev)"
  by (cases ev) (simp_all add: hook_inv_reconcile hook_inv_instance hook_inv_supervisor
      hook_inv_failure hook_inv_expire)

lemma hook_inv_run: "hook_inv h \<Longrightarrow> hook_inv (hook_run evs h)"
  by (induction evs arbitrary: h) (simp_all add: hook_run_def hook_inv_step)

subsection \<open>Instances exclude their supervisors\<close>

text \<open>The shape of the reported processes: which instance runs which supervisors.\<close>

type_synonym topology = "(string \<times> string list) list"

definition topology_of :: "DashboardSupervisors \<Rightarrow> topology" where
  "topology_of sups = map (\<lambda>g. (sg_name g, map si_id (sg_items g))) (dsv_groups sups)"

definition topology_ok :: "topology \<Rightarrow> bool" where
  "topology_ok topo \<longleftrightarrow> distinct (map fst topo) \<and> distinct (concat (map snd topo))"

definition exclusive :: "topology \<Rightarrow> PendingProcessTransitions \<Rightarrow> bool" where
  "exclusive topo t \<longleftrightarrow>
     (\<forall>(name, ids) \<in> set topo. map_of (instances t) name \<noteq> None \<longrightarrow>
        (\<forall>i \<in> set ids. map_of (supervisors t) i = None))"

fun event_topology :: "topology \<Rightarrow> hook_event \<Rightarrow> bool" where
  "event_topology topo (RequestInstance (Some s) _ _ _ _) = (topology_of s = topo)"
| "event_topology topo (RequestSupervisor (Some s) _ _ _ _) = (topology_of s = topo)"
| "event_topology topo _ = True"

lemma exclusive_filter:
  assumes "exclusive topo t"
  shows "exclusive topo \<lparr>instances = filter P (instances t), supervisors = filter Q (supervisors t)\<rparr>"
  using assms by (fastforce simp: exclusive_def map_of_eq_None_iff)

lemma find_group:
  assumes "find P (available_groups (Some s)) = Some g"
  shows "g \<in> set (dsv_groups s) \<and> P g \<and> (sg_name g, map si_id (sg_items g)) \<in> set (topology_of s)"
  using assms
  by (auto simp: available_groups_def topology_of_def find_Some_iff split: if_splits)

lemma topology_owner:
  assumes "topology_ok topo" "(n, ids) \<in> set topo" "(m, ids') \<in> set topo"
    and "n = m \<or> (i \<in> set ids \<and> i \<in> set ids')"
  shows "(n, ids) = (m, ids')"
  using assms
proof (induction topo)
  case Nil
  then show ?case by simp
next
  case (Cons e topo)
  obtain k js where e: "e = (k, js)" by (cases e)
  from Cons.prems(1) have ok: "topology_ok topo"
    and "k \<notin> fst ` set topo" and "set js \<inter> (\<Union>p \<in> set topo. set (snd p)) = {}"
    by (auto simp: topology_ok_def e)
  then have "n' \<noteq> k \<and> set js \<inter> set is' = {}" if "(n', is') \<in> set topo" for n' is'
    using that by force
  with Cons.prems(2-4) Cons.IH [OF ok] show ?case by (auto simp: e)
qed

lemma exclusive_instance:
  assumes topo: "topology_ok topo" "topology_of s = topo" and ex: "exclusive topo (transitionRef h)"
  shows "exclusive topo
    (transitionRef (snd (onInstanceTransition (Some s) interval now n status h)))"
proof (cases "find (\<lambda>g. sg_name g = n) (available_groups (Some s))")
  case None
  with ex show ?thesis by (simp add: onInstanceTransition_def)
next
  case (Some g)
  from find_group [OF Some] topo(2) have g: "sg_name g = n" "(n, map si_id (sg_items g)) \<in> set topo"
    by auto
  have "exclusive topo ((transitionRef h)\<lparr>instances := AList.update n p (instances (transitionRef h))\<rparr>)"
    if "\<not> list_ex (\<lambda>item. map_of (supervisors (transitionRef h)) (si_id item) \<noteq> None) (sg_items g)" for p
    using that ex topology_owner [OF topo(1) g(2)]
    by (fastforce simp: exclusive_def update_conv' list_ex_iff split: if_splits)
  with Some ex show ?thesis by (simp add: onInstanceTransition_def Let_def)
qed

lemma exclusive_supervisor:
  assumes topo: "topology_ok topo" "topology_of s = topo" and ex: "exclusive topo (transitionRef h)"
  shows "exclusive topo
    (transitionRef (snd (onSupervisorTransition (Some s) interval now i status h)))"
proof (cases "find (\<lambda>g. list_ex (\<lambda>item. si_id item = i) (sg_items g)) (available_groups (Some s))")
  case None
  with ex show ?thesis by (simp add: onSupervisorTransition_def)
next
  case (Some g)
  from find_group [OF Some] topo(2) have g: "i \<in> set (map si_id (sg_items g))"
      "(sg_name g, map si_id (sg_items g)) \<in> set topo"
    by (auto simp: list_ex_iff)
  have "exclusive topo
      ((transitionRef h)\<lparr>supervisors := AList.update i p (supervisors (transitionRef h))\<rparr>)"
    if "map_of (instances (transitionRef h)) (sg_name g) = None" for p
  proof -
    have "map_of (instances (transitionRef h)) m = None" if "(m, is') \<in> set topo" "i \<in> set is'" for m is'
      using topology_owner [OF topo(1) g(2) that(1), of i] g(1) that
        \<open>map_of (instances (transitionRef h)) (sg_name g) = None\<close> by auto
    with ex show ?thesis by (fastforce simp: exclusive_def update_conv' split: if_splits)
  qed
  with Some ex show ?thesis by (simp add: onSupervisorTransition_def Let_def)
qed

lemma no_supervisors_no_transition:
  "onInstanceTransition None interval now n status h = (None, h)"
  "onSupervisorTransition None interval now n status h = (None, h)"
  by (simp_all add: onInstanceTransition_def onSupervisorTransition_def available_groups_def)

lemma exclusive_step:
  assumes inv: "hook_inv h" and topo: "topology_ok topo" "event_topology topo ev"
    and ex: "exclusive topo (transitionRef h)"
  shows "exclusive topo (transitionRef (hook_step h ev))"
proof (cases ev)
  case (Server sups)
  from inv have d: "distinct_entries (transitionRef h)" by (simp add: hook_inv_def)
  from Server ex show ?thesis
    by (cases sups; cases "dsv_available (the sups)")
      (auto simp: reconcile_effect_def reconcile_unavailable reconcile_filters [OF d]
        intro: exclusive_filter)
next
  case (RequestInstance sups a b c d)
  with topo ex show ?thesis
    by (cases sups) (auto simp: exclusive_instance no_supervisors_no_transition)
next
  case (RequestSupervisor sups a b c d)
  with topo ex show ?thesis
    by (cases sups) (auto simp: exclusive_supervisor no_supervisors_no_transition)
next
  case (InstanceFailed a b)
  with ex exclusive_filter [OF ex, of "\<lambda>e. fst e \<noteq> a" "\<lambda>_. True"] show ?thesis
    by (simp add: onInstanceTransitionFailure_def Let_def pending_with_deleted)
next
  case (SupervisorFailed a b)
  with ex exclusive_filter [OF ex, of "\<lambda>_. True" "\<lambda>e. fst e \<noteq> a"] show ?thesis
    by (simp add: onSupervisorTransitionFailure_def Let_def pending_with_deleted)
next
  case (TimerFired a b)
  with ex exclusive_filter [OF ex] show ?thesis
    by (simp add: expireTransitions_def Let_def without_expired_filters)
qed

lemma exclusive_run:
  assumes "topology_ok topo" and "list_all (event_topology topo) evs"
    and "hook_inv h" and "exclusive topo (transitionRef h)"
  shows "exclusive topo (transitionRef (hook_run evs h))"
  using assms(2-4)
proof (induction evs arbitrary: h)
  case Nil
  then show ?case by (simp add: hook_run_def)
next
  case (Cons ev evs)
  from Cons.prems Cons.IH [of "hook_step h ev"] show ?case
    by (simp add: hook_run_def hook_inv_step exclusive_step [OF _ assms(1)])
qed

text \<open>What deleting the entry with a given token does to the tokens.\<close>

lemma tokens_delete:
  assumes "distinct (map fst m)" and "map_option pending_token (map_of m n) = Some tok"
  shows "filter (\<lambda>k. k \<noteq> tok) (map (\<lambda>e. pending_token (snd e)) (filter (\<lambda>e. fst e \<noteq> n) m)) =
     filter (\<lambda>k. k \<noteq> tok) (map (\<lambda>e. pending_token (snd e)) m)"
  using assms
proof (induction m)
  case Nil
  then show ?case by simp
next
  case (Cons e m)
  show ?case
  proof (cases "fst e = n")
    case True
    with Cons.prems(1) have "filter (\<lambda>e. fst e \<noteq> n) m = m"
      by (intro filter_True) (force simp: image_iff)
    with True Cons.prems(2) show ?thesis by (cases e) simp
  next
    case False
    with Cons show ?thesis by (cases e) simp
  qed
qed

lemma tokens_eq:
  "tokens t = map (\<lambda>e. pending_token (snd e)) (instances t) @
     map (\<lambda>e. pending_token (snd e)) (supervisors t)"
  by (simp add: tokens_def pending_list_def)

lemma pending_token_member:
  "map_option pending_token (map_of (instances t) n) = Some tok \<Longrightarrow> tok \<in> set (tokens t)"
  "map_option pending_token (map_of (supervisors t) n) = Some tok \<Longrightarrow> tok \<in> set (tokens t)"
  by (force simp: tokens_eq dest: map_of_SomeD)+

section \<open>Properties\<close>

text \<open>
  C2: as long as the server reports the same processes (with any statuses), no run of the
  hook ever has a transition pending for an instance and for one of its supervisors at the
  same time, whatever fails, expires or is clicked.
\<close>

theorem instance_excludes_supervisors:
  assumes "topology_ok topo" and "list_all (event_topology topo) evs"
    and "(name, ids) \<in> set topo" and "i \<in> set ids"
  shows "map_of (instances (transitionRef (hook_run evs initial_transitions))) name = None \<or>
    map_of (supervisors (transitionRef (hook_run evs initial_transitions))) i = None"
proof -
  have "exclusive topo (transitionRef initial_transitions)"
    by (simp add: exclusive_def initial_transitions_def emptyPendingTransitions_def)
  from exclusive_run [OF assms(1,2) hook_inv_initial this] assms(3,4) show ?thesis
    by (fastforce simp: exclusive_def)
qed

definition host_report :: DashboardSupervisors where
  "host_report = \<lparr>dsv_available = True, dsv_groups =
     [\<lparr>sg_name = ''host'', sg_environment = None, sg_pid = None, sg_status = ''running'',
       sg_local = True, sg_items = [\<lparr>si_id = ''host:a'', si_name = ''a'',
         si_connection = ''redis'', si_queues = [''default''], si_processes = 1,
         si_balancing = ''auto'', si_status = ''running'', si_scaling = None\<rparr>]\<rparr>],
     dsv_message = None\<rparr>"

lemma host_topology: "topology_of host_report = [(''host'', [''host:a''])]"
  by (simp add: topology_of_def host_report_def)

definition host_run :: "hook_event list" where
  "host_run = [RequestInstance (Some host_report) 0 1000 ''host'' Pausing,
     RequestSupervisor (Some host_report) 0 1001 ''host:a'' Continuing]"

theorem instance_excludes_supervisors_witness:
  "map_of (supervisors (transitionRef (hook_run host_run initial_transitions))) ''host:a'' = None"
proof -
  have "map_of (instances (transitionRef (hook_run host_run initial_transitions))) ''host'' \<noteq> None"
    by (simp add: host_run_def hook_run_def onInstanceTransition_def onSupervisorTransition_def
        available_groups_def host_report_def initial_transitions_def emptyPendingTransitions_def
        Let_def)
  moreover have "topology_ok (topology_of host_report)"
    "list_all (event_topology (topology_of host_report)) host_run"
    by (simp_all add: host_topology topology_ok_def host_run_def)
  ultimately show ?thesis
    using instance_excludes_supervisors [of "topology_of host_report" host_run "''host''"
        "[''host:a'']" "''host:a''"]
    by (auto simp: host_topology)
qed

text \<open>
  A failure reported late never cancels a newer transition. In every state of every run,
  a failure callback with token \<open>tok\<close> removes at most the one transition that was given
  \<open>tok\<close>; every other pending transition stays, and a token handed out next is new.
\<close>

lemma stale_failure_is_harmless:
  assumes "h = hook_run evs initial_transitions"
  shows "filter (\<lambda>k. k \<noteq> tok) (tokens (transitionRef (onInstanceTransitionFailure n tok h))) =
      filter (\<lambda>k. k \<noteq> tok) (tokens (transitionRef h)) \<and>
    filter (\<lambda>k. k \<noteq> tok) (tokens (transitionRef (onSupervisorTransitionFailure n tok h))) =
      filter (\<lambda>k. k \<noteq> tok) (tokens (transitionRef h)) \<and>
    (tok \<notin> set (tokens (transitionRef h)) \<longrightarrow>
      onInstanceTransitionFailure n tok h = h \<and> onSupervisorTransitionFailure n tok h = h) \<and>
    nextToken h + 1 \<notin> set (tokens (transitionRef h))"
proof -
  have inv: "hook_inv h" by (simp add: assms hook_inv_run hook_inv_initial)
  have "nextToken h + 1 \<notin> set (tokens (transitionRef h))"
    using inv by (fastforce simp: hook_inv_def)
  moreover have "filter (\<lambda>k. k \<noteq> tok) (tokens (transitionRef (onInstanceTransitionFailure n tok h))) =
      filter (\<lambda>k. k \<noteq> tok) (tokens (transitionRef h))"
    using inv tokens_delete [of "instances (transitionRef h)" n tok]
    by (simp add: onInstanceTransitionFailure_def Let_def tokens_eq delete_as_filter
        hook_inv_def distinct_entries_def)
  moreover have "filter (\<lambda>k. k \<noteq> tok)
        (tokens (transitionRef (onSupervisorTransitionFailure n tok h))) =
      filter (\<lambda>k. k \<noteq> tok) (tokens (transitionRef h))"
    using inv tokens_delete [of "supervisors (transitionRef h)" n tok]
    by (simp add: onSupervisorTransitionFailure_def Let_def tokens_eq delete_as_filter
        hook_inv_def distinct_entries_def)
  moreover have "tok \<notin> set (tokens (transitionRef h)) \<Longrightarrow>
      onInstanceTransitionFailure n tok h = h \<and> onSupervisorTransitionFailure n tok h = h"
    using pending_token_member [of "transitionRef h" n tok]
    by (auto simp: onInstanceTransitionFailure_def onSupervisorTransitionFailure_def Let_def)
  ultimately show ?thesis by blast
qed

lemma reconcile_instance_lookup:
  assumes "distinct_entries t" and "dsv_available sups"
  shows "map_of (instances (reconcileTransitions t sups)) n = Some p \<longleftrightarrow>
    map_of (instances t) n = Some p \<and>
    (\<exists>g. map_of (reported_groups sups) n = Some g \<and>
      (\<exists>st \<in> insert (sg_status g) (si_status ` set (sg_items g)).
        st \<noteq> status_literal (targetStatus (pending_status p))))"
  using assms
  by (auto simp: reconcile_filters map_of_filter_Some distinct_entries_def instance_done_def
      split: option.splits)

lemma reconcile_supervisor_lookup:
  assumes "distinct_entries t" and "dsv_available sups"
  shows "map_of (supervisors (reconcileTransitions t sups)) i = Some q \<longleftrightarrow>
    map_of (supervisors t) i = Some q \<and>
    (\<exists>s. map_of (reported_children sups) i = Some s \<and>
      si_status s \<noteq> status_literal (targetStatus (pending_status q)))"
  using assms
  by (auto simp: reconcile_filters map_of_filter_Some distinct_entries_def supervisor_done_def
      split: option.splits)

text \<open>
  C17: a server report settles exactly the right transitions. With an available report, an
  instance transition stays pending if and only if the instance is still reported and it or
  one of its supervisors does not show the requested status; a supervisor transition stays if
  and only if the supervisor is still reported with another status. Nothing is added, and an
  unavailable report changes nothing.
\<close>

theorem reconcile_settles_exactly:
  assumes "distinct_entries t"
  shows "(dsv_available sups \<longrightarrow>
      (map_of (instances (reconcileTransitions t sups)) n = Some p \<longleftrightarrow>
        map_of (instances t) n = Some p \<and>
        (\<exists>g. map_of (reported_groups sups) n = Some g \<and>
          (\<exists>st \<in> insert (sg_status g) (si_status ` set (sg_items g)).
            st \<noteq> status_literal (targetStatus (pending_status p))))) \<and>
      (map_of (supervisors (reconcileTransitions t sups)) i = Some q \<longleftrightarrow>
        map_of (supervisors t) i = Some q \<and>
        (\<exists>s. map_of (reported_children sups) i = Some s \<and>
          si_status s \<noteq> status_literal (targetStatus (pending_status q))))) \<and>
    (\<not> dsv_available sups \<longrightarrow> reconcileTransitions t sups = t)"
  using reconcile_instance_lookup [OF assms] reconcile_supervisor_lookup [OF assms]
    reconcile_unavailable
  by blast

theorem reconcile_settles_exactly_witness:
  "map_of (instances (reconcileTransitions
     (transitionRef (hook_run host_run initial_transitions)) host_report)) ''host'' =
   Some \<lparr>pending_status = Pausing, pending_token = 1, pending_expiresAt = 31000\<rparr>"
proof -
  let ?t = "transitionRef (hook_run host_run initial_transitions)"
  have "distinct_entries ?t"
    using hook_inv_run [OF hook_inv_initial, of host_run] by (simp add: hook_inv_def)
  moreover have "map_of (instances ?t) ''host'' =
      Some \<lparr>pending_status = Pausing, pending_token = 1, pending_expiresAt = 31000\<rparr>"
    by (simp add: host_run_def hook_run_def onInstanceTransition_def onSupervisorTransition_def
        available_groups_def host_report_def initial_transitions_def emptyPendingTransitions_def
        Let_def resolveProcessTransitionTimeout_def resolveProcessPollInterval_def
        minimumTransitionTimeout_def fallbackTransitionPollInterval_def transitionPollAttempts_def)
  moreover have "dsv_available host_report" by (simp add: host_report_def)
  ultimately show ?thesis
    using reconcile_settles_exactly [of ?t host_report "''host''"
        "\<lparr>pending_status = Pausing, pending_token = 1, pending_expiresAt = 31000\<rparr>"]
    by (simp add: reported_groups_def from_entries_def host_report_def)
qed



text \<open>
  The timeout of a transition is at least thirty seconds and at least six poll intervals,
  so the server has been asked six times before the interface gives up.
\<close>

lemma transition_timeout_bounds:
  "resolveProcessTransitionTimeout c \<ge> 30000 \<and>
   resolveProcessTransitionTimeout c \<ge> 6 * resolveProcessPollInterval c \<and>
   resolveProcessPollInterval c > 0 \<and>
   (c > 0 \<longrightarrow> resolveProcessPollInterval c = c)"
  by (auto simp: resolveProcessTransitionTimeout_def resolveProcessPollInterval_def max_def
      minimumTransitionTimeout_def fallbackTransitionPollInterval_def transitionPollAttempts_def)

end
