(* ===== verification/Auto_Load.thy ===== *)
theory Auto_Load
  imports Auto_Refresh
begin

text \<open>
  \<^verbatim>\<open>resources/js/hooks/use-auto-load.ts\<close>: automatic loading of new list entries. The hook's
  refs, its state and its request closures extend the refresh state: request number \<open>i\<close> has the
  tracker \<open>i\<close> and the closure variable \<open>cancelRequest\<close> in \<open>cancelCell w i\<close>.

  An effect is a function of the props it was rendered with; \<open>commit\<close> runs those whose
  dependencies changed, in the order of the code, cleanups first. The poll timer itself belongs
  to the client: \<open>pollRunning\<close> records whether it was started, and a tick is an event.
\<close>

section \<open>Props and state\<close>

definition firstPageSize :: int where
  "firstPageSize = 50"

definition infiniteScrollMergeIntentHeader :: string where
  "infiniteScrollMergeIntentHeader = ''X-Inertia-Infinite-Scroll-Merge-Intent''"

datatype EntryReloadMode = Replace | Prepend

record auto_load_props =
  al_enabled :: bool
  al_prop :: string
  al_interval :: int
  al_cursor :: string
  al_listRevision :: "string option"
  al_additionalProps :: "string list"
  al_includeSharedProps :: bool
  al_scope :: string
  al_polling :: bool
  al_loadedItemCount :: int

text \<open>What a request was built from: the props it closed over, and which call built it.\<close>

datatype request_kind =
    Automatic auto_load_props "EntryReloadMode option"
  | LoadNew auto_load_props

record auto_load_world = refresh_world +
  listRevisionRef :: "string option"
  baselineRevisionRef :: "string option"
  scopeRef :: string
  browsingHistoryRef :: bool
  pollCancelRef :: "cancel_token option"
  hasNewEntriesState :: bool
  wasEnabledRef :: bool
  cancelCell :: "nat \<Rightarrow> cancel_token option"
  pollRunning :: bool
  cancelledTokens :: "cancel_token list"
  issued :: "(nat \<times> request_kind) list" \<comment> \<open>the requests sent so far\<close>

definition mount_auto_load :: "auto_load_props \<Rightarrow> refresh_world \<Rightarrow> auto_load_world" where
  "mount_auto_load p r = refresh_world.extend r
     \<lparr>listRevisionRef = al_listRevision p, baselineRevisionRef = al_listRevision p,
      scopeRef = al_scope p, browsingHistoryRef = al_loadedItemCount p > firstPageSize,
      pollCancelRef = None, hasNewEntriesState = False, wasEnabledRef = al_enabled p,
      cancelCell = (\<lambda>_. None), pollRunning = False, cancelledTokens = [], issued = []\<rparr>"

section \<open>Requests\<close>

definition own_request_options ::
  "auto_load_props \<Rightarrow> nat \<Rightarrow> EntryReloadMode option \<Rightarrow> auto_load_world visit_options" where
  "own_request_options p i entryReloadMode = empty_options\<lparr>
     vo_data := [(al_cursor p, None)],
     vo_only := uniq
       ((if entryReloadMode \<noteq> None then [al_prop p] else []) @
        (if al_listRevision p = None then [] else [''listRevision'']) @
        al_additionalProps p @
        (if al_enabled p \<and> al_includeSharedProps p then [''horizon'', ''navigationCounts''] else [])),
     vo_reset := (if entryReloadMode = Some Replace then [al_prop p] else []),
     vo_headers := (if entryReloadMode = Some Prepend
       then [(infiniteScrollMergeIntentHeader, ''prepend'')] else []),
     vo_preserveUrl := Some True,
     vo_showProgress := Some False,
     onCancelToken := Some (\<lambda>token w.
       w\<lparr>cancelCell := (cancelCell w)(i := Some token), pollCancelRef := Some token\<rparr>),
     onFinish := Some (\<lambda>visit w.
       if pollCancelRef w = cancelCell w i then w\<lparr>pollCancelRef := None\<rparr> else w)\<rparr>"

definition requestOptions ::
  "auto_load_props \<Rightarrow> nat \<Rightarrow> EntryReloadMode option \<Rightarrow> auto_load_world visit_options" where
  "requestOptions p i entryReloadMode =
     trackBackgroundRefresh i (own_request_options p i entryReloadMode)"

text \<open>The options of \<open>loadNewEntries\<close>: those of a replacing request, with its own \<open>onSuccess\<close>.\<close>

definition load_new_options ::
  "auto_load_props \<Rightarrow> nat \<Rightarrow> auto_load_world visit_options" where
  "load_new_options p i =
     (let options = requestOptions p i (Some Replace) in
      options\<lparr>onSuccess := Some (\<lambda>page w.
        let w' = optional_call (onSuccess options) page w;
            baselineRevision = (case props_listRevision page of
              Some refreshed \<Rightarrow> Some refreshed | None \<Rightarrow> listRevisionRef w')
        in w'\<lparr>listRevisionRef := baselineRevision, baselineRevisionRef := baselineRevision,
              browsingHistoryRef := False, hasNewEntriesState := False\<rparr>)\<rparr>)"

fun kind_options :: "request_kind \<Rightarrow> nat \<Rightarrow> auto_load_world visit_options" where
  "kind_options (Automatic p mode) i = requestOptions p i mode"
| "kind_options (LoadNew p) i = load_new_options p i"

text \<open>Sending a request: a new closure with its tracker, and the entry in the log.\<close>

definition send :: "request_kind \<Rightarrow> auto_load_world \<Rightarrow> auto_load_world" where
  "send kind w =
     (let (i, w') = new_tracker w in
      w'\<lparr>cancelCell := (cancelCell w')(i := None), issued := issued w' @ [(i, kind)]\<rparr>)"

definition entry_mode :: "auto_load_world \<Rightarrow> EntryReloadMode" where
  "entry_mode w = (if browsingHistoryRef w then Prepend else Replace)"

definition poll_tick :: "auto_load_props \<Rightarrow> auto_load_world \<Rightarrow> auto_load_world" where
  "poll_tick p w =
     send (Automatic p (if al_enabled p then Some (entry_mode w) else None)) w"

section \<open>Callbacks\<close>

definition cancelActivePoll :: "auto_load_world \<Rightarrow> auto_load_world" where
  "cancelActivePoll w =
     (let cancel = pollCancelRef w; w' = w\<lparr>pollCancelRef := None\<rparr>
      in case cancel of None \<Rightarrow> w'
         | Some t \<Rightarrow> w'\<lparr>cancelledTokens := cancelledTokens w' @ [t]\<rparr>)"

definition onBeforeNextPage :: "auto_load_world \<Rightarrow> auto_load_world" where
  "onBeforeNextPage w =
     (let w' = cancelActivePoll w
      in if \<not> browsingHistoryRef w' then w'\<lparr>browsingHistoryRef := True\<rparr> else w')"

definition loadNewEntries :: "auto_load_props \<Rightarrow> auto_load_world \<Rightarrow> auto_load_world" where
  "loadNewEntries p w = send (LoadNew p) (cancelActivePoll w)"

section \<open>Effects\<close>

definition revision_effect :: "auto_load_props \<Rightarrow> auto_load_world \<Rightarrow> auto_load_world" where
  "revision_effect p w0 =
     (let w = w0\<lparr>listRevisionRef := al_listRevision p\<rparr> in
      if scopeRef w \<noteq> al_scope p then
        w\<lparr>scopeRef := al_scope p,
          browsingHistoryRef := al_loadedItemCount p > firstPageSize,
          baselineRevisionRef := al_listRevision p,
          hasNewEntriesState := False\<rparr>
      else
        let w1 = (if al_loadedItemCount p > firstPageSize \<and> \<not> browsingHistoryRef w
                  then w\<lparr>browsingHistoryRef := True\<rparr> else w)
        in if al_enabled p then
             w1\<lparr>baselineRevisionRef := al_listRevision p, hasNewEntriesState := False\<rparr>
           else if al_listRevision p \<noteq> None \<and> al_listRevision p \<noteq> baselineRevisionRef w1 then
             w1\<lparr>hasNewEntriesState := True\<rparr>
           else w1)"

definition poll_effect :: "auto_load_props \<Rightarrow> auto_load_world \<Rightarrow> auto_load_world" where
  "poll_effect p w =
     (let w' = (if al_polling p \<and> al_interval p > 0 then
                  (let w1 = (if al_enabled p \<and> \<not> wasEnabledRef w
                             then send (Automatic p (Some (entry_mode w))) w else w)
                   in w1\<lparr>pollRunning := True\<rparr>)
                else w\<lparr>pollRunning := False\<rparr>)
      in w'\<lparr>wasEnabledRef := al_enabled p\<rparr>)"

definition poll_cleanup :: "auto_load_world \<Rightarrow> auto_load_world" where
  "poll_cleanup w = w\<lparr>pollRunning := False\<rparr>"

text \<open>A render with new props: the effects whose dependencies changed.\<close>

definition commit :: "auto_load_props \<Rightarrow> auto_load_props \<Rightarrow> auto_load_world \<Rightarrow> auto_load_world" where
  "commit old p w =
     (let revision_changed = (al_enabled old, al_listRevision old, al_loadedItemCount old, al_scope old)
            \<noteq> (al_enabled p, al_listRevision p, al_loadedItemCount p, al_scope p);
          poll_changed = (al_enabled old, al_interval old, al_polling old)
            \<noteq> (al_enabled p, al_interval p, al_polling p);
          w1 = (if poll_changed then poll_cleanup w else w);
          w2 = (if revision_changed then revision_effect p w1 else w1)
      in if poll_changed then poll_effect p w2 else w2)"

definition first_commit :: "auto_load_props \<Rightarrow> auto_load_world \<Rightarrow> auto_load_world" where
  "first_commit p w = poll_effect p (revision_effect p w)"

text \<open>The result of the hook.\<close>

definition hasNewEntries :: "auto_load_props \<Rightarrow> auto_load_world \<Rightarrow> bool" where
  "hasNewEntries p w \<longleftrightarrow> \<not> al_enabled p \<and> hasNewEntriesState w"

section \<open>Runs\<close>

text \<open>
  The page over time: renders with new props, poll ticks while the poll runs, the user
  scrolling to the next page or asking for the new entries, and the lifecycle events of the
  requests sent so far.
\<close>

datatype auto_load_event =
    Render auto_load_props
  | Tick
  | NextPage
  | LoadNewClicked
  | RequestEvent nat lifecycle

fun auto_load_step ::
  "auto_load_props \<times> auto_load_world \<Rightarrow> auto_load_event \<Rightarrow> auto_load_props \<times> auto_load_world" where
  "auto_load_step (p, w) (Render p') = (p', commit p p' w)"
| "auto_load_step (p, w) Tick = (p, if pollRunning w then poll_tick p w else w)"
| "auto_load_step (p, w) NextPage = (p, onBeforeNextPage w)"
| "auto_load_step (p, w) LoadNewClicked = (p, loadNewEntries p w)"
| "auto_load_step (p, w) (RequestEvent i ev) =
     (p, case map_of (issued w) i of None \<Rightarrow> w | Some k \<Rightarrow> deliver (kind_options k i) ev w)"

definition auto_load_run ::
  "auto_load_props \<times> auto_load_world \<Rightarrow> auto_load_event list \<Rightarrow> auto_load_props \<times> auto_load_world"
  where "auto_load_run s evs = foldl auto_load_step s evs"

subsection \<open>The refresh state\<close>

lemma core_truncate [simp]:
  "refresh_core (w\<lparr>listRevisionRef := a\<rparr>) = refresh_core w"
  "refresh_core (w\<lparr>baselineRevisionRef := a\<rparr>) = refresh_core w"
  "refresh_core (w\<lparr>scopeRef := s\<rparr>) = refresh_core w"
  "refresh_core (w\<lparr>browsingHistoryRef := b\<rparr>) = refresh_core w"
  "refresh_core (w\<lparr>pollCancelRef := t\<rparr>) = refresh_core w"
  "refresh_core (w\<lparr>hasNewEntriesState := b\<rparr>) = refresh_core w"
  "refresh_core (w\<lparr>wasEnabledRef := b\<rparr>) = refresh_core w"
  "refresh_core (w\<lparr>cancelCell := c\<rparr>) = refresh_core w"
  "refresh_core (w\<lparr>pollRunning := b\<rparr>) = refresh_core w"
  "refresh_core (w\<lparr>cancelledTokens := ts\<rparr>) = refresh_core w"
  "refresh_core (w\<lparr>issued := is\<rparr>) = refresh_core w"
  by (simp_all add: refresh_core_def)

interpretation own: quiet_callbacks "own_request_options p i mode" for p i mode
proof
  fix ev and w :: auto_load_world
  show "refresh_core (deliver (own_request_options p i mode) ev w) = refresh_core w"
    by (cases ev) (simp_all add: own_request_options_def empty_options_def)
qed

lemma kind_event_core:
  "refresh_core (deliver (kind_options k i) ev w) = track_event i ev (refresh_core w)"
proof (cases k)
  case (Automatic p mode)
  then show ?thesis using own.wrapped_event by (simp add: requestOptions_def)
next
  case (LoadNew p)
  show ?thesis
  proof (cases "\<exists>page. ev = Succeeded page")
    case True
    then obtain page where ev: "ev = Succeeded page" ..
    have "refresh_core (optional_call (onSuccess (requestOptions p i (Some Replace))) page w) =
        track_event i ev (refresh_core w)"
      using own.wrapped_event [of i p i "Some Replace" ev w]
      by (simp add: requestOptions_def ev)
    with LoadNew ev show ?thesis by (simp add: load_new_options_def Let_def)
  next
    case False
    then have "deliver (kind_options k i) ev w = deliver (requestOptions p i (Some Replace)) ev w"
      using LoadNew by (cases ev) (simp_all add: load_new_options_def Let_def)
    then show ?thesis using own.wrapped_event by (simp add: requestOptions_def)
  qed
qed

lemma send_core: "refresh_core (send k w) = snd (new_tracker (refresh_core w))"
  by (simp add: send_def new_tracker_def refresh_core_def)

lemma cancel_core [simp]:
  "refresh_core (cancelActivePoll w) = refresh_core w"
  "refresh_core (onBeforeNextPage w) = refresh_core w"
  "refresh_core (revision_effect p w) = refresh_core w"
  "refresh_core (poll_cleanup w) = refresh_core w"
  by (simp_all add: cancelActivePoll_def onBeforeNextPage_def revision_effect_def poll_cleanup_def
      Let_def split: option.split)

lemma refresh_inv_core: "refresh_inv w \<longleftrightarrow> refresh_inv (refresh_core w)"
  by (simp add: refresh_inv_def open_requests_def)

definition auto_load_inv :: "auto_load_world \<Rightarrow> bool" where
  "auto_load_inv w \<longleftrightarrow>
     refresh_inv (refresh_core w) \<and> (\<forall>e \<in> set (issued w). fst e < nextTracker w)"

lemma track_event_next [simp]: "nextTracker (track_event i ev w) = nextTracker w"
  by simp

lemma kind_event_next: "nextTracker (deliver (kind_options k i) ev w) = nextTracker w"
  using arg_cong [OF kind_event_core, of nextTracker] by simp

text \<open>What the tracker operations leave alone in this world.\<close>

lemma track_op_auto_frame [simp]:
  fixes w :: auto_load_world
  shows "issued (track_begin i w) = issued w" "issued (track_settle i w) = issued w"
    "issued (track_outcome i x w) = issued w" "issued (track_outcome_unset i x w) = issued w"
    "browsingHistoryRef (track_begin i w) = browsingHistoryRef w"
    "browsingHistoryRef (track_settle i w) = browsingHistoryRef w"
    "browsingHistoryRef (track_outcome i x w) = browsingHistoryRef w"
    "browsingHistoryRef (track_outcome_unset i x w) = browsingHistoryRef w"
    "scopeRef (track_begin i w) = scopeRef w" "scopeRef (track_settle i w) = scopeRef w"
    "scopeRef (track_outcome i x w) = scopeRef w" "scopeRef (track_outcome_unset i x w) = scopeRef w"
    "hasNewEntriesState (track_begin i w) = hasNewEntriesState w"
    "hasNewEntriesState (track_settle i w) = hasNewEntriesState w"
    "hasNewEntriesState (track_outcome i x w) = hasNewEntriesState w"
    "hasNewEntriesState (track_outcome_unset i x w) = hasNewEntriesState w"
    "baselineRevisionRef (track_begin i w) = baselineRevisionRef w"
    "baselineRevisionRef (track_settle i w) = baselineRevisionRef w"
    "baselineRevisionRef (track_outcome i x w) = baselineRevisionRef w"
    "baselineRevisionRef (track_outcome_unset i x w) = baselineRevisionRef w"
    "listRevisionRef (track_outcome i x w) = listRevisionRef w"
  by (simp_all add: refresh_op_defs)

lemma kind_event_issued [simp]: "issued (deliver (kind_options k i) ev w) = issued w"
  by (cases k; cases ev)
    (simp_all add: requestOptions_def load_new_options_def trackBackgroundRefresh_def
      own_request_options_def empty_options_def Let_def markFailure_def)

lemma automatic_event_frame:
  "browsingHistoryRef (deliver (kind_options (Automatic p m) i) ev w) = browsingHistoryRef w"
  "scopeRef (deliver (kind_options (Automatic p m) i) ev w) = scopeRef w"
  "hasNewEntriesState (deliver (kind_options (Automatic p m) i) ev w) = hasNewEntriesState w"
  "baselineRevisionRef (deliver (kind_options (Automatic p m) i) ev w) = baselineRevisionRef w"
  by (cases ev; simp add: requestOptions_def trackBackgroundRefresh_def own_request_options_def
      empty_options_def Let_def markFailure_def)+

lemma send_sel [simp]:
  "issued (send k w) = issued w @ [(nextTracker w, k)]"
  "nextTracker (send k w) = nextTracker w + 1"
  "browsingHistoryRef (send k w) = browsingHistoryRef w"
  "scopeRef (send k w) = scopeRef w"
  "hasNewEntriesState (send k w) = hasNewEntriesState w"
  "baselineRevisionRef (send k w) = baselineRevisionRef w"
  by (simp_all add: send_def new_tracker_def)

lemma cancel_sel [simp]:
  "issued (cancelActivePoll w) = issued w" "nextTracker (cancelActivePoll w) = nextTracker w"
  "browsingHistoryRef (cancelActivePoll w) = browsingHistoryRef w"
  "scopeRef (cancelActivePoll w) = scopeRef w"
  "hasNewEntriesState (cancelActivePoll w) = hasNewEntriesState w"
  "baselineRevisionRef (cancelActivePoll w) = baselineRevisionRef w"
  by (simp_all add: cancelActivePoll_def Let_def split: option.split)

lemma next_page_sel [simp]:
  "issued (onBeforeNextPage w) = issued w" "nextTracker (onBeforeNextPage w) = nextTracker w"
  "browsingHistoryRef (onBeforeNextPage w)" "scopeRef (onBeforeNextPage w) = scopeRef w"
  "hasNewEntriesState (onBeforeNextPage w) = hasNewEntriesState w"
  "baselineRevisionRef (onBeforeNextPage w) = baselineRevisionRef w"
  by (simp_all add: onBeforeNextPage_def Let_def)

lemma revision_effect_sel [simp]:
  "issued (revision_effect p w) = issued w" "nextTracker (revision_effect p w) = nextTracker w"
  "scopeRef (revision_effect p w) = al_scope p"
  by (simp_all add: revision_effect_def Let_def)

lemma poll_effect_sel [simp]:
  "scopeRef (poll_effect p w) = scopeRef w"
  "browsingHistoryRef (poll_effect p w) = browsingHistoryRef w"
  "hasNewEntriesState (poll_effect p w) = hasNewEntriesState w"
  "baselineRevisionRef (poll_effect p w) = baselineRevisionRef w"
  "issued (poll_cleanup w) = issued w" "nextTracker (poll_cleanup w) = nextTracker w"
  "scopeRef (poll_cleanup w) = scopeRef w"
  "browsingHistoryRef (poll_cleanup w) = browsingHistoryRef w"
  "hasNewEntriesState (poll_cleanup w) = hasNewEntriesState w"
  "baselineRevisionRef (poll_cleanup w) = baselineRevisionRef w"
  by (simp_all add: poll_effect_def poll_cleanup_def Let_def)

text \<open>The poll effect sends at most one request, of the mode for the current browsing state.\<close>

lemma poll_effect_sends:
  "poll_effect p w =
     (if al_polling p \<and> al_interval p > 0 \<and> al_enabled p \<and> \<not> wasEnabledRef w
      then (send (Automatic p (Some (entry_mode w))) w)
        \<lparr>pollRunning := True, wasEnabledRef := al_enabled p\<rparr>
      else w\<lparr>pollRunning := al_polling p \<and> al_interval p > 0, wasEnabledRef := al_enabled p\<rparr>)"
  by (simp add: poll_effect_def Let_def)

lemma auto_load_inv_send: "auto_load_inv w \<Longrightarrow> auto_load_inv (send k w)"
  by (auto simp: auto_load_inv_def send_core refresh_inv_new)

lemma auto_load_inv_poll_effect: "auto_load_inv w \<Longrightarrow> auto_load_inv (poll_effect p w)"
  using auto_load_inv_send [of w] by (simp add: poll_effect_sends auto_load_inv_def)

lemma auto_load_inv_quiet [simp]:
  "auto_load_inv (poll_cleanup w) = auto_load_inv w"
  "auto_load_inv (revision_effect p w) = auto_load_inv w"
  "auto_load_inv (cancelActivePoll w) = auto_load_inv w"
  "auto_load_inv (onBeforeNextPage w) = auto_load_inv w"
  by (simp_all add: auto_load_inv_def)

lemma auto_load_inv_commit: "auto_load_inv w \<Longrightarrow> auto_load_inv (commit old p w)"
  by (simp add: commit_def Let_def auto_load_inv_poll_effect)

lemma auto_load_inv_event:
  assumes "auto_load_inv w" and "map_of (issued w) i = Some k"
  shows "auto_load_inv (deliver (kind_options k i) ev w)"
proof -
  from assms have "i < nextTracker w" by (force simp: auto_load_inv_def dest: map_of_SomeD)
  with assms(1) show ?thesis
    by (auto simp: auto_load_inv_def kind_event_core kind_event_next refresh_inv_event)
qed

lemma auto_load_inv_step: "auto_load_inv (snd s) \<Longrightarrow> auto_load_inv (snd (auto_load_step s ev))"
  by (cases s; cases ev)
    (simp_all add: auto_load_inv_commit poll_tick_def auto_load_inv_send loadNewEntries_def
      auto_load_inv_event split: option.split)

lemma auto_load_inv_run: "auto_load_inv (snd s) \<Longrightarrow> auto_load_inv (snd (auto_load_run s evs))"
  by (induction evs arbitrary: s) (simp_all add: auto_load_run_def auto_load_inv_step)

definition start_auto_load :: "auto_load_props \<Rightarrow> refresh_world \<Rightarrow> auto_load_props \<times> auto_load_world" where
  "start_auto_load p r = (p, first_commit p (mount_auto_load p r))"

lemma mount_core: "refresh_core (mount_auto_load p r) = r"
  by (cases r) (simp add: mount_auto_load_def refresh_core_def refresh_world.defs)

lemma start_inv: "refresh_inv r \<Longrightarrow> auto_load_inv (snd (start_auto_load p r))"
  by (simp add: start_auto_load_def first_commit_def)
    (rule auto_load_inv_poll_effect, simp add: auto_load_inv_def mount_core,
      simp add: mount_auto_load_def refresh_world.defs)

subsection \<open>Browsing older pages\<close>

fun keeps_list :: "string \<Rightarrow> auto_load_event \<Rightarrow> bool" where
  "keeps_list scope (Render p) = (al_scope p = scope)"
| "keeps_list scope LoadNewClicked = False"
| "keeps_list scope _ = True"

fun automatic :: "request_kind \<Rightarrow> bool" where
  "automatic (Automatic _ _) = True"
| "automatic (LoadNew _) = False"

fun replaces :: "request_kind \<Rightarrow> bool" where
  "replaces (Automatic _ m) = (m = Some Replace)"
| "replaces (LoadNew _) = True"

lemma automatic_found:
  "list_all (automatic \<circ> snd) l \<Longrightarrow> map_of l i = Some k \<Longrightarrow> automatic k"
  by (force simp: list_all_iff dest: map_of_SomeD)

definition browsing :: "string \<Rightarrow> auto_load_world \<Rightarrow> bool" where
  "browsing scope w \<longleftrightarrow>
     browsingHistoryRef w \<and> scopeRef w = scope \<and> list_all (automatic \<circ> snd) (issued w)"

lemma revision_effect_browsing:
  "browsing (al_scope p) w \<Longrightarrow> browsing (al_scope p) (revision_effect p w)"
  by (simp add: browsing_def) (simp add: revision_effect_def Let_def)

lemma poll_effect_browsing:
  "browsing scope w \<Longrightarrow> browsing scope (poll_effect p w) \<and>
     (\<exists>new. issued (poll_effect p w) = issued w @ new \<and> list_all (\<lambda>e. \<not> replaces (snd e)) new)"
  by (auto simp: browsing_def poll_effect_sends entry_mode_def)

lemma commit_browsing:
  assumes "browsing scope w" and "al_scope p = scope"
  shows "browsing scope (commit old p w) \<and>
    (\<exists>new. issued (commit old p w) = issued w @ new \<and> list_all (\<lambda>e. \<not> replaces (snd e)) new)"
proof -
  have r: "browsing scope (poll_cleanup w)" "browsing scope (revision_effect p w)"
    "browsing scope (revision_effect p (poll_cleanup w))"
    using assms revision_effect_browsing [of p] by (simp_all add: browsing_def)
  then show ?thesis
    using assms(1) poll_effect_browsing [OF r(1), of p] poll_effect_browsing [OF r(3), of p]
    by (auto simp: commit_def Let_def)
qed

lemma step_browsing:
  assumes "browsing scope (snd s)" and "keeps_list scope ev"
  shows "browsing scope (snd (auto_load_step s ev)) \<and>
    (\<exists>new. issued (snd (auto_load_step s ev)) = issued (snd s) @ new \<and>
      list_all (\<lambda>e. \<not> replaces (snd e)) new)"
proof (cases ev)
  case (Render p)
  with assms commit_browsing show ?thesis by (cases s) simp
next
  case (RequestEvent i e)
  show ?thesis
  proof (cases "map_of (issued (snd s)) i")
    case None
    with assms(1) show ?thesis by (cases s) (simp add: RequestEvent)
  next
    case (Some k)
    with assms(1) have "automatic k"
      by (auto simp: browsing_def intro: automatic_found)
    then obtain p m where "k = Automatic p m" by (cases k) auto
    with assms(1) Some show ?thesis
      by (cases s) (simp add: RequestEvent browsing_def automatic_event_frame
          del: kind_options.simps)
  qed
next
  case Tick
  with assms(1) show ?thesis
    by (cases s) (auto simp: poll_tick_def browsing_def entry_mode_def)
next
  case NextPage
  with assms(1) show ?thesis by (cases s) (simp add: browsing_def)
qed (use assms in simp)

lemma run_browsing:
  assumes "browsing scope (snd s)" and "list_all (keeps_list scope) evs"
  shows "browsing scope (snd (auto_load_run s evs)) \<and>
    (\<exists>new. issued (snd (auto_load_run s evs)) = issued (snd s) @ new \<and>
      list_all (\<lambda>e. \<not> replaces (snd e)) new)"
  using assms
proof (induction evs arbitrary: s)
  case Nil
  then show ?case by (simp add: auto_load_run_def)
next
  case (Cons ev evs)
  from Cons.prems step_browsing [of scope s ev] obtain n1 where
    "browsing scope (snd (auto_load_step s ev))"
    "issued (snd (auto_load_step s ev)) = issued (snd s) @ n1" "list_all (\<lambda>e. \<not> replaces (snd e)) n1"
    by auto
  with Cons.prems Cons.IH [of "auto_load_step s ev"] show ?case
    by (auto simp: auto_load_run_def)
qed

subsection \<open>New entries\<close>

fun waiting_render :: "string \<Rightarrow> auto_load_event \<Rightarrow> bool" where
  "waiting_render scope (Render p) = (al_scope p = scope \<and> \<not> al_enabled p)"
| "waiting_render scope LoadNewClicked = False"
| "waiting_render scope _ = True"

definition rendered_revisions :: "auto_load_event list \<Rightarrow> string option list" where
  "rendered_revisions evs =
     concat (map (\<lambda>ev. case ev of Render p \<Rightarrow> [al_listRevision p] | _ \<Rightarrow> []) evs)"

definition newer :: "string option \<Rightarrow> string option \<Rightarrow> bool" where
  "newer base r \<longleftrightarrow> r \<noteq> None \<and> r \<noteq> base"

definition waiting :: "string \<Rightarrow> string option \<Rightarrow> auto_load_props \<times> auto_load_world \<Rightarrow> bool" where
  "waiting scope base s \<longleftrightarrow>
     al_scope (fst s) = scope \<and> \<not> al_enabled (fst s) \<and> scopeRef (snd s) = scope \<and>
     baselineRevisionRef (snd s) = base \<and> list_all (automatic \<circ> snd) (issued (snd s)) \<and>
     (newer base (al_listRevision (fst s)) \<longrightarrow> hasNewEntriesState (snd s))"

lemma commit_waiting:
  assumes "waiting scope base (old, w)" and "al_scope p = scope" and "\<not> al_enabled p"
  shows "waiting scope base (p, commit old p w) \<and>
    (hasNewEntriesState (commit old p w) \<longleftrightarrow>
      hasNewEntriesState w \<or> newer base (al_listRevision p))"
  using assms
  by (simp add: waiting_def commit_def Let_def poll_effect_sends)
    (auto simp: revision_effect_def newer_def Let_def poll_cleanup_def)

lemma step_waiting:
  assumes "waiting scope base s" and "waiting_render scope ev"
  shows "waiting scope base (auto_load_step s ev) \<and>
    (hasNewEntriesState (snd (auto_load_step s ev)) \<longleftrightarrow>
      hasNewEntriesState (snd s) \<or> (\<exists>r \<in> set (rendered_revisions [ev]). newer base r))"
proof (cases ev)
  case (Render p)
  with assms commit_waiting [of scope base "fst s" "snd s" p] show ?thesis
    by (cases s) (simp add: rendered_revisions_def)
next
  case (RequestEvent i e)
  show ?thesis
  proof (cases "map_of (issued (snd s)) i")
    case None
    with assms(1) show ?thesis by (cases s) (simp add: RequestEvent rendered_revisions_def)
  next
    case (Some k)
    with assms(1) have "automatic k"
      by (auto simp: waiting_def intro: automatic_found)
    then obtain p m where "k = Automatic p m" by (cases k) auto
    with assms(1) Some show ?thesis
      by (cases s) (simp add: RequestEvent waiting_def automatic_event_frame rendered_revisions_def
          del: kind_options.simps)
  qed
next
  case Tick
  with assms(1) show ?thesis by (cases s) (simp add: waiting_def poll_tick_def rendered_revisions_def)
next
  case NextPage
  with assms(1) show ?thesis by (cases s) (simp add: waiting_def rendered_revisions_def)
qed (use assms in simp)

lemma run_waiting:
  assumes "waiting scope base s" and "list_all (waiting_render scope) evs"
  shows "waiting scope base (auto_load_run s evs) \<and>
    (hasNewEntriesState (snd (auto_load_run s evs)) \<longleftrightarrow>
      hasNewEntriesState (snd s) \<or> (\<exists>r \<in> set (rendered_revisions evs). newer base r))"
  using assms
proof (induction evs arbitrary: s)
  case Nil
  then show ?case by (simp add: auto_load_run_def rendered_revisions_def)
next
  case (Cons ev evs)
  have "rendered_revisions (ev # evs) = rendered_revisions [ev] @ rendered_revisions evs"
    by (simp add: rendered_revisions_def)
  with Cons.prems step_waiting [of scope base s ev] Cons.IH [of "auto_load_step s ev"] show ?case
    by (auto simp: auto_load_run_def)
qed

section \<open>Properties\<close>


definition jobs_list :: auto_load_props where
  "jobs_list = \<lparr>al_enabled = True, al_prop = ''jobs'', al_interval = 5000,
     al_cursor = ''starting_at'', al_listRevision = Some ''r1'', al_additionalProps = [],
     al_includeSharedProps = True, al_scope = ''pending'', al_polling = True,
     al_loadedItemCount = 50\<rparr>"

lemmas auto_load_eval = jobs_list_def start_auto_load_def first_commit_def mount_auto_load_def
  refresh_world.defs initial_refresh_def revision_effect_def poll_effect_def Let_def
  firstPageSize_def auto_load_run_def poll_tick_def send_def new_tracker_def entry_mode_def
  onBeforeNextPage_def cancelActivePoll_def


text \<open>
  C16: the notice about new entries is exact. While automatic loading is off and the list's
  scope stays, the notice is shown after any run of renders, poll ticks, page loads and
  request events if and only if some render brought a revision other than the one the list was
  mounted with; so no new entry goes unnoticed and nothing else raises the notice.
\<close>

theorem new_entries_notice_exact:
  assumes "\<not> al_enabled p" and "list_all (waiting_render (al_scope p)) evs"
    and "s = auto_load_run (start_auto_load p r) evs"
  shows "hasNewEntries (fst s) (snd s) \<longleftrightarrow>
    (\<exists>rev \<in> set (rendered_revisions evs). newer (al_listRevision p) rev)"
proof -
  have "waiting (al_scope p) (al_listRevision p) (start_auto_load p r)"
    and "\<not> hasNewEntriesState (snd (start_auto_load p r))"
    using assms(1)
    by (simp_all add: waiting_def start_auto_load_def first_commit_def newer_def
        poll_effect_sends revision_effect_def mount_auto_load_def refresh_world.defs Let_def)
  from run_waiting [OF this(1) assms(2)] this(2) show ?thesis
    by (auto simp: hasNewEntries_def waiting_def assms(3))
qed

theorem new_entries_notice_exact_witness:
  "let p = jobs_list\<lparr>al_enabled := False\<rparr>;
       s = auto_load_run (start_auto_load p initial_refresh)
             [Tick, Render (p\<lparr>al_listRevision := Some ''r2''\<rparr>), NextPage]
   in hasNewEntries (fst s) (snd s)"
proof -
  let ?p = "jobs_list\<lparr>al_enabled := False\<rparr>"
  let ?evs = "[Tick, Render (?p\<lparr>al_listRevision := Some ''r2''\<rparr>), NextPage]"
  have "\<not> al_enabled ?p" "list_all (waiting_render (al_scope ?p)) ?evs" by simp_all
  from new_entries_notice_exact [OF this refl, of initial_refresh] show ?thesis
    by (simp add: rendered_revisions_def newer_def jobs_list_def Let_def)
qed

text \<open>
  The hook keeps the refresh indicator honest. Whatever is rendered, clicked and
  delivered, from a mount over a consistent indicator, the number of active requests stays
  exactly the number of its requests that have begun and not settled.
\<close>

lemma auto_load_keeps_count:
  assumes "refresh_inv r" and "w = snd (auto_load_run (start_auto_load p r) evs)"
  shows "activeCount w = int (card (open_requests w)) \<and>
    (currentStatus w = Refreshing \<longleftrightarrow> open_requests w \<noteq> {})"
proof -
  from auto_load_inv_run [OF start_inv [OF assms(1)]] have "auto_load_inv w"
    unfolding assms(2) .
  then have "refresh_inv w" using refresh_inv_core [of w] by (simp add: auto_load_inv_def)
  then show ?thesis using refresh_inv_status by (simp add: refresh_inv_def)
qed

text \<open>
  Loading the new entries on request replaces the list and clears the notice. The call
  first cancels a running poll and sends one replacing request; when it succeeds, the notice
  is gone, the view is back on the first page, and the baseline is the revision the page
  brought (or the latest rendered one, when it brought none).
\<close>

lemma load_new_entries_resets:
  "issued (loadNewEntries p w) = issued w @ [(nextTracker w, LoadNew p)] \<and>
   pollCancelRef (loadNewEntries p w) = None \<and>
   cancelledTokens (loadNewEntries p w) =
     cancelledTokens w @ (case pollCancelRef w of None \<Rightarrow> [] | Some t \<Rightarrow> [t]) \<and>
   vo_reset (kind_options (LoadNew p) i) = [al_prop p] \<and>
   \<not> hasNewEntries q (deliver (kind_options (LoadNew p) i) (Succeeded page) w) \<and>
   \<not> browsingHistoryRef (deliver (kind_options (LoadNew p) i) (Succeeded page) w) \<and>
   baselineRevisionRef (deliver (kind_options (LoadNew p) i) (Succeeded page) w) =
     (case props_listRevision page of Some r \<Rightarrow> Some r | None \<Rightarrow> listRevisionRef w)"
proof -
  have "pollCancelRef (send k w') = pollCancelRef w'" "cancelledTokens (send k w') = cancelledTokens w'"
    for k w' by (simp_all add: send_def new_tracker_def)
  then show ?thesis
    by (auto simp: loadNewEntries_def cancelActivePoll_def hasNewEntries_def load_new_options_def
        requestOptions_def trackBackgroundRefresh_def own_request_options_def empty_options_def
        Let_def split: option.split)
qed

end
