(* ===== verification/Page_Refresh.thy ===== *)
theory Page_Refresh
  imports Auto_Refresh Complex_Main
begin

text \<open>
  The timed refreshes of a page: \<^verbatim>\<open>hooks/use-dashboard-refresh.ts\<close> (polling a set of page
  props), \<^verbatim>\<open>hooks/use-job-filter-catalog-refresh.ts\<close> (one throttled request for the filter
  catalog), and \<^verbatim>\<open>hooks/use-scheduled-job-clock.ts\<close> with \<^verbatim>\<open>lib/pending-job-state.ts\<close> (the
  clock that moves delayed jobs to released).
\<close>

section \<open>Polling page props\<close>

definition dashboardProps :: "string list" where
  "dashboardProps = [''summary'', ''workload'', ''supervisors'']"

record page_refresh_props =
  pr_interval :: int
  pr_props :: "string list"
  pr_enabled :: bool
  pr_includeSharedProps :: bool

record page_refresh_world = refresh_world +
  wasPollingRef :: bool
  pagePolling :: bool \<comment> \<open>the client's poll timer runs\<close>
  reloads :: "(nat \<times> string list) list" \<comment> \<open>the requests sent, with the props they ask for\<close>

definition own_page_options :: "page_refresh_props \<Rightarrow> 'w visit_options" where
  "own_page_options p = empty_options\<lparr>
     vo_only := uniq (pr_props p @
       (if pr_includeSharedProps p then [''horizon'', ''navigationCounts''] else [])),
     vo_preserveUrl := Some True, vo_showProgress := Some False\<rparr>"

definition page_request_options ::
  "page_refresh_props \<Rightarrow> nat \<Rightarrow> page_refresh_world visit_options" where
  "page_request_options p i = trackBackgroundRefresh i (own_page_options p)"

interpretation page: quiet_callbacks "own_page_options p :: page_refresh_world visit_options" for p
proof
  fix ev and w :: page_refresh_world
  show "refresh_core (deliver (own_page_options p) ev w) = refresh_core w"
    by (cases ev) (simp_all add: own_page_options_def empty_options_def)
qed

definition send_page :: "page_refresh_props \<Rightarrow> page_refresh_world \<Rightarrow> page_refresh_world" where
  "send_page p w =
     (let (i, w') = new_tracker w
      in w'\<lparr>reloads := reloads w' @ [(i, vo_only (page_request_options p i))]\<rparr>)"

definition shouldPoll :: "page_refresh_props \<Rightarrow> bool" where
  "shouldPoll p \<longleftrightarrow> pr_enabled p \<and> pr_interval p > 0"

definition page_refresh_effect ::
  "page_refresh_props \<Rightarrow> page_refresh_world \<Rightarrow> page_refresh_world" where
  "page_refresh_effect p w =
     (let w' = (if shouldPoll p then
                  (let w1 = (if \<not> wasPollingRef w then send_page p w else w)
                   in w1\<lparr>pagePolling := True\<rparr>)
                else w\<lparr>pagePolling := False\<rparr>)
      in w'\<lparr>wasPollingRef := shouldPoll p\<rparr>)"

text \<open>
  Mounting sets \<open>wasPollingRef\<close> and runs the effect; a later render runs its cleanup
  (stopping the poll) and the effect again when a dependency changed.
\<close>

definition mount_page_refresh :: "page_refresh_props \<Rightarrow> refresh_world \<Rightarrow> page_refresh_world" where
  "mount_page_refresh p r = page_refresh_effect p (refresh_world.extend r
     \<lparr>wasPollingRef = pr_enabled p \<and> pr_interval p > 0, pagePolling = False, reloads = []\<rparr>)"

definition render_page_refresh ::
  "page_refresh_props \<Rightarrow> page_refresh_props \<Rightarrow> page_refresh_world \<Rightarrow> page_refresh_world" where
  "render_page_refresh old p w =
     (if (pr_enabled old, pr_includeSharedProps old, pr_interval old) \<noteq>
         (pr_enabled p, pr_includeSharedProps p, pr_interval p)
      then page_refresh_effect p (w\<lparr>pagePolling := False\<rparr>) else w)"

definition useDashboardRefresh :: "int \<Rightarrow> bool \<Rightarrow> page_refresh_props" where
  "useDashboardRefresh interval enabled = \<lparr>pr_interval = interval, pr_props = dashboardProps,
     pr_enabled = enabled, pr_includeSharedProps = True\<rparr>"

fun page_refresh_run ::
  "page_refresh_props \<Rightarrow> page_refresh_props list \<Rightarrow> page_refresh_world \<Rightarrow> page_refresh_world" where
  "page_refresh_run old [] w = w"
| "page_refresh_run old (p # ps) w = page_refresh_run p ps (render_page_refresh old p w)"

text \<open>The renders at which polling becomes possible.\<close>

fun switched_on :: "page_refresh_props \<Rightarrow> page_refresh_props list \<Rightarrow> page_refresh_props list" where
  "switched_on old [] = []"
| "switched_on old (p # ps) =
     (if shouldPoll p \<and> \<not> shouldPoll old then [p] else []) @ switched_on p ps"

definition page_refresh_inv :: "page_refresh_props \<Rightarrow> page_refresh_world \<Rightarrow> bool" where
  "page_refresh_inv p w \<longleftrightarrow>
     wasPollingRef w = shouldPoll p \<and> pagePolling w = shouldPoll p \<and> refresh_inv (refresh_core w)"

lemma page_only [simp]:
  "vo_only (page_request_options p i) = uniq (pr_props p @
     (if pr_includeSharedProps p then [''horizon'', ''navigationCounts''] else []))"
  by (simp add: page_request_options_def trackBackgroundRefresh_def own_page_options_def)

lemma send_page_sel [simp]:
  "reloads (send_page p w) = reloads w @ [(nextTracker w, vo_only (page_request_options p 0))]"
  "wasPollingRef (send_page p w) = wasPollingRef w"
  "refresh_core (send_page p w) = snd (new_tracker (refresh_core w))"
  by (simp_all add: send_page_def new_tracker_def refresh_core_def)

lemma page_core [simp]:
  "refresh_core (w\<lparr>pagePolling := b\<rparr>) = refresh_core w"
  "refresh_core (w\<lparr>wasPollingRef := b\<rparr>) = refresh_core w"
  by (simp_all add: refresh_core_def)

lemma effect_sel:
  "wasPollingRef (page_refresh_effect p w) = shouldPoll p"
  "pagePolling (page_refresh_effect p w) = shouldPoll p"
  "map snd (reloads (page_refresh_effect p w)) = map snd (reloads w) @
     (if shouldPoll p \<and> \<not> wasPollingRef w then [vo_only (page_request_options p 0)] else [])"
  "refresh_inv (refresh_core w) \<Longrightarrow> refresh_inv (refresh_core (page_refresh_effect p w))"
  by (simp_all add: page_refresh_effect_def Let_def refresh_inv_new)

lemma mounted_page_inv: "refresh_inv r \<Longrightarrow> page_refresh_inv p (mount_page_refresh p r)"
  unfolding mount_page_refresh_def page_refresh_inv_def
  by (intro conjI effect_sel(1,2)) (rule effect_sel(4), simp add: refresh_world.defs refresh_core_def refresh_inv_def open_requests_def)

lemma render_step:
  assumes "page_refresh_inv old w"
  shows "page_refresh_inv p (render_page_refresh old p w) \<and>
    map snd (reloads (render_page_refresh old p w)) = map snd (reloads w) @
      (if shouldPoll p \<and> \<not> shouldPoll old then [vo_only (page_request_options p 0)] else [])"
proof (cases "(pr_enabled old, pr_includeSharedProps old, pr_interval old) =
    (pr_enabled p, pr_includeSharedProps p, pr_interval p)")
  case True
  then have "shouldPoll p = shouldPoll old" by (simp add: shouldPoll_def)
  with True assms show ?thesis by (simp add: render_page_refresh_def page_refresh_inv_def)
next
  case False
  then have r: "render_page_refresh old p w = page_refresh_effect p (w\<lparr>pagePolling := False\<rparr>)"
    by (auto simp: render_page_refresh_def)
  from assms show ?thesis by (simp add: r page_refresh_inv_def effect_sel)
qed

text \<open>
  A page asks for fresh data exactly when polling is switched on. Over any sequence of
  renders, the requests the hook sends itself are one per render at which polling became
  possible, each for the page's props without repetition; and after every render the poll timer
  runs if and only if polling is enabled with a positive interval.
\<close>

lemma page_refresh_reloads:
  assumes "page_refresh_inv old w"
  shows "map snd (reloads (page_refresh_run old ps w)) = map snd (reloads w) @
      map (\<lambda>p. vo_only (page_request_options p 0)) (switched_on old ps) \<and>
    pagePolling (page_refresh_run old ps w) = shouldPoll (last (old # ps))"
  using assms
proof (induction ps arbitrary: old w)
  case Nil
  then show ?case by (simp add: page_refresh_inv_def)
next
  case (Cons p ps)
  from render_step [OF Cons.prems, of p] Cons.IH [of p "render_page_refresh old p w"] show ?case
    by simp
qed

section \<open>The filter catalog\<close>

definition minimumFreshnessWindow :: int where
  "minimumFreshnessWindow = 250"

definition filterCatalogProps :: "string list" where
  "filterCatalogProps = [''filterCatalog'']"

text \<open>
  The refs of the hook; a catalog object is named by its identity. \<open>sent\<close> records the start
  time of every request and \<open>ownCancel\<close> its closure variable \<open>cancelRequest\<close>.
\<close>

record catalog_world =
  inFlightRef :: bool
  cancelRequestRef :: "cancel_token option"
  catalogRef :: "nat option"
  refreshedAtRef :: int
  ownCancel :: "nat \<Rightarrow> cancel_token option"
  sent :: "int list"
  cancelled :: "cancel_token list"

definition mount_catalog :: "nat option \<Rightarrow> int \<Rightarrow> catalog_world" where
  "mount_catalog filterCatalog now = \<lparr>inFlightRef = False, cancelRequestRef = None,
     catalogRef = filterCatalog, refreshedAtRef = (if filterCatalog = None then 0 else now),
     ownCancel = (\<lambda>_. None), sent = [], cancelled = []\<rparr>"

definition catalog_effect :: "nat option \<Rightarrow> int \<Rightarrow> catalog_world \<Rightarrow> catalog_world" where
  "catalog_effect filterCatalog now w =
     (if filterCatalog = None \<or> catalogRef w = filterCatalog then w
      else w\<lparr>catalogRef := filterCatalog, refreshedAtRef := now\<rparr>)"

definition catalog_unmount :: "catalog_world \<Rightarrow> catalog_world" where
  "catalog_unmount w = w\<lparr>cancelRequestRef := None,
     cancelled := cancelled w @ (case cancelRequestRef w of None \<Rightarrow> [] | Some t \<Rightarrow> [t])\<rparr>"

definition freshnessWindow :: "int \<Rightarrow> int" where
  "freshnessWindow interval = max interval minimumFreshnessWindow"

definition refreshedRecently :: "int \<Rightarrow> int \<Rightarrow> catalog_world \<Rightarrow> bool" where
  "refreshedRecently interval now w \<longleftrightarrow>
     refreshedAtRef w > 0 \<and> now - refreshedAtRef w < freshnessWindow interval"

definition refreshCatalog :: "int \<Rightarrow> int \<Rightarrow> catalog_world \<Rightarrow> catalog_world" where
  "refreshCatalog interval now w =
     (if inFlightRef w \<or> refreshedRecently interval now w then w
      else w\<lparr>inFlightRef := True, sent := sent w @ [now],
             ownCancel := (ownCancel w)(length (sent w) := None)\<rparr>)"

text \<open>The callbacks of request \<open>i\<close>, at time \<open>now\<close>.\<close>

definition catalog_options :: "nat \<Rightarrow> int \<Rightarrow> catalog_world visit_options" where
  "catalog_options i now = empty_options\<lparr>
     vo_only := filterCatalogProps, vo_preserveUrl := Some True, vo_showProgress := Some False,
     onCancelToken := Some (\<lambda>token w.
       w\<lparr>ownCancel := (ownCancel w)(i := Some token), cancelRequestRef := Some token\<rparr>),
     onSuccess := Some (\<lambda>_ w. w\<lparr>refreshedAtRef := now\<rparr>),
     onFinish := Some (\<lambda>_ w.
       (if cancelRequestRef w = ownCancel w i then w\<lparr>cancelRequestRef := None\<rparr> else w)
         \<lparr>inFlightRef := False\<rparr>)\<rparr>"

text \<open>
  A run: the user opens the filter, renders bring catalogs, and the one running request (the
  last one sent) receives its events; it finishes at most once. Times do not decrease.
\<close>

datatype catalog_event =
    Open int int \<comment> \<open>interval, now\<close>
  | NewCatalog "nat option" int
  | CatalogRequest lifecycle int

fun event_time :: "catalog_event \<Rightarrow> int" where
  "event_time (Open _ now) = now"
| "event_time (NewCatalog _ now) = now"
| "event_time (CatalogRequest _ now) = now"

fun catalog_step :: "catalog_event \<Rightarrow> catalog_world \<Rightarrow> catalog_world" where
  "catalog_step (Open interval now) w = refreshCatalog interval now w"
| "catalog_step (NewCatalog c now) w = catalog_effect c now w"
| "catalog_step (CatalogRequest ev now) w =
     (if inFlightRef w then deliver (catalog_options (length (sent w) - 1) now) ev w else w)"

definition catalog_run :: "catalog_event list \<Rightarrow> catalog_world \<Rightarrow> catalog_world" where
  "catalog_run evs w = fold catalog_step evs w"

definition succeeded_since :: "catalog_world \<Rightarrow> catalog_event list \<Rightarrow> bool" where
  "succeeded_since w evs \<longleftrightarrow> refreshedAtRef (catalog_run evs w) \<noteq> refreshedAtRef w"

lemma catalog_request_sent [simp]: "sent (deliver (catalog_options i now) ev w) = sent w"
  by (cases ev) (simp_all add: catalog_options_def empty_options_def)

lemma catalog_step_sent:
  "sent (catalog_step ev w) =
     (case ev of
        Open interval now \<Rightarrow>
          if inFlightRef w \<or> refreshedRecently interval now w then sent w else sent w @ [now]
      | _ \<Rightarrow> sent w)"
  by (cases ev) (simp_all add: refreshCatalog_def catalog_effect_def)

lemma catalog_in_flight:
  "inFlightRef (deliver (catalog_options i now) ev w) = (inFlightRef w \<and> (\<forall>v. ev \<noteq> Finished v))"
  by (cases ev) (auto simp: catalog_options_def empty_options_def)

lemma catalog_step_running:
  assumes "inFlightRef w" and "\<forall>v now. ev \<noteq> CatalogRequest (Finished v) now"
  shows "inFlightRef (catalog_step ev w) \<and> sent (catalog_step ev w) = sent w"
  using assms
  by (cases ev) (auto simp: refreshCatalog_def catalog_effect_def catalog_in_flight)

lemma catalog_run_running:
  assumes "inFlightRef w" and "\<forall>v now. CatalogRequest (Finished v) now \<notin> set evs"
  shows "inFlightRef (catalog_run evs w) \<and> sent (catalog_run evs w) = sent w"
  using assms
proof (induction evs arbitrary: w)
  case Nil
  then show ?case by (simp add: catalog_run_def)
next
  case (Cons ev evs)
  then have "inFlightRef (catalog_step ev w) \<and> sent (catalog_step ev w) = sent w"
    by (intro catalog_step_running) auto
  with Cons.prems Cons.IH [of "catalog_step ev w"] show ?case by (simp add: catalog_run_def)
qed

text \<open>
  Opening the filters never floods the server. A request is sent only when none is running
  and no catalog arrived within the freshness window (the poll interval, at least 250 ms): while
  a request runs, no sequence of openings, renders and request events other than its end sends
  another; and after a catalog arrived at \<open>t > 0\<close>, openings before \<open>t + freshnessWindow\<close>
  send nothing.
\<close>

lemma catalog_requests_throttled:
  assumes "inFlightRef w \<and> (\<forall>v now. CatalogRequest (Finished v) now \<notin> set evs) \<or>
    refreshedAtRef w > 0 \<and>
    (\<forall>ev \<in> set evs. \<exists>interval now. ev = Open interval now \<and>
       now < refreshedAtRef w + freshnessWindow interval)"
  shows "sent (catalog_run evs w) = sent w"
  using assms
proof
  assume "inFlightRef w \<and> (\<forall>v now. CatalogRequest (Finished v) now \<notin> set evs)"
  then show ?thesis using catalog_run_running by blast
next
  assume "refreshedAtRef w > 0 \<and> (\<forall>ev \<in> set evs. \<exists>interval now. ev = Open interval now \<and>
       now < refreshedAtRef w + freshnessWindow interval)"
  then have "catalog_run evs w = w"
    by (induction evs) (auto simp: catalog_run_def refreshCatalog_def refreshedRecently_def)
  then show ?thesis by simp
qed

section \<open>Scheduled jobs\<close>

datatype PendingJobState = Ready | Reserved | Delayed | Released

definition pendingJobState :: "string \<Rightarrow> rat option \<Rightarrow> rat \<Rightarrow> PendingJobState" where
  "pendingJobState status scheduledAt now =
     (if status = ''reserved'' then Reserved
      else case scheduledAt of
        None \<Rightarrow> Ready
      | Some t \<Rightarrow> if t > now then Delayed else Released)"

definition maximumTimeout :: rat where
  "maximumTimeout = 2147483647"

text \<open>The loop of \<open>useScheduledJobClock\<close> over the jobs' \<open>scheduledAt\<close>.\<close>

definition next_scheduled :: "rat \<Rightarrow> rat option list \<Rightarrow> rat option" where
  "next_scheduled now jobs =
     foldl (\<lambda>best job. case job of
        None \<Rightarrow> best
      | Some t \<Rightarrow>
          if t > now \<and> (best = None \<or> (\<exists>b. best = Some b \<and> t < b)) then Some t else best)
       None jobs"

text \<open>The timeout armed for it, in milliseconds, when the effect runs at \<open>now\<close> seconds.\<close>

definition clock_timeout :: "rat \<Rightarrow> rat \<Rightarrow> rat" where
  "clock_timeout nextScheduledAt now =
     min maximumTimeout (max 0 ((nextScheduledAt - now) * 1000 + 1))"

lemma next_scheduled_spec:
  "case next_scheduled now jobs of
     None \<Rightarrow> \<forall>t. Some t \<in> set jobs \<longrightarrow> t \<le> now
   | Some m \<Rightarrow> Some m \<in> set jobs \<and> now < m \<and> (\<forall>t. Some t \<in> set jobs \<longrightarrow> now < t \<longrightarrow> m \<le> t)"
proof (induction jobs rule: rev_induct)
  case Nil
  then show ?case by (simp add: next_scheduled_def)
next
  case (snoc job jobs)
  then show ?case
    by (cases job; cases "next_scheduled now jobs")
      (force simp: next_scheduled_def split: option.splits)+
qed

lemma next_scheduled_None: "next_scheduled now jobs = None \<Longrightarrow> Some t \<in> set jobs \<Longrightarrow> t \<le> now"
  using next_scheduled_spec [where now = now and jobs = jobs] by simp

lemma next_scheduled_Some:
  "next_scheduled now jobs = Some m \<Longrightarrow>
   Some m \<in> set jobs \<and> now < m \<and> (\<forall>t. Some t \<in> set jobs \<longrightarrow> now < t \<longrightarrow> m \<le> t)"
  using next_scheduled_spec [where now = now and jobs = jobs] by simp

text \<open>
  The clock of scheduled jobs is accurate. The rendered state of every listed job stays
  right until the clock's next tick is due: before the earliest scheduled time no job changes
  between delayed and released (never, when none is scheduled). The armed timeout lies within
  what a browser timer can hold, and, unless it was capped, by the time it fires the job it was
  armed for counts as released.
\<close>

lemma scheduled_clock_accurate:
  assumes "Some t \<in> set jobs" and "now \<le> later"
    and "case next_scheduled now jobs of None \<Rightarrow> True | Some m \<Rightarrow> later < m"
  shows "pendingJobState status (Some t) later = pendingJobState status (Some t) now \<and>
    0 \<le> clock_timeout m now \<and> clock_timeout m now \<le> 2147483647 \<and>
    (clock_timeout m now < maximumTimeout \<longrightarrow>
      pendingJobState status (Some m) (now + clock_timeout m now / 1000) \<noteq> Delayed)"
proof -
  have "t > later \<longleftrightarrow> t > now"
  proof (cases "next_scheduled now jobs")
    case None
    with next_scheduled_None [OF None assms(1)] assms(2) show ?thesis by simp
  next
    case (Some m)
    with next_scheduled_Some [OF Some] assms show ?thesis by fastforce
  qed
  moreover have "m \<le> now + clock_timeout m now / 1000" if "clock_timeout m now < maximumTimeout"
    using that by (auto simp: clock_timeout_def max_def min_def field_simps split: if_splits)
  moreover have "0 \<le> clock_timeout m now \<and> clock_timeout m now \<le> 2147483647"
    by (simp add: clock_timeout_def maximumTimeout_def)
  ultimately show ?thesis by (auto simp: pendingJobState_def)
qed

end
