(* ===== verification/Types_Jobs.thy ===== *)
theory Types_Jobs
  imports Types_Dashboard
begin

text \<open>
  The data of the job pages: \<^verbatim>\<open>resources/js/types/jobs.ts\<close>. Nullable and optional fields
  are options; unstructured JSON values have the type \<open>json\<close>.
\<close>

datatype json =
    JNull
  | JBool bool
  | JNum rat
  | JStr string
  | JArr "json list"
  | JObj "(string \<times> json) list"

datatype JobListType = PendingList | CompletedList | SilencedList

datatype JobFilterKey = JobKey | QueueKey | ConnectionKey | StateKey

datatype JobSort = ByName | ByPushedAt | ByCompletedAt | ByFailedAt | ByRuntime

record JobFilterValues =
  jf_job :: "string option"
  jf_queue :: "string option"
  jf_connection :: "string option"
  jf_state :: "string option"

record JobOption =
  jo_value :: string
  jo_label :: string

record JobFilterCatalog =
  jfc_available :: bool
  jfc_jobs :: "JobOption list"
  jfc_queues :: "string list"
  jfc_connections :: "string list"
  jfc_message :: "string option"

record JobRow =
  jr_id :: string
  jr_index :: int
  jr_name :: string
  jr_shortName :: string
  jr_connection :: string
  jr_queue :: string
  jr_status :: string
  jr_tags :: "string list"
  jr_attempts :: int
  jr_attemptsComplete :: "bool option"
  jr_retryOf :: "string option"
  jr_delay :: "rat option"
  jr_scheduledAt :: "rat option"
  jr_originalScheduledAt :: "rat option"
  jr_pushedAt :: "rat option"
  jr_reservedAt :: "rat option"
  jr_completedAt :: "rat option"
  jr_failedAt :: "rat option"
  jr_runtime :: "rat option"
  jr_occurredAt :: "rat option"
  jr_retried :: bool
  jr_retryCompleted :: bool
  jr_retryCount :: int
  jr_latestRetryStatus :: "string option"
  jr_retryEligible :: bool
  jr_inspectable :: "bool option"

record JobCollection =
  jc_data :: "JobRow list"
  jc_total :: int
  jc_available :: bool
  jc_message :: "string option"

text \<open>\<open>JobDetail\<close> omits fields of \<open>JobRow\<close>; \<open>FailedJobDetail\<close> omits \<open>completedAt\<close>, which is \<open>None\<close>.\<close>

record JobDetail =
  jd_id :: string
  jd_name :: string
  jd_shortName :: string
  jd_connection :: string
  jd_queue :: string
  jd_status :: string
  jd_tags :: "string list"
  jd_attempts :: int
  jd_retryOf :: "string option"
  jd_delay :: "rat option"
  jd_scheduledAt :: "rat option"
  jd_originalScheduledAt :: "rat option"
  jd_pushedAt :: "rat option"
  jd_reservedAt :: "rat option"
  jd_completedAt :: "rat option"
  jd_failedAt :: "rat option"
  jd_runtime :: "rat option"
  jd_inspectable :: "bool option"
  jd_batchId :: "string option"
  jd_payload :: "(string \<times> json) list"

record FailedJobRetry =
  fr_id :: string
  fr_status :: string
  fr_retriedAt :: "rat option"

record FailedJobDetail = JobDetail +
  fd_retried :: bool
  fd_retriedBy :: "FailedJobRetry list"
  fd_retryEligible :: bool
  fd_context :: "(string \<times> json) list"
  fd_exception :: string

record FailedJobBulkActions =
  fa_hasFailedJobs :: bool
  fa_retryable :: bool
  fa_retryUnavailableReason :: "string option"
  fa_clearable :: bool
  fa_clearUnavailableReason :: "string option"

record JobsHorizon =
  jh_baseUrl :: string
  jh_pollInterval :: int
  jh_status :: HorizonStatus

record FailedJobsPageProps =
  fjp_horizon :: JobsHorizon
  fjp_query :: string
  fjp_filters :: JobFilterValues
  fjp_filterCatalog :: "JobFilterCatalog option"
  fjp_querySignature :: string
  fjp_listRevision :: string
  fjp_actions :: FailedJobBulkActions
  fjp_jobs :: JobCollection

record FailedJobDetailPageProps =
  fdp_horizon :: JobsHorizon
  fdp_job :: FailedJobDetail

record PendingCounts =
  pc_available :: bool
  pc_ready :: "int option"
  pc_delayed :: "int option"

record JobsPageProps =
  jp_horizon :: JobsHorizon
  jp_type :: JobListType
  jp_query :: string
  jp_pendingCounts :: "PendingCounts option"
  jp_filters :: JobFilterValues
  jp_filterCatalog :: "JobFilterCatalog option"
  jp_querySignature :: string
  jp_listRevision :: string
  jp_jobs :: JobCollection

record JobDetailPageProps =
  jdp_horizon :: JobsHorizon
  jdp_type :: JobListType
  jdp_job :: JobDetail

definition emptyJobFilterValues :: JobFilterValues where
  "emptyJobFilterValues = \<lparr>jf_job = None, jf_queue = None, jf_connection = None, jf_state = None\<rparr>"

fun set_filter :: "JobFilterKey \<Rightarrow> string option \<Rightarrow> JobFilterValues \<Rightarrow> JobFilterValues" where
  "set_filter JobKey v f = f\<lparr>jf_job := v\<rparr>"
| "set_filter QueueKey v f = f\<lparr>jf_queue := v\<rparr>"
| "set_filter ConnectionKey v f = f\<lparr>jf_connection := v\<rparr>"
| "set_filter StateKey v f = f\<lparr>jf_state := v\<rparr>"

fun get_filter :: "JobFilterKey \<Rightarrow> JobFilterValues \<Rightarrow> string option" where
  "get_filter JobKey f = jf_job f"
| "get_filter QueueKey f = jf_queue f"
| "get_filter ConnectionKey f = jf_connection f"
| "get_filter StateKey f = jf_state f"

end
