(* ===== verification/Json_Text.thy ===== *)
theory Json_Text
  imports Prelude
begin

text \<open>
  \<open>JSON.stringify\<close> on an array of strings and nulls, as the hooks use it to compare states,
  and the fact they rely on: the text determines the array. \<open>unescape\<close> reads one escaped
  character back.
\<close>

definition hex_digit :: "nat \<Rightarrow> char" where
  "hex_digit n = ''0123456789abcdef'' ! n"

definition json_escape :: "char \<Rightarrow> string" where
  "json_escape c =
     (if c = CHR 0x22 then [CHR 0x5C, CHR 0x22]
      else if c = CHR 0x5C then [CHR 0x5C, CHR 0x5C]
      else if c = CHR 0x08 then [CHR 0x5C, CHR ''b'']
      else if c = CHR 0x0C then [CHR 0x5C, CHR ''f'']
      else if c = CHR 0x0A then [CHR 0x5C, CHR ''n'']
      else if c = CHR 0x0D then [CHR 0x5C, CHR ''r'']
      else if c = CHR 0x09 then [CHR 0x5C, CHR ''t'']
      else if of_char c < (32::nat)
        then [CHR 0x5C, CHR ''u'', CHR ''0'', CHR ''0'', hex_digit (of_char c div 16),
              hex_digit (of_char c mod 16)]
      else [c])"

definition json_quote :: "string \<Rightarrow> string" where
  "json_quote s = CHR 0x22 # concat (map json_escape s) @ [CHR 0x22]"

fun json_item :: "string option \<Rightarrow> string" where
  "json_item None = ''null''"
| "json_item (Some s) = json_quote s"

definition stringify :: "string option list \<Rightarrow> string" where
  "stringify items = CHR ''['' # join '','' (map json_item items) @ '']''"

section \<open>Reading the text back\<close>

definition hex_value :: "char \<Rightarrow> nat" where
  "hex_value c = (if c \<in> set ''abcdef'' then of_char c - 87 else of_char c - 48)"

fun unescape :: "string \<Rightarrow> (char \<times> string) option" where
  "unescape [] = None"
| "unescape (c # r) =
     (if c \<noteq> CHR 0x5C then Some (c, r)
      else case r of
        [] \<Rightarrow> None
      | e # r' \<Rightarrow>
          if e = CHR ''b'' then Some (CHR 0x08, r')
          else if e = CHR ''f'' then Some (CHR 0x0C, r')
          else if e = CHR ''n'' then Some (CHR 0x0A, r')
          else if e = CHR ''r'' then Some (CHR 0x0D, r')
          else if e = CHR ''t'' then Some (CHR 0x09, r')
          else if e = CHR ''u'' then
            Some (char_of (16 * hex_value (r' ! 2) + hex_value (r' ! 3)), drop 4 r')
          else Some (e, r'))"

lemma hex_round_trip:
  "of_char c < (32::nat) \<Longrightarrow>
   char_of (16 * hex_value (hex_digit (of_char c div 16)) + hex_value (hex_digit (of_char c mod 16))) = c"
proof -
  assume "of_char c < (32::nat)"
  then have lt: "(of_char c :: nat) div 16 < 2" "(of_char c :: nat) mod 16 < 16" by auto
  have "hex_value (hex_digit n) = n" if "n < 16" for n
  proof -
    from that have "n \<in> {0,1,2,3,4,5,6,7,8,9,10,11,12,13,14,15}"
      unfolding insert_iff empty_iff by arith
    then show ?thesis by (auto simp: hex_digit_def hex_value_def)
  qed
  with lt show ?thesis by simp
qed

lemma unescape_escape: "unescape (json_escape c @ r) = Some (c, r)"
  by (simp add: json_escape_def hex_round_trip)

lemma escape_not_quote: "\<exists>d t. json_escape c = d # t \<and> d \<noteq> CHR 0x22"
  by (simp add: json_escape_def)

lemma escape_inject:
  "json_escape c @ r = json_escape c' @ r' \<Longrightarrow> c = c' \<and> r = r'"
  by (metis unescape_escape option.inject prod.inject)

lemma quoted_inject:
  "concat (map json_escape s) @ CHR 0x22 # r = concat (map json_escape s') @ CHR 0x22 # r' \<Longrightarrow>
   s = s' \<and> r = r'"
proof (induction s arbitrary: s')
  case Nil
  show ?case
  proof (cases s')
    case (Cons c t)
    with Nil escape_not_quote [of c] show ?thesis by auto
  qed (use Nil in simp)
next
  case (Cons c s)
  show ?case
  proof (cases s')
    case Nil
    with Cons.prems escape_not_quote [of c] show ?thesis by auto
  next
    case (Cons d t)
    from Cons.prems [unfolded Cons] have
      "json_escape c @ (concat (map json_escape s) @ CHR 0x22 # r) =
       json_escape d @ (concat (map json_escape t) @ CHR 0x22 # r')" by simp
    from escape_inject [OF this] Cons.IH [of t] Cons show ?thesis by simp
  qed
qed

lemma item_inject: "json_item x @ r = json_item y @ r' \<Longrightarrow> x = y \<and> r = r'"
  by (cases x; cases y) (auto simp: json_quote_def dest: quoted_inject)

lemma items_inject:
  "length xs = length ys \<Longrightarrow>
   join '','' (map json_item xs) @ r = join '','' (map json_item ys) @ r' \<Longrightarrow> xs = ys \<and> r = r'"
proof (induction xs ys arbitrary: r r' rule: list_induct2)
  case Nil
  then show ?case by simp
next
  case (Cons x xs y ys)
  show ?case
  proof (cases xs)
    case Nil
    with Cons show ?thesis by (auto dest: item_inject)
  next
    case (Cons x' xs')
    then obtain y' ys' where ys: "ys = y' # ys'" using \<open>length xs = length ys\<close> by (cases ys) auto
    from Cons.prems have "json_item x @ '','' @ join '','' (map json_item xs) @ r =
        json_item y @ '','' @ join '','' (map json_item ys) @ r'"
      by (simp add: Cons ys)
    from item_inject [OF this] Cons.IH [of r r'] show ?thesis by simp
  qed
qed

lemma stringify_inject:
  "length xs = length ys \<Longrightarrow> stringify xs = stringify ys \<longleftrightarrow> xs = ys"
  using items_inject [of xs ys "'']''" "'']''"] by (auto simp: stringify_def)

end
