(* ===== verification/Job_Query.thy ===== *)
theory Job_Query
  imports Types_Jobs Json_Text
begin

text \<open>
  \<^verbatim>\<open>resources/js/hooks/use-job-query-controls.ts\<close>: the search field and the filters of a job
  list. A filter change is submitted at once, a typed search after a pause of 500 ms without
  further changes. The hook keeps what the user entered while the server's answers arrive.

  \<open>timer\<close> is the armed debounce timer with the values its callback closed over; every change of
  state or props re-runs the debounce effect, whose cleanup clears the timer. \<open>submissions\<close>
  records the calls of \<open>onSubmit\<close>.
\<close>

section \<open>State\<close>

record query_controls =
  search :: string
  selectedFilters :: JobFilterValues
  searchRef :: string
  selectedFiltersRef :: JobFilterValues
  lastCommittedQueryRef :: string
  lastCommittedFiltersRef :: JobFilterValues
  lastSubmittedStateRef :: string
  committedQuery :: string \<comment> \<open>the current props\<close>
  committedFilters :: JobFilterValues
  timer :: "(string \<times> JobFilterValues) option"
  submissions :: "(string \<times> JobFilterValues) list"

section \<open>Operations\<close>

definition filtersEqual :: "JobFilterValues \<Rightarrow> JobFilterValues \<Rightarrow> bool" where
  "filtersEqual left right \<longleftrightarrow>
     jf_job left = jf_job right \<and>
     jf_queue left = jf_queue right \<and>
     jf_connection left = jf_connection right \<and>
     jf_state left = jf_state right"

definition queryStateSignature :: "string \<Rightarrow> JobFilterValues \<Rightarrow> string" where
  "queryStateSignature query filters =
     stringify [Some query, jf_job filters, jf_queue filters, jf_connection filters, jf_state filters]"

definition query_effect :: "query_controls \<Rightarrow> query_controls" where
  "query_effect c =
     (let query = committedQuery c;
          c' = (if trim (searchRef c) = lastCommittedQueryRef c
                then c\<lparr>searchRef := query, search := query\<rparr> else c)
      in c'\<lparr>lastCommittedQueryRef := query\<rparr>)"

definition filters_effect :: "query_controls \<Rightarrow> query_controls" where
  "filters_effect c =
     (let filters = committedFilters c;
          currentFilters = selectedFiltersRef c;
          c' = (if filtersEqual currentFilters (lastCommittedFiltersRef c) \<or>
                   filtersEqual currentFilters filters
                then c\<lparr>selectedFiltersRef := filters, selectedFilters := filters\<rparr> else c)
      in c'\<lparr>lastCommittedFiltersRef := filters\<rparr>)"

definition submit :: "string \<Rightarrow> JobFilterValues \<Rightarrow> query_controls \<Rightarrow> query_controls" where
  "submit nextQuery nextFilters c =
     c\<lparr>lastSubmittedStateRef := queryStateSignature nextQuery nextFilters,
       submissions := submissions c @ [(nextQuery, nextFilters)]\<rparr>"

definition debounce_effect :: "query_controls \<Rightarrow> query_controls" where
  "debounce_effect c =
     (let nextQuery = trim (search c);
          nextState = queryStateSignature nextQuery (selectedFilters c)
      in if nextState = queryStateSignature (committedQuery c) (committedFilters c) \<or>
            nextState = lastSubmittedStateRef c
         then c\<lparr>timer := None\<rparr>
         else c\<lparr>timer := Some (nextQuery, selectedFilters c)\<rparr>)"

definition setSearch :: "string \<Rightarrow> query_controls \<Rightarrow> query_controls" where
  "setSearch value c = c\<lparr>searchRef := value, search := value\<rparr>"

definition setFilterValue ::
  "JobFilterKey \<Rightarrow> string option \<Rightarrow> query_controls \<Rightarrow> query_controls" where
  "setFilterValue filterKey value c =
     (let nextFilters = set_filter filterKey value (selectedFiltersRef c);
          c' = c\<lparr>selectedFiltersRef := nextFilters, selectedFilters := nextFilters\<rparr>
      in submit (trim (searchRef c')) nextFilters c')"

definition clearFilters :: "query_controls \<Rightarrow> query_controls" where
  "clearFilters c =
     (let nextFilters = \<lparr>jf_job = None, jf_queue = None, jf_connection = None, jf_state = None\<rparr>;
          c' = c\<lparr>selectedFiltersRef := nextFilters, selectedFilters := nextFilters\<rparr>
      in submit (trim (searchRef c')) nextFilters c')"

definition fire_timer :: "query_controls \<Rightarrow> query_controls" where
  "fire_timer c =
     (case timer c of None \<Rightarrow> c
      | Some (nextQuery, filters) \<Rightarrow> submit nextQuery filters (c\<lparr>timer := None\<rparr>))"

definition isCommitted :: "query_controls \<Rightarrow> bool" where
  "isCommitted c \<longleftrightarrow>
     queryStateSignature (trim (search c)) (selectedFilters c) =
     queryStateSignature (committedQuery c) (committedFilters c)"

text \<open>Mounting: the effects run once over the initial state.\<close>

definition mount_controls :: "string \<Rightarrow> JobFilterValues \<Rightarrow> query_controls" where
  "mount_controls query filters =
     debounce_effect (filters_effect (query_effect
       \<lparr>search = query, selectedFilters = filters, searchRef = query, selectedFiltersRef = filters,
        lastCommittedQueryRef = query, lastCommittedFiltersRef = filters,
        lastSubmittedStateRef = queryStateSignature query filters,
        committedQuery = query, committedFilters = filters, timer = None, submissions = []\<rparr>))"

section \<open>Runs\<close>

datatype query_event =
    Typed string
  | Filtered JobFilterKey "string option"
  | Cleared
  | Fired
  | Answered string JobFilterValues

fun query_step :: "query_controls \<Rightarrow> query_event \<Rightarrow> query_controls" where
  "query_step c (Typed value) = debounce_effect (setSearch value c)"
| "query_step c (Filtered key value) = debounce_effect (setFilterValue key value c)"
| "query_step c Cleared = debounce_effect (clearFilters c)"
| "query_step c Fired = fire_timer c"
| "query_step c (Answered query filters) =
     (let c1 = c\<lparr>committedQuery := query, committedFilters := filters\<rparr>;
          c2 = (if query \<noteq> committedQuery c then query_effect c1 else c1);
          c3 = filters_effect c2
      in debounce_effect c3)"

definition query_run :: "query_controls \<Rightarrow> query_event list \<Rightarrow> query_controls" where
  "query_run c evs = foldl query_step c evs"

section \<open>The signature identifies the state\<close>

lemma filtersEqual_iff [simp]: "filtersEqual f g \<longleftrightarrow> f = (g :: JobFilterValues)"
  by (cases f; cases g) (auto simp: filtersEqual_def)

text \<open>
  Two states of the controls have the same signature only if they have the same query and
  the same filters, whatever quotes, control characters or separators the values contain. So
  comparing signatures compares states.
\<close>

lemma signature_identifies_state:
  "queryStateSignature q f = queryStateSignature q' f' \<longleftrightarrow> q = q' \<and> f = f'"
  by (cases f; cases f') (auto simp: queryStateSignature_def stringify_inject)

lemma signature_eq [simp]:
  "queryStateSignature q f = queryStateSignature q' f' \<longleftrightarrow> q = q' \<and> f = (f' :: JobFilterValues)"
  by (cases f; cases f') (auto simp: queryStateSignature_def stringify_inject)

lemma debounce_sel [simp]:
  "search (debounce_effect c) = search c" "selectedFilters (debounce_effect c) = selectedFilters c"
  "committedQuery (debounce_effect c) = committedQuery c"
  "committedFilters (debounce_effect c) = committedFilters c"
  "submissions (debounce_effect c) = submissions c"
  by (simp_all add: debounce_effect_def Let_def)

section \<open>Invariant\<close>

definition current_state :: "query_controls \<Rightarrow> string \<times> JobFilterValues" where
  "current_state c = (trim (search c), selectedFilters c)"

definition last_submitted :: "string \<times> JobFilterValues \<Rightarrow> query_controls \<Rightarrow> string \<times> JobFilterValues"
  where "last_submitted start c = last (start # submissions c)"

definition controls_inv :: "string \<times> JobFilterValues \<Rightarrow> query_controls \<Rightarrow> bool" where
  "controls_inv start c \<longleftrightarrow>
     searchRef c = search c \<and> selectedFiltersRef c = selectedFilters c \<and>
     lastCommittedQueryRef c = committedQuery c \<and> lastCommittedFiltersRef c = committedFilters c \<and>
     lastSubmittedStateRef c =
       queryStateSignature (fst (last_submitted start c)) (snd (last_submitted start c)) \<and>
     timer c = (if current_state c = (committedQuery c, committedFilters c) \<or>
                   current_state c = last_submitted start c
                then None else Some (current_state c))"

lemma debounce_inv:
  assumes "searchRef c = search c" "selectedFiltersRef c = selectedFilters c"
    "lastCommittedQueryRef c = committedQuery c" "lastCommittedFiltersRef c = committedFilters c"
    "lastSubmittedStateRef c =
       queryStateSignature (fst (last_submitted start c)) (snd (last_submitted start c))"
  shows "controls_inv start (debounce_effect c)"
  using assms
  by (auto simp: controls_inv_def debounce_effect_def Let_def current_state_def last_submitted_def
      prod_eq_iff)

lemma controls_inv_step: "controls_inv start c \<Longrightarrow> controls_inv start (query_step c ev)"
proof (cases ev)
  case (Typed v)
  assume "controls_inv start c"
  then show ?thesis unfolding Typed query_step.simps
    by (intro debounce_inv) (simp_all add: controls_inv_def setSearch_def last_submitted_def)
next
  case (Filtered k v)
  assume "controls_inv start c"
  then show ?thesis unfolding Filtered query_step.simps
    by (intro debounce_inv)
      (simp_all add: controls_inv_def setFilterValue_def submit_def last_submitted_def Let_def)
next
  case Cleared
  assume "controls_inv start c"
  then show ?thesis unfolding Cleared query_step.simps
    by (intro debounce_inv)
      (simp_all add: controls_inv_def clearFilters_def submit_def last_submitted_def Let_def)
next
  case Fired
  assume "controls_inv start c"
  then show ?thesis
    by (auto simp: Fired controls_inv_def fire_timer_def submit_def last_submitted_def
        current_state_def split: if_splits)
next
  case (Answered q f)
  assume "controls_inv start c"
  then show ?thesis unfolding Answered query_step.simps Let_def
    by (intro debounce_inv)
      (auto simp: controls_inv_def query_effect_def filters_effect_def last_submitted_def Let_def)
qed

lemma controls_inv_run: "controls_inv start c \<Longrightarrow> controls_inv start (query_run c evs)"
  by (induction evs arbitrary: c) (simp_all add: query_run_def controls_inv_step)

lemma controls_inv_mount: "controls_inv (q, f) (mount_controls q f)"
  unfolding mount_controls_def
  by (rule debounce_inv)
    (simp_all add: query_effect_def filters_effect_def last_submitted_def Let_def)

section \<open>Properties of runs\<close>

text \<open>
  C5: no edit is forgotten. In every state of every run, what the controls show is the state
  the server has committed, or the state submitted last, or it is exactly what the armed timer
  will submit; the timer is armed in no other case.
\<close>

theorem every_edit_accounted:
  "let c = query_run (mount_controls q f) evs in
     timer c = (if current_state c = (committedQuery c, committedFilters c) \<or>
                   current_state c = last_submitted (q, f) c
                then None else Some (current_state c)) \<and>
     (isCommitted c \<longleftrightarrow> current_state c = (committedQuery c, committedFilters c)) \<and>
     searchRef c = search c \<and> selectedFiltersRef c = selectedFilters c"
  using controls_inv_run [OF controls_inv_mount, of q f evs]
  by (auto simp: controls_inv_def Let_def isCommitted_def current_state_def)

text \<open>
  The debounce never repeats itself. When the timer fires in a run, it submits exactly what
  the controls show, which is neither the committed state nor the previous submission, and it
  leaves no timer armed; a filter change or a reset submits at once, the trimmed search with it,
  and leaves none armed either.
\<close>

lemma submissions_are_new:
  assumes "c = query_run (mount_controls q f) evs"
  shows "(timer c \<noteq> None \<longrightarrow>
      submissions (query_step c Fired) = submissions c @ [current_state c] \<and>
      current_state c \<noteq> last_submitted (q, f) c \<and>
      current_state c \<noteq> (committedQuery c, committedFilters c) \<and>
      timer (query_step c Fired) = None) \<and>
    submissions (query_step c (Filtered key v)) =
      submissions c @ [(trim (search c), set_filter key v (selectedFilters c))] \<and>
    timer (query_step c (Filtered key v)) = None \<and>
    submissions (query_step c Cleared) = submissions c @ [(trim (search c), emptyJobFilterValues)] \<and>
    timer (query_step c Cleared) = None"
proof -
  have "controls_inv (q, f) c"
    using controls_inv_run [OF controls_inv_mount, of q f evs] by (simp add: assms)
  then show ?thesis
    by (auto simp: controls_inv_def fire_timer_def submit_def setFilterValue_def clearFilters_def
        debounce_effect_def emptyJobFilterValues_def Let_def split: if_splits prod.split)
qed

lemmas query_eval = query_run_def mount_controls_def query_effect_def filters_effect_def
  debounce_effect_def setSearch_def fire_timer_def submit_def trim_def is_space_def
  current_state_def Let_def

text \<open>
  An answer of the server never overwrites what the user is still editing: a search that
  differs from the query committed so far stays as typed, filters that differ from those
  committed so far stay as chosen; controls without edits follow the server.
\<close>

lemma answer_keeps_edits:
  assumes "c = query_run (mount_controls q f) evs" and "c' = query_step c (Answered query filters)"
  shows "search c' = (if query \<noteq> committedQuery c \<and> trim (search c) = committedQuery c
        then query else search c) \<and>
    selectedFilters c' = (if selectedFilters c = committedFilters c then filters
        else selectedFilters c) \<and>
    committedQuery c' = query \<and> committedFilters c' = filters \<and>
    submissions c' = submissions c"
proof -
  have "controls_inv (q, f) c"
    using controls_inv_run [OF controls_inv_mount, of q f evs] by (simp add: assms(1))
  then have "searchRef c = search c" "selectedFiltersRef c = selectedFilters c"
      "lastCommittedQueryRef c = committedQuery c" "lastCommittedFiltersRef c = committedFilters c"
    by (simp_all add: controls_inv_def)
  then show ?thesis
    by (simp add: assms(2) query_effect_def filters_effect_def Let_def)
qed


end
