(* ===== verification/Web_Url.thy ===== *)
theory Web_Url
  imports Prelude
begin

text \<open>
  The part of the web platform's \<open>URL\<close> and \<open>URLSearchParams\<close> that the interface code uses.
  Strings are the bytes of their UTF-8 form. A query is kept as its raw text, as in the
  standard: reading \<open>searchParams\<close> parses it, every mutation serialises it again.

  References are parsed without normalisation of dot segments and percent escapes in paths,
  which the routes of the application do not contain.
\<close>

section \<open>The form encoding\<close>

definition upper_hex :: "nat \<Rightarrow> char" where
  "upper_hex n = ''0123456789ABCDEF'' ! n"

definition hex_of :: "char \<Rightarrow> nat option" where
  "hex_of c =
     (let n = of_char c :: nat in
      if 48 \<le> n \<and> n \<le> 57 then Some (n - 48)
      else if 65 \<le> n \<and> n \<le> 70 then Some (n - 55)
      else if 97 \<le> n \<and> n \<le> 102 then Some (n - 87)
      else None)"

definition unreserved :: "char \<Rightarrow> bool" where
  "unreserved c \<longleftrightarrow>
     (let n = of_char c :: nat in
      48 \<le> n \<and> n \<le> 57 \<or> 65 \<le> n \<and> n \<le> 90 \<or> 97 \<le> n \<and> n \<le> 122 \<or>
      c \<in> {CHR ''*'', CHR ''-'', CHR ''.'', CHR ''_''})"

definition form_byte :: "char \<Rightarrow> string" where
  "form_byte c =
     (if c = CHR '' '' then ''+''
      else if unreserved c then [c]
      else [CHR ''%'', upper_hex (of_char c div 16), upper_hex (of_char c mod 16)])"

definition form_encode :: "string \<Rightarrow> string" where
  "form_encode s = concat (map form_byte s)"

fun form_decode :: "string \<Rightarrow> string" where
  "form_decode [] = []"
| "form_decode (c # r) =
     (if c = CHR ''+'' then CHR '' '' # form_decode r
      else if c = CHR ''%'' then
        (case r of
           a # b # r' \<Rightarrow>
             (case (hex_of a, hex_of b) of
                (Some x, Some y) \<Rightarrow> char_of (16 * x + y) # form_decode r'
              | _ \<Rightarrow> c # form_decode r)
         | _ \<Rightarrow> c # form_decode r)
      else c # form_decode r)"

fun cut :: "char \<Rightarrow> string \<Rightarrow> string \<times> string option" where
  "cut c [] = ([], None)"
| "cut c (x # xs) =
     (if x = c then ([], Some xs) else (let (a, b) = cut c xs in (x # a, b)))"

type_synonym search_params = "(string \<times> string) list"

definition serialize_pair :: "string \<times> string \<Rightarrow> string" where
  "serialize_pair p = form_encode (fst p) @ ''='' @ form_encode (snd p)"

definition serialize_params :: "search_params \<Rightarrow> string" where
  "serialize_params ps = join ''&'' (map serialize_pair ps)"

definition parse_pair :: "string \<Rightarrow> string \<times> string" where
  "parse_pair s =
     (let (k, v) = cut (CHR ''='') s in (form_decode k, form_decode (case v of None \<Rightarrow> [] | Some x \<Rightarrow> x)))"

definition parse_params :: "string \<Rightarrow> search_params" where
  "parse_params s = map parse_pair (filter (\<lambda>x. x \<noteq> []) (split_on (CHR ''&'') s))"

subsection \<open>Parsing reads back what serialising wrote\<close>

lemma upper_hex_range:
  assumes "n < 16"
  shows "hex_of (upper_hex n) = Some n" "upper_hex n \<noteq> CHR ''&''" "upper_hex n \<noteq> CHR ''=''"
    "upper_hex n \<noteq> CHR ''#''" "upper_hex n \<noteq> CHR ''+''" "upper_hex n \<noteq> CHR ''%''"
proof -
  from assms have "n \<in> {0,1,2,3,4,5,6,7,8,9,10,11,12,13,14,15}"
    unfolding insert_iff empty_iff by arith
  then show "hex_of (upper_hex n) = Some n" "upper_hex n \<noteq> CHR ''&''" "upper_hex n \<noteq> CHR ''=''"
    "upper_hex n \<noteq> CHR ''#''" "upper_hex n \<noteq> CHR ''+''" "upper_hex n \<noteq> CHR ''%''"
    by (auto simp: upper_hex_def hex_of_def)
qed

lemma of_char_nibbles: "(of_char (c::char) :: nat) div 16 < 16" "(of_char c :: nat) mod 16 < 16"
  by (rule less_mult_imp_div_less, simp) simp

lemma unreserved_not:
  "unreserved c \<Longrightarrow> c \<noteq> CHR ''+'' \<and> c \<noteq> CHR ''%'' \<and> c \<noteq> CHR ''&'' \<and> c \<noteq> CHR ''='' \<and> c \<noteq> CHR ''#''"
  by (auto simp: unreserved_def)

lemma form_decode_byte: "form_decode (form_byte c @ r) = c # form_decode r"
  by (auto simp: form_byte_def unreserved_not upper_hex_range of_char_nibbles)

lemma form_decode_encode [simp]: "form_decode (form_encode s) = s"
  by (induction s) (simp_all add: form_encode_def form_decode_byte)

lemma form_byte_clean:
  "x \<in> set (form_byte c) \<Longrightarrow> x \<noteq> CHR ''&'' \<and> x \<noteq> CHR ''='' \<and> x \<noteq> CHR ''#''"
  by (auto simp: form_byte_def upper_hex_range of_char_nibbles dest: unreserved_not split: if_splits)

lemma form_encode_clean:
  "x \<in> set (form_encode s) \<Longrightarrow> x \<noteq> CHR ''&'' \<and> x \<noteq> CHR ''='' \<and> x \<noteq> CHR ''#''"
  by (auto simp: form_encode_def dest: form_byte_clean)

lemma form_encode_free [simp]:
  "CHR ''&'' \<notin> set (form_encode s)" "CHR ''='' \<notin> set (form_encode s)"
  "CHR ''#'' \<notin> set (form_encode s)"
  by (auto dest: form_encode_clean)

lemma cut_append: "c \<notin> set a \<Longrightarrow> cut c (a @ c # b) = (a, Some b)"
  by (induction a) auto

lemma cut_none: "c \<notin> set a \<Longrightarrow> cut c a = (a, None)"
  by (induction a) auto

lemma split_on_append: "c \<notin> set a \<Longrightarrow> split_on c (a @ c # b) = a # split_on c b"
  by (induction a) auto

lemma split_on_single: "c \<notin> set a \<Longrightarrow> split_on c a = [a]"
  by (induction a) auto

lemma split_on_join:
  "xs \<noteq> [] \<Longrightarrow> \<forall>x \<in> set xs. c \<notin> set x \<Longrightarrow> split_on c (join [c] xs) = xs"
proof (induction xs)
  case (Cons x xs)
  then show ?case by (cases xs) (simp_all add: split_on_append split_on_single)
qed simp

lemma serialize_pair_props:
  "CHR ''&'' \<notin> set (serialize_pair p)" "CHR ''#'' \<notin> set (serialize_pair p)"
  "serialize_pair p \<noteq> []" "parse_pair (serialize_pair p) = p"
  by (simp_all add: serialize_pair_def parse_pair_def cut_append)

lemma parse_serialize [simp]: "parse_params (serialize_params ps) = ps"
proof (cases "ps = []")
  case True
  then show ?thesis by (simp add: parse_params_def serialize_params_def)
next
  case False
  then have "split_on (CHR ''&'') (serialize_params ps) = map serialize_pair ps"
    unfolding serialize_params_def by (intro split_on_join) (auto simp: serialize_pair_props)
  then show ?thesis
    by (simp add: parse_params_def serialize_pair_props filter_True comp_def)
qed

lemma join_clean: "\<forall>x \<in> set xs. c \<notin> set x \<Longrightarrow> c \<notin> set sep \<Longrightarrow> c \<notin> set (join sep xs)"
  by (induction sep xs rule: join.induct) auto

lemma serialize_clean: "CHR ''#'' \<notin> set (serialize_params ps)"
  unfolding serialize_params_def by (intro join_clean) (auto simp: serialize_pair_props)

section \<open>Search parameters\<close>

definition params_get :: "string \<Rightarrow> search_params \<Rightarrow> string option" where
  "params_get name ps = map_of ps name"

definition params_has :: "string \<Rightarrow> search_params \<Rightarrow> bool" where
  "params_has name ps \<longleftrightarrow> name \<in> fst ` set ps"

definition params_delete :: "string \<Rightarrow> search_params \<Rightarrow> search_params" where
  "params_delete name ps = filter (\<lambda>p. fst p \<noteq> name) ps"

fun params_set :: "string \<Rightarrow> string \<Rightarrow> search_params \<Rightarrow> search_params" where
  "params_set name value [] = [(name, value)]"
| "params_set name value (p # ps) =
     (if fst p = name then (name, value) # params_delete name ps
      else p # params_set name value ps)"

definition params_append :: "string \<Rightarrow> string \<Rightarrow> search_params \<Rightarrow> search_params" where
  "params_append name value ps = ps @ [(name, value)]"

lemma map_of_params_delete:
  "map_of (params_delete m ps) n = (if n = m then None else map_of ps n)"
  by (induction ps) (auto simp: params_delete_def)

lemma params_get_delete:
  "params_get n (params_delete m ps) = (if n = m then None else params_get n ps)"
  by (simp add: params_get_def map_of_params_delete)

lemma params_get_set: "params_get n (params_set m v ps) = (if n = m then Some v else params_get n ps)"
  by (induction ps) (auto simp: params_get_def map_of_params_delete)

lemma params_has_iff: "params_has n ps \<longleftrightarrow> params_get n ps \<noteq> None"
  by (auto simp: params_has_def params_get_def map_of_eq_None_iff)

section \<open>URLs\<close>

record url =
  origin :: string
  pathname :: string
  query_text :: string
  fragment_text :: string

definition url_search :: "url \<Rightarrow> string" where
  "url_search u = (if query_text u = [] then [] else CHR ''?'' # query_text u)"

definition url_hash :: "url \<Rightarrow> string" where
  "url_hash u = (if fragment_text u = [] then [] else CHR ''#'' # fragment_text u)"

definition searchParams :: "url \<Rightarrow> search_params" where
  "searchParams u = parse_params (query_text u)"

definition update_params :: "(search_params \<Rightarrow> search_params) \<Rightarrow> url \<Rightarrow> url" where
  "update_params f u = u\<lparr>query_text := serialize_params (f (searchParams u))\<rparr>"

definition href :: "url \<Rightarrow> string" where
  "href u = origin u @ pathname u @ url_search u @ url_hash u"

text \<open>The scheme of an absolute reference, with the rest after \<open>://\<close>.\<close>

definition letter :: "char \<Rightarrow> bool" where
  "letter c \<longleftrightarrow> (let n = of_char c :: nat in 65 \<le> n \<and> n \<le> 90 \<or> 97 \<le> n \<and> n \<le> 122)"

definition scheme_of :: "string \<Rightarrow> (string \<times> string) option" where
  "scheme_of s =
     (let scheme = takeWhile letter s; rest = dropWhile letter s
      in if scheme \<noteq> [] \<and> take 3 rest = ''://'' then Some (scheme, drop 3 rest) else None)"

definition canParse :: "string \<Rightarrow> bool" where
  "canParse s \<longleftrightarrow> scheme_of s \<noteq> None"

definition rooted :: "string \<Rightarrow> string" where
  "rooted path = (if take 1 path = ''/'' then path else CHR ''/'' # path)"

text \<open>\<open>new URL(reference, base)\<close> for a base that is an origin.\<close>

definition new_URL :: "string \<Rightarrow> string \<Rightarrow> url" where
  "new_URL reference base_origin =
     (let (before_hash, hash) = cut (CHR ''#'') reference;
          (before_query, query) = cut (CHR ''?'') before_hash;
          fragment = (case hash of None \<Rightarrow> [] | Some h \<Rightarrow> h);
          q = (case query of None \<Rightarrow> [] | Some x \<Rightarrow> x)
      in case scheme_of before_query of
           None \<Rightarrow> \<lparr>origin = base_origin, pathname = rooted before_query, query_text = q,
                    fragment_text = fragment\<rparr>
         | Some (scheme, rest) \<Rightarrow>
             \<lparr>origin = scheme @ ''://'' @ takeWhile (\<lambda>c. c \<noteq> CHR ''/'') rest,
              pathname = rooted (dropWhile (\<lambda>c. c \<noteq> CHR ''/'') rest), query_text = q,
              fragment_text = fragment\<rparr>)"

definition url_ok :: "url \<Rightarrow> bool" where
  "url_ok u \<longleftrightarrow>
     take 1 (pathname u) = ''/'' \<and> CHR ''?'' \<notin> set (pathname u) \<and> CHR ''#'' \<notin> set (pathname u) \<and>
     CHR ''#'' \<notin> set (query_text u)"

lemma url_ok_update: "url_ok u \<Longrightarrow> url_ok (update_params f u)"
  by (simp add: url_ok_def update_params_def serialize_clean)

lemma rooted_no_scheme: "take 1 s = ''/'' \<Longrightarrow> scheme_of s = None"
  by (cases s) (auto simp: scheme_of_def letter_def)

lemma new_URL_relative:
  assumes "url_ok u"
  shows "new_URL (pathname u @ url_search u @ url_hash u) b = u\<lparr>origin := b\<rparr>"
proof -
  from assms have ok: "take 1 (pathname u) = ''/''" "CHR ''?'' \<notin> set (pathname u)"
      "CHR ''#'' \<notin> set (pathname u)" "CHR ''#'' \<notin> set (query_text u)"
    by (auto simp: url_ok_def)
  have h: "cut (CHR ''#'') (pathname u @ url_search u @ url_hash u) =
      (pathname u @ url_search u, if fragment_text u = [] then None else Some (fragment_text u))"
  proof -
    have "CHR ''#'' \<notin> set (pathname u @ url_search u)" using ok by (simp add: url_search_def)
    from cut_append [OF this, of "fragment_text u"] cut_none [OF this] show ?thesis
      by (simp add: url_hash_def)
  qed
  have q: "cut (CHR ''?'') (pathname u @ url_search u) =
      (pathname u, if query_text u = [] then None else Some (query_text u))"
    using cut_append [OF ok(2), of "query_text u"] cut_none [OF ok(2)] by (simp add: url_search_def)
  show ?thesis
    unfolding new_URL_def h q Let_def case_prod_conv rooted_no_scheme [OF ok(1)] option.case
    by (cases u) (use ok(1) in \<open>simp add: rooted_def\<close>)
qed

section \<open>Encoding a part of a URL\<close>

definition url_byte :: "char \<Rightarrow> string" where
  "url_byte c =
     (if (unreserved c \<and> c \<noteq> CHR ''*'') \<or> c \<in> set ''!~*()'' \<or> c = CHR 0x27 then [c]
      else [CHR ''%'', upper_hex (of_char c div 16), upper_hex (of_char c mod 16)])"

definition encodeURIComponent :: "string \<Rightarrow> string" where
  "encodeURIComponent s = concat (map url_byte s)"

end
