(* ===== verification/Url_Query.thy ===== *)
theory Url_Query
  imports Web_Url
begin

text \<open>
  \<^verbatim>\<open>resources/js/lib/url-query.ts\<close>: reading and rewriting the query of the page's URL, with
  \<^verbatim>\<open>hooks/use-active-tab-query.ts\<close>, which writes the active tab into it after every
  navigation. The page's URL \<open>window.location.href\<close> is the argument \<open>current\<close>; in the browser
  \<open>window\<close> is defined. The calls of \<open>router.replace\<close> are the results of \<open>replaceCurrentQuery\<close>.
\<close>

datatype QueryParameterValue = QString string | QNumber string | QNull
  \<comment> \<open>a number by its decimal text; \<open>QNull\<close> is null or undefined\<close>

fun value_text :: "QueryParameterValue \<Rightarrow> string" where
  "value_text (QString s) = s"
| "value_text (QNumber n) = n"
| "value_text QNull = []"

definition relativeUrl :: "url \<Rightarrow> string" where
  "relativeUrl u = pathname u @ url_search u @ url_hash u"

definition currentQueryParameter :: "url \<Rightarrow> string \<Rightarrow> string option" where
  "currentQueryParameter current name = params_get name (searchParams current)"

definition copy_missing :: "string \<times> string \<Rightarrow> url \<Rightarrow> url" where
  "copy_missing p u =
     (if \<not> params_has (fst p) (searchParams u)
      then update_params (params_set (fst p) (snd p)) u else u)"

definition remove_parameter :: "string \<Rightarrow> url \<Rightarrow> url" where
  "remove_parameter name u = update_params (params_delete name) u"

definition apply_parameter :: "string \<times> QueryParameterValue \<Rightarrow> url \<Rightarrow> url" where
  "apply_parameter p u =
     (if snd p = QNull \<or> snd p = QString [] then update_params (params_delete (fst p)) u
      else update_params (params_set (fst p) (value_text (snd p))) u)"

definition query_url ::
  "url \<Rightarrow> string \<Rightarrow> (string \<times> QueryParameterValue) list \<Rightarrow> string list \<Rightarrow> url" where
  "query_url current destination parameters remove =
     (let u = new_URL destination (origin current);
          u1 = fold copy_missing (searchParams current) u;
          u2 = fold remove_parameter remove u1
      in fold apply_parameter parameters u2)"

definition urlWithCurrentQuery ::
  "url \<Rightarrow> string \<Rightarrow> (string \<times> QueryParameterValue) list \<Rightarrow> string list \<Rightarrow> string" where
  "urlWithCurrentQuery current destination parameters remove =
     relativeUrl (query_url current destination parameters remove)"

definition currentUrlWithQuery ::
  "url \<Rightarrow> (string \<times> QueryParameterValue) list \<Rightarrow> string list \<Rightarrow> string" where
  "currentUrlWithQuery current parameters remove =
     urlWithCurrentQuery current (relativeUrl current) parameters remove"

definition replaceCurrentQuery ::
  "url \<Rightarrow> (string \<times> QueryParameterValue) list \<Rightarrow> string option" where
  "replaceCurrentQuery current parameters =
     (let u = currentUrlWithQuery current parameters []
      in if u = relativeUrl current then None else Some u)"

text \<open>The effect of \<open>useActiveTabQuery\<close>, after mounting and after every navigation.\<close>

definition sync_tab :: "string \<Rightarrow> url \<Rightarrow> string option" where
  "sync_tab tab current = replaceCurrentQuery current [(''tab'', QString tab)]"

section \<open>What the result contains\<close>

lemma searchParams_update [simp]: "searchParams (update_params f u) = f (searchParams u)"
  by (simp add: searchParams_def update_params_def)

lemma update_frame [simp]:
  "origin (update_params f u) = origin u" "pathname (update_params f u) = pathname u"
  "fragment_text (update_params f u) = fragment_text u"
  by (simp_all add: update_params_def)

lemma copy_missing_step:
  "params_get n (searchParams (copy_missing p u)) =
     (case params_get n (searchParams u) of Some v \<Rightarrow> Some v
      | None \<Rightarrow> if n = fst p then Some (snd p) else None)"
  by (auto simp: copy_missing_def params_has_iff params_get_set split: option.split)

lemma params_get_Cons: "params_get n (p # ps) = (if n = fst p then Some (snd p) else params_get n ps)"
  by (simp add: params_get_def)

lemma copy_missing_get:
  "params_get n (searchParams (fold copy_missing ps u)) =
     (case params_get n (searchParams u) of Some v \<Rightarrow> Some v | None \<Rightarrow> params_get n ps)"
proof (induction ps arbitrary: u)
  case Nil
  then show ?case by (simp add: params_get_def split: option.split)
next
  case (Cons p ps)
  show ?case by (simp add: Cons.IH copy_missing_step params_get_Cons split: option.split)
qed

lemma remove_get:
  "params_get n (searchParams (fold remove_parameter rs u)) =
     (if n \<in> set rs then None else params_get n (searchParams u))"
  by (induction rs arbitrary: u) (simp_all add: remove_parameter_def params_get_delete)

definition wanted :: "QueryParameterValue \<Rightarrow> string option" where
  "wanted v = (if v = QNull \<or> v = QString [] then None else Some (value_text v))"

lemma apply_get:
  "params_get n (searchParams (apply_parameter p u)) =
     (if n = fst p then wanted (snd p) else params_get n (searchParams u))"
  by (simp add: apply_parameter_def wanted_def params_get_delete params_get_set)

lemma apply_all_get:
  "distinct (map fst ps) \<Longrightarrow>
   params_get n (searchParams (fold apply_parameter ps u)) =
     (case map_of ps n of Some v \<Rightarrow> wanted v | None \<Rightarrow> params_get n (searchParams u))"
proof (induction ps arbitrary: u)
  case Nil
  then show ?case by simp
next
  case (Cons p ps)
  then have "fst p = n \<Longrightarrow> map_of ps n = None" by (auto simp: map_of_eq_None_iff)
  with Cons show ?case by (cases p) (auto simp: apply_get split: option.split)
qed

lemma query_url_get:
  assumes "distinct (map fst parameters)"
  shows "params_get n (searchParams (query_url current destination parameters remove)) =
    (case map_of parameters n of
       Some v \<Rightarrow> wanted v
     | None \<Rightarrow>
         if n \<in> set remove then None
         else case params_get n (searchParams (new_URL destination (origin current))) of
                Some v \<Rightarrow> Some v
              | None \<Rightarrow> params_get n (searchParams current))"
  using apply_all_get [OF assms]
  by (simp add: query_url_def Let_def remove_get copy_missing_get split: option.split)

lemma url_ok_query_url: "url_ok (new_URL destination (origin current)) \<Longrightarrow> url_ok (query_url current destination parameters remove)"
proof -
  have c: "url_ok u \<Longrightarrow> url_ok (fold copy_missing ps u)" for ps u
    by (induction ps arbitrary: u) (simp_all add: copy_missing_def url_ok_update)
  have r: "url_ok u \<Longrightarrow> url_ok (fold remove_parameter rs u)" for rs u
    by (induction rs arbitrary: u) (simp_all add: remove_parameter_def url_ok_update)
  have a: "url_ok u \<Longrightarrow> url_ok (fold apply_parameter ps u)" for ps u
    by (induction ps arbitrary: u) (simp_all add: apply_parameter_def url_ok_update)
  show "url_ok (new_URL destination (origin current)) \<Longrightarrow> ?thesis"
    by (simp add: query_url_def Let_def a r c)
qed

text \<open>
  C29: the query of the built URL is decided parameter by parameter: an explicit parameter has
  its value, or is gone when it is null or empty; a parameter to remove is gone; else the
  destination's own value counts, else the current page's.
\<close>

theorem url_with_current_query_parameters:
  assumes "distinct (map fst parameters)"
  shows "params_get n (searchParams (query_url current destination parameters remove)) =
    (case map_of parameters n of
       Some v \<Rightarrow> wanted v
     | None \<Rightarrow>
         if n \<in> set remove then None
         else case params_get n (searchParams (new_URL destination (origin current))) of
                Some v \<Rightarrow> Some v
              | None \<Rightarrow> params_get n (searchParams current))"
  using assms by (rule query_url_get)

definition jobs_url :: url where
  "jobs_url = \<lparr>origin = ''https://x.test'', pathname = ''/horizon/jobs'',
     query_text = ''tag=a+b&sort=name'', fragment_text = []\<rparr>"

theorem url_with_current_query_parameters_witness:
  "params_get ''tag'' (searchParams (query_url jobs_url ''/horizon/failed?sort=id''
     [(''page'', QNumber ''2'')] [''page''])) = Some ''a b''"
proof -
  have "distinct (map fst [(''page'', QNumber ''2'')])" by simp
  from url_with_current_query_parameters [OF this, of "''tag''" jobs_url "''/horizon/failed?sort=id''"
      "[''page'']"]
  show ?thesis
    by (simp add: jobs_url_def searchParams_def parse_params_def parse_pair_def params_get_def
        new_URL_def scheme_of_def letter_def rooted_def)
qed

section \<open>Writing the query twice\<close>

text \<open>A parameter that is already as wanted, in one copy, is left alone.\<close>

definition settled_parameter :: "string \<times> QueryParameterValue \<Rightarrow> search_params \<Rightarrow> bool" where
  "settled_parameter p ps \<longleftrightarrow>
     map snd (filter (\<lambda>q. fst q = fst p) ps) = (case wanted (snd p) of None \<Rightarrow> [] | Some v \<Rightarrow> [v])"

lemma filter_params_set:
  "filter (\<lambda>q. fst q = n) (params_set k v ps) =
     (if n = k then [(k, v)] else filter (\<lambda>q. fst q = n) ps)"
proof (induction ps)
  case (Cons p ps)
  have "filter (\<lambda>q. fst q = n) (params_delete k ps) =
      (if n = k then [] else filter (\<lambda>q. fst q = n) ps)"
    by (auto simp: params_delete_def filter_empty_conv intro: filter_cong)
  with Cons show ?case by auto
qed auto

lemma filter_params_delete:
  "filter (\<lambda>q. fst q = n) (params_delete k ps) = (if n = k then [] else filter (\<lambda>q. fst q = n) ps)"
  by (auto simp: params_delete_def filter_empty_conv intro: filter_cong)

lemma settle_apply:
  "settled_parameter p (searchParams (apply_parameter p u))"
  "fst q \<noteq> fst p \<Longrightarrow> settled_parameter q (searchParams (apply_parameter p u)) =
     settled_parameter q (searchParams u)"
  by (auto simp: settled_parameter_def apply_parameter_def wanted_def filter_params_set
      filter_params_delete)

lemma params_set_settled:
  "map snd (filter (\<lambda>q. fst q = k) ps) = [v] \<Longrightarrow> params_set k v ps = ps"
proof (induction ps)
  case (Cons p ps)
  show ?case
  proof (cases "fst p = k")
    case True
    with Cons.prems have "filter (\<lambda>q. fst q = k) ps = []" "snd p = v" by auto
    with True show ?thesis
      by (cases p) (auto simp: params_delete_def filter_empty_conv intro!: filter_True)
  next
    case False
    with Cons show ?thesis by simp
  qed
qed simp

definition canonical :: "url \<Rightarrow> bool" where
  "canonical u \<longleftrightarrow> query_text u = serialize_params (searchParams u)"

lemma canonical_update [simp]: "canonical (update_params f u)"
  by (simp add: canonical_def searchParams_def update_params_def)

lemma apply_settled:
  "canonical u \<Longrightarrow> settled_parameter p (searchParams u) \<Longrightarrow> apply_parameter p u = u"
proof (cases "wanted (snd p)")
  case None
  assume "canonical u" "settled_parameter p (searchParams u)"
  with None have "params_delete (fst p) (searchParams u) = searchParams u"
    by (auto simp: settled_parameter_def params_delete_def filter_empty_conv intro!: filter_True)
  with None \<open>canonical u\<close> show ?thesis
    by (cases u) (auto simp: apply_parameter_def update_params_def canonical_def wanted_def
        split: if_splits)
next
  case (Some v)
  assume "canonical u" "settled_parameter p (searchParams u)"
  with Some have "params_set (fst p) v (searchParams u) = searchParams u"
    by (intro params_set_settled) (simp add: settled_parameter_def)
  with Some \<open>canonical u\<close> show ?thesis
    by (cases u) (auto simp: apply_parameter_def update_params_def canonical_def wanted_def
        split: if_splits)
qed

lemma fold_settles:
  "distinct (map fst ps) \<Longrightarrow>
   \<forall>p \<in> set ps. settled_parameter p (searchParams (fold apply_parameter ps u))"
proof (induction ps rule: rev_induct)
  case Nil
  then show ?case by simp
next
  case (snoc p ps)
  then have "fst p \<notin> fst ` set ps" by simp
  then have "fst q \<noteq> fst p" if "q \<in> set ps" for q using that by (metis image_eqI)
  with snoc show ?case by (auto simp: settle_apply)
qed

lemma fold_settled_id:
  "canonical u \<Longrightarrow> \<forall>p \<in> set ps. settled_parameter p (searchParams u) \<Longrightarrow> fold apply_parameter ps u = u"
  by (induction ps) (simp_all add: apply_settled)

lemma canonical_fold: "ps \<noteq> [] \<Longrightarrow> canonical (fold apply_parameter ps u)"
  by (induction ps rule: rev_induct) (simp_all add: apply_parameter_def)

lemma url_ok_fold: "url_ok u \<Longrightarrow> url_ok (fold apply_parameter ps u)"
  by (induction ps arbitrary: u) (simp_all add: apply_parameter_def url_ok_update)

lemma origin_fold [simp]: "origin (fold apply_parameter ps u) = origin u"
  by (induction ps arbitrary: u) (simp_all add: apply_parameter_def)

lemma copy_own_params: "fold copy_missing (searchParams u) u = u"
proof -
  have "set ps \<subseteq> set (searchParams u) \<Longrightarrow> fold copy_missing ps u = u" for ps
    by (induction ps) (auto simp: copy_missing_def params_has_def)
  then show ?thesis by simp
qed

lemma query_url_current:
  assumes "url_ok u"
  shows "query_url u (relativeUrl u) parameters [] = fold apply_parameter parameters u"
  using new_URL_relative [OF assms, of "origin u"] copy_own_params [of u]
  by (simp add: query_url_def relativeUrl_def Let_def)

text \<open>
  Rewriting the current query settles in one step. When the client navigates to the URL
  that \<open>replaceCurrentQuery\<close> asks for, the same call asks for nothing more; so the listener that
  writes the active tab after every navigation never loops, and the written parameters are in
  the URL exactly once.
\<close>

lemma replace_query_settles:
  assumes "url_ok current" and "distinct (map fst parameters)" and "parameters \<noteq> []"
    and "replaceCurrentQuery current parameters = Some target"
    and "next = new_URL target (origin current)"
  shows "replaceCurrentQuery next parameters = None \<and>
    (\<forall>p \<in> set parameters. settled_parameter p (searchParams next)) \<and>
    pathname next = pathname current \<and> fragment_text next = fragment_text current"
proof -
  let ?u = "fold apply_parameter parameters current"
  have ok: "url_ok ?u" using assms(1) by (rule url_ok_fold)
  have "target = relativeUrl ?u"
    using assms(4)
    by (simp add: replaceCurrentQuery_def currentUrlWithQuery_def urlWithCurrentQuery_def Let_def
        query_url_current [OF assms(1)] split: if_splits)
  then have n: "next = ?u"
    using new_URL_relative [OF ok, of "origin current"] assms(5)
    by (simp add: relativeUrl_def)
  have settled: "\<forall>p \<in> set parameters. settled_parameter p (searchParams ?u)"
    using assms(2) by (rule fold_settles)
  then have "fold apply_parameter parameters ?u = ?u"
    using canonical_fold [OF assms(3)] by (intro fold_settled_id)
  then have "replaceCurrentQuery ?u parameters = None"
    by (simp add: replaceCurrentQuery_def currentUrlWithQuery_def urlWithCurrentQuery_def
        query_url_current [OF ok])
  moreover have "pathname ?u = pathname current" "fragment_text ?u = fragment_text current"
    by (induction parameters arbitrary: current) (simp_all add: apply_parameter_def)
  ultimately show ?thesis using settled n by simp
qed

lemma jobs_url_sync:
  "sync_tab ''batches'' jobs_url = Some ''/horizon/jobs?tag=a+b&sort=name&tab=batches''"
  by code_simp

end
