(* ===== verification/Horizon_Route.thy ===== *)
theory Horizon_Route
  imports Web_Url
begin

text \<open>
  \<^verbatim>\<open>resources/js/lib/horizon-route.ts\<close>: a generated route is moved from the base path it was
  generated with to the configured base URL of the installation. The generated base
  \<open>horizonIndex.url()\<close> comes from generated code and is the argument \<open>index_url\<close>; a rejected
  route is \<open>Inl\<close> of the error message. Also \<^verbatim>\<open>lib/page-name.ts\<close>, which maps the name of a
  page to its module.
\<close>

section \<open>Resolving a route\<close>

definition placeholderOrigin :: string where
  "placeholderOrigin = ''https://horizon-new-dawn.invalid''"

text \<open>\<open>replace(/\/+$/, "")\<close>\<close>

definition strip_slashes :: "string \<Rightarrow> string" where
  "strip_slashes s = rev (dropWhile (\<lambda>c. c = CHR ''/'') (rev s))"

text \<open>Setting \<open>pathname\<close> of a URL with an authority: an empty path becomes \<open>/\<close>.\<close>

definition set_pathname :: "string \<Rightarrow> url \<Rightarrow> url" where
  "set_pathname path u = u\<lparr>pathname := rooted path\<rparr>"

definition resolveHorizonRoute :: "string \<Rightarrow> string \<Rightarrow> string \<Rightarrow> string + string" where
  "resolveHorizonRoute index_url route_url horizonBaseUrl =
     (let generatedBasePath = strip_slashes (pathname (new_URL index_url placeholderOrigin));
          generatedRoute = new_URL route_url placeholderOrigin
      in if pathname generatedRoute \<noteq> generatedBasePath \<and>
            \<not> starts_with (pathname generatedRoute) (generatedBasePath @ ''/'')
         then Inl (''Cannot resolve a non-Horizon route: '' @ route_url)
         else
           let configuredBase = new_URL horizonBaseUrl placeholderOrigin;
               configuredBasePath = strip_slashes (pathname configuredBase);
               routeSuffix = drop (length generatedBasePath) (pathname generatedRoute);
               resolved = (set_pathname (configuredBasePath @ routeSuffix) configuredBase)
                 \<lparr>query_text := query_text generatedRoute,
                  fragment_text := fragment_text generatedRoute\<rparr>
           in Inr (if canParse horizonBaseUrl then href resolved
                   else pathname resolved @ url_search resolved @ url_hash resolved))"

subsection \<open>Properties\<close>

lemma strip_slashes_end: "strip_slashes s \<noteq> [] \<Longrightarrow> last (strip_slashes s) \<noteq> CHR ''/''"
  unfolding strip_slashes_def
  by (metis (mono_tags, lifting) hd_dropWhile last_rev rev_is_Nil_conv)

lemma strip_slashes_idem [simp]: "strip_slashes (strip_slashes s) = strip_slashes s"
  by (simp add: strip_slashes_def dropWhile_idem')

lemma strip_slashes_append:
  "\<forall>c \<in> set b. c = CHR ''/'' \<Longrightarrow> strip_slashes (a @ b) = strip_slashes a"
  by (simp add: strip_slashes_def dropWhile_append)

text \<open>A path of the application: rooted, without query, fragment or empty parts.\<close>

definition plain_path :: "string \<Rightarrow> bool" where
  "plain_path p \<longleftrightarrow> take 1 p = ''/'' \<and> CHR ''?'' \<notin> set p \<and> CHR ''#'' \<notin> set p"

lemma cut_absent: "c \<notin> set s \<Longrightarrow> cut c s = (s, None)"
  by (rule cut_none)

lemma new_URL_plain:
  "plain_path p \<Longrightarrow> new_URL p b =
     \<lparr>origin = b, pathname = p, query_text = [], fragment_text = []\<rparr>"
  by (simp add: plain_path_def new_URL_def cut_absent rooted_no_scheme rooted_def)

lemma new_URL_plain_query:
  assumes "plain_path p" and "CHR ''#'' \<notin> set q" and "q \<noteq> []"
  shows "new_URL (p @ CHR ''?'' # q) b =
     \<lparr>origin = b, pathname = p, query_text = q, fragment_text = []\<rparr>"
proof -
  have "url_ok \<lparr>origin = b, pathname = p, query_text = q, fragment_text = []\<rparr>"
    using assms by (simp add: url_ok_def plain_path_def)
  from new_URL_relative [OF this, of b] assms(3) show ?thesis
    by (simp add: url_search_def url_hash_def)
qed

text \<open>
  C27: every generated Horizon route lands under the configured base path. For a generated base
  \<open>base\<close> and a configured base path \<open>conf\<close> (with or without trailing slashes), the route
  \<open>base/suffix?query\<close> resolves to \<open>conf/suffix?query\<close>: the suffix and the query are kept as
  they are, and no double slash appears.
\<close>

theorem route_moves_to_configured_base:
  assumes base: "plain_path (base @ sl1)" "strip_slashes base = base" "\<forall>c \<in> set sl1. c = CHR ''/''"
    and conf: "plain_path (conf @ sl2)" "strip_slashes conf = conf" "\<forall>c \<in> set sl2. c = CHR ''/''"
    and route: "plain_path (base @ CHR ''/'' # suffix)" "CHR ''#'' \<notin> set q" "q \<noteq> []"
  shows "resolveHorizonRoute (base @ sl1) (base @ CHR ''/'' # suffix @ CHR ''?'' # q) (conf @ sl2) =
    Inr (conf @ CHR ''/'' # suffix @ CHR ''?'' # q)"
proof -
  have strip: "strip_slashes (base @ sl1) = base" "strip_slashes (conf @ sl2) = conf"
    using base conf by (simp_all add: strip_slashes_append)
  have r: "new_URL (base @ CHR ''/'' # suffix @ CHR ''?'' # q) placeholderOrigin =
      \<lparr>origin = placeholderOrigin, pathname = base @ CHR ''/'' # suffix, query_text = q,
       fragment_text = []\<rparr>"
    using new_URL_plain_query [OF route, of placeholderOrigin] by simp
  have ok: "starts_with (base @ CHR ''/'' # suffix) (base @ ''/'')"
    by (simp add: starts_with_append)
  have relative: "\<not> canParse (conf @ sl2)"
    using conf(1) by (simp add: canParse_def plain_path_def rooted_no_scheme)
  have "take 1 (conf @ CHR ''/'' # suffix) = ''/''"
    using conf(1) by (cases conf) (simp_all add: plain_path_def)
  then have "rooted (conf @ CHR ''/'' # suffix) = conf @ CHR ''/'' # suffix"
    by (simp add: rooted_def)
  then show ?thesis
    using ok relative route(3)
    by (simp add: resolveHorizonRoute_def new_URL_plain [OF base(1)] new_URL_plain [OF conf(1)] r
        strip Let_def set_pathname_def url_search_def url_hash_def)
qed

theorem route_moves_to_configured_base_witness:
  "resolveHorizonRoute ''/horizon'' ''/horizon/jobs?tab=a'' ''/admin/queues/'' =
     Inr ''/admin/queues/jobs?tab=a''"
proof -
  have "plain_path (''/horizon'' @ [])" "strip_slashes ''/horizon'' = ''/horizon''"
    "plain_path (''/admin/queues'' @ ''/'')" "strip_slashes ''/admin/queues'' = ''/admin/queues''"
    "plain_path (''/horizon'' @ CHR ''/'' # ''jobs'')"
    by (simp_all add: plain_path_def strip_slashes_def)
  from route_moves_to_configured_base [OF this(1,2) _ this(3,4) _ this(5), of "''tab=a''"]
  show ?thesis by simp
qed

text \<open>
  Only Horizon routes are resolved. A route whose path is neither the generated base nor
  below it is rejected with an error that names it, even when its path merely begins with the
  same letters; and the error is raised for no other route.
\<close>

lemma foreign_route_rejected:
  "(resolveHorizonRoute index_url route_url horizonBaseUrl =
      Inl (''Cannot resolve a non-Horizon route: '' @ route_url)) \<longleftrightarrow>
   \<not> (\<exists>rest. pathname (new_URL route_url placeholderOrigin) =
        strip_slashes (pathname (new_URL index_url placeholderOrigin)) @ rest \<and>
        (rest = [] \<or> take 1 rest = ''/''))"
proof -
  have "(\<exists>rest. p = b @ rest \<and> (rest = [] \<or> take 1 rest = ''/'')) \<longleftrightarrow>
      p = b \<or> starts_with p (b @ ''/'')" for p b :: string
  proof -
    have "rest = [] \<or> take 1 rest = ''/'' \<longleftrightarrow> rest = [] \<or> (\<exists>r. rest = CHR ''/'' # r)" for rest
      by (cases rest) auto
    then show ?thesis by (auto simp: starts_with_append)
  qed
  then show ?thesis by (simp add: resolveHorizonRoute_def Let_def)
qed

section \<open>Page modules\<close>

definition lower :: "char \<Rightarrow> bool" where
  "lower c \<longleftrightarrow> (let n = of_char c :: nat in 97 \<le> n \<and> n \<le> 122)"

definition upper :: "char \<Rightarrow> bool" where
  "upper c \<longleftrightarrow> (let n = of_char c :: nat in 65 \<le> n \<and> n \<le> 90)"

definition digit :: "char \<Rightarrow> bool" where
  "digit c \<longleftrightarrow> (let n = of_char c :: nat in 48 \<le> n \<and> n \<le> 57)"

definition to_lower :: "char \<Rightarrow> char" where
  "to_lower c = (if upper c then char_of (of_char c + 32 :: nat) else c)"

text \<open>\<open>replace(/([a-z0-9])([A-Z])/g, "$1-$2")\<close>: matches do not overlap.\<close>

fun hyphenate :: "string \<Rightarrow> string" where
  "hyphenate (a # b # s) =
     (if (lower a \<or> digit a) \<and> upper b then a # CHR ''-'' # b # hyphenate s
      else a # hyphenate (b # s))"
| "hyphenate s = s"

definition pageModulePath :: "string \<Rightarrow> string" where
  "pageModulePath name =
     (let path = join ''/'' (map (\<lambda>segment. map to_lower (hyphenate segment))
            (split_on (CHR ''/'') name))
      in ''./pages/'' @ path @ ''.tsx'')"

lemma page_module_examples:
  "pageModulePath ''FailedJobs/Show'' = ''./pages/failed-jobs/show.tsx''"
  "pageModulePath ''Dashboard'' = ''./pages/dashboard.tsx''"
  by code_simp+

end
