(* ===== verification/Wayfinder.thy ===== *)
theory Wayfinder
  imports Web_Url
begin

text \<open>
  \<^verbatim>\<open>resources/js/wayfinder/index.ts\<close>: the runtime of the generated routes. \<open>queryParams\<close> turns
  an object of values into a query string, optionally merged into the query of the current page;
  the URL defaults are module state; \<open>validateParameters\<close> checks optional route parameters.

  A number is represented by its decimal text. The current page's query is an argument; an
  absent one stands for code that runs without a window. A thrown error is \<open>Inl\<close>.
\<close>

section \<open>Query parameters\<close>

datatype scalar = SString string | SNumber string | SBool bool

datatype query_value =
    Scalar scalar
  | Items "scalar list"
  | Null
  | Undefined
  | Nested "(string \<times> query_value) list"

record RouteQueryOptions =
  opt_query :: "(string \<times> query_value) list option"
  opt_mergeQuery :: "(string \<times> query_value) list option"

fun getValue :: "scalar \<Rightarrow> string" where
  "getValue (SBool True) = ''1''"
| "getValue (SBool False) = ''0''"
| "getValue (SString s) = s"
| "getValue (SNumber n) = n"

text \<open>\<open>value.toString()\<close> of an array element, as the top level uses it.\<close>

fun toString :: "scalar \<Rightarrow> string" where
  "toString (SBool b) = (if b then ''true'' else ''false'')"
| "toString (SString s) = s"
| "toString (SNumber n) = n"

definition sub_key :: "string \<Rightarrow> string \<Rightarrow> string" where
  "sub_key prefix key = prefix @ ''['' @ key @ '']''"

definition append_all :: "(scalar \<Rightarrow> string) \<Rightarrow> string \<Rightarrow> scalar list \<Rightarrow> search_params \<Rightarrow> search_params" where
  "append_all text key xs ps = fold (\<lambda>x. params_append (key @ ''[]'') (text x)) xs ps"

fun addNestedParams ::
  "(string \<times> query_value) list \<Rightarrow> string \<Rightarrow> search_params \<Rightarrow> search_params" where
  "addNestedParams [] prefix params = params"
| "addNestedParams ((subKey, Undefined) # obj) prefix params = addNestedParams obj prefix params"
| "addNestedParams ((subKey, Items xs) # obj) prefix params =
     addNestedParams obj prefix (append_all getValue (sub_key prefix subKey) xs params)"
| "addNestedParams ((subKey, Nested o') # obj) prefix params =
     addNestedParams obj prefix (addNestedParams o' (sub_key prefix subKey) params)"
| "addNestedParams ((subKey, Null) # obj) prefix params = addNestedParams obj prefix params"
| "addNestedParams ((subKey, Scalar v) # obj) prefix params =
     addNestedParams obj prefix (params_set (sub_key prefix subKey) (getValue v) params)"

definition in_family :: "string \<Rightarrow> string \<Rightarrow> bool" where
  "in_family key paramKey \<longleftrightarrow> paramKey = key \<or> starts_with paramKey (key @ ''['')"

definition clearParamFamily :: "string \<Rightarrow> search_params \<Rightarrow> search_params" where
  "clearParamFamily key params =
     (let toDelete = uniq (filter (in_family key) (map fst params))
      in fold params_delete toDelete params)"

definition add_query_value ::
  "bool \<Rightarrow> string \<times> query_value \<Rightarrow> search_params \<Rightarrow> search_params" where
  "add_query_value includeExisting e params0 =
     (let key = fst e;
          params = (if includeExisting then clearParamFamily key params0 else params0)
      in case snd e of
           Undefined \<Rightarrow> params
         | Null \<Rightarrow> params
         | Items xs \<Rightarrow> append_all toString key xs params
         | Nested obj \<Rightarrow> addNestedParams obj key params
         | Scalar v \<Rightarrow> params_set key (getValue v) params)"

definition query_search_params :: "string option \<Rightarrow> RouteQueryOptions \<Rightarrow> search_params" where
  "query_search_params locationSearch options =
     (let query = (case opt_query options of Some q \<Rightarrow> q
            | None \<Rightarrow> (case opt_mergeQuery options of Some q \<Rightarrow> q | None \<Rightarrow> []));
          includeExisting = (opt_mergeQuery options \<noteq> None);
          params = (if includeExisting \<and> locationSearch \<noteq> None
            then parse_params (the locationSearch) else [])
      in fold (add_query_value includeExisting) query params)"

definition queryParams :: "string option \<Rightarrow> RouteQueryOptions option \<Rightarrow> string" where
  "queryParams locationSearch options =
     (case options of
        None \<Rightarrow> []
      | Some o' \<Rightarrow>
          if opt_query o' = None \<and> opt_mergeQuery o' = None then []
          else (let str = serialize_params (query_search_params locationSearch o')
                in if length str > 0 then CHR ''?'' # str else []))"

section \<open>URL defaults\<close>

text \<open>The module variable \<open>urlDefaults\<close> is a function; its current value is what it returns.\<close>

type_synonym 'v url_defaults = "unit \<Rightarrow> (string \<times> 'v option) list"

definition initial_defaults :: "'v url_defaults" where
  "initial_defaults = (\<lambda>_. [])"

definition setUrlDefaults :: "(string \<times> 'v option) list + 'v url_defaults \<Rightarrow> 'v url_defaults" where
  "setUrlDefaults params = (case params of Inr f \<Rightarrow> f | Inl p \<Rightarrow> (\<lambda>_. p))"

definition addUrlDefault :: "string \<Rightarrow> 'v \<Rightarrow> 'v url_defaults \<Rightarrow> 'v url_defaults" where
  "addUrlDefault key value previousDefaults =
     (\<lambda>u. AList.update key (Some value) (previousDefaults u))"

definition applyUrlDefaults ::
  "'v url_defaults \<Rightarrow> (string \<times> 'v option) list option \<Rightarrow> (string \<times> 'v option) list" where
  "applyUrlDefaults urlDefaults existing =
     fold (\<lambda>(key, v) params.
         if Option.bind (map_of params key) id = None \<and> v \<noteq> None
         then AList.update key v params else params)
       (urlDefaults ()) (case existing of None \<Rightarrow> [] | Some e \<Rightarrow> e)"

section \<open>Optional route parameters\<close>

definition is_missing :: "(string \<times> query_value) list option \<Rightarrow> string \<Rightarrow> bool" where
  "is_missing args key \<longleftrightarrow>
     (case args of None \<Rightarrow> True
      | Some a \<Rightarrow> (case map_of a key of
          None \<Rightarrow> True
        | Some v \<Rightarrow> v \<in> {Undefined, Null, Scalar (SString []), Scalar (SBool False)}))"

text \<open>\<open>slice\<close> with a negative start counts from the end; \<open>slice(-0)\<close> is the whole array.\<close>

definition slice_end :: "nat \<Rightarrow> 'a list \<Rightarrow> 'a list" where
  "slice_end n xs = (if n = 0 then xs else drop (length xs - n) xs)"

definition validateParameters ::
  "(string \<times> query_value) list option \<Rightarrow> string list \<Rightarrow> string + unit" where
  "validateParameters args optional =
     (let missing = filter (is_missing args) optional;
          expectedMissing = slice_end (length missing) optional
      in if list_all (\<lambda>i. missing ! i = expectedMissing ! i) [0..<length missing]
         then Inr ()
         else Inl ''Unexpected optional parameters missing. Unable to generate a URL.'')"

section \<open>Lemmas\<close>

lemma fold_params_delete: "fold params_delete ks ps = filter (\<lambda>p. fst p \<notin> set ks) ps"
  by (induction ks arbitrary: ps) (auto simp: params_delete_def intro: filter_cong)

lemma clear_family: "clearParamFamily key ps = filter (\<lambda>p. \<not> in_family key (fst p)) ps"
  by (auto simp: clearParamFamily_def Let_def fold_params_delete intro!: filter_cong)

lemma append_all_eq: "append_all text key xs ps = ps @ map (\<lambda>x. (key @ ''[]'', text x)) xs"
  unfolding append_all_def by (induction xs arbitrary: ps) (simp_all add: params_append_def)

text \<open>What a value writes lies in the family of its key.\<close>

definition same_outside :: "string \<Rightarrow> search_params \<Rightarrow> search_params \<Rightarrow> bool" where
  "same_outside key ps qs \<longleftrightarrow>
     filter (\<lambda>p. \<not> in_family key (fst p)) qs = filter (\<lambda>p. \<not> in_family key (fst p)) ps"

lemma same_outside_trans: "same_outside k a b \<Longrightarrow> same_outside k b c \<Longrightarrow> same_outside k a c"
  by (simp add: same_outside_def)

lemma family_sub_key: "in_family key (sub_key key k)" "in_family key (key @ ''[]'')"
  "in_family key (sub_key key k @ ''[]'')"
  by (auto simp: in_family_def sub_key_def starts_with_append)

lemma family_nested: "in_family (sub_key key k) n \<Longrightarrow> in_family key n"
  by (auto simp: in_family_def sub_key_def starts_with_append)

lemma same_outside_weaken: "same_outside (sub_key key k) a b \<Longrightarrow> same_outside key a b"
proof -
  let ?F = "filter (\<lambda>p. \<not> in_family key (fst p))"
  let ?G = "filter (\<lambda>p. \<not> in_family (sub_key key k) (fst p))"
  assume "same_outside (sub_key key k) a b"
  then have e: "?F (?G b) = ?F (?G a)"
    by (simp add: same_outside_def)
  have m: "?F (?G c) = ?F c" for c
    unfolding filter_filter using family_nested [of key k] by (auto intro: filter_cong)
  show ?thesis using e unfolding same_outside_def m .
qed

lemma same_outside_append: "in_family key (k @ ''[]'') \<Longrightarrow> same_outside key ps (append_all text k xs ps)"
  by (auto simp: same_outside_def append_all_eq filter_empty_conv)

lemma same_outside_set: "in_family key k \<Longrightarrow> same_outside key ps (params_set k v ps)"
proof (induction ps)
  case (Cons p ps)
  have "filter (\<lambda>p. \<not> in_family key (fst p)) (params_delete k ps) = filter (\<lambda>p. \<not> in_family key (fst p)) ps"
    using Cons.prems by (auto simp: params_delete_def intro: filter_cong)
  with Cons show ?case by (auto simp: same_outside_def)
qed (simp add: same_outside_def)

lemma same_outside_nested: "same_outside prefix ps (addNestedParams obj prefix ps)"
proof (induction obj prefix ps rule: addNestedParams.induct)
  case (3 k xs obj prefix ps)
  then show ?case
    using same_outside_trans [OF same_outside_append [of prefix "sub_key prefix k"]]
    by (simp add: family_sub_key)
next
  case (4 k obj' obj prefix ps)
  then show ?case using same_outside_trans [OF same_outside_weaken] by simp
next
  case (6 k v obj prefix ps)
  then show ?case
    using same_outside_trans [OF same_outside_set [of prefix "sub_key prefix k"]]
    by (simp add: family_sub_key)
qed (simp_all add: same_outside_def)

lemma same_outside_value: "same_outside (fst e) ps (add_query_value merge e ps)"
proof -
  let ?ps = "if merge then clearParamFamily (fst e) ps else ps"
  have start: "same_outside (fst e) ps ?ps" by (simp add: same_outside_def clear_family)
  have self: "in_family (fst e) (fst e)" by (simp add: in_family_def)
  show ?thesis
  proof (cases "snd e")
    case (Scalar v)
    with same_outside_trans [OF start same_outside_set [OF self]] show ?thesis
      by (simp add: add_query_value_def Let_def)
  next
    case (Items xs)
    with same_outside_trans [OF start same_outside_append [OF family_sub_key(2)]] show ?thesis
      by (simp add: add_query_value_def Let_def)
  next
    case (Nested obj)
    with same_outside_trans [OF start same_outside_nested] show ?thesis
      by (simp add: add_query_value_def Let_def)
  qed (use start in \<open>simp_all add: add_query_value_def Let_def\<close>)
qed

lemma filter_is_suffix:
  "filter P xs = drop (length xs - length (filter P xs)) xs \<longleftrightarrow>
   (\<exists>as bs. xs = as @ bs \<and> list_all (\<lambda>x. \<not> P x) as \<and> list_all P bs)" (is "?l \<longleftrightarrow> ?r")
proof
  assume d: ?l
  let ?n = "length xs - length (filter P xs)"
  have all: "list_all P (drop ?n xs)"
    unfolding d [symmetric] by (simp add: list_all_iff)
  have same: "list_all P bs \<Longrightarrow> filter P as @ bs = filter P (as @ bs)" for as bs
    by (simp add: list_all_iff filter_id_conv)
  have "filter P (take ?n xs) @ drop ?n xs = filter P (take ?n xs @ drop ?n xs)"
    by (rule same [OF all])
  also have "\<dots> = drop ?n xs" unfolding append_take_drop_id using d .
  finally have "filter P (take ?n xs) = []" by (simp only: append_self_conv2)
  then have none: "list_all (\<lambda>x. \<not> P x) (take ?n xs)"
    unfolding filter_empty_conv list_all_iff .
  show ?r by (rule exI, rule exI, rule conjI [OF append_take_drop_id [symmetric] conjI [OF none all]])
next
  assume ?r
  then obtain as bs where "xs = as @ bs" "filter P as = []" "filter P bs = bs"
    by (auto simp: filter_empty_conv list_all_iff filter_id_conv)
  then show ?l by simp
qed

lemma merge_fold_outside:
  assumes "set es \<subseteq> K"
  shows "filter (\<lambda>p. \<forall>e \<in> K. \<not> in_family (fst e) (fst p)) (fold (add_query_value True) es ps) =
      filter (\<lambda>p. \<forall>e \<in> K. \<not> in_family (fst e) (fst p)) ps"
  using assms
proof (induction es arbitrary: ps)
  case (Cons e es)
  let ?out = "\<lambda>p. \<forall>e \<in> K. \<not> in_family (fst e) (fst p)"
  have out: "filter ?out (filter (\<lambda>p. \<not> in_family (fst e) (fst p)) xs) = filter ?out xs" for xs
    using Cons.prems by (auto intro: filter_cong)
  have "filter ?out (add_query_value True e ps) = filter ?out ps"
    unfolding out [of "add_query_value True e ps", symmetric] out [of ps, symmetric]
    using same_outside_value [of e ps True] by (simp only: same_outside_def)
  with Cons show ?case by simp
qed simp

text \<open>
  Merging into the current query touches only what it names. Every parameter of the page's
  query that belongs to none of the given keys' families keeps its values and its order,
  whatever the given values are; without a merge the result does not depend on the page.
\<close>

lemma merge_keeps_other_parameters:
  assumes "opt_mergeQuery o' = Some q" and "opt_query o' = None"
  shows "filter (\<lambda>p. \<forall>e \<in> set q. \<not> in_family (fst e) (fst p)) (query_search_params (Some search) o') =
    filter (\<lambda>p. \<forall>e \<in> set q. \<not> in_family (fst e) (fst p)) (parse_params search)"
  using assms merge_fold_outside [of q "set q"] by (simp add: query_search_params_def Let_def)

text \<open>
  Optional route parameters may be omitted only from the end. The check accepts a call if
  and only if the missing ones are exactly the last ones of the list, so no accepted call
  leaves a hole in the path.
\<close>

lemma validate_parameters_exact:
  "validateParameters args optional = Inr () \<longleftrightarrow>
   (\<exists>given absent. optional = given @ absent \<and>
      list_all (\<lambda>k. \<not> is_missing args k) given \<and> list_all (is_missing args) absent)"
proof -
  let ?m = "filter (is_missing args) optional"
  have len: "length ?m \<le> length optional" by (rule length_filter_le)
  have ok: "validateParameters args optional = Inr () \<longleftrightarrow>
      ?m = drop (length optional - length ?m) optional"
  proof (cases "?m = []")
    case True
    then show ?thesis by (simp add: validateParameters_def Let_def)
  next
    case False
    then have e: "slice_end (length ?m) optional = drop (length optional - length ?m) optional"
      by (simp only: slice_end_def length_0_conv if_False)
    have l: "length (drop (length optional - length ?m) optional) = length ?m" using len by simp
    show ?thesis
      unfolding validateParameters_def Let_def e list_eq_iff_nth_eq [of ?m] l list_all_iff by (auto simp: Bex_def)
  qed
  show ?thesis unfolding ok filter_is_suffix ..
qed

end
