(* ===== verification/Number.thy ===== *)
theory Number
  imports Complex_Main Prelude
begin

text \<open>
  Numbers as the interface code uses them, and their \<open>Intl.NumberFormat\<close> texts in the
  \<^verbatim>\<open>en-US\<close> locale. Arithmetic is exact: a finite number is a rational, so the rounding of
  binary floating point is not modelled; negative zero is zero.
\<close>

datatype number = Num rat | PosInfinity | NegInfinity | NaN

definition isFinite :: "number \<Rightarrow> bool" where
  "isFinite n = (case n of Num _ \<Rightarrow> True | _ \<Rightarrow> False)"

fun number_minus :: "number \<Rightarrow> number \<Rightarrow> number" where
  "number_minus (Num a) (Num b) = Num (a - b)"
| "number_minus NaN n = NaN"
| "number_minus n NaN = NaN"
| "number_minus PosInfinity PosInfinity = NaN"
| "number_minus PosInfinity n = PosInfinity"
| "number_minus NegInfinity NegInfinity = NaN"
| "number_minus NegInfinity n = NegInfinity"
| "number_minus (Num a) PosInfinity = NegInfinity"
| "number_minus (Num a) NegInfinity = PosInfinity"

fun number_negate :: "number \<Rightarrow> number" where
  "number_negate (Num a) = Num (- a)"
| "number_negate PosInfinity = NegInfinity"
| "number_negate NegInfinity = PosInfinity"
| "number_negate NaN = NaN"

text \<open>How \<open>Array.prototype.sort\<close> reads the answer of its comparison.\<close>

fun order_sign :: "number \<Rightarrow> int" where
  "order_sign (Num a) = (if a < 0 then -1 else if a = 0 then 0 else 1)"
| "order_sign PosInfinity = 1"
| "order_sign NegInfinity = -1"
| "order_sign NaN = 0"

section \<open>Rounding and decimal text\<close>

text \<open>\<open>Math.round\<close>: halves go up.\<close>

definition round_half_up :: "rat \<Rightarrow> int" where
  "round_half_up r = \<lfloor>r + 1 / 2\<rfloor>"

lemma round_half_up_bounds:
  "of_int (round_half_up r) \<le> r + 1 / 2" "r - 1 / 2 < of_int (round_half_up r)"
  unfolding round_half_up_def by linarith+

lemma round_half_up_mono: "r \<le> s \<Longrightarrow> round_half_up r \<le> round_half_up s"
  unfolding round_half_up_def by (simp add: floor_mono)

lemma round_half_up_int [simp]: "round_half_up (of_int i) = i"
  unfolding round_half_up_def by linarith

definition digit_char :: "nat \<Rightarrow> char" where
  "digit_char d = char_of (48 + d)"

fun nat_text :: "nat \<Rightarrow> string" where
  "nat_text n = (if n < 10 then [digit_char n] else nat_text (n div 10) @ [digit_char (n mod 10)])"

declare nat_text.simps [simp del]

definition int_text :: "int \<Rightarrow> string" where
  "int_text i = (if i < 0 then CHR ''-'' # nat_text (nat (- i)) else nat_text (nat i))"

text \<open>A comma between the groups of three digits.\<close>

definition last_group :: "nat \<Rightarrow> string" where
  "last_group n = [digit_char (n div 100 mod 10), digit_char (n div 10 mod 10), digit_char (n mod 10)]"

fun grouped_text :: "nat \<Rightarrow> string" where
  "grouped_text n =
     (if n < 1000 then nat_text n else grouped_text (n div 1000) @ '','' @ last_group n)"

declare grouped_text.simps [simp del]

text \<open>The decimals of a fraction of \<open>10 ^ digits\<close>, without trailing zeros.\<close>

fun fraction_text :: "nat \<Rightarrow> nat \<Rightarrow> string" where
  "fraction_text digits n =
     (if digits = 0 \<or> n = 0 then []
      else let unit = 10 ^ (digits - 1)
           in digit_char (n div unit) # fraction_text (digits - 1) (n mod unit))"

declare fraction_text.simps [simp del]

text \<open>\<open>Intl.NumberFormat\<close> with \<open>maximumFractionDigits: digits\<close>, of a number that is not negative.\<close>

definition format_decimal :: "nat \<Rightarrow> rat \<Rightarrow> string" where
  "format_decimal digits r =
     (let scaled = nat (round_half_up (r * 10 ^ digits));
          whole = scaled div 10 ^ digits;
          rest = scaled mod 10 ^ digits
      in grouped_text whole @ (if rest = 0 then [] else CHR ''.'' # fraction_text digits rest))"

text \<open>What the decimal text of a rounded number reads as: the reading undoes the printing.\<close>

fun read_digits :: "nat \<Rightarrow> string \<Rightarrow> nat" where
  "read_digits acc [] = acc"
| "read_digits acc (c # cs) =
     (if c = CHR '','' then read_digits acc cs else read_digits (10 * acc + (of_char c - 48)) cs)"

lemma read_digits_append: "read_digits acc (s @ t) = read_digits (read_digits acc s) t"
  by (induction s arbitrary: acc) simp_all

lemma digit_char_props:
  assumes "d < 10"
  shows "of_char (digit_char d) = (48 + d :: nat)" "digit_char d \<noteq> CHR '',''"
proof -
  show v: "of_char (digit_char d) = (48 + d :: nat)" using assms by (simp add: digit_char_def)
  show "digit_char d \<noteq> CHR '',''"
  proof
    assume "digit_char d = CHR '',''"
    with v have "(44 :: nat) = 48 + d" by simp
    then show False by simp
  qed
qed

lemma read_digit: "d < 10 \<Longrightarrow> read_digits acc [digit_char d] = 10 * acc + d"
  by (simp add: digit_char_props)

lemma read_nat_text: "\<exists>k. \<forall>acc. read_digits acc (nat_text n) = acc * 10 ^ k + n"
proof (induction n rule: nat_text.induct)
  case (1 n)
  show ?case
  proof (cases "n < 10")
    case True
    then show ?thesis
      by (intro exI [of _ 1]) (simp add: nat_text.simps digit_char_props)
  next
    case False
    with 1 obtain k where k: "\<And>acc. read_digits acc (nat_text (n div 10)) = acc * 10 ^ k + n div 10"
      by blast
    have "read_digits acc (nat_text n) = acc * 10 ^ Suc k + n" for acc
      using False k by (subst nat_text.simps) (simp add: read_digits_append digit_char_props algebra_simps)
    then show ?thesis by blast
  qed
qed

lemma read_last_group: "read_digits acc ('','' @ last_group n) = acc * 1000 + n mod 1000"
proof -
  have "n div 10 mod 10 * 10 + n mod 10 = n mod 100" "n div 100 mod 10 * 100 + n mod 100 = n mod 1000"
    using mod_mult2_eq [of n 10 10] mod_mult2_eq [of n 100 10] by simp_all
  then show ?thesis by (simp add: last_group_def digit_char_props)
qed

lemma read_grouped_text: "read_digits 0 (grouped_text n) = n"
proof (induction n rule: grouped_text.induct)
  case (1 n)
  show ?case
  proof (cases "n < 1000")
    case True
    obtain k where "read_digits 0 (nat_text n) = 0 * 10 ^ k + n" using read_nat_text by blast
    with True show ?thesis by (simp add: grouped_text.simps)
  next
    case False
    with 1 show ?thesis
      by (subst grouped_text.simps) (simp only: if_False read_digits_append [of _ _ "'','' @ last_group n"]
          read_last_group, simp)
  qed
qed

lemma grouped_text_inject: "grouped_text m = grouped_text n \<longleftrightarrow> m = n"
  by (metis read_grouped_text)

definition is_digit :: "char \<Rightarrow> bool" where
  "is_digit c = (let n = of_char c :: nat in 48 \<le> n \<and> n \<le> 57)"

lemma digit_char_digit: "d < 10 \<Longrightarrow> is_digit (digit_char d)"
  by (simp add: is_digit_def Let_def digit_char_props)

lemma nat_text_digits: "\<forall>c \<in> set (nat_text n). is_digit c"
proof (induction n rule: nat_text.induct)
  case (1 n)
  show ?case
  proof (cases "n < 10")
    case True
    then show ?thesis by (simp add: nat_text.simps digit_char_digit)
  next
    case False
    with 1 show ?thesis by (subst nat_text.simps) (auto simp: digit_char_digit)
  qed
qed

lemma nat_text_nonempty: "nat_text n \<noteq> []"
  by (subst nat_text.simps) simp

end
