(* ===== verification/Sort_Rows.thy ===== *)
theory Sort_Rows
  imports Number Url_Query "HOL-Library.Multiset" "HOL-Library.List_Lexorder"
begin

text \<open>
  \<^verbatim>\<open>resources/js/hooks/use-sortable-rows.ts\<close>: client-side sorting of the tables. The collator of
  the user's locale, \<open>Intl.Collator.compare\<close>, and the text of a number are arguments; what the
  code relies on is that the collator is a consistent comparison (\<open>collator_law\<close>). A column may
  give infinite numbers (the workload table sorts an unknown throughput as minus infinity), whose
  difference is not a number.
\<close>

section \<open>The model\<close>

datatype SortDirection = Asc | Desc

datatype SortValue = SortString string | SortNumber number | SortNull

record 'row SortColumn =
  column_key :: string
  column_value :: "'row \<Rightarrow> SortValue"

record SortState =
  state_key :: string
  state_direction :: SortDirection

record SortUrlOptions =
  opt_persist :: "bool option"
  opt_prefix :: "string option"
  opt_defaultSort :: "SortState option"

fun sort_text :: "(number \<Rightarrow> string) \<Rightarrow> SortValue \<Rightarrow> string" where
  "sort_text number_text (SortString s) = s"
| "sort_text number_text (SortNumber n) = number_text n"
| "sort_text number_text SortNull = ''null''"

definition compareValues ::
  "(string \<Rightarrow> string \<Rightarrow> rat) \<Rightarrow> (number \<Rightarrow> string) \<Rightarrow> SortValue \<Rightarrow> SortValue \<Rightarrow> SortDirection \<Rightarrow> number" where
  "compareValues collate number_text left right direction =
     (if left = SortNull \<and> right = SortNull then Num 0
      else if left = SortNull then Num 1
      else if right = SortNull then Num (-1)
      else let comparison = (case (left, right) of
                 (SortNumber l, SortNumber r) \<Rightarrow> number_minus l r
               | _ \<Rightarrow> Num (collate (sort_text number_text left) (sort_text number_text right)))
           in if direction = Asc then comparison else number_negate comparison)"

text \<open>\<open>Array.prototype.sort\<close>: stable, by a comparison whose sign decides.\<close>

fun insert_by :: "('a \<Rightarrow> 'a \<Rightarrow> number) \<Rightarrow> 'a \<Rightarrow> 'a list \<Rightarrow> 'a list" where
  "insert_by cmp x [] = [x]"
| "insert_by cmp x (y # ys) =
     (if order_sign (cmp x y) \<le> 0 then x # y # ys else y # insert_by cmp x ys)"

definition sort_by :: "('a \<Rightarrow> 'a \<Rightarrow> number) \<Rightarrow> 'a list \<Rightarrow> 'a list" where
  "sort_by cmp xs = foldr (insert_by cmp) xs []"

definition compare_rows ::
  "(string \<Rightarrow> string \<Rightarrow> rat) \<Rightarrow> (number \<Rightarrow> string) \<Rightarrow> 'row SortColumn \<Rightarrow> SortDirection \<Rightarrow>
   'row \<times> nat \<Rightarrow> 'row \<times> nat \<Rightarrow> number" where
  "compare_rows collate number_text column direction left right =
     (let comparison = compareValues collate number_text
            (column_value column (fst left)) (column_value column (fst right)) direction
      in if comparison = Num 0 then Num (of_nat (snd left) - of_nat (snd right)) else comparison)"

definition sortRows ::
  "(string \<Rightarrow> string \<Rightarrow> rat) \<Rightarrow> (number \<Rightarrow> string) \<Rightarrow> 'row list \<Rightarrow> 'row SortColumn list \<Rightarrow>
   SortState option \<Rightarrow> 'row list" where
  "sortRows collate number_text rows columns sorting =
     (case sorting of
        None \<Rightarrow> rows
      | Some s \<Rightarrow>
          (case find (\<lambda>candidate. column_key candidate = state_key s) columns of
             None \<Rightarrow> rows
           | Some column \<Rightarrow>
               map fst (sort_by (compare_rows collate number_text column (state_direction s))
                 (zip rows [0..<length rows]))))"

definition queryParameterNames :: "string option \<Rightarrow> string \<times> string" where
  "queryParameterNames prefix =
     (case prefix of
        Some (c # p) \<Rightarrow> (c # p @ ''_sort'', c # p @ ''_direction'')
      | _ \<Rightarrow> (''sort'', ''direction''))"

fun direction_text :: "SortDirection \<Rightarrow> string" where
  "direction_text Asc = ''asc''"
| "direction_text Desc = ''desc''"

definition parse_direction :: "string option \<Rightarrow> SortDirection option" where
  "parse_direction s =
     (if s = Some ''asc'' then Some Asc else if s = Some ''desc'' then Some Desc else None)"

definition persisted_sort :: "url \<Rightarrow> 'row SortColumn list \<Rightarrow> string option \<Rightarrow> SortState option" where
  "persisted_sort current columns prefix =
     (let names = queryParameterNames prefix
      in case (currentQueryParameter current (fst names),
               parse_direction (currentQueryParameter current (snd names))) of
           (Some key, Some direction) \<Rightarrow>
             if list_ex (\<lambda>column. column_key column = key) columns
             then Some \<lparr>state_key = key, state_direction = direction\<rparr> else None
         | _ \<Rightarrow> None)"

definition initialSort ::
  "url \<Rightarrow> 'row SortColumn list \<Rightarrow> SortUrlOptions \<Rightarrow> SortState option" where
  "initialSort current columns options =
     (case (if opt_persist options = Some True then persisted_sort current columns (opt_prefix options)
            else None) of
        Some s \<Rightarrow> Some s
      | None \<Rightarrow>
          (case opt_defaultSort options of
             Some d \<Rightarrow> if list_ex (\<lambda>column. column_key column = state_key d) columns then Some d else None
           | None \<Rightarrow> None))"

definition next_sort :: "string \<Rightarrow> SortState option \<Rightarrow> SortState" where
  "next_sort key current =
     \<lparr>state_key = key,
      state_direction = (if current = Some \<lparr>state_key = key, state_direction = Asc\<rparr> then Desc else Asc)\<rparr>"

text \<open>The new sort, and the URL the client is told to replace the current one by, if any.\<close>

definition toggle ::
  "SortUrlOptions \<Rightarrow> string \<Rightarrow> url \<Rightarrow> SortState option \<Rightarrow> SortState \<times> string option" where
  "toggle options key location current =
     (let next = next_sort key current; names = queryParameterNames (opt_prefix options)
      in (next,
          if opt_persist options = Some True
          then replaceCurrentQuery location
                 [(fst names, QString (state_key next)),
                  (snd names, QString (direction_text (state_direction next)))]
          else None))"

definition follow :: "url \<Rightarrow> string option \<Rightarrow> url" where
  "follow location target =
     (case target of None \<Rightarrow> location | Some t \<Rightarrow> new_URL t (origin location))"

section \<open>Sorting by a consistent comparison\<close>

definition consistent :: "('a \<Rightarrow> 'a \<Rightarrow> int) \<Rightarrow> 'a set \<Rightarrow> bool" where
  "consistent sign S \<longleftrightarrow>
     (\<forall>x \<in> S. \<forall>y \<in> S. sign x y \<le> 0 \<longleftrightarrow> 0 \<le> sign y x) \<and>
     (\<forall>x \<in> S. \<forall>y \<in> S. \<forall>z \<in> S. sign x y \<le> 0 \<longrightarrow> sign y z \<le> 0 \<longrightarrow> sign x z \<le> 0)"

lemma mset_insert_by [simp]: "mset (insert_by cmp x xs) = add_mset x (mset xs)"
  by (induction xs) auto

lemma set_insert_by [simp]: "set (insert_by cmp x xs) = insert x (set xs)"
  by (induction xs) auto

lemma mset_sort_by [simp]: "mset (sort_by cmp xs) = mset xs"
  by (induction xs) (simp_all add: sort_by_def)

lemma set_sort_by [simp]: "set (sort_by cmp xs) = set xs"
  using mset_sort_by [of cmp xs] by (metis set_mset_mset)

lemma mset_sortRows [simp]: "mset (sortRows collate number_text rows columns sorting) = mset rows"
  by (auto simp: sortRows_def mset_map [symmetric] split: option.splits)

lemma set_sortRows [simp]: "set (sortRows collate number_text rows columns sorting) = set rows"
  by (metis mset_sortRows set_mset_mset)

text \<open>Before another element: smaller, or equal and earlier in the input.\<close>

definition stably_before :: "('a \<Rightarrow> 'a \<Rightarrow> number) \<Rightarrow> ('a \<Rightarrow> nat) \<Rightarrow> 'a \<Rightarrow> 'a \<Rightarrow> bool" where
  "stably_before cmp pos a b \<longleftrightarrow>
     order_sign (cmp a b) < 0 \<or> (order_sign (cmp a b) = 0 \<and> pos a < pos b)"

lemma sorted_insert_by:
  assumes c: "consistent (\<lambda>a b. order_sign (cmp a b)) S" and "set xs \<subseteq> S" and x: "x \<in> S"
    and "\<forall>y \<in> set xs. pos x < pos y" and "sorted_wrt (stably_before cmp pos) xs"
  shows "sorted_wrt (stably_before cmp pos) (insert_by cmp x xs)"
  using assms(2,4,5)
proof (induction xs)
  case (Cons y ys)
  have y: "y \<in> S" "set ys \<subseteq> S" using Cons.prems by simp_all
  show ?case
  proof (cases "order_sign (cmp x y) \<le> 0")
    case True
    have tr: "\<lbrakk>a \<in> S; b \<in> S; e \<in> S; order_sign (cmp a b) \<le> 0; order_sign (cmp b e) \<le> 0\<rbrakk>
        \<Longrightarrow> order_sign (cmp a e) \<le> 0" for a b e
      using c unfolding consistent_def by blast
    have "stably_before cmp pos x z" if z: "z \<in> set (y # ys)" for z
    proof -
      have "order_sign (cmp x z) \<le> 0"
      proof (cases "z = y")
        case False
        then have "stably_before cmp pos y z" using Cons.prems(3) z by simp
        then have "order_sign (cmp y z) \<le> 0" by (auto simp: stably_before_def)
        with tr [OF x y(1) _ True] show ?thesis using z y False by auto
      qed (use True in simp)
      with Cons.prems(2) z show ?thesis by (auto simp: stably_before_def)
    qed
    with True Cons.prems show ?thesis by simp
  next
    case False
    from c x y(1) have "order_sign (cmp x y) \<le> 0 \<longleftrightarrow> 0 \<le> order_sign (cmp y x)"
      "order_sign (cmp y x) \<le> 0 \<longleftrightarrow> 0 \<le> order_sign (cmp x y)"
      unfolding consistent_def by blast+
    with False have "stably_before cmp pos y x" unfolding stably_before_def by linarith
    with False Cons y show ?thesis by simp
  qed
qed simp

lemma sorted_sort_by:
  assumes "consistent (\<lambda>a b. order_sign (cmp a b)) (set xs)" and "sorted_wrt (\<lambda>a b. pos a < pos b) xs"
  shows "sorted_wrt (stably_before cmp pos) (sort_by cmp xs)"
proof -
  have "set ys \<subseteq> set xs \<Longrightarrow> sorted_wrt (\<lambda>a b. pos a < pos b) ys \<Longrightarrow>
      sorted_wrt (stably_before cmp pos) (foldr (insert_by cmp) ys [])" for ys
  proof (induction ys)
    case (Cons y ys)
    have "set (foldr (insert_by cmp) ys []) = set ys"
      using set_sort_by [of cmp ys] by (simp add: sort_by_def)
    with Cons sorted_insert_by [OF assms(1), of "foldr (insert_by cmp) ys []" y pos] show ?case by simp
  qed simp
  with assms(2) show ?thesis by (simp add: sort_by_def)
qed

text \<open>What the code relies on of the collator, and of a column: one kind of value, or null.\<close>

definition collator_law :: "(string \<Rightarrow> string \<Rightarrow> rat) \<Rightarrow> bool" where
  "collator_law collate \<longleftrightarrow> consistent (\<lambda>a b. order_sign (Num (collate a b))) UNIV"

definition uniform :: "SortValue set \<Rightarrow> bool" where
  "uniform vs \<longleftrightarrow> (\<forall>v \<in> vs. v = SortNull \<or> (\<exists>s. v = SortString s)) \<or>
     (\<forall>v \<in> vs. v = SortNull \<or> (\<exists>n. v = SortNumber n \<and> n \<noteq> NaN))"

lemma order_Num [simp]:
  "order_sign (Num r) \<le> 0 \<longleftrightarrow> r \<le> 0" "0 \<le> order_sign (Num r) \<longleftrightarrow> 0 \<le> r"
  "order_sign (Num r) = 0 \<longleftrightarrow> r = 0" "order_sign (Num r) < 0 \<longleftrightarrow> r < 0"
  by auto

declare order_sign.simps(1) [simp del]

lemma collator_facts:
  assumes "collator_law collate"
  shows "collate a b \<le> 0 \<longleftrightarrow> 0 \<le> collate b a"
    and "collate a b \<le> 0 \<Longrightarrow> collate b e \<le> 0 \<Longrightarrow> collate a e \<le> 0"
    and "0 \<le> collate a b \<Longrightarrow> 0 \<le> collate b e \<Longrightarrow> 0 \<le> collate a e"
proof -
  have flip: "collate a b \<le> 0 \<longleftrightarrow> 0 \<le> collate b a" for a b
    using assms by (simp add: collator_law_def consistent_def)
  have tr: "collate a b \<le> 0 \<Longrightarrow> collate b e \<le> 0 \<Longrightarrow> collate a e \<le> 0" for a b e
    using assms unfolding collator_law_def consistent_def order_Num by blast
  show "collate a b \<le> 0 \<longleftrightarrow> 0 \<le> collate b a" by (rule flip)
  show "collate a b \<le> 0 \<Longrightarrow> collate b e \<le> 0 \<Longrightarrow> collate a e \<le> 0" by (rule tr)
  show "0 \<le> collate a b \<Longrightarrow> 0 \<le> collate b e \<Longrightarrow> 0 \<le> collate a e"
    using tr [of e b a] flip [of b a] flip [of e b] flip [of e a] by simp
qed

lemma compare_strings:
  "compareValues collate num (SortString a) (SortString b) d =
     Num (if d = Asc then collate a b else - collate a b)"
  by (simp add: compareValues_def Let_def)

lemma compare_numbers:
  "compareValues collate num (SortNumber a) (SortNumber b) d =
     (if d = Asc then number_minus a b else number_negate (number_minus a b))"
  by (simp add: compareValues_def Let_def)

lemma compare_nulls:
  "compareValues collate num SortNull SortNull d = Num 0"
  "v \<noteq> SortNull \<Longrightarrow> compareValues collate num SortNull v d = Num 1"
  "v \<noteq> SortNull \<Longrightarrow> compareValues collate num v SortNull d = Num (-1)"
  by (simp_all add: compareValues_def)

text \<open>The facts of a total preorder, for the comparison \<open>cv\<close> of the values of a column.\<close>

definition preorder_facts :: "('v \<Rightarrow> 'v \<Rightarrow> number) \<Rightarrow> 'v set \<Rightarrow> bool" where
  "preorder_facts cv vs \<longleftrightarrow>
     consistent (\<lambda>l r. order_sign (cv l r)) vs \<and>
     (\<forall>x \<in> vs. \<forall>y \<in> vs. cv x y = Num 0 \<longrightarrow> cv y x = Num 0) \<and>
     (\<forall>x \<in> vs. \<forall>y \<in> vs. \<forall>z \<in> vs. cv x z = Num 0 \<longrightarrow> order_sign (cv x y) = 0 \<longrightarrow>
        order_sign (cv y z) = 0 \<longrightarrow> cv x y = Num 0 \<and> cv y z = Num 0)"

lemma preorder_strings:
  assumes "collator_law collate" and "\<forall>v \<in> vs. v = SortNull \<or> (\<exists>s. v = SortString s)"
  shows "preorder_facts (\<lambda>l r. compareValues collate num l r d) vs"
proof -
  note law = collator_facts [OF assms(1)]
  have kinds: "v = SortNull \<or> (\<exists>s. v = SortString s)" if "v \<in> vs" for v using assms(2) that by blast
  show ?thesis unfolding preorder_facts_def consistent_def
  proof (intro conjI ballI impI)
    fix x y assume "x \<in> vs" "y \<in> vs"
    from kinds [OF this(1)] kinds [OF this(2)]
    show "order_sign (compareValues collate num x y d) \<le> 0 \<longleftrightarrow>
        0 \<le> order_sign (compareValues collate num y x d)"
      using law(1) by (elim disjE exE) (simp_all add: compare_strings compare_nulls)
  next
    fix x y z assume "x \<in> vs" "y \<in> vs" "z \<in> vs" and
      "order_sign (compareValues collate num x y d) \<le> 0" "order_sign (compareValues collate num y z d) \<le> 0"
    with kinds [OF this(1)] kinds [OF this(2)] kinds [OF this(3)]
    show "order_sign (compareValues collate num x z d) \<le> 0"
      by (elim disjE exE)
        (auto simp: compare_strings compare_nulls split: if_splits intro: law(2,3))
  next
    fix x y assume "x \<in> vs" "y \<in> vs" and "compareValues collate num x y d = Num 0"
    with kinds [OF this(1)] kinds [OF this(2)] law(1)
    show "compareValues collate num y x d = Num 0"
      by (elim disjE exE) (auto simp: compare_strings compare_nulls order.eq_iff split: if_splits)
  next
    fix x y z assume "x \<in> vs" "y \<in> vs" "z \<in> vs" and
      "order_sign (compareValues collate num x y d) = 0" "order_sign (compareValues collate num y z d) = 0"
    with kinds [OF this(1)] kinds [OF this(2)] kinds [OF this(3)]
    show "compareValues collate num x y d = Num 0" "compareValues collate num y z d = Num 0"
      by (elim disjE exE; simp add: compare_strings compare_nulls split: if_splits)+
  qed
qed

lemma preorder_numbers:
  assumes "\<forall>v \<in> vs. v = SortNull \<or> (\<exists>n. v = SortNumber n \<and> n \<noteq> NaN)"
  shows "preorder_facts (\<lambda>l r. compareValues collate num l r d) vs"
proof -
  have kinds: "v = SortNull \<or> (\<exists>r. v = SortNumber (Num r)) \<or> v = SortNumber PosInfinity \<or>
      v = SortNumber NegInfinity" if "v \<in> vs" for v
    using assms that by (metis number.exhaust)
  show ?thesis unfolding preorder_facts_def consistent_def
  proof (intro conjI ballI impI)
    fix x y assume "x \<in> vs" "y \<in> vs"
    from kinds [OF this(1)] kinds [OF this(2)]
    show "order_sign (compareValues collate num x y d) \<le> 0 \<longleftrightarrow>
        0 \<le> order_sign (compareValues collate num y x d)"
      by (elim disjE exE) (simp_all add: compare_numbers compare_nulls)
  next
    fix x y z assume "x \<in> vs" "y \<in> vs" "z \<in> vs" and
      "order_sign (compareValues collate num x y d) \<le> 0" "order_sign (compareValues collate num y z d) \<le> 0"
    with kinds [OF this(1)] kinds [OF this(2)] kinds [OF this(3)]
    show "order_sign (compareValues collate num x z d) \<le> 0"
      by (elim disjE exE) (simp_all add: compare_numbers compare_nulls split: if_splits)
  next
    fix x y assume "x \<in> vs" "y \<in> vs" and "compareValues collate num x y d = Num 0"
    with kinds [OF this(1)] kinds [OF this(2)]
    show "compareValues collate num y x d = Num 0"
      by (elim disjE exE) (simp_all add: compare_numbers compare_nulls split: if_splits)
  next
    fix x y z assume "x \<in> vs" "y \<in> vs" "z \<in> vs" and "compareValues collate num x z d = Num 0" and
      "order_sign (compareValues collate num x y d) = 0" "order_sign (compareValues collate num y z d) = 0"
    with kinds [OF this(1)] kinds [OF this(2)] kinds [OF this(3)]
    have "compareValues collate num x y d = Num 0 \<and> compareValues collate num y z d = Num 0"
      by (elim disjE exE) (simp_all add: compare_numbers compare_nulls split: if_splits)
    then show "compareValues collate num x y d = Num 0" "compareValues collate num y z d = Num 0"
      by simp_all
  qed
qed

lemma preorder_values:
  assumes "collator_law collate" and "uniform vs"
  shows "preorder_facts (\<lambda>l r. compareValues collate num l r d) vs"
  using assms(2) unfolding uniform_def
  by (rule disjE) (rule preorder_strings [OF assms(1)], assumption, rule preorder_numbers, assumption)

section \<open>The order of the rows\<close>

lemma preorder_image: "preorder_facts cv (f ` S) \<Longrightarrow> preorder_facts (\<lambda>a b. cv (f a) (f b)) S"
  unfolding preorder_facts_def consistent_def ball_simps .

lemma consistent_rows:
  assumes "collator_law collate" and "uniform (column_value column ` fst ` S)"
  shows "consistent (\<lambda>a b. order_sign (compare_rows collate num column d a b)) S"
proof -
  let ?cv = "\<lambda>a b. compareValues collate num (column_value column (fst a)) (column_value column (fst b)) d"
  have "preorder_facts (\<lambda>l r. compareValues collate num l r d) ((\<lambda>p. column_value column (fst p)) ` S)"
    using assms(2) unfolding image_image by (rule preorder_values [OF assms(1)])
  then have P: "preorder_facts ?cv S" by (rule preorder_image)
  have flip: "order_sign (?cv x y) \<le> 0 \<longleftrightarrow> 0 \<le> order_sign (?cv y x)" if "x \<in> S" "y \<in> S" for x y
    using P that unfolding preorder_facts_def consistent_def by blast
  have tr: "order_sign (?cv x z) \<le> 0"
    if "x \<in> S" "y \<in> S" "z \<in> S" "order_sign (?cv x y) \<le> 0" "order_sign (?cv y z) \<le> 0" for x y z
    using P that unfolding preorder_facts_def consistent_def by blast
  have zero: "?cv x y = Num 0 \<longleftrightarrow> ?cv y x = Num 0" if "x \<in> S" "y \<in> S" for x y
    using P that unfolding preorder_facts_def by blast
  have mid: "?cv x y = Num 0 \<and> ?cv y z = Num 0"
    if "x \<in> S" "y \<in> S" "z \<in> S" "?cv x z = Num 0" "order_sign (?cv x y) = 0" "order_sign (?cv y z) = 0" for x y z
    using P that unfolding preorder_facts_def by blast
  have le: "order_sign (?cv a b) \<le> 0" if "order_sign (compare_rows collate num column d a b) \<le> 0" for a b
    using that by (auto simp: compare_rows_def Let_def split: if_splits)
  show ?thesis unfolding consistent_def
  proof (intro conjI ballI impI)
    fix x y assume "x \<in> S" "y \<in> S"
    with flip [of x y] zero [of x y]
    show "order_sign (compare_rows collate num column d x y) \<le> 0 \<longleftrightarrow>
        0 \<le> order_sign (compare_rows collate num column d y x)"
      by (auto simp: compare_rows_def Let_def)
  next
    fix x y z assume S: "x \<in> S" "y \<in> S" "z \<in> S"
      and xy: "order_sign (compare_rows collate num column d x y) \<le> 0"
      and yz: "order_sign (compare_rows collate num column d y z) \<le> 0"
    note xz = tr [OF S le [OF xy] le [OF yz]]
    have both: "?cv x y = Num 0 \<and> ?cv y z = Num 0" if o: "?cv x z = Num 0"
    proof -
      have "?cv z x = Num 0" using o zero [OF S(1,3)] by simp
      then have zx: "order_sign (?cv z x) \<le> 0" by simp
      have "order_sign (?cv z y) \<le> 0" "order_sign (?cv y x) \<le> 0"
        using tr [OF S(3,1,2) zx le [OF xy]] tr [OF S(2,3,1) le [OF yz] zx] by simp_all
      with flip [OF S(3,2)] flip [OF S(2,1)] le [OF xy] le [OF yz]
      have "order_sign (?cv x y) = 0" "order_sign (?cv y z) = 0" by simp_all
      with mid [OF S o] show ?thesis by simp
    qed
    show "order_sign (compare_rows collate num column d x z) \<le> 0"
    proof (cases "?cv x z = Num 0")
      case True
      from both [OF True] xy yz True show ?thesis by (simp add: compare_rows_def Let_def)
    next
      case False
      with xz show ?thesis by (simp add: compare_rows_def Let_def)
    qed
  qed
qed

text \<open>By value, and where the values are equal by position.\<close>

definition row_before ::
  "(string \<Rightarrow> string \<Rightarrow> rat) \<Rightarrow> (number \<Rightarrow> string) \<Rightarrow> 'row SortColumn \<Rightarrow> SortDirection \<Rightarrow>
   'row list \<Rightarrow> nat \<Rightarrow> nat \<Rightarrow> bool" where
  "row_before collate num column d rows i j \<longleftrightarrow>
     (let c = order_sign (compareValues collate num
            (column_value column (rows ! i)) (column_value column (rows ! j)) d)
      in c < 0 \<or> (c = 0 \<and> i < j))"

definition column_values :: "'row SortColumn \<Rightarrow> 'row list \<Rightarrow> SortValue set" where
  "column_values column rows = column_value column ` set rows"

lemma stably_before_row:
  assumes "fst a = rows ! snd a" and "fst b = rows ! snd b"
    and "stably_before (compare_rows collate num column d) snd a b"
  shows "row_before collate num column d rows (snd a) (snd b)"
  using assms by (auto simp: stably_before_def compare_rows_def row_before_def Let_def split: if_splits)

lemma sorted_indices:
  assumes law: "collator_law collate" and u: "uniform (column_values column rows)"
    and "out = sort_by (compare_rows collate num column d) (zip rows [0..<length rows])"
  shows "map fst out = map ((!) rows) (map snd out)"
    and "mset (map snd out) = mset [0..<length rows]"
    and "sorted_wrt (row_before collate num column d rows) (map snd out)"
proof -
  let ?z = "zip rows [0..<length rows]"
  have m: "mset out = mset ?z" using assms(3) by simp
  then have s: "set out = set ?z" by (metis set_mset_mset)
  have at: "fst p = rows ! snd p" if "p \<in> set out" for p
    using that s by (auto simp: in_set_zip)
  then show "map fst out = map ((!) rows) (map snd out)" by simp
  show "mset (map snd out) = mset [0..<length rows]"
    using m by (simp only: mset_map) (simp flip: mset_map)
  have "fst ` set ?z = set rows" by (metis map_fst_zip length_upt minus_nat.diff_0 set_map)
  with u have "uniform (column_value column ` fst ` set ?z)" by (simp add: column_values_def)
  note c = consistent_rows [OF law this, of num d]
  have "sorted_wrt (\<lambda>a b. snd a < snd b) ?z"
    by (auto simp: sorted_wrt_iff_nth_less)
  from sorted_sort_by [OF c this] have sw: "sorted_wrt (stably_before (compare_rows collate num column d) snd) out"
    using assms(3) by simp
  have "sorted_wrt (\<lambda>a b. row_before collate num column d rows (snd a) (snd b)) out"
    by (rule sorted_wrt_mono_rel [OF _ sw]) (rule stably_before_row [OF at at])
  then show "sorted_wrt (row_before collate num column d rows) (map snd out)"
    by (simp add: sorted_wrt_map)
qed

lemma sorted_rows:
  assumes "collator_law collate" and "uniform (column_values column rows)"
    and "find (\<lambda>candidate. column_key candidate = state_key s) columns = Some column"
  shows "\<exists>is. sortRows collate num rows columns (Some s) = map ((!) rows) is \<and>
    mset is = mset [0..<length rows] \<and>
    sorted_wrt (row_before collate num column (state_direction s) rows) is"
proof -
  note s = sorted_indices [OF assms(1,2) refl, of num "state_direction s"]
  show ?thesis
    by (rule exI, rule conjI [OF _ conjI [OF s(2,3)]]) (simp add: sortRows_def assms(3) s(1))
qed


definition plain_collator :: "string \<Rightarrow> string \<Rightarrow> rat" where
  "plain_collator a b =
     (let l = map of_char a :: nat list; r = map of_char b in if l = r then 0 else if l < r then -1 else 1)"

lemma plain_collator_law: "collator_law plain_collator"
  unfolding collator_law_def consistent_def order_Num
  by (auto simp: plain_collator_def Let_def split: if_splits)

definition name_column :: "(string \<times> rat option) SortColumn" where
  "name_column = \<lparr>column_key = ''name'', column_value = SortString \<circ> fst\<rparr>"

definition wait_column :: "(string \<times> rat option) SortColumn" where
  "wait_column = \<lparr>column_key = ''wait'',
     column_value = (\<lambda>r. case snd r of None \<Rightarrow> SortNull | Some n \<Rightarrow> SortNumber (Num n))\<rparr>"

definition queue_rows :: "(string \<times> rat option) list" where
  "queue_rows = [(''mail'', None), (''default'', Some 3), (''exports'', Some 7), (''images'', None), (''audit'', Some 3)]"

lemma queue_waits_uniform: "uniform (column_values wait_column rows)"
  by (auto simp: uniform_def column_values_def wait_column_def split: option.splits)

lemma sort_queue_rows:
  "sortRows plain_collator (\<lambda>_. []) queue_rows [name_column, wait_column]
     (Some \<lparr>state_key = ''wait'', state_direction = Desc\<rparr>) =
   [(''exports'', Some 7), (''default'', Some 3), (''audit'', Some 3), (''mail'', None), (''images'', None)]"
  by (simp add: sortRows_def sort_by_def compare_rows_def compareValues_def Let_def queue_rows_def
      name_column_def wait_column_def upt_rec)


section \<open>Rows without a value\<close>

definition no_value :: "'row SortColumn \<Rightarrow> 'row \<Rightarrow> bool" where
  "no_value column r \<longleftrightarrow> column_value column r = SortNull"

lemma sorted_partition:
  "sorted_wrt (\<lambda>a b. P a \<longrightarrow> P b) xs \<Longrightarrow> xs = filter (\<lambda>a. \<not> P a) xs @ filter P xs"
proof (induction xs)
  case (Cons x xs)
  show ?case
  proof (cases "P x")
    case True
    with Cons.prems have "\<forall>y \<in> set xs. P y" by simp
    then have "filter (\<lambda>a. \<not> P a) xs = []" "filter P xs = xs"
      by (simp_all add: filter_empty_conv filter_id_conv)
    with True show ?thesis by simp
  next
    case False
    with Cons show ?thesis by simp
  qed
qed simp

lemma row_before_null:
  assumes "row_before collate num column d rows i j"
  shows "(no_value column \<circ> (!) rows) i \<longrightarrow> (no_value column \<circ> (!) rows) j"
    and "(no_value column \<circ> (!) rows) i \<and> (no_value column \<circ> (!) rows) j \<longrightarrow> i < j"
  using assms by (auto simp: row_before_def no_value_def compareValues_def Let_def split: if_splits)

lemma filter_indices: "filter P rows = map ((!) rows) (filter (P \<circ> (!) rows) [0..<length rows])"
  by (metis filter_map map_nth)

text \<open>
  Rows without a value come last in both directions, in their original order; so a
  descending sort never opens with the rows that have nothing to show.
\<close>

lemma sort_rows_nulls_last:
  assumes "collator_law collate" and "uniform (column_values column rows)"
    and "find (\<lambda>candidate. column_key candidate = state_key s) columns = Some column"
  shows "\<exists>valued. sortRows collate num rows columns (Some s) = valued @ filter (no_value column) rows \<and>
    (\<forall>r \<in> set valued. \<not> no_value column r)"
proof -
  note s = sorted_indices [OF assms(1,2) refl, of num "state_direction s"]
  let ?is = "map snd (sort_by (compare_rows collate num column (state_direction s)) (zip rows [0..<length rows]))"
  let ?P = "no_value column \<circ> (!) rows"
  have "sorted_wrt (\<lambda>i j. ?P i \<longrightarrow> ?P j) ?is"
    by (rule sorted_wrt_mono_rel [OF _ s(3)]) (use row_before_null in blast)
  note split = sorted_partition [OF this]
  have "sorted_wrt (\<lambda>i j. ?P i \<and> ?P j \<longrightarrow> i < j) ?is"
    by (rule sorted_wrt_mono_rel [OF _ s(3)]) (use row_before_null in blast)
  then have "sorted_wrt (\<lambda>i j. ?P i \<and> ?P j \<longrightarrow> i < j) (filter ?P ?is)" by (rule sorted_wrt_filter)
  then have "sorted_wrt (<) (filter ?P ?is)"
    by (rule sorted_wrt_mono_rel [rotated]) simp
  moreover have "sorted_wrt (<) (filter ?P [0..<length rows])" by (intro sorted_wrt_filter) simp
  moreover have "set (filter ?P ?is) = set (filter ?P [0..<length rows])"
    using s(2) by (metis mset_filter set_mset_mset)
  ultimately have "filter ?P ?is = filter ?P [0..<length rows]" by (metis strict_sorted_equal)
  then have "map ((!) rows) (filter ?P ?is) = filter (no_value column) rows"
    using filter_indices [of "no_value column" rows] by simp
  moreover have "sortRows collate num rows columns (Some s) =
      map ((!) rows) (filter (\<lambda>i. \<not> ?P i) ?is) @ map ((!) rows) (filter ?P ?is)"
    unfolding map_append [symmetric] split [symmetric]
    by (simp add: sortRows_def assms(3) s(1))
  moreover have "\<forall>r \<in> set (map ((!) rows) (filter (\<lambda>i. \<not> ?P i) ?is)). \<not> no_value column r" by auto
  ultimately show ?thesis by metis
qed

section \<open>The sort in the URL\<close>

lemma names_distinct: "fst (queryParameterNames p) \<noteq> snd (queryParameterNames p)"
  by (auto simp: queryParameterNames_def split: option.split list.split)

lemma parse_direction_text: "parse_direction (Some (direction_text d)) = Some d"
  by (cases d) (simp_all add: parse_direction_def)

lemma follow_replace:
  assumes "url_ok location"
  shows "follow location (replaceCurrentQuery location ps) = fold apply_parameter ps location"
proof -
  let ?u = "fold apply_parameter ps location"
  have ok: "url_ok ?u" using assms by (rule url_ok_fold)
  have there: "new_URL (relativeUrl ?u) (origin location) = ?u"
    using new_URL_relative [OF ok, of "origin location"] by (simp add: relativeUrl_def)
  have self: "new_URL (relativeUrl location) (origin location) = location"
    using new_URL_relative [OF assms, of "origin location"] by (simp add: relativeUrl_def)
  show ?thesis
    using there self
    by (auto simp: follow_def replaceCurrentQuery_def currentUrlWithQuery_def urlWithCurrentQuery_def
        query_url_current [OF assms] Let_def)
qed

text \<open>
  C19: a persisted sort survives a reload. After a click on a column the URL the client is sent
  to, or the unchanged one when nothing was to be written, restores exactly the sort the click
  chose, whatever the default sort is and whatever the query held before.
\<close>

theorem toggle_survives_reload:
  assumes "url_ok location" and "opt_persist options = Some True" and "key \<noteq> []"
    and "\<exists>column \<in> set columns. column_key column = key"
    and "toggle options key location sorting = (next, target)"
  shows "initialSort (follow location target) columns options = Some next"
proof -
  let ?n = "queryParameterNames (opt_prefix options)"
  let ?ps = "[(fst ?n, QString key), (snd ?n, QString (direction_text (state_direction next)))]"
  have nx: "state_key next = key" and t: "target = replaceCurrentQuery location ?ps"
    using assms(2,5) by (auto simp: toggle_def Let_def next_sort_def)
  have d: "direction_text dir \<noteq> []" for dir by (cases dir) simp_all
  have dist: "distinct (map fst ?ps)" using names_distinct by simp
  have "currentQueryParameter (follow location target) n =
      (case map_of ?ps n of Some v \<Rightarrow> wanted v | None \<Rightarrow> params_get n (searchParams location))" for n
    unfolding t follow_replace [OF assms(1)] currentQueryParameter_def by (rule apply_all_get [OF dist])
  then have "currentQueryParameter (follow location target) (fst ?n) = Some key"
    "currentQueryParameter (follow location target) (snd ?n) = Some (direction_text (state_direction next))"
    using names_distinct [of "opt_prefix options"] assms(3) d by (auto simp: wanted_def)
  then have "persisted_sort (follow location target) columns (opt_prefix options) = Some next"
    using assms(4) nx by (auto simp: persisted_sort_def Let_def parse_direction_text list_ex_iff)
  with assms(2) show ?thesis by (simp add: initialSort_def)
qed

theorem toggle_survives_reload_witness:
  "initialSort (follow jobs_url (snd (toggle
       \<lparr>opt_persist = Some True, opt_prefix = Some ''batch'', opt_defaultSort = None\<rparr> ''wait'' jobs_url
       (Some \<lparr>state_key = ''wait'', state_direction = Asc\<rparr>))))
     [name_column, wait_column] \<lparr>opt_persist = Some True, opt_prefix = Some ''batch'', opt_defaultSort = None\<rparr> =
   Some \<lparr>state_key = ''wait'', state_direction = Desc\<rparr>"
proof -
  let ?o = "\<lparr>opt_persist = Some True, opt_prefix = Some ''batch'', opt_defaultSort = None\<rparr>"
  let ?s = "Some \<lparr>state_key = ''wait'', state_direction = Asc\<rparr>"
  have "url_ok jobs_url" by (simp add: url_ok_def jobs_url_def)
  moreover have "opt_persist ?o = Some True" by simp
  moreover have "\<exists>column \<in> set [name_column, wait_column]. column_key column = ''wait''"
    by (simp add: name_column_def wait_column_def)
  moreover have "toggle ?o ''wait'' jobs_url ?s =
      (\<lparr>state_key = ''wait'', state_direction = Desc\<rparr>, snd (toggle ?o ''wait'' jobs_url ?s))"
    by (simp add: toggle_def Let_def next_sort_def)
  ultimately show ?thesis using toggle_survives_reload by blast
qed

end
