(* ===== verification/Format.thy ===== *)
theory Format
  imports Number
begin

text \<open>
  \<^verbatim>\<open>resources/js/lib/format-duration.ts\<close>, \<^verbatim>\<open>lib/format-count.ts\<close>,
  \<^verbatim>\<open>lib/live-pending-total.ts\<close> and the period labels of
  \<^verbatim>\<open>components/dashboard/dashboard-overview.tsx\<close>. The two formatters of \<open>formatDuration\<close> use the
  fixed locale \<^verbatim>\<open>en-US\<close>; the formatters of the user's locale are arguments.
\<close>

section \<open>Durations\<close>

datatype DurationFormat = Approximate | Precise

definition preciseUnits :: "(string \<times> nat) list" where
  "preciseUnits =
     [(''y'', 31536000), (''mo'', 2592000), (''d'', 86400), (''h'', 3600), (''m'', 60), (''s'', 1)]"

definition maximumPreciseParts :: nat where "maximumPreciseParts = 3"
definition minimumSecondsDisplay :: rat where "minimumSecondsDisplay = 1"

definition numberFormatter :: "rat \<Rightarrow> string" where
  "numberFormatter = format_decimal 3"

definition preciseNumberFormatter :: "rat \<Rightarrow> string" where
  "preciseNumberFormatter = format_decimal 2"

definition normalizeDuration :: "number \<Rightarrow> rat" where
  "normalizeDuration seconds = (case seconds of Num r \<Rightarrow> max 0 r | _ \<Rightarrow> 0)"

definition roundToHundredth :: "rat \<Rightarrow> rat" where
  "roundToHundredth value = of_int (round_half_up (value * 100)) / 100"

definition formatUnit :: "rat \<Rightarrow> string \<Rightarrow> (rat \<Rightarrow> string) \<Rightarrow> string" where
  "formatUnit value suffix formatter = formatter value @ suffix"

definition formatMilliseconds :: "rat \<Rightarrow> string" where
  "formatMilliseconds seconds = formatUnit (seconds * 1000) ''ms'' preciseNumberFormatter"

text \<open>The loop over the units: the parts so far, as value and unit, and the rest.\<close>

fun precise_parts ::
  "(string \<times> nat) list \<Rightarrow> rat \<Rightarrow> (rat \<times> string \<times> nat) list \<Rightarrow> (rat \<times> string \<times> nat) list" where
  "precise_parts [] remainingSeconds parts = parts"
| "precise_parts ((suffix, seconds) # units) remainingSeconds parts =
     (if length parts = maximumPreciseParts then parts
      else let value = (if seconds = 1 then remainingSeconds
                        else of_int \<lfloor>remainingSeconds / of_nat seconds\<rfloor>)
           in if value \<le> 0 then precise_parts units remainingSeconds parts
              else precise_parts units (remainingSeconds - value * of_nat seconds)
                     (parts @ [(value, suffix, seconds)]))"

definition formatPreciseDuration :: "rat \<Rightarrow> string" where
  "formatPreciseDuration duration =
     (let parts = map (\<lambda>(value, suffix, _). formatUnit value suffix preciseNumberFormatter)
            (precise_parts preciseUnits duration [])
      in if parts \<noteq> [] then join '' '' parts else ''0s'')"

definition formatRounded :: "rat \<Rightarrow> string \<Rightarrow> string" where
  "formatRounded value suffix = formatUnit (of_int (round_half_up value)) suffix numberFormatter"

definition formatApproximate :: "rat \<Rightarrow> string" where
  "formatApproximate duration =
     (if duration \<le> 5 then formatUnit duration ''s'' preciseNumberFormatter
      else if duration < 60 then formatRounded duration ''s''
      else if duration < 90 then ''1m''
      else if duration < 2700 then formatRounded (duration / 60) ''m''
      else if duration < 5400 then ''1h''
      else if duration < 79200 then formatRounded (duration / 3600) ''h''
      else if duration < 129600 then ''1d''
      else if duration < 2592000 then formatRounded (duration / 86400) ''d''
      else if duration < 5184000 then ''1mo''
      else if duration < 31536000 then formatRounded (duration / 2592000) ''mo''
      else if duration < 63072000 then ''1y''
      else formatRounded (duration / 31536000) ''y'')"

definition formatDuration :: "number \<Rightarrow> DurationFormat \<Rightarrow> string" where
  "formatDuration seconds format =
     (let normalizedDuration = normalizeDuration seconds
      in if normalizedDuration > 0 \<and> normalizedDuration < minimumSecondsDisplay
         then formatMilliseconds normalizedDuration
         else let duration = roundToHundredth normalizedDuration
              in if format = Precise then formatPreciseDuration duration
                 else formatApproximate duration)"

definition formatRawDuration :: "number \<Rightarrow> string" where
  "formatRawDuration seconds =
     (let duration = normalizeDuration seconds
      in if duration > 0 \<and> duration < minimumSecondsDisplay then formatMilliseconds duration
         else formatUnit (roundToHundredth duration) ''s'' preciseNumberFormatter)"

section \<open>Counts and periods\<close>

definition formatCount :: "(rat \<Rightarrow> string) \<Rightarrow> (rat \<Rightarrow> string) \<Rightarrow> rat \<Rightarrow> string" where
  "formatCount fullCountFormatter compactCountFormatter count =
     (if \<bar>count\<bar> \<ge> 10000 then compactCountFormatter count else fullCountFormatter count)"

definition livePendingTotal :: "int option \<Rightarrow> int option \<Rightarrow> int option \<Rightarrow> int option" where
  "livePendingTotal reserved ready delayed =
     (case (reserved, ready, delayed) of
        (Some a, Some b, Some c) \<Rightarrow> Some (a + b + c)
      | _ \<Rightarrow> None)"

definition formatRetention :: "rat \<Rightarrow> string" where
  "formatRetention minutes =
     (if minutes \<le> 0 then ''no retained history'' else formatDuration (Num (minutes * 60)) Precise)"

definition completedRetentionTooltip :: "rat \<Rightarrow> string" where
  "completedRetentionTooltip minutes =
     (if minutes \<le> 0
      then ''Completed jobs have no retained history according to Horizon's configured trim settings.''
      else ''Completed jobs are retained for '' @ formatRetention minutes @
        '' according to Horizon's configured trim settings.'')"

datatype period = Minutes60 | Minutes1440

fun periodMinutes :: "period \<Rightarrow> rat" where
  "periodMinutes Minutes60 = 60"
| "periodMinutes Minutes1440 = 1440"

definition retainedPeriodLabel :: "rat \<Rightarrow> period \<Rightarrow> string" where
  "retainedPeriodLabel retentionMinutes p =
     (if retentionMinutes \<ge> periodMinutes p
      then (if p = Minutes60 then ''Past hour'' else ''Past 24 hours'')
      else if retentionMinutes \<le> 0 then ''Retained history''
      else ''Retained '' @ formatRetention retentionMinutes)"

definition determinePeriod :: "number \<Rightarrow> string" where
  "determinePeriod minutes =
     (case minutes of
        Num m \<Rightarrow>
          if m \<le> 0 then ''Hour''
          else if m < 60 then int_text (round_half_up m) @ '' Minutes''
          else if m = 60 then ''Hour''
          else if m < 1440 then
            (let hours = round_half_up (m / 60) in if hours = 1 then ''Hour'' else int_text hours @ '' Hours'')
          else if m = 1440 then ''Day''
          else (let days = round_half_up (m / 1440) in if days = 1 then ''Day'' else int_text days @ '' Days'')
      | _ \<Rightarrow> ''Hour'')"

section \<open>Precise durations\<close>

fun total_seconds :: "(rat \<times> string \<times> nat) list \<Rightarrow> rat" where
  "total_seconds [] = 0"
| "total_seconds ((value, _, seconds) # parts) = value * of_nat seconds + total_seconds parts"

lemma total_append [simp]: "total_seconds (ps @ qs) = total_seconds ps + total_seconds qs"
  by (induction ps rule: total_seconds.induct) simp_all

lemma floor_part:
  assumes "0 < s" and "0 \<le> (r :: rat)"
  shows "of_int \<lfloor>r / of_nat s\<rfloor> * of_nat s \<le> r" "r < of_int \<lfloor>r / of_nat s\<rfloor> * of_nat s + of_nat s"
    and "of_int \<lfloor>r / of_nat s\<rfloor> \<le> (0 :: rat) \<Longrightarrow> r < of_nat s"
proof -
  let ?q = "of_int \<lfloor>r / of_nat s\<rfloor> :: rat"
  have s: "(0 :: rat) < of_nat s" using assms(1) by simp
  have "?q \<le> r / of_nat s" "r / of_nat s < ?q + 1" by linarith+
  then show le: "?q * of_nat s \<le> r" and lt: "r < ?q * of_nat s + of_nat s"
    using s by (simp_all only: pos_le_divide_eq pos_divide_less_eq distrib_right mult_1)
  show "r < of_nat s" if "?q \<le> 0"
    using mult_nonpos_nonneg [OF that less_imp_le [OF s]] lt by linarith
qed

definition part_unit :: "rat \<times> string \<times> nat \<Rightarrow> rat" where
  "part_unit p = of_nat (snd (snd p))"

text \<open>
  What the loop keeps: the parts do not exceed the duration, there are few of them, and what is
  dropped is less than the last unit shown.
\<close>

definition parts_of :: "rat \<Rightarrow> (rat \<times> string \<times> nat) list \<Rightarrow> bool" where
  "parts_of duration ps \<longleftrightarrow>
     total_seconds ps \<le> duration \<and> length ps \<le> maximumPreciseParts \<and>
     (total_seconds ps = duration \<or>
      length ps = maximumPreciseParts \<and> duration - total_seconds ps < part_unit (last ps))"

lemma precise_parts_bounds:
  assumes "0 \<le> r" and "\<forall>u \<in> set units. 0 < snd u" and "length ps \<le> maximumPreciseParts"
    and "length ps = maximumPreciseParts \<Longrightarrow> r < part_unit (last ps)"
    and "if units = [] then r = 0 else snd (last units) = 1"
  shows "parts_of (total_seconds ps + r) (precise_parts units r ps)"
  using assms
proof (induction units r ps rule: precise_parts.induct)
  case (1 r ps)
  then show ?case by (simp add: parts_of_def)
next
  case (2 suffix s units r ps)
  let ?v = "if s = 1 then r else of_int \<lfloor>r / of_nat s\<rfloor>"
  have s: "0 < s" using 2(4) by simp
  show ?case
  proof (cases "length ps = maximumPreciseParts")
    case True
    with 2(3,5,6) show ?thesis by (simp add: parts_of_def)
  next
    case False
    have le: "?v * of_nat s \<le> r" and lt: "r - ?v * of_nat s < of_nat s"
      using floor_part [OF s 2(3)] s by auto
    show ?thesis
    proof (cases "?v \<le> 0")
      case True
      have "if units = [] then r = 0 else snd (last units) = 1"
        using 2(3,7) True by (auto split: if_splits)
      with 2(1) [OF False refl True] 2(3-5) False True show ?thesis by simp
    next
      case v: False
      let ?ps = "ps @ [(?v, suffix, s)]"
      from 2(5) False have len: "length ?ps \<le> maximumPreciseParts" by simp
      have last: "r - ?v * of_nat s < part_unit (last ?ps)" using lt by (simp add: part_unit_def)
      have rest: "if units = [] then r - ?v * of_nat s = 0 else snd (last units) = 1"
        using 2(7) by (auto split: if_splits)
      have "parts_of (total_seconds ?ps + (r - ?v * of_nat s)) (precise_parts units (r - ?v * of_nat s) ?ps)"
        by (rule 2(2) [OF False refl v _ _ len last rest]) (use le 2(4) in simp_all)
      with False v show ?thesis by (simp only: precise_parts.simps Let_def if_False)  (simp add: algebra_simps)
    qed
  qed
qed

lemma precise_parts_positive:
  "\<forall>p \<in> set ps. 0 < fst p \<Longrightarrow> p \<in> set (precise_parts units r ps) \<Longrightarrow> 0 < fst p"
proof (induction units r ps rule: precise_parts.induct)
  case (2 suffix s units r ps)
  let ?v = "if s = 1 then r else of_int \<lfloor>r / of_nat s\<rfloor>"
  show ?case
  proof (cases "length ps = maximumPreciseParts")
    case False
    show ?thesis
    proof (cases "?v \<le> 0")
      case True
      with 2(1) [OF False refl True 2(3)] 2(4) False show ?thesis by simp
    next
      case v: False
      then have "\<forall>p \<in> set (ps @ [(?v, suffix, s)]). 0 < fst p" using 2(3) by simp
      with 2(2) [OF False refl v this] 2(4) False v show ?thesis
        by (simp only: precise_parts.simps Let_def if_False)
    qed
  qed (use 2(3,4) in simp)
qed simp



section \<open>Approximate durations\<close>

lemma format_whole: "0 \<le> k \<Longrightarrow> numberFormatter (of_int k) = grouped_text (nat k)"
proof -
  assume k: "0 \<le> k"
  have "of_int k * 10 ^ 3 = (of_int (k * 1000) :: rat)" by simp
  then have "round_half_up (of_int k * 10 ^ 3) = k * 1000" using round_half_up_int by metis
  with k show ?thesis by (simp add: numberFormatter_def format_decimal_def Let_def nat_mult_distrib)
qed

lemma rounded_unit:
  assumes "1 \<le> s" and "s / 2 \<le> d"
  shows "\<exists>n. formatRounded (d / s) suffix = grouped_text n @ suffix \<and> 0 < n \<and>
    \<bar>of_nat n * s - d\<bar> \<le> s / 2"
proof -
  let ?k = "round_half_up (d / s)"
  have "1 / 2 \<le> d / s" using assms by (simp add: field_simps)
  then have k: "1 \<le> ?k" unfolding round_half_up_def by linarith
  have "of_int ?k \<le> d / s + 1 / 2" "d / s - 1 / 2 < of_int ?k" by (rule round_half_up_bounds)+
  then have "of_int ?k * s \<le> (d / s + 1 / 2) * s" "(d / s - 1 / 2) * s \<le> of_int ?k * s"
    using assms(1) by (auto intro: mult_right_mono)
  moreover have "(d / s + 1 / 2) * s = d + s / 2" "(d / s - 1 / 2) * s = d - s / 2"
    using assms(1) by (simp_all add: field_simps)
  ultimately have "\<bar>of_int ?k * s - d\<bar> \<le> s / 2" by linarith
  moreover have "of_nat (nat ?k) = (of_int ?k :: rat)" using k by simp
  ultimately show ?thesis
    using k by (intro exI [of _ "nat ?k"]) (simp add: formatRounded_def formatUnit_def format_whole)
qed

definition approximates :: "rat \<Rightarrow> string \<Rightarrow> bool" where
  "approximates duration shown \<longleftrightarrow>
     (\<exists>n suffix seconds. shown = grouped_text n @ suffix \<and> (suffix, seconds) \<in> set preciseUnits \<and>
        0 < n \<and> \<bar>of_nat n * of_nat seconds - duration\<bar> < of_nat seconds \<and>
        (seconds < 2592000 \<longrightarrow> \<bar>of_nat n * of_nat seconds - duration\<bar> \<le> of_nat seconds / 2))"

lemma approximates_rounded:
  assumes "(suffix, seconds) \<in> set preciseUnits" and "of_nat seconds / 2 \<le> d"
  shows "approximates d (formatRounded (d / of_nat seconds) suffix)"
proof -
  have s: "1 \<le> (of_nat seconds :: rat)" using assms(1) by (auto simp: preciseUnits_def)
  obtain n where n: "formatRounded (d / of_nat seconds) suffix = grouped_text n @ suffix" "0 < n"
    "\<bar>of_nat n * of_nat seconds - d\<bar> \<le> of_nat seconds / 2"
    using rounded_unit [OF s assms(2)] by blast
  have "\<bar>of_nat n * of_nat seconds - d\<bar> < of_nat seconds" using n(3) s by linarith
  with n assms(1) show ?thesis unfolding approximates_def by blast
qed

lemma approximates_one:
  assumes "(suffix, seconds) \<in> set preciseUnits" and "\<bar>of_nat seconds - d\<bar> < of_nat seconds"
    and "seconds < 2592000 \<longrightarrow> \<bar>of_nat seconds - d\<bar> \<le> of_nat seconds / 2"
  shows "approximates d (CHR ''1'' # suffix)"
proof -
  have one: "grouped_text 1 = ''1''" by code_simp
  show ?thesis unfolding approximates_def
    by (rule exI [of _ 1], rule exI [of _ suffix], rule exI [of _ seconds]) (use assms one in simp)
qed

text \<open>
  An approximate duration names its value. Above five seconds the shown number is positive
  and, in the shown unit, differs from the duration by less than one unit, and for every unit
  below a month by at most half of one.
\<close>

lemma approximate_duration_error:
  assumes "5 < duration"
  shows "approximates duration (formatApproximate duration)"
proof -
  have u: "(''s'', 1) \<in> set preciseUnits" "(''m'', 60) \<in> set preciseUnits"
    "(''h'', 3600) \<in> set preciseUnits" "(''d'', 86400) \<in> set preciseUnits"
    "(''mo'', 2592000) \<in> set preciseUnits" "(''y'', 31536000) \<in> set preciseUnits"
    by (simp_all add: preciseUnits_def)
  consider "duration < 60" | "60 \<le> duration" "duration < 90" | "90 \<le> duration" "duration < 2700"
    | "2700 \<le> duration" "duration < 5400" | "5400 \<le> duration" "duration < 79200"
    | "79200 \<le> duration" "duration < 129600" | "129600 \<le> duration" "duration < 2592000"
    | "2592000 \<le> duration" "duration < 5184000" | "5184000 \<le> duration" "duration < 31536000"
    | "31536000 \<le> duration" "duration < 63072000" | "63072000 \<le> duration" by linarith
  then show ?thesis
  proof cases
    case 1 with assms approximates_rounded [OF u(1), of duration] show ?thesis
      by (simp add: formatApproximate_def)
  next
    case 2 with assms approximates_one [OF u(2), of duration] show ?thesis
      by (simp add: formatApproximate_def)
  next
    case 3 with assms approximates_rounded [OF u(2), of duration] show ?thesis
      by (simp add: formatApproximate_def)
  next
    case 4 with assms approximates_one [OF u(3), of duration] show ?thesis
      by (simp add: formatApproximate_def)
  next
    case 5 with assms approximates_rounded [OF u(3), of duration] show ?thesis
      by (simp add: formatApproximate_def)
  next
    case 6 with assms approximates_one [OF u(4), of duration] show ?thesis
      by (simp add: formatApproximate_def)
  next
    case 7 with assms approximates_rounded [OF u(4), of duration] show ?thesis
      by (simp add: formatApproximate_def)
  next
    case 8 with assms approximates_one [OF u(5), of duration] show ?thesis
      by (simp add: formatApproximate_def)
  next
    case 9 with assms approximates_rounded [OF u(5), of duration] show ?thesis
      by (simp add: formatApproximate_def)
  next
    case 10 with assms approximates_one [OF u(6), of duration] show ?thesis
      by (simp add: formatApproximate_def)
  next
    case 11 with assms approximates_rounded [OF u(6), of duration] show ?thesis
      by (simp add: formatApproximate_def)
  qed
qed

end
