(* ===== verification/Types_Pages.thy ===== *)
theory Types_Pages
  imports Types_Jobs Number
begin

text \<open>
  The data of the other pages: the rest of \<^verbatim>\<open>resources/js/types/queues.ts\<close>, and
  \<^verbatim>\<open>types/batches.ts\<close>, \<^verbatim>\<open>types/page.ts\<close>, \<^verbatim>\<open>types/supervisors.ts\<close>,
  \<^verbatim>\<open>types/metrics.ts\<close> and \<^verbatim>\<open>types/monitoring.ts\<close>. A record keyed by a string union is a
  function of the datatype of its keys.
\<close>

section \<open>Metrics and supervisors\<close>

datatype MetricType = JobMetrics | QueueMetrics

record MetricRow =
  mr_name :: string
  mr_throughput :: rat
  mr_runtime :: rat

record MetricSnapshot =
  ms_timestamp :: rat
  ms_throughput :: rat
  ms_runtime :: "rat option"

record MetricPreview =
  mp_data :: "MetricSnapshot list"
  mp_available :: bool
  mp_message :: "string option"

record SupervisorWarning =
  sw_title :: string
  sw_description :: string

datatype Backoff = Backoff_one int | Backoff_many "int list"

record SupervisorDetails =
  sd_id :: string
  sd_name :: string
  sd_master :: string
  sd_pid :: "int option"
  sd_status :: string
  sd_connection :: string
  sd_queues :: "string list"
  sd_processes :: int
  sd_balance :: "string option"
  sd_autoScalingStrategy :: "string option"
  sd_minProcesses :: "int option"
  sd_maxProcesses :: "int option"
  sd_balanceCooldown :: "int option"
  sd_balanceMaxShift :: "int option"
  sd_memory :: "int option"
  sd_timeout :: "int option"
  sd_retryAfter :: "int option"
  sd_maxTries :: "int option"
  sd_backoff :: "Backoff option"
  sd_maxJobs :: "int option"
  sd_maxTime :: "int option"
  sd_sleep :: "int option"
  sd_rest :: "int option"
  sd_force :: "bool option"
  sd_nice :: "int option"
  sd_warnings :: "SupervisorWarning list"

section \<open>The page\<close>

datatype HorizonNavigation =
    NavDashboard | NavInstances | NavQueues | NavMonitoring | NavMetrics | NavBatches
  | NavPending | NavCompleted | NavSilenced | NavFailed

record NavigationCounts =
  nc_instances :: "rat option"
  nc_monitoring :: "rat option"
  nc_metrics :: "rat option"
  nc_queues :: "rat option"
  nc_batches :: "rat option"
  nc_pending :: "rat option"
  nc_completed :: "rat option"
  nc_silenced :: "rat option"
  nc_failed :: "rat option"

section \<open>Batches\<close>

datatype BatchStatus = Batch_pending | Batch_failures | Batch_finished | Batch_cancelled
datatype BatchCreatedRange = Hour | Day | Week | Month
datatype BatchClearScope = Clear_incomplete | Clear_complete | Clear_finished | Clear_cancelled
datatype BatchSort = By_name | By_totalJobs | By_pendingJobs | By_failedJobs | By_progress | By_createdAt
datatype BatchJobTab = Tab_pending | Tab_completed | Tab_failed

record BatchClearCounts =
  bcc_count :: "BatchClearScope \<Rightarrow> int"
  bcc_available :: bool
  bcc_completeScan :: bool
  bcc_message :: "string option"

record BatchFilterCatalog =
  bfc_available :: bool
  bfc_complete :: bool
  bfc_message :: "string option"
  bfc_queues :: "string list"
  bfc_connections :: "string list"

record BatchFilterValues =
  bf_queue :: "string option"
  bf_connection :: "string option"
  bf_created :: "BatchCreatedRange option"

record BatchRow =
  br_id :: string
  br_name :: "string option"
  br_displayName :: string
  br_connection :: "string option"
  br_queue :: "string option"
  br_connectionExplicit :: bool
  br_queueExplicit :: bool
  br_attributionCaptured :: bool
  br_totalJobs :: int
  br_pendingJobs :: int
  br_failedJobs :: int
  br_failedJobAttempts :: int
  br_processedJobs :: int
  br_progress :: int
  br_status :: BatchStatus
  br_createdAt :: rat
  br_cancelledAt :: "rat option"
  br_finishedAt :: "rat option"

record BatchJobList =
  bjl_total :: int
  bjl_rows :: "JobRow list"
  bjl_available :: bool
  bjl_complete :: bool
  bjl_message :: "string option"

record BatchDetail = BatchRow +
  bd_jobs :: "BatchJobTab \<Rightarrow> BatchJobList"

section \<open>Queues\<close>

record QueueTarget =
  qt_connection :: string
  qt_paused :: bool
  qt_pausedUntil :: "rat option"
  qt_ready :: int
  qt_reserved :: int
  qt_delayed :: int
  qt_total :: int

record QueueRow =
  qr_name :: string
  qr_connections :: "string list"
  qr_pauseTargets :: "QueueTarget list"
  qr_ready :: int
  qr_reserved :: int
  qr_delayed :: int
  qr_processes :: int
  qr_wait :: rat
  qr_waitThreshold :: QueueWaitThreshold

record QueueList =
  ql_available :: bool
  ql_queues :: "QueueRow list"
  ql_message :: "string option"

datatype QueueActivityTab = Act_pending | Act_completed | Act_failed | Act_silenced | Act_batches
datatype QueueDetailView = View_overview | View_metrics

record QueueSummary =
  qs_available :: bool
  qs_name :: string
  qs_connections :: "string list"
  qs_pauseTargets :: "QueueTarget list"
  qs_pendingJobs :: "int option"
  qs_pendingComplete :: bool
  qs_retainedJobsWarming :: bool
  qs_pendingReserved :: "int option"
  qs_pendingReadyNow :: "int option"
  qs_pendingDelayed :: "int option"
  qs_failedJobs :: "int option"
  qs_failedComplete :: bool
  qs_failedJobsPerMinute :: "rat option"
  qs_failedJobsPerMinuteComplete :: bool
  qs_failedJobsPastHour :: "int option"
  qs_failedJobsPastHourComplete :: bool
  qs_failedJobsPastDay :: "int option"
  qs_failedJobsPastDayComplete :: bool
  qs_failedRetentionMinutes :: int
  qs_completedJobs :: "int option"
  qs_completedComplete :: bool
  qs_completedAvailable :: bool
  qs_completedJobsPerMinute :: "rat option"
  qs_completedJobsPerMinuteComplete :: bool
  qs_completedJobsPastHour :: "int option"
  qs_completedJobsPastHourComplete :: bool
  qs_completedJobsPastDay :: "int option"
  qs_completedJobsPastDayComplete :: bool
  qs_completedRetentionMinutes :: int
  qs_silencedJobs :: "int option"
  qs_silencedComplete :: bool
  qs_batches :: "int option"
  qs_activeBatches :: "int option"
  qs_batchesComplete :: bool
  qs_batchPreviews :: "BatchPreview list"
  qs_processes :: "int option"
  qs_waitThreshold :: "QueueWaitThreshold option"
  qs_jobsPerMinute :: "rat option"
  qs_throughput :: "rat option"
  qs_averageRuntime :: "rat option"
  qs_message :: "string option"

text \<open>The rows of an activity tab are jobs or batches.\<close>

record QueueActivity =
  qa_data :: "(JobRow + BatchRow) list"
  qa_total :: int
  qa_complete :: bool
  qa_available :: bool
  qa_warming :: bool
  qa_message :: "string option"

section \<open>Monitoring\<close>

datatype MonitoringStatus = Monitored_jobs | Monitored_failed

record MonitoredTag =
  mt_tag :: string
  mt_trackedCount :: int
  mt_failedCount :: int
  mt_lastActivityAt :: "rat option"
  mt_silenced :: bool

record MonitoredTagCollection =
  mtc_data :: "MonitoredTag list"
  mtc_available :: bool
  mtc_message :: "string option"

record MonitoringTagSummary =
  mts_tag :: string
  mts_trackedCount :: int
  mts_failedCount :: int
  mts_silenced :: bool
  mts_monitoredRetentionMinutes :: int
  mts_failedRetentionMinutes :: int

end
