(* ===== verification/Jsx.thy ===== *)
theory Jsx
  imports Number
begin

text \<open>
  Rendered elements. A component is a function from its props and state to the tree of elements
  it returns; the elements of other components and of the UI kit stand in the tree by name,
  with the props they are given and their children. A handler is the action it performs. Style
  (class names, sizes, icons as such) is left out; \<open>null\<close>, \<open>false\<close> and \<open>undefined\<close> children
  are empty lists. A \<open>key\<close> is a prop of its own name; an element passed as the \<open>render\<close> prop is a
  child named \<^verbatim>\<open>render\<close>.
\<close>

datatype 'a attr = Str string | Flag bool | Count int | On 'a

datatype 'a node = Text string | El string "(string \<times> 'a attr) list" "'a node list"

text \<open>The text a reader sees, in order.\<close>

fun node_text :: "'a node \<Rightarrow> string" where
  "node_text (Text s) = s"
| "node_text (El n ps cs) = concat (map node_text cs)"

definition is_disabled :: "(string \<times> 'a attr) list \<Rightarrow> bool" where
  "is_disabled ps \<longleftrightarrow> map_of ps ''disabled'' = Some (Flag True)"

definition prop_actions :: "(string \<times> 'a attr) list \<Rightarrow> 'a list" where
  "prop_actions ps = concat (map (\<lambda>p. case snd p of On a \<Rightarrow> [a] | _ \<Rightarrow> []) ps)"

text \<open>The actions a tree offers: those of the elements that are not disabled.\<close>

fun offered :: "'a node \<Rightarrow> 'a list" where
  "offered (Text s) = []"
| "offered (El n ps cs) = (if is_disabled ps then [] else prop_actions ps) @ concat (map offered cs)"

definition offers :: "'a node list \<Rightarrow> 'a list" where
  "offers ns = concat (map offered ns)"

text \<open>The elements of a name, with their props and children.\<close>

fun elements :: "string \<Rightarrow> 'a node \<Rightarrow> ((string \<times> 'a attr) list \<times> 'a node list) list" where
  "elements name (Text s) = []"
| "elements name (El n ps cs) = (if n = name then [(ps, cs)] else []) @ concat (map (elements name) cs)"

definition rows_of :: "string \<Rightarrow> 'a node list \<Rightarrow> ((string \<times> 'a attr) list \<times> 'a node list) list" where
  "rows_of name ns = concat (map (elements name) ns)"

text \<open>A conditional child, and a prop that is left out.\<close>

definition child_if :: "bool \<Rightarrow> 'a node list \<Rightarrow> 'a node list" where
  "child_if c ns = (if c then ns else [])"

definition prop_if :: "bool \<Rightarrow> string \<times> 'a attr \<Rightarrow> (string \<times> 'a attr) list" where
  "prop_if c p = (if c then [p] else [])"

definition text_of :: "string \<Rightarrow> string \<Rightarrow> 'a node" where
  "text_of name s = El name [] [Text s]"

text \<open>The text of a nullable count, or the dash that stands for an unknown one.\<close>

definition or_dash :: "('b \<Rightarrow> string) \<Rightarrow> 'b option \<Rightarrow> string" where
  "or_dash shown v = (case v of None \<Rightarrow> em_dash | Some x \<Rightarrow> shown x)"

lemma child_if_simps [simp]: "child_if True ns = ns" "child_if False ns = []"
  by (simp_all add: child_if_def)

lemma prop_if_simps [simp]: "prop_if True p = [p]" "prop_if False p = []"
  by (simp_all add: prop_if_def)

lemma offered_text_of [simp]: "offered (text_of name s) = []"
  by (simp add: text_of_def is_disabled_def prop_actions_def)

lemma offers_simps [simp]:
  "offers [] = []" "offers (n # ns) = offered n @ offers ns" "offers (ns @ ms) = offers ns @ offers ms"
  by (simp_all add: offers_def)

lemma offers_concat: "offers (concat nss) = concat (map offers nss)"
  by (induction nss) simp_all

lemma prop_actions_simps [simp]:
  "prop_actions [] = []"
  "prop_actions ((k, On a) # ps) = a # prop_actions ps"
  "prop_actions ((k, Str s) # ps) = prop_actions ps"
  "prop_actions ((k, Flag b) # ps) = prop_actions ps"
  "prop_actions ((k, Count i) # ps) = prop_actions ps"
  "prop_actions (ps @ qs) = prop_actions ps @ prop_actions qs"
  by (simp_all add: prop_actions_def)

lemma offered_El: "offered (El n ps cs) = (if is_disabled ps then [] else prop_actions ps) @ offers cs"
  by (simp add: offers_def)

lemma offers_set: "a \<in> set (offers ns) \<longleftrightarrow> (\<exists>n \<in> set ns. a \<in> set (offered n))"
  by (simp add: offers_def)

lemma is_disabled_Nil [simp]: "\<not> is_disabled []"
  by (simp add: is_disabled_def)

lemma is_disabled_Cons [simp]:
  "is_disabled ((k, v) # ps) \<longleftrightarrow> (if k = ''disabled'' then v = Flag True else is_disabled ps)"
  by (simp add: is_disabled_def)

declare offered.simps(2) [simp del] offered_El [simp]

lemma rows_of_cons:
  "rows_of name [] = []" "rows_of name (n # ns) = elements name n @ rows_of name ns"
  "rows_of name (ns @ ms) = rows_of name ns @ rows_of name ms"
  by (simp_all add: rows_of_def)

lemma elements_El: "elements name (El n ps cs) = (if n = name then [(ps, cs)] else []) @ rows_of name cs"
  by (simp add: rows_of_def)

declare elements.simps(2) [simp del] elements_El [simp] rows_of_cons [simp]

text \<open>The elements of a child component, its actions seen from the parent.\<close>

definition embed :: "('a \<Rightarrow> 'b) \<Rightarrow> 'a node list \<Rightarrow> 'b node list" where
  "embed f ns = map (map_node f) ns"

lemma is_disabled_map: "is_disabled (map (map_prod id (map_attr f)) ps) = is_disabled ps"
proof (induction ps)
  case (Cons p ps)
  then show ?case by (cases p; cases "snd p") auto
qed simp

lemma prop_actions_map: "prop_actions (map (map_prod id (map_attr f)) ps) = map f (prop_actions ps)"
proof (induction ps)
  case (Cons p ps)
  then show ?case by (cases p; cases "snd p") auto
qed simp

lemma offered_map_node: "offered (map_node f n) = map f (offered n)"
proof (induction n)
  case (El name ps cs)
  have "offers (map (map_node f) cs) = map f (offers cs)"
    using El by (induction cs) simp_all
  then show ?case by (simp add: is_disabled_map prop_actions_map)
qed simp

lemma offers_embed [simp]: "offers (embed f ns) = map f (offers ns)"
  by (induction ns) (simp_all add: embed_def offered_map_node)

lemmas offer_simps = offers_set offers_concat child_if_def prop_if_def

end
