(* ===== verification/Instance_Commands.thy ===== *)
theory Instance_Commands
  imports Process_Transitions Jsx
begin

text \<open>
  \<^verbatim>\<open>resources/js/components/dashboard/horizon-instances-actions.tsx\<close>: the menus that pause,
  continue and terminate Horizon, with the request behind them.

  An asynchronous handler is cut at its \<open>await\<close>: the part that runs on the click, and the part
  that runs when the request has settled. What the network does is an argument (\<open>exchange\<close>).
  The hook that holds the transitions is the one of \<open>Process_Transitions\<close>, passed in as state.
\<close>

section \<open>The request\<close>

datatype HorizonCommand = Continue | Pause | Terminate

definition commandRevalidationDelay :: int where "commandRevalidationDelay = 1100"
definition commandRequestTimeout :: int where "commandRequestTimeout = 30000"

text \<open>
  A JSON body: its \<open>message\<close> when that is a string, and any other value. The network: the fetch
  fails; or headers arrive at a time with a status, and then the body at a time (readable as
  JSON or not), or never.
\<close>

datatype HorizonCommandPayload = With_message string | Without_message

datatype exchange =
    Fetch_fails int
  | Response_at int bool "(int \<times> HorizonCommandPayload option) option"
  | No_response

record command_response =
  response_ok :: bool
  response_payload :: "HorizonCommandPayload option"

text \<open>
  The settled request: when, and what it returned, or \<open>None\<close> when it threw. The abort at the
  timeout rejects the fetch or the reading of the body; a body that is not JSON leaves the
  payload null. The \<open>finally\<close> clears the timer on every path.
\<close>

definition requestHorizonCommand :: "exchange \<Rightarrow> int \<times> command_response option" where
  "requestHorizonCommand x =
     (case x of
        Fetch_fails t \<Rightarrow> (min t commandRequestTimeout, None)
      | No_response \<Rightarrow> (commandRequestTimeout, None)
      | Response_at t ok body \<Rightarrow>
          if t \<ge> commandRequestTimeout then (commandRequestTimeout, None)
          else (case body of
                  None \<Rightarrow> (commandRequestTimeout, None)
                | Some (t', payload) \<Rightarrow>
                    if t' \<ge> commandRequestTimeout then (commandRequestTimeout, None)
                    else (t', Some \<lparr>response_ok = ok, response_payload = payload\<rparr>)))"

lemma request_settles_in_time: "fst (requestHorizonCommand x) \<le> commandRequestTimeout"
  by (auto simp: requestHorizonCommand_def split: exchange.split option.split)

definition response_message :: "command_response \<Rightarrow> string \<Rightarrow> string" where
  "response_message r fallback =
     (case response_payload r of Some (With_message m) \<Rightarrow> m | _ \<Rightarrow> fallback)"

section \<open>Revalidation after a command\<close>

text \<open>
  \<open>useDelayedInstancesRevalidation\<close>: one timer, restarted by every call; the callback of the
  reload runs only while the component is mounted. A timer carries the callback's identity and
  the time at which it fires.
\<close>

record 'c revalidation =
  rv_mounted :: bool
  rv_timeout :: "(int \<times> 'c) option"
  rv_reloads :: "'c list"
  rv_finished :: "'c list"

definition rv_initial :: "'c revalidation" where
  "rv_initial = \<lparr>rv_mounted = True, rv_timeout = None, rv_reloads = [], rv_finished = []\<rparr>"

definition rv_request :: "int \<Rightarrow> 'c \<Rightarrow> 'c revalidation \<Rightarrow> 'c revalidation" where
  "rv_request now onFinish s = s\<lparr>rv_timeout := Some (now + commandRevalidationDelay, onFinish)\<rparr>"

definition rv_fire :: "'c revalidation \<Rightarrow> 'c revalidation" where
  "rv_fire s =
     (case rv_timeout s of
        None \<Rightarrow> s
      | Some (_, c) \<Rightarrow> s\<lparr>rv_timeout := None, rv_reloads := rv_reloads s @ [c]\<rparr>)"

definition rv_reload_finished :: "'c \<Rightarrow> 'c revalidation \<Rightarrow> 'c revalidation" where
  "rv_reload_finished c s =
     (if rv_mounted s then s\<lparr>rv_finished := rv_finished s @ [c]\<rparr> else s)"

definition rv_unmount :: "'c revalidation \<Rightarrow> 'c revalidation" where
  "rv_unmount s = s\<lparr>rv_mounted := False, rv_timeout := None\<rparr>"

section \<open>The handlers\<close>

text \<open>
  State of a menu: the command under way, the dialog, the toasts it has raised (an error or a
  success) and the requests it has sent.
\<close>

datatype toast = Toast_error string | Toast_success string

record menu_state =
  working :: "HorizonCommand option"
  dialogOpen :: bool
  notices :: "toast list"
  sent :: "string list"

definition notify :: "toast \<Rightarrow> menu_state \<Rightarrow> menu_state" where
  "notify t m = m\<lparr>notices := notices m @ [t]\<rparr>"

text \<open>A missing or empty token.\<close>

definition falsy_text :: "string option \<Rightarrow> bool" where
  "falsy_text s \<longleftrightarrow> s = None \<or> s = Some []"

text \<open>\<open>HorizonInstancesActions.run\<close>: the click, and the settled request.\<close>

definition instances_start ::
  "HorizonCommand \<Rightarrow> string \<Rightarrow> string \<Rightarrow> string option \<Rightarrow> menu_state \<Rightarrow> menu_state" where
  "instances_start action url fallback csrfToken m =
     (if falsy_text csrfToken then notify (Toast_error fallback) m
      else m\<lparr>working := Some action, sent := sent m @ [url]\<rparr>)"

text \<open>The result says whether a revalidation was asked for, whose callback resets \<open>working\<close>.\<close>

definition instances_settle ::
  "HorizonCommand \<Rightarrow> string \<Rightarrow> command_response option \<Rightarrow> menu_state \<Rightarrow> menu_state \<times> bool" where
  "instances_settle action fallback result m =
     (case result of
        None \<Rightarrow> ((notify (Toast_error fallback) m)\<lparr>working := None\<rparr>, False)
      | Some r \<Rightarrow>
          let message = response_message r fallback
          in if \<not> response_ok r then ((notify (Toast_error message) m)\<lparr>working := None\<rparr>, False)
             else (notify (Toast_success message)
                     (if action = Terminate then m\<lparr>dialogOpen := False\<rparr> else m), True))"

text \<open>
  \<open>HorizonInstanceActions.run\<close> and \<open>SupervisorActions.run\<close>. The two prop callbacks ask the
  hook for a transition and report its failure; the started command is its token.
\<close>

definition transition_of :: "HorizonCommand \<Rightarrow> HorizonTransitionStatus" where
  "transition_of action = (if action = Pause then Pausing else Continuing)"

type_synonym 'h on_transition = "HorizonTransitionStatus \<Rightarrow> 'h \<Rightarrow> nat option \<times> 'h"
type_synonym 'h on_failure = "nat \<Rightarrow> 'h \<Rightarrow> 'h"

definition command_start ::
  "'h on_transition \<Rightarrow> HorizonCommand \<Rightarrow> string \<Rightarrow> string \<Rightarrow> string option \<Rightarrow>
   menu_state \<times> 'h \<Rightarrow> nat option \<times> menu_state \<times> 'h" where
  "command_start onTransition action url fallback csrfToken s =
     (if falsy_text csrfToken then (None, notify (Toast_error fallback) (fst s), snd s)
      else case onTransition (transition_of action) (snd s) of
             (None, h) \<Rightarrow> (None, fst s, h)
           | (Some token, h) \<Rightarrow>
               (Some token, (fst s)\<lparr>working := Some action, sent := sent (fst s) @ [url]\<rparr>, h))"

definition command_settle ::
  "'h on_failure \<Rightarrow> nat \<Rightarrow> string \<Rightarrow> command_response option \<Rightarrow> menu_state \<times> 'h \<Rightarrow> menu_state \<times> 'h" where
  "command_settle onTransitionFailure token fallback result s =
     (case result of
        None \<Rightarrow> ((notify (Toast_error fallback) (fst s))\<lparr>working := None\<rparr>,
          onTransitionFailure token (snd s))
      | Some r \<Rightarrow>
          let message = response_message r fallback
          in if \<not> response_ok r
             then ((notify (Toast_error message) (fst s))\<lparr>working := None\<rparr>,
               onTransitionFailure token (snd s))
             else ((notify (Toast_success message) (fst s))\<lparr>working := None\<rparr>, snd s))"

section \<open>The menus\<close>

text \<open>\<open>components/ui/action-menu-trigger.tsx\<close>\<close>

definition ActionMenuTrigger :: "bool \<Rightarrow> string \<Rightarrow> bool \<Rightarrow> 'a node list \<Rightarrow> 'a node list" where
  "ActionMenuTrigger available label busy children =
     (let content = (if children = [] then [El ''EllipsisIcon'' [] []] else children);
          button = El ''Button''
            ([(''type'', Str ''button''), (''variant'', Str ''ghost''), (''aria-label'', Str label)] @
             prop_if (\<not> available \<and> \<not> busy) (''aria-disabled'', Flag True) @
             [(''disabled'', Flag busy)]) []
      in if \<not> available \<and> \<not> busy
         then [El ''Tooltip'' []
                [El ''TooltipTrigger'' [] (El ''render'' [] [button] # content),
                 text_of ''TooltipContent'' ''No actions available'']]
         else [El ''DropdownMenuTrigger'' [] (El ''render'' [] [button] # content)])"

datatype command_action =
    Open_dialog bool
  | Run_terminate
  | Run_command HorizonCommand

definition HorizonInstancesActions :: "bool \<Rightarrow> menu_state \<Rightarrow> command_action node list" where
  "HorizonInstancesActions hasLocalInstance m =
     [El ''DropdownMenu'' []
        (ActionMenuTrigger hasLocalInstance ''Horizon instances actions'' (working m \<noteq> None) [] @
         [El ''DropdownMenuContent'' []
            [El ''DropdownMenuItem''
               [(''variant'', Str ''destructive''), (''disabled'', Flag (\<not> hasLocalInstance)),
                (''onSelect'', On (Open_dialog True))]
               [El ''PowerIcon'' [] [], Text ''Terminate instances'']]]),
      El ''Dialog'' [(''open'', Flag (dialogOpen m))]
        [El ''DialogContent'' []
           [El ''DialogHeader'' []
              [text_of ''DialogTitle'' ''Terminate instances?'',
               text_of ''DialogDescription''
                 (''Send the horizon:terminate command to every Horizon instance on this machine. '' @
                  ''Active jobs may finish before the processes exit. A process monitor may restart '' @
                  ''Horizon automatically.'')],
            El ''DialogFooter'' []
              [El ''DialogClose'' [(''disabled'', Flag (working m \<noteq> None))] [Text ''Cancel''],
               El ''Button''
                 [(''type'', Str ''button''), (''variant'', Str ''destructive''),
                  (''disabled'', Flag (working m \<noteq> None)), (''onClick'', On Run_terminate)]
                 [Text (if working m = Some Terminate then ''Terminating'' @ ellipsis
                        else ''Terminate instances'')]]]]]"

definition reports :: "HorizonDisplayStatus \<Rightarrow> HorizonStatus \<Rightarrow> bool" where
  "reports status s \<longleftrightarrow> status = Reported s"

text \<open>The menu of one process: \<open>HorizonInstanceActions\<close> and \<open>SupervisorActions\<close>.\<close>

definition process_menu ::
  "string \<Rightarrow> string \<Rightarrow> HorizonDisplayStatus \<Rightarrow> bool \<Rightarrow> HorizonCommand option \<Rightarrow> command_action node list" where
  "process_menu label kind status transitionPending work =
     [El ''DropdownMenu'' []
        (ActionMenuTrigger
           (\<not> transitionPending \<and> (reports status Running \<or> reports status Paused)) label (work \<noteq> None) [] @
         [El ''DropdownMenuContent'' []
            [if reports status Paused
             then El ''DropdownMenuItem''
                    [(''disabled'', Flag transitionPending), (''onSelect'', On (Run_command Continue))]
                    [El ''PlayIcon'' [] [], Text (''Continue '' @ kind)]
             else El ''DropdownMenuItem''
                    [(''disabled'', Flag (transitionPending \<or> \<not> reports status Running)),
                     (''onSelect'', On (Run_command Pause))]
                    [El ''PauseIcon'' [] [], Text (''Pause '' @ kind)]]])]"

definition HorizonInstanceActions ::
  "string \<Rightarrow> HorizonDisplayStatus \<Rightarrow> bool \<Rightarrow> HorizonCommand option \<Rightarrow> command_action node list" where
  "HorizonInstanceActions instanceName =
     process_menu (''Horizon instance '' @ instanceName @ '' actions'') ''instance''"

definition SupervisorActions ::
  "string \<Rightarrow> HorizonDisplayStatus \<Rightarrow> bool \<Rightarrow> HorizonCommand option \<Rightarrow> command_action node list" where
  "SupervisorActions supervisor =
     process_menu (''Supervisor '' @ supervisor @ '' actions'') ''supervisor''"

lemma trigger_offers [simp]: "offers (ActionMenuTrigger available label busy []) = []"
  by (simp add: ActionMenuTrigger_def Let_def prop_if_def)

lemma process_menu_offers:
  "offers (process_menu label kind status pending work) =
     (if pending then [] else if reports status Paused then [Run_command Continue]
      else if reports status Running then [Run_command Pause] else [])"
  by (auto simp: process_menu_def reports_def)

section \<open>A command and its transition\<close>

text \<open>The process a menu belongs to, and the callbacks the supervisors table passes for it.\<close>

datatype process = Instance string | Supervisor string

fun request_transition ::
  "DashboardSupervisors option \<Rightarrow> int \<Rightarrow> int \<Rightarrow> process \<Rightarrow> transitions_hook on_transition" where
  "request_transition sups interval now (Instance n) status h =
     onInstanceTransition sups interval now n status h"
| "request_transition sups interval now (Supervisor i) status h =
     onSupervisorTransition sups interval now i status h"

fun report_failure :: "process \<Rightarrow> transitions_hook on_failure" where
  "report_failure (Instance n) tok h = onInstanceTransitionFailure n tok h"
| "report_failure (Supervisor i) tok h = onSupervisorTransitionFailure i tok h"

definition entries :: "PendingProcessTransitions \<Rightarrow> (process \<times> PendingTransition) list" where
  "entries t = map (\<lambda>e. (Instance (fst e), snd e)) (instances t) @
     map (\<lambda>e. (Supervisor (fst e), snd e)) (supervisors t)"

text \<open>A token that has been handed out belongs to one process only.\<close>

definition token_home :: "process \<Rightarrow> nat \<Rightarrow> transitions_hook \<Rightarrow> bool" where
  "token_home p tok h \<longleftrightarrow> tok \<le> nextToken h \<and>
     (\<forall>e \<in> set (entries (transitionRef h)). pending_token (snd e) = tok \<longrightarrow> fst e = p)"

definition grows_by_new :: "transitions_hook \<Rightarrow> transitions_hook \<Rightarrow> bool" where
  "grows_by_new h h' \<longleftrightarrow> nextToken h \<le> nextToken h' \<and>
     (\<forall>e \<in> set (entries (transitionRef h')).
        e \<in> set (entries (transitionRef h)) \<or> pending_token (snd e) > nextToken h)"

lemma entries_mono:
  "set (instances t) \<subseteq> set (instances t') \<Longrightarrow> set (supervisors t) \<subseteq> set (supervisors t') \<Longrightarrow>
     set (entries t) \<subseteq> set (entries t')"
  by (auto simp: entries_def)

lemma grows_self [simp]: "grows_by_new h h"
  by (simp add: grows_by_new_def)

lemma grows_subset:
  "nextToken h' = nextToken h \<Longrightarrow> set (instances (transitionRef h')) \<subseteq> set (instances (transitionRef h)) \<Longrightarrow>
   set (supervisors (transitionRef h')) \<subseteq> set (supervisors (transitionRef h)) \<Longrightarrow> grows_by_new h h'"
  unfolding grows_by_new_def using entries_mono [of "transitionRef h'" "transitionRef h"] by auto

lemma grows_added:
  assumes "nextToken h' = nextToken h + 1" and "pending_token v = nextToken h + 1"
    and "set (entries (transitionRef h')) \<subseteq> insert (p, v) (set (entries (transitionRef h)))"
  shows "grows_by_new h h'"
  using assms unfolding grows_by_new_def by fastforce

lemma entries_update:
  fixes t :: PendingProcessTransitions
  shows
  "set (entries (t\<lparr>instances := AList.update k v (instances t)\<rparr>)) \<subseteq> insert (Instance k, v) (set (entries t))"
  "set (entries (t\<lparr>supervisors := AList.update k v (supervisors t)\<rparr>)) \<subseteq> insert (Supervisor k, v) (set (entries t))"
  using update_entries [of _ k v] by (fastforce simp: entries_def)+

definition added :: "process \<Rightarrow> transitions_hook \<Rightarrow> transitions_hook \<Rightarrow> bool" where
  "added p h h' \<longleftrightarrow> nextToken h' = nextToken h + 1 \<and>
     (\<exists>v. pending_token v = nextToken h + 1 \<and>
        set (entries (transitionRef h')) \<subseteq> insert (p, v) (set (entries (transitionRef h))))"

lemma added_grows: "added p h h' \<Longrightarrow> grows_by_new h h'"
  unfolding added_def using grows_added by blast

lemma added_commit:
  "pending_token v = nextToken h + 1 \<Longrightarrow> added (Instance k) h (commitTransitions
     ((transitionRef h)\<lparr>instances := AList.update k v (instances (transitionRef h))\<rparr>)
     (h\<lparr>nextToken := nextToken h + 1\<rparr>))"
  "pending_token v = nextToken h + 1 \<Longrightarrow> added (Supervisor k) h (commitTransitions
     ((transitionRef h)\<lparr>supervisors := AList.update k v (supervisors (transitionRef h))\<rparr>)
     (h\<lparr>nextToken := nextToken h + 1\<rparr>))"
  unfolding added_def commit_sel
  using entries_update [where t = "transitionRef h" and k = k and v = v] by (auto simp del: insert_iff)

lemma request_result:
  "request_transition sups interval now p status h = (None, h) \<or>
   (\<exists>h'. request_transition sups interval now p status h = (Some (nextToken h + 1), h') \<and> added p h h')"
proof (cases p)
  case (Instance n)
  note a = added_commit(1) [of "\<lparr>pending_status = status, pending_token = nextToken h + 1,
      pending_expiresAt = now + resolveProcessTransitionTimeout interval\<rparr>" h n, simplified]
  show ?thesis
    unfolding Instance request_transition.simps onInstanceTransition_def Let_def
    using a by (auto split: option.split)
next
  case (Supervisor n)
  note a = added_commit(2) [of "\<lparr>pending_status = status, pending_token = nextToken h + 1,
      pending_expiresAt = now + resolveProcessTransitionTimeout interval\<rparr>" h n, simplified]
  show ?thesis
    unfolding Supervisor request_transition.simps onSupervisorTransition_def Let_def
    using a by (auto split: option.split)
qed

lemma grows_request: "grows_by_new h (snd (request_transition sups interval now p status h))"
  using request_result [of sups interval now p status h] added_grows by auto

lemmas grows_requests = grows_request [where p = "Instance n" for n, simplified]
  grows_request [where p = "Supervisor n" for n, simplified]

lemma grows_failure:
  "grows_by_new h (onInstanceTransitionFailure n tok h)"
  "grows_by_new h (onSupervisorTransitionFailure n tok h)"
  by (auto simp: onInstanceTransitionFailure_def onSupervisorTransitionFailure_def Let_def
      delete_as_filter intro!: grows_subset)

lemma grows_expire: "grows_by_new h (snd (expireTransitions e now h))"
  by (auto simp: expireTransitions_def Let_def without_expired_filters intro!: grows_subset)

lemma grows_reconcile:
  assumes "hook_inv h"
  shows "grows_by_new h (reconcile_effect sups h)"
proof (cases sups)
  case (Some s)
  have d: "distinct_entries (transitionRef h)" using assms by (simp add: hook_inv_def)
  show ?thesis
    using Some reconcile_filters [OF d, of s] reconcile_unavailable [of s]
    by (cases "dsv_available s") (auto simp: reconcile_effect_def intro!: grows_subset)
qed (auto simp: reconcile_effect_def intro: grows_subset)

lemma grows_step: "hook_inv h \<Longrightarrow> grows_by_new h (hook_step h ev)"
  by (cases ev) (simp_all add: grows_reconcile grows_requests grows_failure grows_expire)

lemma token_home_step: "grows_by_new h h' \<Longrightarrow> token_home p tok h \<Longrightarrow> token_home p tok h'"
  by (fastforce simp: token_home_def grows_by_new_def)

lemma token_home_run: "hook_inv h \<Longrightarrow> token_home p tok h \<Longrightarrow> token_home p tok (hook_run evs h)"
proof (induction evs arbitrary: h)
  case (Cons ev evs)
  then show ?case
    using token_home_step [OF grows_step] hook_inv_step by (simp add: hook_run_def)
qed (simp add: hook_run_def)

lemma accepted_request:
  assumes "hook_inv h" and "request_transition sups interval now p status h = (Some tok, h')"
  shows "hook_inv h'" and "token_home p tok h'" and "nextToken h' = tok"
proof -
  show "hook_inv h'"
    using assms hook_inv_instance [OF assms(1)] hook_inv_supervisor [OF assms(1)]
    by (cases p) (metis request_transition.simps snd_conv)+
  have old: "pending_token (snd e) \<le> nextToken h" if "e \<in> set (entries (transitionRef h))" for e
  proof -
    have "pending_token (snd e) \<in> set (tokens (transitionRef h))"
      using that unfolding tokens_eq entries_def by force
    with assms(1) show ?thesis unfolding hook_inv_def by blast
  qed
  have tok: "tok = nextToken h + 1" and a: "added p h h'"
    using request_result [of sups interval now p status h] assms(2) by auto
  then show "nextToken h' = tok" by (simp add: added_def)
  show "token_home p tok h'"
    using a old tok unfolding token_home_def added_def by fastforce
qed

definition command_failed :: "command_response option \<Rightarrow> bool" where
  "command_failed result \<longleftrightarrow> (case result of None \<Rightarrow> True | Some r \<Rightarrow> \<not> response_ok r)"

lemma settle_result:
  "fst (command_settle fail tok fb result s) = (fst s)\<lparr>notices := notices (fst s) @
     [case result of None \<Rightarrow> Toast_error fb
      | Some r \<Rightarrow> (if response_ok r then Toast_success else Toast_error) (response_message r fb)],
     working := None\<rparr>"
  "snd (command_settle fail tok fb result s) =
     (if command_failed result then fail tok (snd s) else snd s)"
  by (auto simp: command_settle_def notify_def command_failed_def Let_def split: option.split)

lemma failure_entries:
  assumes "hook_inv h"
  shows "entries (transitionRef (report_failure p tok h)) =
    filter (\<lambda>e. \<not> (fst e = p \<and> pending_token (snd e) = tok)) (entries (transitionRef h))"
proof -
  have keep: "filter (\<lambda>e. \<not> (fst e = n \<and> pending_token (snd e) = tok)) m =
      (if map_option pending_token (map_of m n) = Some tok then filter (\<lambda>e. fst e \<noteq> n) m else m)"
    if "distinct (map fst m)" for m :: "(string \<times> PendingTransition) list" and n
  proof (cases "map_option pending_token (map_of m n) = Some tok")
    case True
    then obtain v where v: "map_of m n = Some v" "pending_token v = tok" by auto
    have "fst e = n \<Longrightarrow> pending_token (snd e) = tok" if "e \<in> set m" for e
      using that v \<open>distinct (map fst m)\<close> by (metis map_of_eq_Some_iff option.inject prod.collapse)
    with True show ?thesis by (auto intro: filter_cong)
  next
    case False
    have "\<not> (fst e = n \<and> pending_token (snd e) = tok)" if "e \<in> set m" for e
    proof -
      have "map_of m (fst e) = Some (snd e)" using that \<open>distinct (map fst m)\<close> by simp
      with False show ?thesis by auto
    qed
    then have "filter (\<lambda>e. \<not> (fst e = n \<and> pending_token (snd e) = tok)) m = m"
      by (simp add: filter_id_conv)
    with False show ?thesis by (simp only: if_False)
  qed
  have d: "distinct (map fst (instances (transitionRef h)))" "distinct (map fst (supervisors (transitionRef h)))"
    using assms by (simp_all add: hook_inv_def distinct_entries_def)
  show ?thesis
    using keep [OF d(1)] keep [OF d(2)]
    by (cases p) (auto simp: entries_def filter_map comp_def onInstanceTransitionFailure_def
        onSupervisorTransitionFailure_def Let_def delete_as_filter)
qed

text \<open>
  C7: a command and its pending transition end together. Whatever else happens between the
  click and the answer, when the request has settled the menu is idle again and has raised
  exactly one toast; if the command failed, no transition with its token is pending any more and
  all the others are as they were, and if it succeeded, the transition is left to be settled by
  the server's report.
\<close>

theorem failed_command_rolls_back:
  assumes "h = hook_run earlier initial_transitions"
    and "command_start (request_transition sups interval now p) action url fb csrf (m, h) = (Some tok, m1, h1)"
    and "h2 = hook_run between h1"
    and "command_settle (report_failure p) tok fb result (menu, h2) = (m3, h3)"
  shows "working m3 = None \<and> length (notices m3) = Suc (length (notices menu)) \<and>
    (if command_failed result
     then entries (transitionRef h3) =
        filter (\<lambda>e. pending_token (snd e) \<noteq> tok) (entries (transitionRef h2))
     else h3 = h2)"
proof -
  have "hook_inv h" by (simp add: assms(1) hook_inv_run hook_inv_initial)
  moreover have "request_transition sups interval now p (transition_of action) h = (Some tok, h1)"
    using assms(2) by (auto simp: command_start_def split: if_splits option.splits prod.splits)
  ultimately have "hook_inv h1" "token_home p tok h1" by (rule accepted_request)+
  then have inv: "hook_inv h2" and home: "token_home p tok h2"
    by (simp_all add: assms(3) hook_inv_run token_home_run)
  have "entries (transitionRef (report_failure p tok h2)) =
      filter (\<lambda>e. pending_token (snd e) \<noteq> tok) (entries (transitionRef h2))"
    unfolding failure_entries [OF inv] using home by (auto simp: token_home_def intro: filter_cong)
  moreover have "m3 = fst (command_settle (report_failure p) tok fb result (menu, h2))"
    "h3 = snd (command_settle (report_failure p) tok fb result (menu, h2))"
    using assms(4) by simp_all
  ultimately show ?thesis by (simp add: settle_result)
qed

definition idle_menu :: menu_state where
  "idle_menu = \<lparr>working = None, dialogOpen = False, notices = [], sent = []\<rparr>"

theorem failed_command_rolls_back_witness:
  "entries (transitionRef (snd (command_settle (report_failure (Instance ''host'')) 1 ''Failed.'' None
     (idle_menu, hook_run [TimerFired 0 10] (snd (snd (command_start
        (request_transition (Some host_report) 0 1000 (Instance ''host'')) Pause ''/pause'' ''Failed.''
        (Some ''token'') (idle_menu, initial_transitions)))))))) = []"
proof -
  let ?start = "command_start (request_transition (Some host_report) 0 1000 (Instance ''host''))
      Pause ''/pause'' ''Failed.'' (Some ''token'') (idle_menu, initial_transitions)"
  have "initial_transitions = hook_run [] initial_transitions" by (simp add: hook_run_def)
  moreover have s: "?start = (Some 1, fst (snd ?start), snd (snd ?start))"
    by (simp add: command_start_def falsy_text_def transition_of_def onInstanceTransition_def
        available_groups_def host_report_def initial_transitions_def emptyPendingTransitions_def Let_def)
  moreover have "filter (\<lambda>e. pending_token (snd e) \<noteq> 1)
      (entries (transitionRef (hook_run [TimerFired 0 10] (snd (snd ?start))))) = []"
    by (simp add: command_start_def falsy_text_def transition_of_def onInstanceTransition_def entries_def
        available_groups_def host_report_def initial_transitions_def emptyPendingTransitions_def Let_def
        hook_run_def expireTransitions_def resolveProcessTransitionTimeout_def commitTransitions_def
        minimumTransitionTimeout_def without_expired_filters)
  ultimately show ?thesis
    using failed_command_rolls_back [OF _ s refl, where earlier = "[]" and result = None and
        between = "[TimerFired 0 10]" and menu = idle_menu]
    by (metis command_failed_def option.simps(4) prod.collapse)
qed

end
