(* ===== verification/Supervisors_Table.thy ===== *)
theory Supervisors_Table
  imports Instance_Commands Sort_Rows
begin

text \<open>
  \<^verbatim>\<open>resources/js/components/dashboard/supervisors-table.tsx\<close>: the table of Horizon instances and
  their supervisors, with the status each row shows, the menus of \<open>Instance_Commands\<close>, and the
  small state machine of the scaling indicator. The URL of a supervisor's page comes from a
  generated route and is the argument \<open>detail_url\<close>; the state of every menu is the argument
  \<open>menus\<close>; the collator and the text of a number are those of \<open>Sort_Rows\<close>.
\<close>

section \<open>Statuses\<close>

definition normalizeStatus :: "string \<Rightarrow> HorizonStatus" where
  "normalizeStatus status =
     (if status = ''running'' then Running else if status = ''paused'' then Paused
      else if status = ''unavailable'' then Unavailable else Inactive)"

definition displayStatus :: "string \<Rightarrow> HorizonTransitionStatus option \<Rightarrow> HorizonDisplayStatus" where
  "displayStatus status transition =
     (let currentStatus = normalizeStatus status
      in if (transition = Some Pausing \<and> currentStatus = Running) \<or>
            (transition = Some Continuing \<and> currentStatus = Paused)
         then Requested (the transition) else Reported currentStatus)"

text \<open>\<open>components/dashboard/status-badge.tsx\<close>: label and variant of every status.\<close>

fun statusDetails :: "HorizonDisplayStatus \<Rightarrow> string \<times> string" where
  "statusDetails (Reported Running) = (''Running'', ''success'')"
| "statusDetails (Requested Continuing) = (''Continuing'', ''processing'')"
| "statusDetails (Requested Pausing) = (''Pausing'', ''warning'')"
| "statusDetails (Reported Paused) = (''Paused'', ''warning'')"
| "statusDetails (Reported Inactive) = (''Inactive'', ''outline'')"
| "statusDetails (Reported Unavailable) = (''Unavailable'', ''destructive'')"

fun display_literal :: "HorizonDisplayStatus \<Rightarrow> string" where
  "display_literal (Reported s) = status_literal s"
| "display_literal (Requested Pausing) = ''pausing''"
| "display_literal (Requested Continuing) = ''continuing''"

definition StatusBadge :: "HorizonDisplayStatus \<Rightarrow> 'a node" where
  "StatusBadge status =
     El ''Badge'' [(''variant'', Str (snd (statusDetails status))), (''data-status'', Str (display_literal status))]
       [Text (fst (statusDetails status))]"

section \<open>The scaling indicator\<close>

datatype ScaleDirection = Scale_up | Scale_down

definition scalingStepDuration :: int where "scalingStepDuration = 720"

definition target_state :: "int \<Rightarrow> int \<Rightarrow> ScaleDirection option" where
  "target_state targetProcesses currentProcesses =
     (if targetProcesses > currentProcesses then Some Scale_up
      else if targetProcesses < currentProcesses then Some Scale_down else None)"

text \<open>The running animation, if any, the blocks shown as filled, and the interval's position.\<close>

record indicator =
  animation :: "ScaleDirection option"
  filled :: nat
  position :: nat

fun scale_sequence :: "ScaleDirection \<Rightarrow> nat list" where
  "scale_sequence Scale_up = [1, 2, 3, 4, 5]"
| "scale_sequence Scale_down = [5, 4, 3, 2, 1]"

definition initial_indicator :: "ScaleDirection option \<Rightarrow> indicator" where
  "initial_indicator target = \<lparr>animation = target,
     filled = (case target of Some Scale_up \<Rightarrow> 1 | Some Scale_down \<Rightarrow> 5 | None \<Rightarrow> 0), position = 0\<rparr>"

text \<open>The effect that runs when the animation has changed: it restarts the interval.\<close>

definition start_animation :: "ScaleDirection option \<Rightarrow> indicator \<Rightarrow> indicator" where
  "start_animation a s =
     (if a = animation s then s
      else case a of
             None \<Rightarrow> s\<lparr>animation := None, filled := 0\<rparr>
           | Some d \<Rightarrow> s\<lparr>animation := Some d, position := 0, filled := hd (scale_sequence d)\<rparr>)"

text \<open>A render with the current target, and a tick of the interval.\<close>

definition observe_target :: "ScaleDirection option \<Rightarrow> indicator \<Rightarrow> indicator" where
  "observe_target target s =
     (if animation s = None \<and> target \<noteq> None then start_animation target s else s)"

definition indicator_tick :: "ScaleDirection option \<Rightarrow> indicator \<Rightarrow> indicator" where
  "indicator_tick target s =
     (case animation s of
        None \<Rightarrow> s
      | Some d \<Rightarrow>
          let sequence = scale_sequence d
          in if position s = length sequence - 1 \<and> target \<noteq> Some d then start_animation target s
             else let position' = (position s + 1) mod length sequence
                  in s\<lparr>position := position', filled := sequence ! position'\<rparr>)"

definition scaling_label :: "ScaleDirection option \<Rightarrow> string" where
  "scaling_label state =
     (case state of Some Scale_up \<Rightarrow> ''Scaling up'' | Some Scale_down \<Rightarrow> ''Scaling down''
      | None \<Rightarrow> ''Autoscaling idle'')"

definition direction_word :: "ScaleDirection option \<Rightarrow> string" where
  "direction_word state =
     (case state of Some Scale_up \<Rightarrow> ''up'' | Some Scale_down \<Rightarrow> ''down'' | None \<Rightarrow> ''steady'')"

definition counted :: "int \<Rightarrow> string \<Rightarrow> string \<Rightarrow> string" where
  "counted n one many = int_text n @ '' '' @ (if n = 1 then one else many)"

definition middle_dot :: string where
  "middle_dot = [CHR '' '', CHR 0xC2, CHR 0xB7, CHR '' '']"

definition indicator_text :: "int \<Rightarrow> SupervisorScaling \<Rightarrow> indicator \<Rightarrow> string" where
  "indicator_text currentProcesses scaling s =
     (let targetState = target_state (scaling_targetProcesses scaling) currentProcesses;
          state = (if animation s \<noteq> None then animation s else targetState);
          isFinishing = (animation s \<noteq> None \<and> targetState \<noteq> animation s);
          now = counted currentProcesses ''process'' ''processes''
      in if isFinishing then ''Finishing scale '' @ direction_word state @ '' at '' @ now
         else if state \<noteq> None then
           scaling_label state @ '' from '' @ now @ '' to '' @
             counted (scaling_targetProcesses scaling) ''process'' ''processes''
         else scaling_label state @ '' at '' @ now)"

definition block_filled :: "ScaleDirection option \<Rightarrow> nat \<Rightarrow> nat \<Rightarrow> bool" where
  "block_filled state filledBlockCount p \<longleftrightarrow> state \<noteq> None \<and> int p \<ge> 5 - int filledBlockCount"

definition SupervisorScalingIndicator :: "int \<Rightarrow> SupervisorScaling \<Rightarrow> indicator \<Rightarrow> 'a node" where
  "SupervisorScalingIndicator currentProcesses scaling s =
     (let targetState = target_state (scaling_targetProcesses scaling) currentProcesses;
          state = (if animation s \<noteq> None then animation s else targetState);
          strategy = (if scaling_strategy scaling = Size then ''Job-count'' else ''Time'');
          jobs = counted (scaling_readyJobs scaling) ''ready job'' ''ready jobs'';
          label = indicator_text currentProcesses scaling s
      in El ''Tooltip'' []
           [El ''TooltipTrigger'' []
              [El ''button''
                 [(''type'', Str ''button''), (''data-scaling-state'', Str (direction_word state)),
                  (''data-scaling-filled'', Count (if state = None then 0 else int (filled s))),
                  (''aria-label'', Str (label @ ''. '' @ strategy @ ''-based autoscaling with '' @ jobs @ ''.''))]
                 [El ''div'' [(''aria-hidden'', Flag True)]
                    (map (\<lambda>p. El ''span''
                       [(''key'', Count (int p)),
                        (''data-scaling-block-filled'', Flag (block_filled state (filled s) p))] [])
                      [0..<5])]],
            text_of ''TooltipContent'' (label @ middle_dot @ strategy @ ''-based'' @ middle_dot @ jobs)])"

section \<open>The table\<close>

definition columns :: "SupervisorItem SortColumn list" where
  "columns =
     [\<lparr>column_key = ''name'', column_value = SortString \<circ> si_name\<rparr>,
      \<lparr>column_key = ''status'', column_value = SortString \<circ> si_status\<rparr>,
      \<lparr>column_key = ''connection'', column_value = SortString \<circ> si_connection\<rparr>,
      \<lparr>column_key = ''queues'', column_value = SortString \<circ> join '', '' \<circ> si_queues\<rparr>,
      \<lparr>column_key = ''processes'', column_value = (\<lambda>i. SortNumber (Num (of_int (si_processes i))))\<rparr>,
      \<lparr>column_key = ''balancing'', column_value = SortString \<circ> si_balancing\<rparr>]"

definition directionFor :: "string \<Rightarrow> SortState option \<Rightarrow> SortDirection option" where
  "directionFor key sorting =
     (case sorting of Some s \<Rightarrow> if state_key s = key then Some (state_direction s) else None | None \<Rightarrow> None)"

definition to_upper :: "char \<Rightarrow> char" where
  "to_upper c = (let n = of_char c :: nat in if 97 \<le> n \<and> n \<le> 122 then char_of (n - 32) else c)"

definition column_label :: "string \<Rightarrow> string" where
  "column_label key =
     (if key = ''name'' then ''Supervisor''
      else case key of [] \<Rightarrow> [] | c # cs \<Rightarrow> to_upper c # cs)"

datatype table_action =
    Menu process command_action
  | Sort_by string
  | Row_click string
  | Row_enter string

text \<open>\<open>components/data-table/sortable-table-head.tsx\<close>, for a sortable column.\<close>

definition SortableTableHead :: "string \<Rightarrow> string \<Rightarrow> SortDirection option \<Rightarrow> 'a \<Rightarrow> 'a node" where
  "SortableTableHead label columnKey direction sortAction =
     (let nextDirection = (if direction = Some Asc then ''descending'' else ''ascending'')
      in El ''TableHead''
           [(''scope'', Str ''col''),
            (''aria-sort'', Str (case direction of Some d \<Rightarrow> direction_text d @ ''ending'' | None \<Rightarrow> ''none''))]
           [El ''button''
              [(''type'', Str ''button''), (''aria-label'', Str (''Sort by '' @ label @ '' '' @ nextDirection)),
               (''onClick'', On sortAction)]
              (text_of ''span'' label #
               child_if (direction = Some Asc) [text_of ''span'' [CHR 0xE2, CHR 0x86, CHR 0x91]] @
               child_if (direction = Some Desc) [text_of ''span'' [CHR 0xE2, CHR 0x86, CHR 0x93]])])"

definition TableEmpty :: "int \<Rightarrow> string \<Rightarrow> string \<Rightarrow> 'a node" where
  "TableEmpty cols title description =
     El ''TableRow'' [(''aria-label'', Str title)]
       [El ''TableCell'' [(''colSpan'', Count cols)]
          [El ''Empty'' []
             [El ''EmptyHeader'' []
                [El ''EmptyMedia'' [(''variant'', Str ''icon'')] [El ''Icon'' [] []],
                 text_of ''EmptyTitle'' title, text_of ''EmptyDescription'' description]]]]"

definition default_description :: string where
  "default_description = ''Entries will appear here when Horizon reports them.''"

type_synonym menus = "process \<Rightarrow> HorizonCommand option"

definition supervisor_pending :: "ProcessTransitions \<Rightarrow> SupervisorGroup \<Rightarrow> bool" where
  "supervisor_pending transitions grp \<longleftrightarrow>
     list_ex (\<lambda>item. map_of (pt_supervisors transitions) (si_id item) \<noteq> None) (sg_items grp)"

definition item_transition ::
  "ProcessTransitions \<Rightarrow> SupervisorGroup \<Rightarrow> SupervisorItem \<Rightarrow> HorizonTransitionStatus option" where
  "item_transition transitions grp item =
     (case map_of (pt_supervisors transitions) (si_id item) of
        Some t \<Rightarrow> Some t | None \<Rightarrow> map_of (pt_instances transitions) (sg_name grp))"

definition supervisor_row ::
  "bool \<Rightarrow> (string \<Rightarrow> string) \<Rightarrow> menus \<Rightarrow> (string \<Rightarrow> indicator) \<Rightarrow> ProcessTransitions \<Rightarrow>
   SupervisorGroup \<Rightarrow> SupervisorItem \<Rightarrow> table_action node" where
  "supervisor_row autoRefreshEnabled detail_url menus indicators transitions grp item =
     (let status = displayStatus (si_status item) (item_transition transitions grp item);
          scaling = (if autoRefreshEnabled \<and> status = Reported Running then si_scaling item else None);
          detailUrl = detail_url (si_id item)
      in El ''TableRow''
           [(''key'', Str (si_id item)), (''onClick'', On (Row_click detailUrl)),
            (''onMouseEnter'', On (Row_enter detailUrl))]
           ([El ''TableCell'' [] [El ''Link'' [(''href'', Str detailUrl)] [Text (si_name item)]],
             El ''TableCell'' [] [StatusBadge status],
             text_of ''TableCell'' (si_connection item),
             text_of ''TableCell'' (join '', '' (si_queues item)),
             El ''TableCell'' []
               (text_of ''span'' (int_text (si_processes item)) #
                (case scaling of None \<Rightarrow> []
                 | Some sc \<Rightarrow> [SupervisorScalingIndicator (si_processes item) sc (indicators (si_id item))])),
             text_of ''TableCell'' (si_balancing item)] @
            child_if (sg_local grp)
              [El ''TableCell'' []
                 (embed (Menu (Supervisor (si_id item)))
                   (SupervisorActions (si_id item) status
                      (map_of (pt_instances transitions) (sg_name grp) \<noteq> None \<or>
                       map_of (pt_supervisors transitions) (si_id item) \<noteq> None)
                      (menus (Supervisor (si_id item)))))]))"

definition nbsp_dot :: string where
  "nbsp_dot = concat (replicate 2 [CHR 0xC2, CHR 0xA0]) @ [CHR 0xC2, CHR 0xB7] @
     concat (replicate 2 [CHR 0xC2, CHR 0xA0])"

definition instance_heading :: "SupervisorGroup \<Rightarrow> string" where
  "instance_heading grp =
     ''Environment: '' @ or_dash id (sg_environment grp) @ nbsp_dot @
     ''PID '' @ or_dash int_text (sg_pid grp) @ (if sg_local grp then '' (This machine)'' else [])"

definition HorizonInstance ::
  "(string \<Rightarrow> string \<Rightarrow> rat) \<Rightarrow> (number \<Rightarrow> string) \<Rightarrow> bool \<Rightarrow> (string \<Rightarrow> string) \<Rightarrow> menus \<Rightarrow>
   (string \<Rightarrow> indicator) \<Rightarrow> SortState option \<Rightarrow> ProcessTransitions \<Rightarrow> SupervisorGroup \<Rightarrow> table_action node" where
  "HorizonInstance collate num autoRefreshEnabled detail_url menus indicators sorting transitions grp =
     (let rows = sortRows collate num (sg_items grp) columns sorting;
          status = displayStatus (sg_status grp) (map_of (pt_instances transitions) (sg_name grp))
      in El ''section'' [(''aria-labelledby'', Str (''horizon-instance-'' @ sg_name grp))]
           [El ''div'' []
              [El ''div'' []
                 [El ''h3'' [(''id'', Str (''horizon-instance-'' @ sg_name grp)), (''title'', Str (sg_name grp))]
                    [Text (sg_name grp)],
                  text_of ''p'' (instance_heading grp)],
               El ''div'' []
                 (StatusBadge status #
                  child_if (sg_local grp)
                    (embed (Menu (Instance (sg_name grp)))
                      (HorizonInstanceActions (sg_name grp) status
                         (map_of (pt_instances transitions) (sg_name grp) \<noteq> None \<or>
                          supervisor_pending transitions grp)
                         (menus (Instance (sg_name grp))))))],
            El ''Table'' []
              [El ''TableHeader'' []
                 [El ''TableRow'' []
                    (map (\<lambda>c. SortableTableHead (column_label (column_key c)) (column_key c)
                        (directionFor (column_key c) sorting) (Sort_by (column_key c))) columns @
                     child_if (sg_local grp) [text_of ''TableHead'' ''Actions''])],
               El ''TableBody'' []
                 (child_if (rows = [])
                    [TableEmpty (if sg_local grp then 7 else 6) ''No supervisors'' default_description] @
                  map (supervisor_row autoRefreshEnabled detail_url menus indicators transitions grp) rows)]])"

text \<open>A click on a row: unless its target is a control of the row, the client visits the page.\<close>

definition row_click :: "bool \<Rightarrow> string \<Rightarrow> string option" where
  "row_click interactiveTarget detailUrl = (if interactiveTarget then None else Some detailUrl)"

definition InstanceStat :: "string \<Rightarrow> int \<Rightarrow> 'a node" where
  "InstanceStat label n =
     El ''Statistic'' [] [text_of ''StatisticLabel'' label, text_of ''StatisticValue'' (int_text n)]"

definition supervisorCount :: "DashboardSupervisors \<Rightarrow> int" where
  "supervisorCount sups = fold (\<lambda>grp total. total + int (length (sg_items grp))) (dsv_groups sups) 0"

definition pausedSupervisorCount :: "DashboardSupervisors \<Rightarrow> int" where
  "pausedSupervisorCount sups =
     fold (\<lambda>grp total. total + int (length (filter (\<lambda>s. si_status s = ''paused'') (sg_items grp))))
       (dsv_groups sups) 0"

text \<open>
  The whole table. \<open>all\<close> is the state of the menu of all instances, whose actions are embedded
  by \<open>to_all\<close>; the others are as in \<open>HorizonInstance\<close>.
\<close>

datatype page_action = In_table table_action | All_instances command_action

definition SupervisorsTable ::
  "(string \<Rightarrow> string \<Rightarrow> rat) \<Rightarrow> (number \<Rightarrow> string) \<Rightarrow> bool \<Rightarrow> (string \<Rightarrow> string) \<Rightarrow> menu_state \<Rightarrow> menus \<Rightarrow>
   (string \<Rightarrow> indicator) \<Rightarrow> SortState option \<Rightarrow> ProcessTransitions \<Rightarrow> DashboardSupervisors \<Rightarrow> page_action node list" where
  "SupervisorsTable collate num autoRefreshEnabled detail_url all menus indicators sorting transitions sups =
     (let header = (\<lambda>hasLocal. El ''ListPageHeader'' []
            (text_of ''h2'' ''Instances'' # embed All_instances (HorizonInstancesActions hasLocal all)))
      in if \<not> dsv_available sups then
           [El ''Alert'' [(''variant'', Str ''destructive'')]
              [text_of ''AlertTitle'' ''Running instances unavailable'',
               text_of ''AlertDescription''
                 (nullish (dsv_message sups) ''Horizon supervisors are currently unavailable.'')]]
         else if dsv_groups sups = [] then
           [El ''Card'' []
              [header False,
               El ''Empty'' []
                 [text_of ''EmptyTitle'' ''No Horizon instances'',
                  text_of ''EmptyDescription''
                    ''Run php artisan horizon to start an instance and process queues.'']]]
         else
           [El ''Card'' []
              [header (filter sg_local (dsv_groups sups) \<noteq> []),
               El ''StatisticGrid'' []
                 [InstanceStat ''Total Instances'' (int (length (dsv_groups sups))),
                  InstanceStat ''Total Supervisors'' (supervisorCount sups),
                  InstanceStat ''Paused Supervisors'' (pausedSupervisorCount sups)],
               El ''div'' []
                 (embed In_table
                   (map (HorizonInstance collate num autoRefreshEnabled detail_url menus indicators sorting transitions)
                     (dsv_groups sups)))]])"

section \<open>What the table offers\<close>

lemma offers_badge [simp]: "offered (StatusBadge status) = []"
  by (simp add: StatusBadge_def)

lemma offers_indicator [simp]: "offered (SupervisorScalingIndicator n sc s) = []"
  by (simp add: SupervisorScalingIndicator_def Let_def offers_def comp_def)

lemma offers_head [simp]: "offered (SortableTableHead label key d a) = [a]"
  by (simp add: SortableTableHead_def Let_def child_if_def split: option.split)

lemma offers_table_empty [simp]: "offered (TableEmpty n t d) = []"
  by (simp add: TableEmpty_def)

lemma supervisor_row_offers:
  "Menu p c \<in> set (offered (supervisor_row auto url menus ind transitions grp item)) \<longleftrightarrow>
     sg_local grp \<and> p = Supervisor (si_id item) \<and>
     map_of (pt_instances transitions) (sg_name grp) = None \<and>
     map_of (pt_supervisors transitions) (si_id item) = None \<and>
     (normalizeStatus (si_status item) = Paused \<and> c = Run_command Continue \<or>
      normalizeStatus (si_status item) = Running \<and> c = Run_command Pause)"
  by (auto simp: supervisor_row_def Let_def SupervisorActions_def process_menu_offers child_if_def
      item_transition_def displayStatus_def reports_def split: option.splits if_splits)

lemma instance_offers:
  "Menu p c \<in> set (offered (HorizonInstance collate num auto url menus ind sorting transitions grp)) \<longleftrightarrow>
     sg_local grp \<and> map_of (pt_instances transitions) (sg_name grp) = None \<and>
     (p = Instance (sg_name grp) \<and> \<not> supervisor_pending transitions grp \<and>
        (normalizeStatus (sg_status grp) = Paused \<and> c = Run_command Continue \<or>
         normalizeStatus (sg_status grp) = Running \<and> c = Run_command Pause) \<or>
      (\<exists>item \<in> set (sg_items grp). p = Supervisor (si_id item) \<and>
         map_of (pt_supervisors transitions) (si_id item) = None \<and>
         (normalizeStatus (si_status item) = Paused \<and> c = Run_command Continue \<or>
          normalizeStatus (si_status item) = Running \<and> c = Run_command Pause)))"
  (is "?l \<longleftrightarrow> ?r")
proof -
  let ?heads = "map (\<lambda>c. SortableTableHead (column_label (column_key c)) (column_key c)
      (directionFor (column_key c) sorting) (Sort_by (column_key c))) columns"
  let ?rows = "map (supervisor_row auto url menus ind transitions grp)
      (sortRows collate num (sg_items grp) columns sorting)"
  let ?menu = "HorizonInstanceActions (sg_name grp)
      (displayStatus (sg_status grp) (map_of (pt_instances transitions) (sg_name grp)))
      (map_of (pt_instances transitions) (sg_name grp) \<noteq> None \<or> supervisor_pending transitions grp)
      (menus (Instance (sg_name grp)))"
  have rows: "Menu p c \<in> set (offers ?rows) \<longleftrightarrow>
      (\<exists>x \<in> set (sg_items grp). Menu p c \<in> set (offered (supervisor_row auto url menus ind transitions grp x)))"
    by (simp add: offers_set set_sortRows)
  have heads: "Menu p c \<notin> set (offers ?heads)"
    by (auto simp: offers_set)
  have menu: "Menu p c \<in> Menu (Instance (sg_name grp)) ` set (offers ?menu) \<longleftrightarrow>
      p = Instance (sg_name grp) \<and> map_of (pt_instances transitions) (sg_name grp) = None \<and>
      \<not> supervisor_pending transitions grp \<and>
      (normalizeStatus (sg_status grp) = Paused \<and> c = Run_command Continue \<or>
       normalizeStatus (sg_status grp) = Running \<and> c = Run_command Pause)"
    by (auto simp: HorizonInstanceActions_def process_menu_offers displayStatus_def reports_def Let_def)
  have "?l \<longleftrightarrow> (sg_local grp \<and> Menu p c \<in> Menu (Instance (sg_name grp)) ` set (offers ?menu)) \<or>
      Menu p c \<in> set (offers ?rows)"
    using heads by (simp add: HorizonInstance_def Let_def child_if_def)
  also have "\<dots> \<longleftrightarrow> ?r"
    unfolding rows supervisor_row_offers menu by blast
  finally show ?thesis .
qed

lemma public_lookup:
  assumes "distinct_entries t"
  shows "map_of (pt_instances (publicTransitions t)) n = map_option pending_status (map_of (instances t) n)"
    and "map_of (pt_supervisors (publicTransitions t)) n = map_option pending_status (map_of (supervisors t) n)"
proof -
  have look: "map_of (from_entries (map (\<lambda>(k, v). (k, pending_status v)) m)) n =
      map_option pending_status (map_of m n)"
    if "distinct (map fst m)" for m :: "(string \<times> PendingTransition) list"
  proof -
    have "distinct (map fst (map (\<lambda>(k, v). (k, pending_status v)) m))"
      using that by (simp add: case_prod_unfold comp_def)
    then show ?thesis by (simp add: from_entries_distinct map_of_map)
  qed
  from assms show "map_of (pt_instances (publicTransitions t)) n = map_option pending_status (map_of (instances t) n)"
    "map_of (pt_supervisors (publicTransitions t)) n = map_option pending_status (map_of (supervisors t) n)"
    by (simp_all add: publicTransitions_def look distinct_entries_def)
qed

lemma find_unique:
  assumes "x \<in> set xs" and "P x" and "\<And>y. y \<in> set xs \<Longrightarrow> P y \<Longrightarrow> y = x"
  shows "find P xs = Some x"
proof (cases "find P xs")
  case None
  with assms(1,2) show ?thesis by (auto simp: find_None_iff)
next
  case (Some y)
  then have "y \<in> set xs \<and> P y" by (auto simp: find_Some_iff)
  with Some assms(3) show ?thesis by blast
qed

lemma groups_by_name:
  assumes "topology_ok (topology_of sups)" and "g \<in> set (dsv_groups sups)" and "g' \<in> set (dsv_groups sups)"
    and "sg_name g = sg_name g'"
  shows "g = g'"
proof -
  have "distinct (map sg_name (dsv_groups sups))"
    using assms(1) by (simp add: topology_ok_def topology_of_def comp_def)
  with assms(2-4) show ?thesis by (metis distinct_map inj_onD)
qed

lemma groups_by_supervisor:
  assumes "topology_ok (topology_of sups)" and "g \<in> set (dsv_groups sups)" and "g' \<in> set (dsv_groups sups)"
    and "i \<in> si_id ` set (sg_items g)" and "i \<in> si_id ` set (sg_items g')"
  shows "g = g'"
proof -
  have "(sg_name g, map si_id (sg_items g)) \<in> set (topology_of sups)"
    "(sg_name g', map si_id (sg_items g')) \<in> set (topology_of sups)"
    using assms(2,3) by (auto simp: topology_of_def)
  from topology_owner [OF assms(1) this, of i] assms(4,5) have "sg_name g = sg_name g'" by auto
  with groups_by_name [OF assms(1-3)] show ?thesis .
qed

text \<open>The reported status of a process.\<close>

fun process_reports :: "DashboardSupervisors \<Rightarrow> process \<Rightarrow> string \<Rightarrow> bool" where
  "process_reports sups (Instance n) status \<longleftrightarrow>
     list_ex (\<lambda>g. sg_name g = n \<and> sg_status g = status) (dsv_groups sups)"
| "process_reports sups (Supervisor i) status \<longleftrightarrow>
     list_ex (\<lambda>g. list_ex (\<lambda>s. si_id s = i \<and> si_status s = status) (sg_items g)) (dsv_groups sups)"

lemma normalize_cases:
  "normalizeStatus s = Paused \<longleftrightarrow> s = ''paused''" "normalizeStatus s = Running \<longleftrightarrow> s = ''running''"
  by (simp_all add: normalizeStatus_def)

lemma table_offers:
  "In_table (Menu p c) \<in> set (offers (SupervisorsTable collate num auto url all menus ind sorting transitions sups)) \<longleftrightarrow>
     dsv_available sups \<and> (\<exists>g \<in> set (dsv_groups sups).
       Menu p c \<in> set (offered (HorizonInstance collate num auto url menus ind sorting transitions g)))"
proof -
  have "In_table (Menu p c) \<in> In_table ` set (offers (map (HorizonInstance collate num auto url menus ind
        sorting transitions) (dsv_groups sups))) \<longleftrightarrow>
      (\<exists>g \<in> set (dsv_groups sups).
        Menu p c \<in> set (offered (HorizonInstance collate num auto url menus ind sorting transitions g)))"
    by (subst inj_image_mem_iff) (auto simp: offers_set inj_def)
  then show ?thesis
    by (auto simp: SupervisorsTable_def Let_def InstanceStat_def)
qed

text \<open>
  C4: the table offers no command that would be refused. Whatever has happened before, every
  command the table offers for a process of the current report is accepted as a transition by
  the hook that the page passes down, and it is the command that fits the reported status: a
  pause for a running process, a continue for a paused one.
\<close>

theorem table_offers_only_accepted:
  assumes "h = hook_run evs initial_transitions" and "topology_ok (topology_of sups)"
    and "In_table (Menu p (Run_command c)) \<in> set (offers (SupervisorsTable collate num auto url all menus
      ind sorting (publicTransitions (transitionRef h)) sups))"
  shows "(\<exists>tok h'. request_transition (Some sups) interval now p (transition_of c) h = (Some tok, h')) \<and>
    process_reports sups p (if c = Pause then ''running'' else ''paused'')"
proof -
  have "distinct_entries (transitionRef h)"
    using hook_inv_run [OF hook_inv_initial, of evs] by (simp add: assms(1) hook_inv_def)
  note look = public_lookup [OF this]
  from assms(3) obtain g where avail: "dsv_available sups" and g: "g \<in> set (dsv_groups sups)"
    and offer: "Menu p (Run_command c) \<in> set (offered (HorizonInstance collate num auto url menus ind sorting
      (publicTransitions (transitionRef h)) g))"
    unfolding table_offers by blast
  have free: "map_of (instances (transitionRef h)) (sg_name g) = None"
    using offer unfolding instance_offers by (simp add: look)
  have groups: "available_groups (Some sups) = dsv_groups sups" using avail by (simp add: available_groups_def)
  show ?thesis
  proof (cases p)
    case (Instance n)
    with offer have n: "n = sg_name g" and idle: "\<not> supervisor_pending (publicTransitions (transitionRef h)) g"
      and status: "sg_status g = (if c = Pause then ''running'' else ''paused'')"
      unfolding instance_offers by (auto simp: normalize_cases)
    have "find (\<lambda>g. sg_name g = n) (dsv_groups sups) = Some g"
      by (rule find_unique) (use g n groups_by_name [OF assms(2) _ g] in auto)
    moreover have "\<not> list_ex (\<lambda>item. map_of (supervisors (transitionRef h)) (si_id item) \<noteq> None) (sg_items g)"
      using idle by (simp add: supervisor_pending_def look list_ex_iff)
    ultimately have "\<exists>tok h'. request_transition (Some sups) interval now p (transition_of c) h = (Some tok, h')"
      using Instance free n groups by (simp add: onInstanceTransition_def Let_def)
    with Instance n g status show ?thesis by (auto simp: list_ex_iff)
  next
    case (Supervisor i)
    with offer obtain item where item: "item \<in> set (sg_items g)" "i = si_id item"
      and idle: "map_of (supervisors (transitionRef h)) i = None"
      and status: "si_status item = (if c = Pause then ''running'' else ''paused'')"
      unfolding instance_offers by (auto simp: normalize_cases look)
    have "find (\<lambda>g. list_ex (\<lambda>item. si_id item = i) (sg_items g)) (dsv_groups sups) = Some g"
    proof (rule find_unique [OF g])
      show "list_ex (\<lambda>item. si_id item = i) (sg_items g)" using item by (auto simp: list_ex_iff)
      show "y = g" if "y \<in> set (dsv_groups sups)" "list_ex (\<lambda>item. si_id item = i) (sg_items y)" for y
      proof (rule groups_by_supervisor [OF assms(2) that(1) g])
        show "i \<in> si_id ` set (sg_items y)" using that(2) by (auto simp: list_ex_iff)
        show "i \<in> si_id ` set (sg_items g)" using item by simp
      qed
    qed
    then have "\<exists>tok h'. request_transition (Some sups) interval now p (transition_of c) h = (Some tok, h')"
      using Supervisor free idle groups by (simp add: onSupervisorTransition_def Let_def)
    moreover have "process_reports sups (Supervisor i) (si_status item)"
      using item g by (auto simp: list_ex_iff)
    ultimately show ?thesis using Supervisor status by simp
  qed
qed

lemma host_offers:
  "In_table (Menu (Supervisor ''host:a'') (Run_command Pause)) \<in> set (offers (SupervisorsTable plain_collator
     (\<lambda>_. []) True id idle_menu (\<lambda>_. None) (\<lambda>_. initial_indicator None) None
     (publicTransitions (transitionRef initial_transitions)) host_report))"
  unfolding table_offers
  by (simp add: instance_offers normalizeStatus_def host_report_def publicTransitions_def
      initial_transitions_def emptyPendingTransitions_def from_entries_def)

theorem table_offers_only_accepted_witness:
  "\<exists>tok h'. request_transition (Some host_report) 0 1000 (Supervisor ''host:a'') Pausing initial_transitions =
     (Some tok, h')"
proof -
  have "initial_transitions = hook_run [] initial_transitions" by (simp add: hook_run_def)
  moreover have "topology_ok (topology_of host_report)" by (simp add: host_topology topology_ok_def)
  ultimately show ?thesis
    using table_offers_only_accepted [OF _ _ host_offers, of "[]" 0 1000] by (simp add: transition_of_def)
qed

section \<open>The scaling indicator runs to its end\<close>

lemma tick_before_end:
  assumes "animation s = Some d" and "position s < 4"
  shows "animation (indicator_tick target s) = Some d" and "position (indicator_tick target s) = Suc (position s)"
    and "filled (indicator_tick target s) = scale_sequence d ! Suc (position s)"
  using assms by (cases d; simp add: indicator_tick_def Let_def)+

lemma tick_at_end:
  assumes "animation s = Some d" and "position s = 4" and "target \<noteq> Some d"
  shows "animation (indicator_tick target s) = target"
  using assms by (cases d) (auto simp: indicator_tick_def Let_def start_animation_def split: option.split)

text \<open>
  The scaling animation is never cut short and never runs on. While the target differs from
  the direction shown, the direction stays until the sequence of blocks has been shown to its
  end, and the very next tick takes the new target's direction.
\<close>

lemma indicator_runs_to_end:
  assumes "animation s = Some d" and "position s + n = 4" and "target \<noteq> Some d"
  shows "(\<forall>k \<le> n. animation ((indicator_tick target ^^ k) s) = Some d) \<and>
    animation ((indicator_tick target ^^ Suc n) s) = target"
  using assms(1,2)
proof (induction n arbitrary: s)
  case 0
  with tick_at_end [OF _ _ assms(3)] show ?case by simp
next
  case (Suc n)
  let ?t = "indicator_tick target s"
  from Suc.prems have "position s < 4" by simp
  from tick_before_end [OF Suc.prems(1) this, of target] Suc.prems
  have "animation ?t = Some d" "position ?t + n = 4" by simp_all
  note IH = Suc.IH [OF this]
  have "animation ((indicator_tick target ^^ k) s) = Some d" if "k \<le> Suc n" for k
    using that IH Suc.prems(1) by (cases k) (simp_all add: funpow_swap1 del: funpow.simps(2) add: funpow_Suc_right)
  moreover have "animation ((indicator_tick target ^^ Suc (Suc n)) s) = target"
    using IH by (simp add: funpow_Suc_right del: funpow.simps(2))
  ultimately show ?case by blast
qed

end
