(* ===== verification/Queue_Actions.thy ===== *)
theory Queue_Actions
  imports Types_Pages Format Instance_Commands
begin

text \<open>
  \<^verbatim>\<open>resources/js/components/queues/queue-actions-menu.tsx\<close>: the menu that pauses, resumes and
  clears a queue and retries its failed jobs, with its three dialogs. The router's callbacks are
  transitions of the menu's state; a request is its value, the URL being that of the generated
  route of its kind for the target and the queue. The deadline's text comes from the user's
  locale and is the argument \<open>deadline\<close>. Times: \<open>pausedUntil\<close> is in seconds, \<open>now\<close> in
  milliseconds.
\<close>

section \<open>Numbers typed by the user\<close>

text \<open>\<open>Number.parseInt(text, 10)\<close>; \<open>None\<close> is \<open>NaN\<close>.\<close>

definition parse_digits :: "string \<Rightarrow> int option" where
  "parse_digits s = (let ds = takeWhile is_digit s in if ds = [] then None else Some (int (read_digits 0 ds)))"

definition parseInt :: "string \<Rightarrow> int option" where
  "parseInt s =
     (case dropWhile is_space s of
        [] \<Rightarrow> None
      | c # cs \<Rightarrow>
          if c = CHR ''-'' then map_option uminus (parse_digits cs)
          else if c = CHR ''+'' then parse_digits cs else parse_digits (c # cs))"

lemma is_digit_not: "is_digit c \<Longrightarrow> \<not> is_space c" "is_digit c \<Longrightarrow> c \<noteq> CHR ''-'' \<and> c \<noteq> CHR ''+''"
  by (auto simp: is_digit_def is_space_def Let_def)

lemma parseInt_text: "0 \<le> i \<Longrightarrow> parseInt (int_text i) = Some i"
proof -
  assume i: "0 \<le> i"
  obtain c cs where t: "nat_text (nat i) = c # cs" using nat_text_nonempty by (cases "nat_text (nat i)") auto
  then have c: "is_digit c" using nat_text_digits [of "nat i"] by simp
  obtain k where "read_digits 0 (nat_text (nat i)) = 0 * 10 ^ k + nat i" using read_nat_text by blast
  moreover have "takeWhile is_digit (nat_text (nat i)) = nat_text (nat i)"
    using nat_text_digits [of "nat i"] by (simp add: takeWhile_eq_all_conv)
  ultimately have "parse_digits (c # cs) = Some i" using t i by (simp add: parse_digits_def Let_def)
  with i t is_digit_not [OF c] show ?thesis by (simp add: parseInt_def int_text_def)
qed

section \<open>State\<close>

record QueueActionTarget =
  qat_connection :: string
  qat_paused :: bool
  qat_pausedUntil :: "rat option"
  qat_total :: "int option"

datatype QueueActionScope = Scope_all | Scope_pending | Scope_failed

text \<open>
  The props that decide what the menu offers. \<open>qp_failedJobs\<close> is \<open>None\<close> when the prop is not
  given, \<open>Some None\<close> when it is null.
\<close>

record queue_menu_props =
  qp_connection :: "string option"
  qp_queue :: string
  qp_paused :: "bool option"
  qp_pausedUntil :: "rat option"
  qp_targets :: "QueueActionTarget list option"
  qp_pendingJobs :: "int option"
  qp_failedJobs :: "int option option"
  qp_queuePausing :: bool
  qp_timedQueuePausing :: bool
  qp_scope :: QueueActionScope

definition action_targets :: "queue_menu_props \<Rightarrow> QueueActionTarget list" where
  "action_targets p =
     (case qp_targets p of
        Some ts \<Rightarrow> ts
      | None \<Rightarrow>
          if falsy_text (qp_connection p) then []
          else [\<lparr>qat_connection = the (qp_connection p), qat_paused = nullish (qp_paused p) False,
                 qat_pausedUntil = qp_pausedUntil p, qat_total = None\<rparr>])"

datatype queue_request =
    Pause_request string string "int option"
  | Resume_request string string
  | Clear_request string string
  | Retry_failed_request string string

record queue_menu =
  qm_dialogOpen :: bool
  qm_clearDialogOpen :: bool
  qm_retryFailedDialogOpen :: bool
  qm_activeTarget :: "QueueActionTarget option"
  qm_pauseIndefinitely :: bool
  qm_durationMinutes :: string
  qm_working :: bool
  qm_requests :: "queue_request list"

definition mount_menu :: "queue_menu_props \<Rightarrow> queue_menu" where
  "mount_menu p = \<lparr>qm_dialogOpen = False, qm_clearDialogOpen = False, qm_retryFailedDialogOpen = False,
     qm_activeTarget = (case action_targets p of [] \<Rightarrow> None | t # _ \<Rightarrow> Some t),
     qm_pauseIndefinitely = True, qm_durationMinutes = ''15'', qm_working = False, qm_requests = []\<rparr>"

section \<open>Operations\<close>

definition send_request :: "queue_request \<Rightarrow> queue_menu \<Rightarrow> queue_menu" where
  "send_request r m = m\<lparr>qm_requests := qm_requests m @ [r]\<rparr>"

definition on_start :: "queue_menu \<Rightarrow> queue_menu" where "on_start m = m\<lparr>qm_working := True\<rparr>"
definition on_finish :: "queue_menu \<Rightarrow> queue_menu" where "on_finish m = m\<lparr>qm_working := False\<rparr>"

text \<open>What a successful answer does; the flag says whether the prefetch cache is flushed.\<close>

fun on_success :: "queue_request \<Rightarrow> queue_menu \<Rightarrow> queue_menu \<times> bool" where
  "on_success (Pause_request _ _ _) m = (m\<lparr>qm_dialogOpen := False\<rparr>, True)"
| "on_success (Resume_request _ _) m = (m, True)"
| "on_success (Clear_request _ _) m = (m\<lparr>qm_clearDialogOpen := False\<rparr>, False)"
| "on_success (Retry_failed_request _ _) m = (m\<lparr>qm_retryFailedDialogOpen := False\<rparr>, False)"

definition pause_queue :: "string \<Rightarrow> QueueActionTarget \<Rightarrow> int option \<Rightarrow> queue_menu \<Rightarrow> queue_menu" where
  "pause_queue queue target duration = send_request (Pause_request (qat_connection target) queue duration)"

definition resume_queue :: "string \<Rightarrow> QueueActionTarget \<Rightarrow> queue_menu \<Rightarrow> queue_menu" where
  "resume_queue queue target = send_request (Resume_request (qat_connection target) queue)"

definition clear_queue :: "string \<Rightarrow> QueueActionTarget \<Rightarrow> queue_menu \<Rightarrow> queue_menu" where
  "clear_queue queue target = send_request (Clear_request (qat_connection target) queue)"

definition retry_failed :: "string \<Rightarrow> QueueActionTarget \<Rightarrow> queue_menu \<Rightarrow> queue_menu" where
  "retry_failed queue target = send_request (Retry_failed_request (qat_connection target) queue)"

definition remaining_minutes :: "rat \<Rightarrow> int \<Rightarrow> int" where
  "remaining_minutes pausedUntil now = max 1 \<lceil>(pausedUntil * 1000 - of_int now) / 60000\<rceil>"

definition openPauseDialog :: "int \<Rightarrow> QueueActionTarget \<Rightarrow> queue_menu \<Rightarrow> queue_menu" where
  "openPauseDialog now target m =
     m\<lparr>qm_activeTarget := Some target,
       qm_pauseIndefinitely := (qat_pausedUntil target = None),
       qm_durationMinutes := (case qat_pausedUntil target of
          Some u \<Rightarrow> int_text (remaining_minutes u now) | None \<Rightarrow> ''15''),
       qm_dialogOpen := True\<rparr>"

definition openClearDialog :: "QueueActionTarget \<Rightarrow> queue_menu \<Rightarrow> queue_menu" where
  "openClearDialog target m = m\<lparr>qm_activeTarget := Some target, qm_clearDialogOpen := True\<rparr>"

definition openRetryFailedDialog :: "QueueActionTarget \<Rightarrow> queue_menu \<Rightarrow> queue_menu" where
  "openRetryFailedDialog target m = m\<lparr>qm_activeTarget := Some target, qm_retryFailedDialogOpen := True\<rparr>"

text \<open>A \<open>NaN\<close> duration is sent as null, as JSON writes it.\<close>

definition submitPause :: "string \<Rightarrow> queue_menu \<Rightarrow> queue_menu" where
  "submitPause queue m =
     (case qm_activeTarget m of
        None \<Rightarrow> m
      | Some target \<Rightarrow> pause_queue queue target
          (if qm_pauseIndefinitely m then None else parseInt (qm_durationMinutes m)) m)"

definition confirmBasicPause :: "string \<Rightarrow> queue_menu \<Rightarrow> queue_menu" where
  "confirmBasicPause queue m =
     (case qm_activeTarget m of None \<Rightarrow> m | Some target \<Rightarrow> pause_queue queue target None m)"

definition durationInvalid :: "queue_menu \<Rightarrow> bool" where
  "durationInvalid m \<longleftrightarrow> \<not> qm_pauseIndefinitely m \<and>
     (case parseInt (qm_durationMinutes m) of None \<Rightarrow> True | Some d \<Rightarrow> d < 1)"

section \<open>What is offered\<close>

definition target_total :: "queue_menu_props \<Rightarrow> QueueActionTarget \<Rightarrow> int" where
  "target_total p target = nullish (qat_total target) (nullish (qp_pendingJobs p) 0)"

definition failed_count :: "queue_menu_props \<Rightarrow> int" where
  "failed_count p = (case qp_failedJobs p of Some (Some n) \<Rightarrow> n | _ \<Rightarrow> 0)"

definition can_retry_failed :: "queue_menu_props \<Rightarrow> bool option" where
  "can_retry_failed p = (if qp_failedJobs p = None then None else Some (failed_count p > 0))"

definition hasAvailableActions :: "queue_menu_props \<Rightarrow> bool" where
  "hasAvailableActions p =
     list_ex (\<lambda>target.
        (qp_scope p \<noteq> Scope_failed \<and> (qp_queuePausing p \<or> target_total p target > 0)) \<or>
        (qp_scope p \<noteq> Scope_pending \<and> qp_failedJobs p \<noteq> None \<and> failed_count p > 0))
       (action_targets p)"

datatype queue_action =
    Resume_now QueueActionTarget
  | Open_pause QueueActionTarget
  | Open_retry QueueActionTarget
  | Open_clear QueueActionTarget
  | Set_indefinitely
  | Set_duration string
  | Type_duration
  | Submit_pause
  | Confirm_pause
  | Confirm_retry QueueActionTarget
  | Confirm_clear QueueActionTarget

definition QueueActionItems ::
  "bool \<Rightarrow> bool \<Rightarrow> bool option \<Rightarrow> QueueActionScope \<Rightarrow> QueueActionTarget \<Rightarrow> queue_action node list" where
  "QueueActionItems canClear canPause canRetryFailed scope target =
     (let showPendingActions = (scope = Scope_all \<or> scope = Scope_pending);
          showFailedActions = (scope = Scope_all \<or> scope = Scope_failed);
          separator = El ''DropdownMenuSeparator'' [] []
      in [El ''DropdownMenuGroup'' []
            (child_if (showPendingActions \<and> canPause \<and> qat_paused target)
               [El ''DropdownMenuItem'' [(''onSelect'', On (Resume_now target))]
                  [El ''PlayIcon'' [] [], Text ''Resume now''], separator] @
             child_if (showPendingActions \<and> canPause)
               [El ''DropdownMenuItem'' [(''onSelect'', On (Open_pause target))]
                  [El ''PauseIcon'' [] [], Text (if qat_paused target then ''Update pause'' else ''Pause'')],
                separator] @
             child_if (showFailedActions \<and> canRetryFailed \<noteq> None)
               (El ''DropdownMenuItem''
                  [(''disabled'', Flag (canRetryFailed \<noteq> Some True)), (''onSelect'', On (Open_retry target))]
                  [El ''RotateCcwIcon'' [] [], Text ''Retry all failed jobs''] #
                child_if showPendingActions [separator]) @
             child_if showPendingActions
               [El ''DropdownMenuItem''
                  [(''variant'', Str ''destructive''), (''disabled'', Flag (\<not> canClear)),
                   (''onSelect'', On (Open_clear target))]
                  [El ''Trash2Icon'' [] [], Text ''Clear queue'']])])"

definition target_items :: "queue_menu_props \<Rightarrow> QueueActionTarget \<Rightarrow> queue_action node list" where
  "target_items p target =
     QueueActionItems (target_total p target > 0) (qp_queuePausing p) (can_retry_failed p) (qp_scope p) target"

definition menu_label :: "queue_menu_props \<Rightarrow> string" where
  "menu_label p =
     (if qp_scope p = Scope_all then ''Queue actions for '' @ qp_queue p
      else (if qp_scope p = Scope_pending then ''Pending'' else ''Failed'') @ '' jobs actions for '' @ qp_queue p)"

definition queue_dropdown :: "queue_menu_props \<Rightarrow> queue_menu \<Rightarrow> queue_action node list" where
  "queue_dropdown p m =
     [El ''DropdownMenu'' []
        (ActionMenuTrigger (hasAvailableActions p) (menu_label p) (qm_working m) [] @
         [El ''DropdownMenuContent'' []
            (case action_targets p of
               [target] \<Rightarrow> target_items p target
             | targets \<Rightarrow>
                 [El ''DropdownMenuGroup'' []
                    (map (\<lambda>target. El ''DropdownMenuSub'' [(''key'', Str (qat_connection target))]
                       [text_of ''DropdownMenuSubTrigger'' (qat_connection target),
                        El ''DropdownMenuSubContent'' [] (target_items p target)]) targets)])])]"

section \<open>The dialogs\<close>

definition preset_durations :: "(string \<times> int) list" where
  "preset_durations = map (\<lambda>minutes. (formatDuration (Num (of_int minutes * 60)) Precise, minutes)) [15, 60, 240]"

text \<open>A pausing badge; \<open>pausedUntil\<close> is falsy when null or zero.\<close>

definition QueuePauseBadge :: "(rat \<Rightarrow> string) \<Rightarrow> bool \<Rightarrow> rat option \<Rightarrow> string option \<Rightarrow> 'a node list" where
  "QueuePauseBadge deadline paused pausedUntil connection =
     (if \<not> paused then []
      else let status = (case pausedUntil of
                 Some u \<Rightarrow> if u \<noteq> 0 then ''Paused until '' @ deadline (u * 1000) else ''Paused''
               | None \<Rightarrow> ''Paused'');
               label = (if falsy_text connection then status else the connection @ '': '' @ status)
           in [El ''Badge'' [(''variant'', Str ''delayed'')] [Text label]])"

definition on_target :: "queue_menu \<Rightarrow> string" where
  "on_target m = (case qm_activeTarget m of Some t \<Rightarrow> '' on '' @ qat_connection t | None \<Rightarrow> [])"

definition close_button :: "bool \<Rightarrow> 'a node" where
  "close_button disabled = El ''DialogClose'' [(''disabled'', Flag disabled)] [Text ''Cancel'']"

definition input_id :: "string \<Rightarrow> queue_menu_props \<Rightarrow> queue_menu \<Rightarrow> string" where
  "input_id kind p m =
     kind @ (case qm_activeTarget m of Some t \<Rightarrow> qat_connection t | None \<Rightarrow> ''queue'') @ ''-'' @ qp_queue p"

definition duration_field :: "queue_menu_props \<Rightarrow> queue_menu \<Rightarrow> queue_action node" where
  "duration_field p m =
     El ''Field'' []
       [El ''div'' []
          [El ''FieldLabel'' [(''htmlFor'', Str (input_id ''pause-duration-'' p m))] [Text ''Pause for''],
           El ''div'' [(''aria-label'', Str ''Pause duration presets'')]
             (map (\<lambda>(index, label, minutes). El ''span'' [(''key'', Count minutes)]
                (child_if (index > 0) [text_of ''span'' ''|''] @
                 [El ''Button'' [(''type'', Str ''button''), (''onClick'', On (Set_duration (int_text minutes)))]
                    [Text label]]))
                (zip [0..<length preset_durations] preset_durations))],
        El ''InputGroup'' []
          [El ''InputGroupInput''
             [(''id'', Str (input_id ''pause-duration-'' p m)), (''type'', Str ''number''), (''min'', Count 1),
              (''max'', Count 525600), (''required'', Flag True), (''value'', Str (qm_durationMinutes m)),
              (''onChange'', On Type_duration)] [],
           text_of ''InputGroupText'' ''m'']]"

definition timed_pause_form :: "queue_menu_props \<Rightarrow> queue_menu \<Rightarrow> queue_action node list" where
  "timed_pause_form p m =
     [El ''form'' [(''onSubmit'', On Submit_pause)]
        [El ''DialogHeader'' []
           [text_of ''DialogTitle'' (''Pause '' @ qp_queue p),
            text_of ''DialogDescription''
              (''Choose when Horizon should resume processing this queue'' @
               (if length (action_targets p) > 1 then on_target m else []) @ ''.'')],
         El ''FieldGroup'' []
           (El ''Field'' []
              [El ''FieldLabel'' [(''htmlFor'', Str (input_id ''pause-indefinitely-'' p m))]
                 [Text ''Pause indefinitely''],
               El ''Switch''
                 [(''id'', Str (input_id ''pause-indefinitely-'' p m)), (''checked'', Flag (qm_pauseIndefinitely m)),
                  (''onCheckedChange'', On Set_indefinitely)] []] #
            child_if (\<not> qm_pauseIndefinitely m) [duration_field p m]),
         El ''DialogFooter'' []
           [close_button False,
            El ''Button'' [(''type'', Str ''submit''), (''disabled'', Flag (qm_working m \<or> durationInvalid m))]
              [Text (if qm_working m then ''Pausing'' @ ellipsis else ''Pause queue'')]]]]"

definition basic_pause_form :: "queue_menu_props \<Rightarrow> queue_menu \<Rightarrow> queue_action node list" where
  "basic_pause_form p m =
     [El ''DialogHeader'' []
        [text_of ''DialogTitle'' (''Pause '' @ qp_queue p @ ''?''),
         text_of ''DialogDescription'' ''Are you sure you want to pause this queue?''],
      El ''DialogFooter'' []
        [close_button (qm_working m),
         El ''Button''
           [(''type'', Str ''button''), (''disabled'', Flag (qm_working m \<or> qm_activeTarget m = None)),
            (''onClick'', On Confirm_pause)]
           [Text (if qm_working m then ''Pausing'' @ ellipsis else ''Pause queue'')]]]"

text \<open>The confirmation button of the other two dialogs, with its action on the active target.\<close>

definition confirm_button ::
  "(QueueActionTarget \<Rightarrow> queue_action) \<Rightarrow> string \<Rightarrow> string \<Rightarrow> queue_menu \<Rightarrow> queue_action node" where
  "confirm_button act busy label m =
     El ''Button''
       ([(''type'', Str ''button''), (''disabled'', Flag (qm_working m \<or> qm_activeTarget m = None))] @
        (case qm_activeTarget m of Some t \<Rightarrow> [(''onClick'', On (act t))] | None \<Rightarrow> []))
       [Text (if qm_working m then busy @ ellipsis else label)]"

definition retry_failed_dialog :: "queue_menu_props \<Rightarrow> queue_menu \<Rightarrow> queue_action node list" where
  "retry_failed_dialog p m =
     [El ''DialogHeader'' []
        [text_of ''DialogTitle'' (''Retry all failed jobs from '' @ qp_queue p @ ''?''),
         text_of ''DialogDescription''
           (''Schedule every eligible failed job from this queue'' @ on_target m @
            '' for retry. Previously retried jobs are skipped.'')],
      El ''DialogFooter'' []
        [close_button (qm_working m), confirm_button Confirm_retry ''Retrying'' ''Retry all failed jobs'' m]]"

definition clear_dialog :: "queue_menu_props \<Rightarrow> queue_menu \<Rightarrow> queue_action node list" where
  "clear_dialog p m =
     [El ''DialogHeader'' []
        [text_of ''DialogTitle'' (''Clear '' @ qp_queue p @ ''?''),
         text_of ''DialogDescription''
           (''Permanently delete all pending, delayed, and reserved jobs from this queue'' @ on_target m @
            ''. Jobs already processing may still finish. This cannot be undone.'')],
      El ''DialogFooter'' []
        [close_button False, confirm_button Confirm_clear ''Clearing'' ''Clear queue'' m]]"

definition QueueActionsMenu :: "queue_menu_props \<Rightarrow> queue_menu \<Rightarrow> queue_action node list" where
  "QueueActionsMenu p m =
     queue_dropdown p m @
     [El ''Dialog'' [(''open'', Flag (qm_dialogOpen m))]
        [El ''DialogContent'' []
           (if qp_timedQueuePausing p then timed_pause_form p m else basic_pause_form p m)],
      El ''Dialog'' [(''open'', Flag (qm_retryFailedDialogOpen m))]
        [El ''DialogContent'' [] (retry_failed_dialog p m)],
      El ''Dialog'' [(''open'', Flag (qm_clearDialogOpen m))]
        [El ''DialogContent'' [] (clear_dialog p m)]]"

text \<open>What an action does to the menu; \<open>typed\<close> is the text of the duration field.\<close>

fun perform :: "queue_menu_props \<Rightarrow> int \<Rightarrow> string \<Rightarrow> queue_action \<Rightarrow> queue_menu \<Rightarrow> queue_menu" where
  "perform p now typed (Resume_now t) m = resume_queue (qp_queue p) t m"
| "perform p now typed (Open_pause t) m = openPauseDialog now t m"
| "perform p now typed (Open_retry t) m = openRetryFailedDialog t m"
| "perform p now typed (Open_clear t) m = openClearDialog t m"
| "perform p now typed Set_indefinitely m = m\<lparr>qm_pauseIndefinitely := \<not> qm_pauseIndefinitely m\<rparr>"
| "perform p now typed (Set_duration s) m = m\<lparr>qm_durationMinutes := s\<rparr>"
| "perform p now typed Type_duration m = m\<lparr>qm_durationMinutes := typed\<rparr>"
| "perform p now typed Submit_pause m = submitPause (qp_queue p) m"
| "perform p now typed Confirm_pause m = confirmBasicPause (qp_queue p) m"
| "perform p now typed (Confirm_retry t) m = retry_failed (qp_queue p) t m"
| "perform p now typed (Confirm_clear t) m = clear_queue (qp_queue p) t m"

section \<open>Properties\<close>

lemma items_offer:
  "offers (QueueActionItems canClear canPause canRetryFailed scope target) =
     (if scope \<noteq> Scope_failed \<and> canPause \<and> qat_paused target then [Resume_now target] else []) @
     (if scope \<noteq> Scope_failed \<and> canPause then [Open_pause target] else []) @
     (if scope \<noteq> Scope_pending \<and> canRetryFailed = Some True then [Open_retry target] else []) @
     (if scope \<noteq> Scope_failed \<and> canClear then [Open_clear target] else [])"
  by (cases scope) (auto simp: QueueActionItems_def Let_def child_if_def)

lemma dropdown_offers: "offers (queue_dropdown p m) = concat (map (offers \<circ> target_items p) (action_targets p))"
proof -
  have sub: "offers (map (\<lambda>target. El ''DropdownMenuSub'' [(''key'', Str (qat_connection target))]
      [text_of ''DropdownMenuSubTrigger'' (qat_connection target),
       El ''DropdownMenuSubContent'' [] (target_items p target)]) ts) =
      concat (map (offers \<circ> target_items p) ts)" for ts
    by (induction ts) simp_all
  show ?thesis
  proof (cases "action_targets p")
    case (Cons t ts)
    with sub show ?thesis by (cases ts) (simp_all add: queue_dropdown_def)
  qed (simp add: queue_dropdown_def)
qed

text \<open>
  The menu of a queue opens exactly when it has something to offer. Its trigger is
  available if and only if some item of the menu is enabled, and every offered action acts on
  one of the menu's own targets.
\<close>

lemma queue_menu_available_exact:
  "(hasAvailableActions p \<longleftrightarrow> offers (queue_dropdown p m) \<noteq> []) \<and>
   (\<forall>a \<in> set (offers (queue_dropdown p m)). \<exists>t \<in> set (action_targets p).
      a \<in> {Resume_now t, Open_pause t, Open_retry t, Open_clear t})"
proof -
  have one: "offers (target_items p t) \<noteq> [] \<longleftrightarrow>
      (qp_scope p \<noteq> Scope_failed \<and> (qp_queuePausing p \<or> target_total p t > 0)) \<or>
      (qp_scope p \<noteq> Scope_pending \<and> qp_failedJobs p \<noteq> None \<and> failed_count p > 0)" for t
    by (auto simp: target_items_def items_offer can_retry_failed_def)
  have "hasAvailableActions p \<longleftrightarrow> offers (queue_dropdown p m) \<noteq> []"
    unfolding dropdown_offers concat_eq_Nil_conv hasAvailableActions_def list_ex_iff
    using one by auto
  moreover have "\<forall>a \<in> set (offers (queue_dropdown p m)). \<exists>t \<in> set (action_targets p).
      a \<in> {Resume_now t, Open_pause t, Open_retry t, Open_clear t}"
    unfolding dropdown_offers by (auto simp: target_items_def items_offer split: if_splits)
  ultimately show ?thesis ..
qed

text \<open>
  C12: confirming an opened pause never shortens it. Opening the dialog of a queue that is paused
  until a time and submitting the form as it stands asks for whole minutes which reach at least
  to that time, and for none more than needed; the typed text is read back as the number that
  was written.
\<close>

theorem update_pause_never_shortens:
  assumes "qat_pausedUntil target = Some u"
  shows "\<exists>d. qm_requests (submitPause queue (openPauseDialog now target m)) =
      qm_requests m @ [Pause_request (qat_connection target) queue (Some d)] \<and>
    1 \<le> d \<and> u * 1000 \<le> of_int now + of_int d * 60000 \<and>
    (d = 1 \<or> of_int now + of_int (d - 1) * 60000 < u * 1000) \<and>
    \<not> durationInvalid (openPauseDialog now target m)"
proof -
  let ?q = "(u * 1000 - of_int now) / 60000"
  let ?d = "remaining_minutes u now"
  have pos: "1 \<le> ?d" by (simp add: remaining_minutes_def)
  then have parse: "parseInt (int_text ?d) = Some ?d" by (intro parseInt_text) simp
  have c: "?q \<le> of_int \<lceil>?q\<rceil>" "of_int \<lceil>?q\<rceil> - 1 < ?q" by linarith+
  have d: "\<lceil>?q\<rceil> \<le> ?d" "?d = 1 \<or> ?d = \<lceil>?q\<rceil>" unfolding remaining_minutes_def max_def by simp_all
  have "of_int \<lceil>?q\<rceil> \<le> (of_int ?d :: rat)" using d(1) by (simp only: of_int_le_iff)
  with c(1) have "?q \<le> of_int ?d" by linarith
  then have enough: "u * 1000 \<le> of_int now + of_int ?d * 60000" by (simp add: field_simps)
  have "?d = 1 \<or> of_int (?d - 1) < ?q" using d(2) c(2) by (metis of_int_1 of_int_diff)
  then have least: "?d = 1 \<or> of_int now + of_int (?d - 1) * 60000 < u * 1000" by (auto simp: field_simps)
  show ?thesis
    by (rule exI [of _ ?d])
      (use assms pos parse enough least in
        \<open>simp add: openPauseDialog_def submitPause_def pause_queue_def send_request_def durationInvalid_def\<close>)
qed

theorem update_pause_never_shortens_witness:
  "\<exists>d. qm_requests (submitPause ''mail'' (openPauseDialog 1000000
        \<lparr>qat_connection = ''redis'', qat_paused = True, qat_pausedUntil = Some 1090, qat_total = None\<rparr>
        (mount_menu \<lparr>qp_connection = None, qp_queue = ''mail'', qp_paused = None, qp_pausedUntil = None,
           qp_targets = None, qp_pendingJobs = None, qp_failedJobs = None, qp_queuePausing = True,
           qp_timedQueuePausing = True, qp_scope = Scope_all\<rparr>))) =
      [Pause_request ''redis'' ''mail'' (Some d)] \<and> 1 \<le> d"
proof -
  let ?t = "\<lparr>qat_connection = ''redis'', qat_paused = True, qat_pausedUntil = Some (1090 :: rat), qat_total = None\<rparr>"
  have "qat_pausedUntil ?t = Some 1090" by simp
  from update_pause_never_shortens [OF this, of "''mail''" 1000000 "mount_menu \<lparr>qp_connection = None,
      qp_queue = ''mail'', qp_paused = None, qp_pausedUntil = None, qp_targets = None, qp_pendingJobs = None,
      qp_failedJobs = None, qp_queuePausing = True, qp_timedQueuePausing = True, qp_scope = Scope_all\<rparr>"]
  show ?thesis by (auto simp: mount_menu_def)
qed

end
