(* ===== verification/Workload_Table.thy ===== *)
theory Workload_Table
  imports Supervisors_Table Queue_Actions
begin

text \<open>
  \<^verbatim>\<open>resources/js/components/dashboard/workload-table.tsx\<close> with the wait threshold cells of
  \<^verbatim>\<open>components/queues/queue-wait-threshold.tsx\<close>: the queues of the dashboard, pools of queues
  that share workers with the queues they split into. The number format of the user's locale is
  the argument \<open>num\<close>, the URL of a queue's page the argument \<open>detail_url\<close>; the menu of a queue is
  \<open>Queue_Actions.QueueActionsMenu\<close>, whose state is the argument \<open>menus\<close>.
\<close>

section \<open>Wait thresholds\<close>

fun wait_details :: "QueueWaitThresholdStatus \<Rightarrow> (string \<times> string) option" where
  "wait_details Exceeded = Some (''Exceeded'', ''destructive'')"
| "wait_details Within_bounds = Some (''Within bounds'', ''success'')"
| "wait_details Calculating = None"
| "wait_details Disabled = None"

fun queueWaitThresholdSortRank :: "QueueWaitThresholdStatus \<Rightarrow> int" where
  "queueWaitThresholdSortRank Exceeded = 0"
| "queueWaitThresholdSortRank Calculating = 1"
| "queueWaitThresholdSortRank Disabled = 2"
| "queueWaitThresholdSortRank Within_bounds = 3"

fun wait_literal :: "QueueWaitThresholdStatus \<Rightarrow> string" where
  "wait_literal Exceeded = ''exceeded''"
| "wait_literal Calculating = ''calculating''"
| "wait_literal Disabled = ''disabled''"
| "wait_literal Within_bounds = ''within_bounds''"

definition QueueWaitThresholdBadge :: "QueueWaitThresholdStatus \<Rightarrow> string option \<Rightarrow> 'a node" where
  "QueueWaitThresholdBadge status label =
     (case wait_details status of
        None \<Rightarrow>
          let description = (if status = Disabled then ''Wait monitoring disabled'' else ''Waiting for runtime data'')
          in El ''Tooltip'' []
               [El ''TooltipTrigger'' []
                  [El ''span'' [(''aria-label'', Str description), (''data-status'', Str (wait_literal status))]
                     [Text em_dash]],
                text_of ''TooltipContent'' description]
      | Some (text, variant) \<Rightarrow>
          El ''Badge'' [(''variant'', Str variant), (''data-status'', Str (wait_literal status))]
            [Text (nullish label text)])"

definition threshold_status :: "QueueWaitThreshold option \<Rightarrow> QueueWaitThresholdStatus" where
  "threshold_status w = (case w of Some t \<Rightarrow> qwt_status t | None \<Rightarrow> Disabled)"

definition QueueWaitThresholdCell :: "QueueWaitThreshold option \<Rightarrow> string option \<Rightarrow> 'a node" where
  "QueueWaitThresholdCell waitThreshold label = QueueWaitThresholdBadge (threshold_status waitThreshold) label"

text \<open>\<open>components/duration.tsx\<close>\<close>

definition Duration :: "rat \<Rightarrow> DurationFormat \<Rightarrow> bool \<Rightarrow> 'a node" where
  "Duration seconds format showRawValue =
     (let shown = formatDuration (Num seconds) format
      in if \<not> showRawValue then text_of ''span'' shown
         else El ''Tooltip'' []
                [El ''TooltipTrigger'' [] [Text shown],
                 text_of ''TooltipContent'' (''Raw value: '' @ formatRawDuration (Num seconds))])"

definition WaitThresholdDetail :: "string \<Rightarrow> rat option \<Rightarrow> 'a node" where
  "WaitThresholdDetail label seconds =
     El ''StatisticDetail'' []
       [text_of ''span'' label,
        El ''span'' [] [case seconds of None \<Rightarrow> Text em_dash | Some s \<Rightarrow> Duration s Approximate False]]"

definition QueueWaitThresholdMetric :: "QueueWaitThreshold \<Rightarrow> 'a node" where
  "QueueWaitThresholdMetric w =
     (let multipleConnections = (length (qwt_targets w) > 1);
          waitLabel = (if multipleConnections then ''Estimated wait ('' @ qwt_decisiveConnection w @ '')''
                       else ''Estimated wait'');
          oldestLabel = (if multipleConnections \<and> \<not> falsy_text (qwt_oldestReadyConnection w)
                         then ''Oldest ready ('' @ the (qwt_oldestReadyConnection w) @ '')''
                         else ''Oldest ready'')
      in El ''Statistic'' []
           [El ''div'' []
              [text_of ''StatisticLabel'' ''Wait Threshold'', QueueWaitThresholdBadge (qwt_status w) None],
            El ''StatisticDetails'' []
              [WaitThresholdDetail waitLabel (qwt_waitSeconds w),
               WaitThresholdDetail ''Threshold''
                 (if qwt_status w = Disabled then None else Some (qwt_thresholdSeconds w)),
               WaitThresholdDetail oldestLabel (qwt_oldestReadyAgeSeconds w)]])"

section \<open>Rows\<close>

definition throughput_value :: "rat option \<Rightarrow> SortValue" where
  "throughput_value t = SortNumber (case t of Some x \<Rightarrow> Num x | None \<Rightarrow> NegInfinity)"

definition count_value :: "int \<Rightarrow> SortValue" where
  "count_value i = SortNumber (Num (of_int i))"

definition workload_columns :: "WorkloadItem SortColumn list" where
  "workload_columns =
     [\<lparr>column_key = ''name'', column_value = SortString \<circ> wi_name\<rparr>,
      \<lparr>column_key = ''waitThreshold'',
        column_value = (\<lambda>i. count_value (queueWaitThresholdSortRank (threshold_status (wi_waitThreshold i))))\<rparr>,
      \<lparr>column_key = ''length'', column_value = count_value \<circ> wi_length\<rparr>,
      \<lparr>column_key = ''processes'', column_value = count_value \<circ> wi_processes\<rparr>,
      \<lparr>column_key = ''throughput'', column_value = throughput_value \<circ> wi_throughput\<rparr>,
      \<lparr>column_key = ''wait'', column_value = (\<lambda>i. SortNumber (Num (wi_wait i)))\<rparr>]"

definition splitQueueColumns :: "WorkloadSplitQueue SortColumn list" where
  "splitQueueColumns =
     [\<lparr>column_key = ''name'', column_value = SortString \<circ> wsq_name\<rparr>,
      \<lparr>column_key = ''waitThreshold'',
        column_value = (\<lambda>q. count_value (queueWaitThresholdSortRank (threshold_status (wsq_waitThreshold q))))\<rparr>,
      \<lparr>column_key = ''length'', column_value = count_value \<circ> wsq_length\<rparr>,
      \<lparr>column_key = ''processes'', column_value = (\<lambda>_. SortNull)\<rparr>,
      \<lparr>column_key = ''throughput'', column_value = throughput_value \<circ> wsq_throughput\<rparr>,
      \<lparr>column_key = ''wait'', column_value = (\<lambda>q. SortNumber (Num (wsq_wait q)))\<rparr>]"

definition poolQueues :: "string \<Rightarrow> string list" where
  "poolQueues name = filter (\<lambda>q. q \<noteq> []) (map trim (split_on CHR '','' name))"

text \<open>The label of a pool, and the full list when the label abbreviates it.\<close>

definition formatPoolLabel :: "string \<Rightarrow> string \<times> string option" where
  "formatPoolLabel name =
     (let queues = poolQueues name; fullList = join '', '' queues
      in if length queues \<le> 1 then (name, None)
         else if length queues \<le> 3 then (fullList, None)
         else (queues ! 0 @ '', '' @ queues ! 1 @ '', +'' @ int_text (int (length queues) - 2), Some fullList))"

definition ProcessesCell :: "(int \<Rightarrow> string) \<Rightarrow> int \<Rightarrow> bool \<Rightarrow> 'a node" where
  "ProcessesCell num processes processesShared =
     (if \<not> processesShared then text_of ''span'' (num processes)
      else El ''Tooltip'' []
             [El ''TooltipTrigger'' [] [text_of ''span'' (num processes)],
              text_of ''TooltipContent'' ''Workers are shared by the queues in this pool.''])"

definition WorkloadWaitCell :: "int \<Rightarrow> rat \<Rightarrow> 'a node" where
  "WorkloadWaitCell readyJobs wait =
     (if readyJobs = 0 \<and> wait = 0 then text_of ''span'' em_dash else Duration wait Approximate False)"

definition sharedPoolExceededCount :: "WorkloadItem \<Rightarrow> nat" where
  "sharedPoolExceededCount item =
     length (filter (\<lambda>q. map_option qwt_status (wsq_waitThreshold q) = Some Exceeded)
       (case wi_splitQueues item of None \<Rightarrow> [] | Some qs \<Rightarrow> qs))"

datatype workload_action =
    Toggle_pool
  | Toggle_pool_button
  | Queue_click string
  | Queue_enter string
  | Queue_menu "string \<times> string" queue_action
  | Sort_workload string

definition queue_props ::
  "string \<Rightarrow> string \<Rightarrow> bool \<Rightarrow> rat option \<Rightarrow> int \<Rightarrow> bool \<Rightarrow> bool \<Rightarrow> queue_menu_props" where
  "queue_props connection queue paused pausedUntil ready queuePausing timedQueuePausing =
     \<lparr>qp_connection = Some connection, qp_queue = queue, qp_paused = Some paused,
      qp_pausedUntil = pausedUntil, qp_targets = None, qp_pendingJobs = Some ready,
      qp_failedJobs = None, qp_queuePausing = queuePausing, qp_timedQueuePausing = timedQueuePausing,
      qp_scope = Scope_all\<rparr>"

definition queue_menu_cell ::
  "(string \<times> string \<Rightarrow> queue_menu) \<Rightarrow> queue_menu_props \<Rightarrow> workload_action node" where
  "queue_menu_cell menus p =
     (let k = (nullish (qp_connection p) [], qp_queue p)
      in El ''TableCell'' [] (embed (Queue_menu k) (QueueActionsMenu p (menus k))))"

definition throughput_text :: "(rat \<Rightarrow> string) \<Rightarrow> rat option \<Rightarrow> string" where
  "throughput_text num t = or_dash num t"

definition WorkloadSplitRow ::
  "(rat \<Rightarrow> string) \<Rightarrow> (rat \<Rightarrow> string) \<Rightarrow> (string \<Rightarrow> string) \<Rightarrow> (string \<times> string \<Rightarrow> queue_menu) \<Rightarrow> bool \<Rightarrow> bool \<Rightarrow>
   string \<Rightarrow> WorkloadSplitQueue \<Rightarrow> workload_action node" where
  "WorkloadSplitRow num deadline detail_url menus queuePausing timedQueuePausing connection queue =
     (let detailUrl = detail_url (wsq_name queue)
      in El ''TableRow'' [(''onMouseEnter'', On (Queue_enter detailUrl)), (''onClick'', On (Queue_click detailUrl))]
           [El ''TableCell'' []
              [El ''Link'' [(''href'', Str detailUrl)]
                 ([El ''svg'' [] [], text_of ''span'' (wsq_name queue)] @
                  QueuePauseBadge deadline (wsq_paused queue) (wsq_pausedUntil queue) None)],
            El ''TableCell'' [] [QueueWaitThresholdCell (wsq_waitThreshold queue) None],
            text_of ''TableCell'' (num (of_int (wsq_length queue))),
            text_of ''TableCell'' em_dash,
            text_of ''TableCell'' (throughput_text num (wsq_throughput queue)),
            El ''TableCell'' [] [WorkloadWaitCell (wsq_length queue) (wsq_wait queue)],
            queue_menu_cell menus (queue_props connection (wsq_name queue) (wsq_paused queue)
              (wsq_pausedUntil queue) (wsq_length queue) queuePausing timedQueuePausing)])"

text \<open>A pool has split queues; \<open>expanded\<close> is the state of its row.\<close>

definition grouped :: "WorkloadItem \<Rightarrow> bool" where
  "grouped item \<longleftrightarrow> wi_splitQueues item \<noteq> None \<and> the (wi_splitQueues item) \<noteq> []"

definition name_cell ::
  "(rat \<Rightarrow> string) \<Rightarrow> (string \<Rightarrow> string) \<Rightarrow> bool \<Rightarrow> WorkloadItem \<Rightarrow> workload_action node" where
  "name_cell deadline detail_url expanded item =
     (let (label, fullList) = formatPoolLabel (wi_name item)
      in El ''TableCell'' []
           [if grouped item
            then El ''button''
                   [(''type'', Str ''button''), (''aria-expanded'', Flag expanded),
                    (''aria-label'', Str ((if expanded then ''Collapse'' else ''Expand'') @ '' shared pool '' @
                       nullish fullList label)),
                    (''onClick'', On Toggle_pool_button)]
                   [case fullList of
                      Some full \<Rightarrow> El ''Tooltip'' []
                        [El ''TooltipTrigger'' [] [text_of ''span'' label], text_of ''TooltipContent'' full]
                    | None \<Rightarrow> text_of ''span'' label]
            else El ''Link'' [(''href'', Str (detail_url (wi_name item)))]
                   (Text (wi_name item) # QueuePauseBadge deadline (wi_paused item) (wi_pausedUntil item) None)])"

definition threshold_cell :: "WorkloadItem \<Rightarrow> 'a node" where
  "threshold_cell item =
     (let exceededChildren = (if grouped item then sharedPoolExceededCount item else 0)
      in El ''TableCell'' []
           [if exceededChildren > 0
            then QueueWaitThresholdBadge Exceeded
                   (Some (if exceededChildren = length (the (wi_splitQueues item)) then ''All exceeded''
                          else nat_text exceededChildren @ '' exceeded''))
            else QueueWaitThresholdCell (wi_waitThreshold item) None])"

definition WorkloadRows ::
  "(string \<Rightarrow> string \<Rightarrow> rat) \<Rightarrow> (number \<Rightarrow> string) \<Rightarrow> (rat \<Rightarrow> string) \<Rightarrow> (rat \<Rightarrow> string) \<Rightarrow> (string \<Rightarrow> string) \<Rightarrow>
   (string \<times> string \<Rightarrow> queue_menu) \<Rightarrow> bool \<Rightarrow> bool \<Rightarrow> bool \<Rightarrow> SortState option \<Rightarrow> WorkloadItem \<Rightarrow> workload_action node list" where
  "WorkloadRows collate sort_num num deadline detail_url menus queuePausing timedQueuePausing expanded sorting item =
     (let splitQueues = (if grouped item
            then sortRows collate sort_num (the (wi_splitQueues item)) splitQueueColumns sorting else []);
          detailUrl = detail_url (wi_name item)
      in El ''TableRow''
           (prop_if (grouped item \<and> expanded) (''data-state'', Str ''open'') @
            (if grouped item then [(''onClick'', On Toggle_pool)]
             else [(''onMouseEnter'', On (Queue_enter detailUrl)), (''onClick'', On (Queue_click detailUrl))]))
           [name_cell deadline detail_url expanded item,
            threshold_cell item,
            text_of ''TableCell'' (num (of_int (wi_length item))),
            El ''TableCell'' [] [ProcessesCell (num \<circ> of_int) (wi_processes item) (wi_processesShared item)],
            text_of ''TableCell'' (throughput_text num (wi_throughput item)),
            El ''TableCell'' [] [WorkloadWaitCell (wi_length item) (wi_wait item)],
            (if grouped item then El ''TableCell'' [] []
             else queue_menu_cell menus (queue_props (wi_connection item) (wi_name item) (wi_paused item)
               (wi_pausedUntil item) (wi_length item) queuePausing timedQueuePausing))] #
         child_if (grouped item \<and> expanded)
           (map (WorkloadSplitRow num deadline detail_url menus queuePausing timedQueuePausing (wi_connection item))
             splitQueues))"

definition workload_heads :: "SortState option \<Rightarrow> workload_action node list" where
  "workload_heads sorting =
     map (\<lambda>(label, key). SortableTableHead label key (directionFor key sorting) (Sort_workload key))
       [(''Queue'', ''name''), (''Wait threshold'', ''waitThreshold''), (''Ready Jobs'', ''length''),
        (''Processes'', ''processes''), (''Throughput'', ''throughput''), (''Wait'', ''wait'')]"

text \<open>\<open>expanded\<close> gives the state of every item's row by the row's key.\<close>

definition row_key :: "WorkloadItem \<Rightarrow> string" where
  "row_key item = wi_connection item @ '':'' @ wi_name item"

definition WorkloadTable ::
  "(string \<Rightarrow> string \<Rightarrow> rat) \<Rightarrow> (number \<Rightarrow> string) \<Rightarrow> (rat \<Rightarrow> string) \<Rightarrow> (rat \<Rightarrow> string) \<Rightarrow> (string \<Rightarrow> string) \<Rightarrow>
   (string \<times> string \<Rightarrow> queue_menu) \<Rightarrow> bool \<Rightarrow> bool \<Rightarrow> (string \<Rightarrow> bool) \<Rightarrow> SortState option \<Rightarrow> DashboardWorkload \<Rightarrow>
   workload_action node list" where
  "WorkloadTable collate sort_num num deadline detail_url menus queuePausing timedQueuePausing expanded sorting workload =
     (if \<not> dw_available workload then
        [El ''Alert'' [(''variant'', Str ''destructive'')]
           [text_of ''AlertTitle'' ''Workload unavailable'',
            text_of ''AlertDescription''
              (nullish (dw_message workload) ''Horizon workload is currently unavailable.'')]]
      else if dw_items workload = [] then
        [El ''Empty'' []
           [text_of ''EmptyTitle'' ''All queues are clear'',
            text_of ''EmptyDescription'' ''Horizon has no queued workload right now.'']]
      else
        [El ''Table'' []
           [El ''TableHeader'' []
              [El ''TableRow'' [] (workload_heads sorting @ [El ''TableHead'' [] [text_of ''span'' ''Actions'']])],
            El ''TableBody'' []
              (concat (map (\<lambda>item. WorkloadRows collate sort_num num deadline detail_url menus queuePausing
                   timedQueuePausing (expanded (row_key item)) sorting item)
                (sortRows collate sort_num (dw_items workload) workload_columns sorting)))]])"

section \<open>Clicks\<close>

text \<open>
  A click on the pool's row toggles it unless its target is interactive; a click on the button
  inside toggles it and stops the event, so the row's handler does not run. A click on any other
  row opens the queue's page unless its target is interactive.
\<close>

fun workload_row_click :: "bool \<Rightarrow> workload_action \<Rightarrow> bool \<times> string option \<Rightarrow> bool \<times> string option" where
  "workload_row_click interactive Toggle_pool (expanded, visit) =
     (if interactive then (expanded, visit) else (\<not> expanded, visit))"
| "workload_row_click interactive (Queue_click url) (expanded, visit) =
     (if interactive then (expanded, visit) else (expanded, Some url))"
| "workload_row_click interactive a s = s"

definition pool_button_click :: "bool \<times> string option \<Rightarrow> bool \<times> string option" where
  "pool_button_click s = (\<not> fst s, snd s)"

text \<open>A click somewhere in a pool's row, bubbling from its target.\<close>

definition click_in_pool :: "bool \<Rightarrow> bool \<times> string option \<Rightarrow> bool \<times> string option" where
  "click_in_pool on_button s = (if on_button then pool_button_click s else workload_row_click False Toggle_pool s)"

section \<open>Pool labels\<close>

lemma split_on_none: "c \<notin> set p \<Longrightarrow> split_on c p = [p]"
  by (induction p) auto

lemma split_join:
  "qs \<noteq> [] \<Longrightarrow> \<forall>q \<in> set qs. c \<notin> set q \<Longrightarrow> c \<notin> set pre \<Longrightarrow>
   split_on c (join (c # pre) qs) = hd qs # map (\<lambda>q. pre @ q) (tl qs)"
proof (induction qs rule: induct_list012)
  case (3 x y ys)
  from 3 have "split_on c (join (c # pre) (y # ys)) = y # map (\<lambda>q. pre @ q) ys" by simp
  moreover have "split_on c (pre @ s) = (pre @ hd (split_on c s)) # tl (split_on c s)" for s
    using 3(5) by (induction pre) (auto split: list.splits simp: neq_Nil_conv)
  ultimately show ?case using 3 by (simp add: split_on_append)
qed (simp_all add: split_on_none)

lemma trim_space: "trim (CHR '' '' # s) = trim s"
  by (simp add: trim_def is_space_def)

lemma split_on_parts: "p \<in> set (split_on c s) \<Longrightarrow> c \<notin> set p"
  by (induction s arbitrary: p) (auto split: if_splits list.splits)

lemma set_trim: "set (trim s) \<subseteq> set s"
  unfolding trim_def by (auto dest!: set_dropWhileD)

lemma poolQueues_parts:
  assumes "q \<in> set (poolQueues name)"
  shows "q \<noteq> []" "trim q = q" "CHR '','' \<notin> set q"
proof -
  from assms obtain p where p: "p \<in> set (split_on CHR '','' name)" "q = trim p" "q \<noteq> []"
    by (auto simp: poolQueues_def)
  then show "q \<noteq> []" "trim q = q" by simp_all
  from split_on_parts [OF p(1)] set_trim [of p] p(2) show "CHR '','' \<notin> set q" by auto
qed

lemma poolQueues_join:
  assumes "\<forall>q \<in> set qs. q \<noteq> [] \<and> trim q = q \<and> CHR '','' \<notin> set q"
  shows "poolQueues (join '', '' qs) = qs"
proof (cases qs)
  case Nil
  then show ?thesis by (simp add: poolQueues_def trim_def)
next
  case (Cons q rest)
  then have "split_on CHR '','' (join '', '' qs) = q # map (\<lambda>q. '' '' @ q) rest"
    using assms by (subst split_join) auto
  moreover have "map (trim \<circ> (\<lambda>q. CHR '' '' # q)) rest = rest"
    using assms Cons by (simp add: trim_space map_idI)
  ultimately show ?thesis using assms Cons by (simp add: poolQueues_def)
qed

section \<open>Sorting\<close>

lemma workload_columns_uniform:
  "c \<in> set workload_columns \<Longrightarrow> uniform (column_value c ` A)"
  by (auto simp: workload_columns_def uniform_def count_value_def throughput_value_def split: option.splits)

lemma split_columns_uniform:
  "c \<in> set splitQueueColumns \<Longrightarrow> uniform (column_value c ` A)"
  by (auto simp: splitQueueColumns_def uniform_def count_value_def throughput_value_def split: option.splits)

lemma split_columns_same_keys: "map column_key splitQueueColumns = map column_key workload_columns"
  by (simp add: splitQueueColumns_def workload_columns_def)

section \<open>Properties\<close>

lemma plus_count: "trim (CHR ''+'' # nat_text n) = CHR ''+'' # nat_text n" "CHR '','' \<notin> set (nat_text n)"
proof -
  have digits: "\<forall>c \<in> set (nat_text n). \<not> is_space c \<and> c \<noteq> CHR '',''"
    using nat_text_digits [of n] by (auto simp: is_digit_def is_space_def)
  then show "CHR '','' \<notin> set (nat_text n)" by blast
  have "dropWhile is_space (rev (nat_text n) @ [CHR ''+'']) = rev (nat_text n) @ [CHR ''+'']"
    using digits by (cases "rev (nat_text n)") (auto simp: is_space_def dest: arg_cong [of _ _ set])
  then show "trim (CHR ''+'' # nat_text n) = CHR ''+'' # nat_text n"
    by (simp add: trim_def is_space_def)
qed

text \<open>
  The full list a pool's label abbreviates names exactly the queues of the pool, and a label
  with a remainder counts the queues it leaves out; the tooltip is there exactly when the label
  leaves some out.
\<close>

lemma pool_label_complete:
  "poolQueues (join '', '' (poolQueues name)) = poolQueues name \<and>
   (snd (formatPoolLabel name) =
      (if length (poolQueues name) \<ge> 4 then Some (join '', '' (poolQueues name)) else None)) \<and>
   (length (poolQueues name) \<in> {2, 3} \<longrightarrow> poolQueues (fst (formatPoolLabel name)) = poolQueues name) \<and>
   (length (poolQueues name) \<ge> 4 \<longrightarrow>
      poolQueues (fst (formatPoolLabel name)) =
        take 2 (poolQueues name) @ [''+'' @ nat_text (length (poolQueues name) - 2)])"
proof -
  let ?qs = "poolQueues name"
  have parts: "\<forall>q \<in> set ?qs. q \<noteq> [] \<and> trim q = q \<and> CHR '','' \<notin> set q"
    using poolQueues_parts by blast
  note again = poolQueues_join [OF parts]
  have "poolQueues (fst (formatPoolLabel name)) = take 2 ?qs @ [''+'' @ nat_text (length ?qs - 2)]"
    if many: "length ?qs \<ge> 4"
  proof -
    let ?last = "''+'' @ nat_text (length ?qs - 2)"
    obtain a b rest where qs: "?qs = a # b # rest" using many by (auto simp: numeral_eq_Suc Suc_le_length_iff)
    have "int_text (int (length ?qs) - 2) = nat_text (length ?qs - 2)"
      using many by (simp add: int_text_def nat_diff_distrib)
    then have "fst (formatPoolLabel name) = join '', '' [a, b, ?last]"
      using many by (simp add: formatPoolLabel_def Let_def qs)
    moreover have "poolQueues (join '', '' [a, b, ?last]) = [a, b, ?last]"
      using parts by (intro poolQueues_join) (auto simp: qs plus_count)
    ultimately show ?thesis by (simp add: qs)
  qed
  then show ?thesis using again by (auto simp: formatPoolLabel_def Let_def)
qed

lemma no_menu_in_text [simp]: "offers (QueuePauseBadge deadline p u c) = []"
  by (simp add: QueuePauseBadge_def Let_def)

lemma threshold_offers [simp]: "offered (QueueWaitThresholdBadge s l) = []" "offered (QueueWaitThresholdCell w l) = []"
  by (simp_all add: QueueWaitThresholdBadge_def QueueWaitThresholdCell_def Let_def split: option.splits)

lemma duration_offers [simp]: "offered (Duration s f r) = []" "offered (WorkloadWaitCell n s) = []"
  by (simp_all add: Duration_def WorkloadWaitCell_def Let_def)

lemma processes_offers [simp]: "offered (ProcessesCell num n shared) = []"
  by (simp add: ProcessesCell_def)

lemma menu_cell_offers [simp]:
  "offered (queue_menu_cell menus p) =
     (let k = (nullish (qp_connection p) [], qp_queue p)
      in map (Queue_menu k) (offers (QueueActionsMenu p (menus k))))"
  by (simp add: queue_menu_cell_def Let_def)

lemma split_row_menus:
  "Queue_menu k a \<in> set (offered (WorkloadSplitRow num deadline url menus qp tqp connection q)) \<longleftrightarrow>
     k = (connection, wsq_name q) \<and>
     a \<in> set (offers (QueueActionsMenu (queue_props connection (wsq_name q) (wsq_paused q)
       (wsq_pausedUntil q) (wsq_length q) qp tqp) (menus k)))"
  by (auto simp: WorkloadSplitRow_def Let_def queue_props_def)

text \<open>
  C30: the actions of a queue's menu are offered for queues one can act on only. A pool's own row
  offers none, its queues offer theirs on the pool's connection while it is expanded, and a row
  that is no pool offers its own queue's.
\<close>

theorem pool_menus_exact:
  "Queue_menu k a \<in> set (offers (WorkloadRows collate sort_num num deadline url menus qp tqp expanded sorting item)) \<longleftrightarrow>
     (if grouped item
      then expanded \<and> (\<exists>q \<in> set (the (wi_splitQueues item)). k = (wi_connection item, wsq_name q) \<and>
        a \<in> set (offers (QueueActionsMenu (queue_props (wi_connection item) (wsq_name q) (wsq_paused q)
          (wsq_pausedUntil q) (wsq_length q) qp tqp) (menus k))))
      else k = (wi_connection item, wi_name item) \<and>
        a \<in> set (offers (QueueActionsMenu (queue_props (wi_connection item) (wi_name item) (wi_paused item)
          (wi_pausedUntil item) (wi_length item) qp tqp) (menus k))))"
proof -
  have rest: "offered (threshold_cell item) = []" "Queue_menu k a \<notin> set (offered (name_cell deadline url e item))" for e
    by (auto simp: threshold_cell_def name_cell_def Let_def split: prod.splits option.splits)
  have split_rows: "Queue_menu k a \<in> set (offers (map (WorkloadSplitRow num deadline url menus qp tqp c) qs)) \<longleftrightarrow>
      (\<exists>q \<in> set qs. Queue_menu k a \<in> set (offered (WorkloadSplitRow num deadline url menus qp tqp c q)))" for c qs
    by (simp add: offers_def)
  show ?thesis
    by (cases "grouped item"; cases expanded)
      (auto simp: WorkloadRows_def Let_def rest split_rows split_row_menus queue_props_def)
qed

end
