(* ===== verification/Json_Value.thy ===== *)
theory Json_Value
  imports Types_Jobs Json_Text Number Web_Url
begin

text \<open>
  \<open>JSON.stringify\<close> with its indentation and \<open>JSON.parse\<close>, which the payload view and the stored
  navigation counts rely on. A string is the bytes of its UTF-8 form, a number an exact rational:
  the text of a number is the argument \<open>num\<close>, and what the code relies on is that the text is a JSON
  number that reads back as the number (\<open>number_law\<close>), for the numbers of a set \<open>R\<close>. The order of
  integer-like object keys is not modelled. The parser is bounded by fuel; \<open>JSON_parse\<close> gives it
  enough for any input (\<open>fuel_enough\<close>).
\<close>

section \<open>Printing\<close>

definition newline :: char where
  "newline = CHR 0x0A"

definition items_text :: "string \<Rightarrow> string \<Rightarrow> string list \<Rightarrow> string" where
  "items_text lead trail parts = lead @ join (CHR '','' # lead) parts @ trail"

definition gap_lead :: "string \<Rightarrow> string \<Rightarrow> string" where
  "gap_lead gap indent = (if gap = [] then [] else newline # indent)"

definition colon_text :: "string \<Rightarrow> string" where
  "colon_text gap = (if gap = [] then '':'' else '': '')"

fun serialize :: "(rat \<Rightarrow> string) \<Rightarrow> string \<Rightarrow> string \<Rightarrow> json \<Rightarrow> string" where
  "serialize num gap indent JNull = ''null''"
| "serialize num gap indent (JBool b) = (if b then ''true'' else ''false'')"
| "serialize num gap indent (JNum r) = num r"
| "serialize num gap indent (JStr s) = json_quote s"
| "serialize num gap indent (JArr vs) =
     (if vs = [] then ''[]''
      else ''['' @ items_text (gap_lead gap (indent @ gap)) (gap_lead gap indent)
             (map (serialize num gap (indent @ gap)) vs) @ '']'')"
| "serialize num gap indent (JObj ms) =
     (if ms = [] then ''{}''
      else ''{'' @ items_text (gap_lead gap (indent @ gap)) (gap_lead gap indent)
             (map (\<lambda>(k, v). json_quote k @ colon_text gap @ serialize num gap (indent @ gap) v) ms) @ ''}'')"

text \<open>\<open>JSON.stringify(value, null, spaces)\<close>\<close>

definition JSON_stringify :: "(rat \<Rightarrow> string) \<Rightarrow> nat \<Rightarrow> json \<Rightarrow> string" where
  "JSON_stringify num spaces v = serialize num (replicate spaces CHR '' '') [] v"

section \<open>Numbers\<close>

text \<open>The value of a JSON number, \<open>None\<close> when the text is none.\<close>

definition read_exponent :: "string \<Rightarrow> int option" where
  "read_exponent s =
     (case s of
        [] \<Rightarrow> Some 0
      | c # t \<Rightarrow>
          if c \<noteq> CHR ''e'' \<and> c \<noteq> CHR ''E'' then None
          else let negative = (t \<noteq> [] \<and> hd t = CHR ''-'');
                   digits = (if t \<noteq> [] \<and> (hd t = CHR ''-'' \<or> hd t = CHR ''+'') then tl t else t)
               in if digits = [] \<or> \<not> list_all is_digit digits then None
                  else Some (if negative then - int (read_digits 0 digits) else int (read_digits 0 digits)))"

definition scale :: "int \<Rightarrow> rat \<Rightarrow> rat" where
  "scale e r = (if e \<ge> 0 then r * 10 ^ nat e else r / 10 ^ nat (- e))"

definition read_number :: "string \<Rightarrow> rat option" where
  "read_number s =
     (let negative = (s \<noteq> [] \<and> hd s = CHR ''-'');
          t = (if negative then tl s else s);
          whole = takeWhile is_digit t;
          u = dropWhile is_digit t;
          point = (u \<noteq> [] \<and> hd u = CHR ''.'');
          fraction = (if point then takeWhile is_digit (tl u) else []);
          rest = (if point then dropWhile is_digit (tl u) else u)
      in if whole = [] \<or> (hd whole = CHR ''0'' \<and> length whole > 1) \<or> (point \<and> fraction = []) then None
         else case read_exponent rest of
                None \<Rightarrow> None
              | Some e \<Rightarrow>
                  let r = scale (e - int (length fraction)) (of_nat (read_digits 0 (whole @ fraction)))
                  in Some (if negative then - r else r))"

definition number_char :: "char \<Rightarrow> bool" where
  "number_char c \<longleftrightarrow> is_digit c \<or> c \<in> set ''+-.eE''"

section \<open>Parsing\<close>

definition json_space :: "char \<Rightarrow> bool" where
  "json_space c \<longleftrightarrow> c \<in> {CHR '' '', CHR 0x09, CHR 0x0A, CHR 0x0D}"

definition skip_ws :: "string \<Rightarrow> string" where
  "skip_ws s = dropWhile json_space s"

definition hex4 :: "string \<Rightarrow> nat option" where
  "hex4 s =
     (case s of
        a # b # c # d # r \<Rightarrow>
          (case (hex_of a, hex_of b, hex_of c, hex_of d) of
             (Some w, Some x, Some y, Some z) \<Rightarrow> Some (((w * 16 + x) * 16 + y) * 16 + z)
           | _ \<Rightarrow> None)
      | _ \<Rightarrow> None)"

definition utf8 :: "nat \<Rightarrow> string" where
  "utf8 n =
     (if n < 0x80 then [char_of n]
      else if n < 0x800 then [char_of (0xC0 + n div 64), char_of (0x80 + n mod 64)]
      else if n < 0x10000 then
        [char_of (0xE0 + n div 4096), char_of (0x80 + n div 64 mod 64), char_of (0x80 + n mod 64)]
      else
        [char_of (0xF0 + n div 262144), char_of (0x80 + n div 4096 mod 64),
         char_of (0x80 + n div 64 mod 64), char_of (0x80 + n mod 64)])"

text \<open>The code point after a backslash and \<open>u\<close>, and how many characters it takes: a pair of surrogates is one.\<close>

definition unicode_escape :: "string \<Rightarrow> (nat \<times> nat) option" where
  "unicode_escape s =
     (case hex4 s of
        None \<Rightarrow> None
      | Some hi \<Rightarrow>
          (case drop 4 s of
             b # u # t \<Rightarrow>
               if b = CHR 0x5C \<and> u = CHR ''u'' \<and> 0xD800 \<le> hi \<and> hi < 0xDC00 then
                 (case hex4 t of
                    Some lo \<Rightarrow> if 0xDC00 \<le> lo \<and> lo < 0xE000
                      then Some (0x10000 + (hi - 0xD800) * 0x400 + (lo - 0xDC00), 10) else Some (hi, 4)
                  | None \<Rightarrow> Some (hi, 4))
               else Some (hi, 4)
           | _ \<Rightarrow> Some (hi, 4)))"

definition simple_escape :: "char \<Rightarrow> char option" where
  "simple_escape e =
     (if e = CHR 0x22 \<or> e = CHR 0x5C \<or> e = CHR ''/'' then Some e
      else if e = CHR ''b'' then Some (CHR 0x08)
      else if e = CHR ''f'' then Some (CHR 0x0C)
      else if e = CHR ''n'' then Some (CHR 0x0A)
      else if e = CHR ''r'' then Some (CHR 0x0D)
      else if e = CHR ''t'' then Some (CHR 0x09)
      else None)"

definition prepend :: "string \<Rightarrow> (string \<times> 'r) option \<Rightarrow> (string \<times> 'r) option" where
  "prepend p r = map_option (\<lambda>(t, rest). (p @ t, rest)) r"

text \<open>A string up to its closing quote.\<close>

fun parse_string :: "string \<Rightarrow> (string \<times> string) option" where
  "parse_string [] = None"
| "parse_string (c # s) =
     (if c = CHR 0x22 then Some ([], s)
      else if of_char c < (32 :: nat) then None
      else if c \<noteq> CHR 0x5C then prepend [c] (parse_string s)
      else case s of
             [] \<Rightarrow> None
           | e # t \<Rightarrow>
               if e = CHR ''u'' then
                 (case unicode_escape t of
                    None \<Rightarrow> None
                  | Some (n, k) \<Rightarrow> prepend (utf8 n) (parse_string (drop k t)))
               else (case simple_escape e of
                       None \<Rightarrow> None
                     | Some d \<Rightarrow> prepend [d] (parse_string t)))"

definition parse_scalar :: "string \<Rightarrow> (json \<times> string) option" where
  "parse_scalar s =
     (if starts_with s ''null'' then Some (JNull, drop 4 s)
      else if starts_with s ''true'' then Some (JBool True, drop 4 s)
      else if starts_with s ''false'' then Some (JBool False, drop 5 s)
      else map_option (\<lambda>r. (JNum r, dropWhile number_char s)) (read_number (takeWhile number_char s)))"

fun parse_value :: "nat \<Rightarrow> string \<Rightarrow> (json \<times> string) option"
  and parse_items :: "nat \<Rightarrow> string \<Rightarrow> (json list \<times> string) option"
  and parse_members :: "nat \<Rightarrow> string \<Rightarrow> ((string \<times> json) list \<times> string) option" where
  "parse_value 0 s = None"
| "parse_value (Suc n) s =
     (case skip_ws s of
        [] \<Rightarrow> None
      | c # r \<Rightarrow>
          if c = CHR 0x22 then map_option (\<lambda>(t, rest). (JStr t, rest)) (parse_string r)
          else if c = CHR ''['' then
            (if skip_ws r \<noteq> [] \<and> hd (skip_ws r) = CHR '']'' then Some (JArr [], tl (skip_ws r))
             else map_option (\<lambda>(vs, rest). (JArr vs, rest)) (parse_items n r))
          else if c = CHR ''{'' then
            (if skip_ws r \<noteq> [] \<and> hd (skip_ws r) = CHR ''}'' then Some (JObj [], tl (skip_ws r))
             else map_option (\<lambda>(ms, rest). (JObj (from_entries ms), rest)) (parse_members n r))
          else parse_scalar (c # r))"
| "parse_items 0 s = None"
| "parse_items (Suc n) s =
     (case parse_value n s of
        None \<Rightarrow> None
      | Some (v, r) \<Rightarrow>
          (case skip_ws r of
             [] \<Rightarrow> None
           | c # rest \<Rightarrow>
               if c = CHR '','' then map_option (\<lambda>(vs, t). (v # vs, t)) (parse_items n rest)
               else if c = CHR '']'' then Some ([v], rest) else None))"
| "parse_members 0 s = None"
| "parse_members (Suc n) s =
     (case skip_ws s of
        [] \<Rightarrow> None
      | q # r0 \<Rightarrow>
          if q \<noteq> CHR 0x22 then None
          else case parse_string r0 of
            None \<Rightarrow> None
          | Some (k, r1) \<Rightarrow>
              (case skip_ws r1 of
                 [] \<Rightarrow> None
               | d # r2 \<Rightarrow>
                   if d \<noteq> CHR '':'' then None
                   else case parse_value n r2 of
                     None \<Rightarrow> None
                   | Some (v, r) \<Rightarrow>
                       (case skip_ws r of
                          [] \<Rightarrow> None
                        | c # rest \<Rightarrow>
                            if c = CHR '','' then map_option (\<lambda>(ms, t). ((k, v) # ms, t)) (parse_members n rest)
                            else if c = CHR ''}'' then Some ([(k, v)], rest) else None)))"

text \<open>\<open>JSON.parse\<close>; \<open>None\<close> is the \<open>SyntaxError\<close> it throws.\<close>

definition JSON_parse :: "string \<Rightarrow> json option" where
  "JSON_parse s =
     (case parse_value (2 * length s + 1) s of
        Some (v, r) \<Rightarrow> if skip_ws r = [] then Some v else None
      | None \<Rightarrow> None)"

section \<open>The fuel is enough\<close>

lemma skip_ws_length: "length (skip_ws s) \<le> length s"
  unfolding skip_ws_def by (rule length_dropWhile_le)

lemma skip_ws_Cons: "skip_ws s = c # r \<Longrightarrow> length r < length s"
  using skip_ws_length [of s] by simp

lemma prepend_Some: "prepend p x = Some (t, r) \<longleftrightarrow> (\<exists>t'. x = Some (t', r) \<and> t = p @ t')"
  by (cases x) (auto simp: prepend_def)

lemma parse_string_shorter: "parse_string s = Some (t, r) \<Longrightarrow> length r < length s"
proof (induction s arbitrary: t rule: parse_string.induct)
  case (2 c s)
  then show ?case
    by (fastforce simp: prepend_Some split: if_splits list.splits option.splits prod.splits)
qed simp

lemma read_number_nonempty: "read_number s \<noteq> None \<Longrightarrow> s \<noteq> []"
  by (auto simp: read_number_def)

lemma parse_scalar_shorter: "parse_scalar s = Some (v, r) \<Longrightarrow> length r < length s"
proof -
  assume a: "parse_scalar s = Some (v, r)"
  have "length (dropWhile number_char s) < length s" if "takeWhile number_char s \<noteq> []"
    using that length_append [of "takeWhile number_char s" "dropWhile number_char s"] by simp
  moreover have "s \<noteq> []" if "starts_with s (c # w)" for c w
    using that by (auto simp: starts_with_def)
  ultimately show ?thesis
    using a read_number_nonempty [of "takeWhile number_char s"]
    by (auto simp: parse_scalar_def split: if_splits)
qed

lemma parse_shorter:
  "parse_value n s = Some (v, r) \<Longrightarrow> length r < length s"
  "parse_items n s = Some (vs, r) \<Longrightarrow> length r < length s"
  "parse_members n s = Some (ms, r) \<Longrightarrow> length r < length s"
proof (induction n s and n s and n s arbitrary: v r and vs r and ms r
    rule: parse_value_parse_items_parse_members.induct)
  case (2 n s)
  then obtain c t where c: "skip_ws s = c # t" by (auto split: list.splits)
  note less = skip_ws_Cons [OF c]
  have inner: "length (tl (skip_ws t)) \<le> length t" using skip_ws_length [of t] by simp
  show ?case
    using 2 c less inner parse_string_shorter [of t] parse_scalar_shorter [of "c # t" v r] skip_ws_length [of s]
    by (fastforce split: if_splits)
next
  case (4 n s)
  then show ?case
    by (fastforce split: option.splits prod.splits list.splits if_splits dest!: skip_ws_Cons)
next
  case (6 n s)
  then show ?case
    by (fastforce split: option.splits prod.splits list.splits if_splits dest!: skip_ws_Cons parse_string_shorter)
qed simp_all

lemma fuel_steps:
  "(\<forall>n m. 2 * length s + 1 \<le> n \<longrightarrow> 2 * length s + 1 \<le> m \<longrightarrow> parse_value n s = parse_value m s) \<and>
   (\<forall>n m. 2 * length s + 2 \<le> n \<longrightarrow> 2 * length s + 2 \<le> m \<longrightarrow> parse_items n s = parse_items m s) \<and>
   (\<forall>n m. 2 * length s + 2 \<le> n \<longrightarrow> 2 * length s + 2 \<le> m \<longrightarrow> parse_members n s = parse_members m s)"
proof (induction s rule: length_induct)
  case (1 s)
  have V: "parse_value n t = parse_value m t"
    if "length t < length s" "2 * length t + 1 \<le> n" "2 * length t + 1 \<le> m" for t n m
    using 1 that by blast
  have I: "parse_items n t = parse_items m t"
    if "length t < length s" "2 * length t + 2 \<le> n" "2 * length t + 2 \<le> m" for t n m
    using 1 that by blast
  have M: "parse_members n t = parse_members m t"
    if "length t < length s" "2 * length t + 2 \<le> n" "2 * length t + 2 \<le> m" for t n m
    using 1 that by blast
  have val: "parse_value n s = parse_value m s" if a: "2 * length s + 1 \<le> n" "2 * length s + 1 \<le> m" for n m
  proof -
    obtain n' m' where nm: "n = Suc n'" "m = Suc m'" using a by (cases n; cases m) auto
    show ?thesis
    proof (cases "skip_ws s")
      case (Cons c t)
      note less = skip_ws_Cons [OF this]
      with a nm have "parse_items n' t = parse_items m' t" "parse_members n' t = parse_members m' t"
        by (intro I M; simp)+
      with Cons show ?thesis by (simp add: nm)
    qed (simp add: nm)
  qed
  have items: "parse_items n s = parse_items m s" if a: "2 * length s + 2 \<le> n" "2 * length s + 2 \<le> m" for n m
  proof -
    obtain n' m' where nm: "n = Suc n'" "m = Suc m'" using a by (cases n; cases m) auto
    have "parse_value n' s = parse_value m' s" using a nm by (intro val) simp_all
    moreover have "parse_items n' t = parse_items m' t"
      if "parse_value m' s = Some (v, r)" "skip_ws r = c # t" for v r c t
      using parse_shorter(1) [OF that(1)] skip_ws_Cons [OF that(2)] a nm by (intro I) simp_all
    ultimately show ?thesis by (simp add: nm split: option.splits list.splits)
  qed
  have members: "parse_members n s = parse_members m s" if a: "2 * length s + 2 \<le> n" "2 * length s + 2 \<le> m" for n m
  proof -
    obtain n' m' where nm: "n = Suc n'" "m = Suc m'" using a by (cases n; cases m) auto
    have "parse_value n' r2 = parse_value m' r2" "length r2 < length s"
      if "skip_ws s = q # r0" "parse_string r0 = Some (k, r1)" "skip_ws r1 = d # r2" for q r0 k r1 d r2
    proof -
      show "length r2 < length s"
        using skip_ws_Cons [OF that(1)] parse_string_shorter [OF that(2)] skip_ws_Cons [OF that(3)] by simp
      with a nm show "parse_value n' r2 = parse_value m' r2" by (intro V) simp_all
    qed
    moreover from this(2) have "parse_members n' t = parse_members m' t"
      if "skip_ws s = q # r0" "parse_string r0 = Some (k, r1)" "skip_ws r1 = d # r2"
        "parse_value m' r2 = Some (v, r)" "skip_ws r = c # t" for q r0 k r1 d r2 v r c t
      using that parse_shorter(1) [OF that(4)] skip_ws_Cons [OF that(5)] a nm by (intro M) fastforce+
    ultimately show ?thesis
      unfolding nm parse_members.simps(2) by (auto split: option.splits list.splits)
  qed
  show ?case using val items members by blast
qed

lemma fuel_enough: "2 * length s + 1 \<le> n \<Longrightarrow> parse_value n s = parse_value (2 * length s + 1) s"
  using fuel_steps [of s] by blast

section \<open>Reading back what was printed\<close>

definition number_law :: "(rat \<Rightarrow> string) \<Rightarrow> rat set \<Rightarrow> bool" where
  "number_law num R \<longleftrightarrow> (\<forall>r \<in> R. read_number (num r) = Some r \<and> list_all number_char (num r))"

text \<open>The values the law covers: an object has every key once.\<close>

fun wf_json :: "rat set \<Rightarrow> json \<Rightarrow> bool" where
  "wf_json R (JNum r) \<longleftrightarrow> r \<in> R"
| "wf_json R (JArr vs) \<longleftrightarrow> (\<forall>v \<in> set vs. wf_json R v)"
| "wf_json R (JObj ms) \<longleftrightarrow> distinct (map fst ms) \<and> (\<forall>m \<in> set ms. wf_json R (snd m))"
| "wf_json R v \<longleftrightarrow> True"

definition white :: "string \<Rightarrow> bool" where
  "white w \<longleftrightarrow> list_all json_space w"

definition delimited :: "string \<Rightarrow> bool" where
  "delimited r \<longleftrightarrow> r = [] \<or> \<not> number_char (hd r)"

lemma white_simps [simp]: "white []" "white (c # w) \<longleftrightarrow> json_space c \<and> white w"
    "white (u @ w) \<longleftrightarrow> white u \<and> white w"
  by (auto simp: white_def)

lemma skip_white: "white w \<Longrightarrow> skip_ws (w @ s) = skip_ws s"
  by (induction w) (auto simp: skip_ws_def)

lemma skip_word: "\<not> json_space c \<Longrightarrow> skip_ws (c # s) = c # s"
  by (simp add: skip_ws_def)

lemma newline_space [simp]: "json_space newline"
  by (simp add: newline_def json_space_def)

lemma gap_lead_white: "white indent \<Longrightarrow> white (gap_lead gap indent)"
  by (simp add: gap_lead_def)

lemma read_escape: "parse_string (json_escape c @ s) = prepend [c] (parse_string s)"
proof -
  have ascii: "char_of (of_char c :: nat) = c" by simp
  have hex: "hex_of (hex_digit n) = Some n" if "n < 16" for n
  proof -
    from that have "n \<in> {0,1,2,3,4,5,6,7,8,9,10,11,12,13,14,15}"
      unfolding insert_iff empty_iff by arith
    then show ?thesis by (auto simp: hex_of_def hex_digit_def is_digit_def Let_def)
  qed
  consider "c = CHR 0x22" | "c = CHR 0x5C" | "c = CHR 0x08" | "c = CHR 0x0C" | "c = CHR 0x0A"
    | "c = CHR 0x0D" | "c = CHR 0x09"
    | "c \<notin> {CHR 0x22, CHR 0x5C, CHR 0x08, CHR 0x0C, CHR 0x0A, CHR 0x0D, CHR 0x09}" by blast
  then show ?thesis
  proof cases
    case 8
    show ?thesis
    proof (cases "of_char c < (32 :: nat)")
      case True
      define m :: nat where "m = of_char c"
      have m: "m < 32" "char_of m = c" using True ascii by (simp_all add: m_def)
      have "m div 16 < 16" "m mod 16 < 16" using m by simp_all
      note digits = hex [OF this(1)] hex [OF this(2)]
      have zero: "hex_of CHR ''0'' = Some 0" by (simp add: hex_of_def is_digit_def Let_def)
      have "hex4 (CHR ''0'' # CHR ''0'' # hex_digit (m div 16) # hex_digit (m mod 16) # s) = Some m"
        by (simp add: hex4_def digits zero)
      then have "unicode_escape (CHR ''0'' # CHR ''0'' # hex_digit (m div 16) # hex_digit (m mod 16) # s) = Some (m, 4)"
        using m(1) by (auto simp: unicode_escape_def split: list.splits)
      moreover have "utf8 m = [c]" using m by (simp add: utf8_def)
      ultimately show ?thesis using 8 True by (simp add: json_escape_def m_def [symmetric])
    qed (use 8 in \<open>simp add: json_escape_def\<close>)
  qed (simp_all add: json_escape_def simple_escape_def)
qed

lemma read_quoted: "parse_string (concat (map json_escape s) @ CHR 0x22 # r) = Some (s, r)"
proof (induction s)
  case (Cons c s)
  then show ?case by (simp add: read_escape prepend_def)
qed simp

lemma takeWhile_delimited:
  "list_all P s \<Longrightarrow> r = [] \<or> \<not> P (hd r) \<Longrightarrow> takeWhile P (s @ r) = s \<and> dropWhile P (s @ r) = r"
  by (induction s) (cases r; auto)+

lemma read_printed_number:
  assumes "number_law num R" "x \<in> R" "delimited r"
  shows "\<exists>c t. num x = c # t \<and> number_char c" "parse_scalar (num x @ r) = Some (JNum x, r)"
proof -
  have num: "read_number (num x) = Some x" "list_all number_char (num x)"
    using assms by (simp_all add: number_law_def)
  then show first: "\<exists>c t. num x = c # t \<and> number_char c"
    using read_number_nonempty [of "num x"] by (cases "num x") auto
  then have "\<not> starts_with (num x @ r) ''null''" "\<not> starts_with (num x @ r) ''true''"
    "\<not> starts_with (num x @ r) ''false''"
    by (auto simp: starts_with_def number_char_def is_digit_def)
  moreover have "takeWhile number_char (num x @ r) = num x" "dropWhile number_char (num x @ r) = r"
    using takeWhile_delimited [of number_char "num x" r] num(2) assms(3) by (auto simp: delimited_def)
  ultimately show "parse_scalar (num x @ r) = Some (JNum x, r)"
    using num(1) by (simp add: parse_scalar_def)
qed

text \<open>With enough fuel, after any white space, the value is read and the rest is left.\<close>

definition reads :: "string \<Rightarrow> json \<Rightarrow> bool" where
  "reads s v \<longleftrightarrow> (\<forall>r. delimited r \<longrightarrow>
     (\<exists>n0. \<forall>n \<ge> n0. \<forall>w. white w \<longrightarrow> parse_value n (w @ s @ r) = Some (v, r)))"

lemma readsD:
  assumes "reads s v" "delimited r"
  obtains n0 where "\<And>n w. n \<ge> n0 \<Longrightarrow> white w \<Longrightarrow> parse_value n (w @ s @ r) = Some (v, r)"
  using assms unfolding reads_def by metis

lemma delimited_simps [simp]: "delimited (CHR '','' # r)" "delimited (CHR '']'' # r)" "delimited (CHR ''}'' # r)"
    "delimited []" "white w \<Longrightarrow> delimited r \<Longrightarrow> delimited (w @ r)"
  by (cases w; auto simp: delimited_def number_char_def is_digit_def json_space_def)+

lemma enough_step:
  assumes "\<And>n w. n \<ge> n0 \<Longrightarrow> white w \<Longrightarrow> p (Suc n) w = y"
  shows "\<exists>n0. \<forall>n \<ge> n0. \<forall>w. white w \<longrightarrow> p n w = y"
proof (intro exI allI impI)
  fix n :: nat and w assume "Suc n0 \<le> n" "white w"
  then show "p n w = y" using assms [of "n - 1" w] by simp
qed

lemma reads_items:
  assumes "vs \<noteq> []" "\<forall>v \<in> set vs. reads (f v) v" "white lead" "white trail"
  shows "\<exists>n0. \<forall>n \<ge> n0. \<forall>w. white w \<longrightarrow>
    parse_items n (w @ join (CHR '','' # lead) (map f vs) @ trail @ CHR '']'' # r) = Some (vs, r)"
  using assms(1,2)
proof (induction vs rule: list_nonempty_induct)
  case (single v)
  then obtain n0 where
    "\<And>n w. n \<ge> n0 \<Longrightarrow> white w \<Longrightarrow> parse_value n (w @ f v @ trail @ CHR '']'' # r) = Some (v, trail @ CHR '']'' # r)"
    using assms(4) by (auto elim!: readsD [where r = "trail @ CHR '']'' # r"])
  then have "parse_items (Suc n) (w @ f v @ trail @ CHR '']'' # r) = Some ([v], r)" if "n \<ge> n0" "white w" for n w
    using that assms(4) by (simp add: skip_white skip_word json_space_def)
  then show ?case by (intro enough_step [of n0]) (simp del: parse_items.simps)
next
  case (cons v vs)
  let ?rest = "lead @ join (CHR '','' # lead) (map f vs) @ trail @ CHR '']'' # r"
  from cons obtain n1 where n1: "\<And>n w. n \<ge> n1 \<Longrightarrow> white w \<Longrightarrow> parse_items n (w @ join (CHR '','' # lead) (map f vs) @ trail @ CHR '']'' # r) = Some (vs, r)"
    by auto
  from cons obtain n0 where
    n0: "\<And>n w. n \<ge> n0 \<Longrightarrow> white w \<Longrightarrow> parse_value n (w @ f v @ CHR '','' # ?rest) = Some (v, CHR '','' # ?rest)"
    by (auto elim!: readsD [where r = "CHR '','' # ?rest"])
  obtain u us where vs: "vs = u # us" using cons.hyps by (cases vs) auto
  have "parse_items (Suc n) (w @ join (CHR '','' # lead) (map f (v # vs)) @ trail @ CHR '']'' # r) = Some (v # vs, r)"
    if "n \<ge> max n0 n1" "white w" for n w
    using n0 [of n w] n1 [of n lead] that assms(3) by (simp add: vs skip_word json_space_def)
  then show ?case by (intro enough_step [of "max n0 n1"]) (simp del: parse_items.simps)
qed

lemma reads_members:
  assumes "ms \<noteq> []" "\<forall>m \<in> set ms. reads (f (snd m)) (snd m)" "white lead" "white trail" "white space"
  shows "\<exists>n0. \<forall>n \<ge> n0. \<forall>w. white w \<longrightarrow>
    parse_members n (w @ join (CHR '','' # lead) (map (\<lambda>(k, v). json_quote k @ (CHR '':'' # space) @ f v) ms) @
      trail @ CHR ''}'' # r) = Some (ms, r)"
  using assms(1,2)
proof (induction ms rule: list_nonempty_induct)
  case (single m)
  obtain k v where m: "m = (k, v)" by (cases m)
  with single obtain n0 where
    "\<And>n w. n \<ge> n0 \<Longrightarrow> white w \<Longrightarrow> parse_value n (w @ f v @ trail @ CHR ''}'' # r) = Some (v, trail @ CHR ''}'' # r)"
    using assms(4) by (auto elim!: readsD [where r = "trail @ CHR ''}'' # r"])
  then have "parse_members (Suc n) (w @ json_quote k @ (CHR '':'' # space) @ f v @ trail @ CHR ''}'' # r) = Some ([m], r)"
    if "n \<ge> n0" "white w" for n w
    using that assms(4,5) by (simp add: m json_quote_def read_quoted skip_white skip_word json_space_def)
  then show ?case by (intro enough_step [of n0]) (simp add: m del: parse_members.simps)
next
  case (cons m ms)
  obtain k v where m: "m = (k, v)" by (cases m)
  let ?text = "join (CHR '','' # lead) (map (\<lambda>(k, v). json_quote k @ (CHR '':'' # space) @ f v) ms) @ trail @ CHR ''}'' # r"
  from cons obtain n1 where n1: "\<And>n w. n \<ge> n1 \<Longrightarrow> white w \<Longrightarrow> parse_members n (w @ ?text) = Some (ms, r)"
    by auto
  have "reads (f v) v" using cons m by simp
  then obtain n0 where
    n0: "\<And>n w. n \<ge> n0 \<Longrightarrow> white w \<Longrightarrow> parse_value n (w @ f v @ CHR '','' # lead @ ?text) = Some (v, CHR '','' # lead @ ?text)"
    by (rule readsD [of _ _ "CHR '','' # lead @ ?text"]) (rule delimited_simps, blast)
  obtain u us where ms: "ms = u # us" using cons.hyps by (cases ms) auto
  have "parse_members (Suc n) (w @ json_quote k @ (CHR '':'' # space) @ f v @ CHR '','' # lead @ ?text) = Some (m # ms, r)"
    if "n \<ge> max n0 n1" "white w" for n w
    using n0 [of n space] n1 [of n lead] that assms(3,5)
    by (simp add: m json_quote_def read_quoted skip_white skip_word json_space_def)
  then show ?case by (intro enough_step [of "max n0 n1"]) (simp add: m ms del: parse_members.simps)
qed

lemma parse_items_first:
  "parse_items n s = Some (vs, r) \<Longrightarrow> skip_ws s \<noteq> [] \<and> hd (skip_ws s) \<noteq> CHR '']''"
proof -
  assume a: "parse_items n s = Some (vs, r)"
  then obtain m where m: "n = Suc m" by (cases n) auto
  with a obtain v t where v: "parse_value m s = Some (v, t)" by (auto split: option.splits)
  then obtain k where k: "m = Suc k" by (cases m) auto
  have "parse_scalar (CHR '']'' # x) = None" for x
    by (simp add: parse_scalar_def starts_with_def number_char_def is_digit_def read_number_def)
  with v show ?thesis by (auto simp: k split: list.splits)
qed

lemma parse_members_first:
  "parse_members n s = Some (ms, r) \<Longrightarrow> skip_ws s \<noteq> [] \<and> hd (skip_ws s) \<noteq> CHR ''}''"
  by (cases n) (auto split: list.splits if_splits)

lemma reads_serialize:
  assumes "number_law num R" "white gap"
  shows "wf_json R v \<Longrightarrow> white indent \<Longrightarrow> reads (serialize num gap indent v) v"
proof (induction v arbitrary: indent)
  case (JNum x)
  show ?case unfolding reads_def
  proof (intro allI impI enough_step [of 0])
    fix r n w assume "delimited r" "white w"
    with read_printed_number [OF assms(1) _ \<open>delimited r\<close>, of x] JNum obtain c t where
      ct: "num x = c # t" "number_char c" "parse_scalar (c # t @ r) = Some (JNum x, r)" by auto
    then have "\<not> json_space c" "c \<noteq> CHR 0x22" "c \<noteq> CHR ''[''" "c \<noteq> CHR ''{''"
      by (auto simp: number_char_def is_digit_def json_space_def)
    with ct \<open>white w\<close> show "parse_value (Suc n) (w @ serialize num gap indent (JNum x) @ r) = Some (JNum x, r)"
      by (simp add: skip_white skip_word)
  qed
next
  case (JStr s)
  show ?case unfolding reads_def
    by (intro allI impI enough_step [of 0])
      (simp add: skip_white skip_word json_space_def json_quote_def read_quoted)
next
  case (JArr vs)
  let ?step = "indent @ gap"
  have all: "\<forall>v \<in> set vs. reads (serialize num gap ?step v) v"
    using JArr assms(2) by simp
  have white: "white (gap_lead gap ?step)" "white (gap_lead gap indent)"
    using JArr assms(2) by (simp_all add: gap_lead_white)
  show ?case
  proof (cases "vs = []")
    case True
    show ?thesis unfolding reads_def
      by (intro allI impI enough_step [of 0]) (simp add: True skip_white skip_word json_space_def)
  next
    case False
    show ?thesis unfolding reads_def
    proof (intro allI impI)
      fix r assume "delimited r"
      let ?parts = "map (serialize num gap ?step) vs"
      let ?body = "join (CHR '','' # gap_lead gap ?step) ?parts @ gap_lead gap indent @ CHR '']'' # r"
      from reads_items [OF False all white, of r] obtain n0 where
        n0: "\<And>n w. n \<ge> n0 \<Longrightarrow> white w \<Longrightarrow> parse_items n (w @ ?body) = Some (vs, r)" by metis
      have "skip_ws ?body = [] \<or> hd (skip_ws ?body) \<noteq> CHR '']''"
        using parse_items_first [of n0 ?body vs r] n0 [of n0 "[]"] by simp
      then show "\<exists>n0. \<forall>n \<ge> n0. \<forall>w. white w \<longrightarrow>
          parse_value n (w @ serialize num gap indent (JArr vs) @ r) = Some (JArr vs, r)"
        using False white n0 [of _ "gap_lead gap ?step"]
        by (intro enough_step [of n0])
          (auto simp: skip_white skip_word json_space_def items_text_def)
    qed
  qed
next
  case (JObj ms)
  let ?step = "indent @ gap"
  have all: "\<forall>m \<in> set ms. reads (serialize num gap ?step (snd m)) (snd m)"
    using JObj assms(2) by (auto simp: snds.simps)
  have white: "white (gap_lead gap ?step)" "white (gap_lead gap indent)"
    using JObj assms(2) by (simp_all add: gap_lead_white)
  obtain space where colon: "colon_text gap = CHR '':'' # space" "white space"
    by (cases "gap = []") (simp_all add: colon_text_def json_space_def)
  show ?case
  proof (cases "ms = []")
    case True
    show ?thesis unfolding reads_def
      by (intro allI impI enough_step [of 0]) (simp add: True skip_white skip_word json_space_def)
  next
    case False
    show ?thesis unfolding reads_def
    proof (intro allI impI)
      fix r assume "delimited r"
      let ?parts = "map (\<lambda>(k, v). json_quote k @ (CHR '':'' # space) @ serialize num gap ?step v) ms"
      let ?body = "join (CHR '','' # gap_lead gap ?step) ?parts @ gap_lead gap indent @ CHR ''}'' # r"
      from reads_members [OF False all white colon(2), of r] obtain n0 where
        n0: "\<And>n w. n \<ge> n0 \<Longrightarrow> white w \<Longrightarrow> parse_members n (w @ ?body) = Some (ms, r)" by metis
      have "skip_ws ?body = [] \<or> hd (skip_ws ?body) \<noteq> CHR ''}''"
        using parse_members_first [of n0 ?body ms r] n0 [of n0 "[]"] by simp
      then show "\<exists>n0. \<forall>n \<ge> n0. \<forall>w. white w \<longrightarrow>
          parse_value n (w @ serialize num gap indent (JObj ms) @ r) = Some (JObj ms, r)"
        using False white n0 [of _ "gap_lead gap ?step"] JObj.prems(1)
        by (intro enough_step [of n0])
          (auto simp: skip_white skip_word json_space_def items_text_def colon from_entries_distinct)
    qed
  qed
next
  case JNull
  show ?case unfolding reads_def
    by (intro allI impI enough_step [of 0])
      (simp add: skip_white skip_word json_space_def parse_scalar_def starts_with_def)
next
  case (JBool b)
  show ?case unfolding reads_def
    by (intro allI impI enough_step [of 0])
      (simp add: skip_white skip_word json_space_def parse_scalar_def starts_with_def)
qed

lemma json_round_trip:
  assumes "number_law num R" and "wf_json R v"
  shows "JSON_parse (JSON_stringify num spaces v) = Some v"
proof -
  let ?s = "JSON_stringify num spaces v"
  have "white (replicate spaces CHR '' '')" by (simp add: white_def list_all_iff json_space_def)
  from reads_serialize [OF assms(1) this assms(2)] have "reads ?s v" by (simp add: JSON_stringify_def)
  from readsD [OF this, of "[]"] obtain n0 where n0: "\<And>n. n \<ge> n0 \<Longrightarrow> parse_value n ?s = Some (v, [])"
    by (metis append_Nil append_Nil2 delimited_simps(4) white_simps(1))
  have "parse_value (n0 + (2 * length ?s + 1)) ?s = parse_value (2 * length ?s + 1) ?s"
    by (rule fuel_enough) simp
  with n0 [of "n0 + (2 * length ?s + 1)"] have "parse_value (2 * length ?s + 1) ?s = Some (v, [])" by simp
  then show ?thesis by (simp add: JSON_parse_def skip_ws_def del: parse_value.simps)
qed

text \<open>The law holds of the decimal text of the whole numbers.\<close>

definition whole_text :: "rat \<Rightarrow> string" where
  "whole_text r = int_text \<lfloor>r\<rfloor>"

lemma nat_text_first: "hd (nat_text n) = CHR ''0'' \<Longrightarrow> n = 0"
proof (induction n rule: nat_text.induct)
  case (1 n)
  show ?case
  proof (cases "n < 10")
    case True
    with 1 have "of_char (digit_char n) = (48 :: nat)" by (subst (asm) nat_text.simps) simp
    with True show ?thesis by (simp add: digit_char_props)
  next
    case False
    with 1 have "n div 10 = 0" by (subst (asm) (2) nat_text.simps) (simp add: nat_text_nonempty)
    with False show ?thesis by simp
  qed
qed

lemma read_number_nat: "read_number (nat_text n) = Some (of_nat n)"
proof -
  have d: "list_all is_digit (nat_text n)" using nat_text_digits [of n] by (simp add: list_all_iff)
  then have all: "takeWhile is_digit (nat_text n) = nat_text n" "dropWhile is_digit (nat_text n) = []"
    by (simp_all add: list_all_iff)
  obtain k where "read_digits 0 (nat_text n) = 0 * 10 ^ k + n" using read_nat_text by blast
  moreover have "\<not> (hd (nat_text n) = CHR ''0'' \<and> length (nat_text n) > 1)"
    using nat_text_first [of n] by (auto simp: nat_text.simps [of 0])
  moreover have "hd (nat_text n) \<noteq> CHR ''-''"
    using d nat_text_nonempty [of n] by (cases "nat_text n") (auto simp: is_digit_def)
  ultimately show ?thesis
    using nat_text_nonempty [of n] d by (simp add: all list_all_iff read_number_def read_exponent_def scale_def Let_def)
qed

lemma read_number_int: "read_number (int_text i) = Some (of_int i)"
proof (cases "i < 0")
  case True
  have d: "list_all is_digit (nat_text (nat (- i)))"
    using nat_text_digits [of "nat (- i)"] by (simp add: list_all_iff)
  have "hd (nat_text (nat (- i))) \<noteq> CHR ''-''"
    using d nat_text_nonempty [of "nat (- i)"] by (cases "nat_text (nat (- i))") (auto simp: is_digit_def)
  with read_number_nat [of "nat (- i)"] have "read_number (CHR ''-'' # nat_text (nat (- i))) = Some (- of_nat (nat (- i)))"
    by (auto simp: read_number_def Let_def split: if_splits option.splits)
  with True show ?thesis by (simp add: int_text_def)
qed (simp add: int_text_def read_number_nat)

lemma whole_law: "number_law whole_text \<int>"
proof -
  have "list_all number_char (int_text i)" for i
    using nat_text_digits [of "nat i"] nat_text_digits [of "nat (- i)"]
    by (auto simp: int_text_def list_all_iff number_char_def)
  then show ?thesis by (auto simp: number_law_def whole_text_def read_number_int elim!: Ints_cases)
qed

end
