(* ===== verification/Json_Payload.thy ===== *)
theory Json_Payload
  imports Json_Value Jsx "HOL-Library.Sublist"
begin

text \<open>
  \<^verbatim>\<open>resources/js/components/payload/json-payload.tsx\<close>, \<^verbatim>\<open>components/code-block.tsx\<close> and
  \<^verbatim>\<open>lib/clipboard.ts\<close>: the view of a job's payload. A string is highlighted by the tokens of a
  regular expression, any other value is shown as a tree of collapsible lines. Colours are part of
  the model, and the one class that decides what is shown (\<open>hidden_class\<close>). The outcomes of the
  browser's clipboard calls are arguments.
\<close>

section \<open>Highlighting\<close>

text \<open>The rest of a string token after its opening quote, and what follows it.\<close>

fun string_body :: "string \<Rightarrow> (string \<times> string) option" where
  "string_body [] = None"
| "string_body (c # s) =
     (if c = CHR 0x22 then Some ([c], s)
      else if c \<noteq> CHR 0x5C then prepend [c] (string_body s)
      else case s of
             [] \<Rightarrow> None
           | e # t \<Rightarrow>
               if e \<noteq> CHR ''u'' then prepend [c, e] (string_body t)
               else if hex4 t = None then None
               else prepend (c # e # take 4 t) (string_body (drop 4 t)))"

definition sign_part :: "string \<Rightarrow> string" where
  "sign_part s = (case s of c # r \<Rightarrow> if c = CHR ''-'' then [c] else [] | [] \<Rightarrow> [])"

definition fraction_part :: "string \<Rightarrow> string" where
  "fraction_part s =
     (case s of
        c # r \<Rightarrow> if c = CHR ''.'' \<and> takeWhile is_digit r \<noteq> [] then c # takeWhile is_digit r else []
      | [] \<Rightarrow> [])"

definition exponent_sign :: "string \<Rightarrow> string" where
  "exponent_sign s = (case s of c # r \<Rightarrow> if c = CHR ''+'' \<or> c = CHR ''-'' then [c] else [] | [] \<Rightarrow> [])"

definition exponent_part :: "string \<Rightarrow> string" where
  "exponent_part s =
     (case s of
        c # r \<Rightarrow>
          let sign = exponent_sign r; digits = takeWhile is_digit (drop (length sign) r)
          in if (c = CHR ''e'' \<or> c = CHR ''E'') \<and> digits \<noteq> [] then c # sign @ digits else []
      | [] \<Rightarrow> [])"

definition number_part :: "string \<Rightarrow> string" where
  "number_part s =
     (let sign = sign_part s;
          whole = takeWhile is_digit (drop (length sign) s);
          fraction = fraction_part (drop (length (sign @ whole)) s)
      in if whole = [] then []
         else sign @ whole @ fraction @ exponent_part (drop (length (sign @ whole @ fraction)) s))"

text \<open>The alternatives of \<open>jsonToken\<close> at the start of the text, in order.\<close>

definition match_token :: "string \<Rightarrow> (string \<times> string) option" where
  "match_token s =
     (case s of
        [] \<Rightarrow> None
      | c # r \<Rightarrow>
          (case (if c = CHR 0x22 then prepend [c] (string_body r) else None) of
             Some m \<Rightarrow> Some m
           | None \<Rightarrow>
               if number_part s \<noteq> [] then Some (number_part s, drop (length (number_part s)) s)
               else if starts_with s ''true'' then Some (''true'', drop 4 s)
               else if starts_with s ''false'' then Some (''false'', drop 5 s)
               else if starts_with s ''null'' then Some (''null'', drop 4 s)
               else if c \<in> set ''{}[],:'' then Some ([c], r) else None))"

definition token_color :: "string \<Rightarrow> string \<Rightarrow> string" where
  "token_color token remainder =
     (if starts_with token [CHR 0x22]
      then if starts_with (dropWhile is_space remainder) '':'' then ''var(--code-key)'' else ''var(--code-string)''
      else if length token = 1 \<and> set token \<subseteq> set ''{}[],:'' then ''var(--code-punctuation)''
      else ''var(--code-number)'')"

definition plain :: "string \<Rightarrow> 'a node list" where
  "plain s = (if s = [] then [] else [Text s])"

definition token_node :: "nat \<Rightarrow> string \<Rightarrow> string \<Rightarrow> 'a node" where
  "token_node index token remainder =
     El ''span'' [(''key'', Str (nat_text index @ ''-'' @ token)), (''color'', Str (token_color token remainder))]
       [Text token]"

text \<open>The loop over the matches: \<open>pending\<close> is the text since the last token, \<open>index\<close> the position.\<close>

lemma prefix_more: "prefix p s \<Longrightarrow> prefix q (drop (length p) s) \<Longrightarrow> prefix (p @ q) s"
  by (auto simp: prefix_def)

lemma prefix_takeWhile: "prefix (takeWhile P s) s"
  by (metis prefixI takeWhile_dropWhile_id)

lemma number_part_prefix: "prefix (number_part s) s"
proof -
  have "prefix (sign_part s) s" by (cases s) (auto simp: sign_part_def)
  note sign = this [THEN prefix_more, OF prefix_takeWhile]
  have "prefix (fraction_part s) s" for s
    by (cases s) (auto simp: fraction_part_def prefix_takeWhile)
  moreover have "prefix (exponent_part s) s" for s
  proof (cases s)
    case (Cons c r)
    have "prefix (exponent_sign r) r" by (cases r) (auto simp: exponent_sign_def)
    from prefix_more [OF this prefix_takeWhile] Cons show ?thesis
      by (auto simp: exponent_part_def Let_def)
  qed (simp add: exponent_part_def)
  ultimately have step: "prefix p s \<Longrightarrow> prefix (p @ fraction_part (drop (length p) s)) s"
      "prefix p s \<Longrightarrow> prefix (p @ exponent_part (drop (length p) s)) s" for p s
    by (simp_all add: prefix_more)
  have whole: "prefix (sign_part s @ takeWhile is_digit (drop (length (sign_part s)) s)) s"
    by (rule sign)
  from step(2) [OF step(1) [OF this]] show ?thesis
    by (simp add: number_part_def Let_def del: length_append)
qed

lemma string_body_split: "string_body s = Some (t, r) \<Longrightarrow> s = t @ r"
proof (induction s arbitrary: t rule: string_body.induct)
  case (2 c s)
  consider "c = CHR 0x22" | "c \<noteq> CHR 0x22" "c \<noteq> CHR 0x5C" | e u where "c = CHR 0x5C" "s = e # u"
    using 2 by (cases s) (auto split: if_splits)
  then show ?case
  proof cases
    case 1
    with 2 show ?thesis by simp
  next
    case 2
    with "2.prems" "2.IH"(1) show ?thesis by (auto simp: prepend_Some)
  next
    case 3
    show ?thesis
    proof (cases "e = CHR ''u''")
      case True
      with 3 "2.prems" obtain t' where t': "string_body (drop 4 u) = Some (t', r)" "t = c # e # take 4 u @ t'" "hex4 u \<noteq> None"
        by (auto simp: prepend_Some split: if_splits)
      with "2.IH"(3) [OF _ _ 3(2)] True 3 have "drop 4 u = t' @ r" by simp
      with append_take_drop_id [of 4 u] show ?thesis by (simp add: t' 3 True)
    next
      case False
      with 3 "2.prems" obtain t' where t': "string_body u = Some (t', r)" "t = [c, e] @ t'"
        by (auto simp: prepend_Some)
      with "2.IH"(2) [OF _ _ 3(2) False] 3 show ?thesis by simp
    qed
  qed
qed simp

lemma match_token_split:
  assumes "match_token s = Some (t, r)"
  shows "s = t @ r" "t \<noteq> []"
proof -
  obtain c u where s: "s = c # u" using assms by (cases s) (auto simp: match_token_def)
  have n: "s = number_part s @ drop (length (number_part s)) s"
    using number_part_prefix [of s] by (metis append_eq_conv_conj prefixE)
  have "s = t @ r \<and> t \<noteq> []"
  proof (cases "c = CHR 0x22 \<and> string_body u \<noteq> None")
    case True
    then obtain x where "string_body u = Some (x, r)" "t = c # x"
      using assms by (auto simp: s match_token_def prepend_def)
    with string_body_split [of u] s show ?thesis by auto
  next
    case False
    then have "(if c = CHR 0x22 then prepend [c] (string_body u) else None) = None"
      by (cases "string_body u") (auto simp: prepend_def)
    then have rest: "Some (t, r) = (if number_part s \<noteq> [] then Some (number_part s, drop (length (number_part s)) s)
         else if starts_with s ''true'' then Some (''true'', drop 4 s)
         else if starts_with s ''false'' then Some (''false'', drop 5 s)
         else if starts_with s ''null'' then Some (''null'', drop 4 s)
         else if c \<in> set ''{}[],:'' then Some ([c], u) else None)"
      using assms unfolding match_token_def s by simp
    show ?thesis
    proof (cases "number_part s = []")
      case True
      with rest s show ?thesis
        by (auto simp: starts_with_append split: if_splits)
    next
      case False
      with rest n show ?thesis by auto
    qed
  qed
  then show "s = t @ r" "t \<noteq> []" by simp_all
qed

function highlight_from :: "nat \<Rightarrow> string \<Rightarrow> string \<Rightarrow> 'a node list" where
  "highlight_from index pending s =
     (case s of
        [] \<Rightarrow> plain pending
      | c # r \<Rightarrow>
          (case match_token s of
             None \<Rightarrow> highlight_from (Suc index) (pending @ [c]) r
           | Some (token, remainder) \<Rightarrow>
               plain pending @ token_node index token remainder #
                 highlight_from (index + length token) [] remainder))"
  by pat_completeness auto

termination
proof (relation "measure (\<lambda>(index, pending, s). length s)")
  fix index :: nat and pending s c r m token remainder
  assume "s = c # r" "match_token s = Some m" "(token, remainder) = m"
  then have "s = token @ remainder" "token \<noteq> []" using match_token_split [of s token remainder] by auto
  then show "((index + length token, [], remainder), index, pending, s) \<in> measure (\<lambda>(index, pending, s). length s)"
    by simp
qed auto

declare highlight_from.simps [simp del]

definition highlightedJson :: "string \<Rightarrow> 'a node list" where
  "highlightedJson contents =
     map (\<lambda>(index, n). El ''Fragment'' [(''key'', Count (int index))] [n])
       (enumerate 0 (highlight_from 0 [] contents))"

section \<open>The tree\<close>

datatype json_action = Preserve_toggle_position | Copy_contents

definition JsonPunctuation :: "'a node list \<Rightarrow> 'a node" where
  "JsonPunctuation children = El ''span'' [(''color'', Str ''var(--code-punctuation)'')] children"

definition JsonPropertyName :: "string option \<Rightarrow> 'a node list" where
  "JsonPropertyName v =
     (case v of
        None \<Rightarrow> []
      | Some name \<Rightarrow>
          [El ''span'' [(''color'', Str ''var(--code-key)'')] [Text (json_quote name)],
           JsonPunctuation [Text '': '']])"

definition JsonScalar :: "(rat \<Rightarrow> string) \<Rightarrow> json \<Rightarrow> 'a node" where
  "JsonScalar num v =
     El ''span'' [(''color'', Str (case v of JStr _ \<Rightarrow> ''var(--code-string)'' | _ \<Rightarrow> ''var(--code-number)''))]
       [Text (serialize num [] [] v)]"

definition isContainer :: "json \<Rightarrow> bool" where
  "isContainer v = (case v of JArr _ \<Rightarrow> True | JObj _ \<Rightarrow> True | _ \<Rightarrow> False)"

definition indentation :: "nat \<Rightarrow> string" where
  "indentation depth = concat (replicate depth ''    '')"

definition comma_text :: "bool \<Rightarrow> 'a node list" where
  "comma_text trailingComma = child_if trailingComma [Text '','']"

definition hidden_class :: string where
  "hidden_class = ''group-data-panel-open:hidden''"

definition entry_name :: "bool \<Rightarrow> nat \<Rightarrow> string" where
  "entry_name isArray n =
     (if isArray then (if n = 1 then ''item'' else ''items'')
      else (if n = 1 then ''property'' else ''properties''))"

definition accessible_name :: "string option \<Rightarrow> nat option \<Rightarrow> string" where
  "accessible_name propertyName itemIndex =
     (case propertyName of
        Some name \<Rightarrow> name
      | None \<Rightarrow> (case itemIndex of None \<Rightarrow> ''Root'' | Some i \<Rightarrow> ''Item '' @ nat_text (i + 1)))"

text \<open>A container around the lines of its entries; an empty one is a single line.\<close>

definition json_container ::
  "bool \<Rightarrow> nat \<Rightarrow> nat \<Rightarrow> string option \<Rightarrow> nat option \<Rightarrow> bool \<Rightarrow> json_action node list \<Rightarrow> json_action node" where
  "json_container isArray n depth propertyName itemIndex trailingComma entries =
     (let opening = (if isArray then ''['' else ''{''); closing = (if isArray then '']'' else ''}'')
      in if n = 0 then
           El ''span'' []
             (Text (indentation depth) # JsonPropertyName propertyName @
              [JsonPunctuation ([Text opening, Text closing] @ comma_text trailingComma)])
         else
           El ''Collapsible'' [(''defaultOpen'', Flag True), (''onOpenChange'', On Preserve_toggle_position)]
             [El ''span'' []
                [Text (indentation depth),
                 El ''CollapsibleTrigger''
                   [(''aria-label'', Str (accessible_name propertyName itemIndex @ '' '' @
                      (if isArray then ''array'' else ''object'') @ '', '' @ nat_text n @ '' '' @ entry_name isArray n))]
                   (JsonPropertyName propertyName @
                    [JsonPunctuation [Text opening],
                     El ''span'' [(''className'', Str hidden_class)]
                       [JsonPunctuation ([Text ellipsis, Text closing] @ comma_text trailingComma),
                        El ''span'' [] [Text (nat_text n), Text '' '', Text (entry_name isArray n)]]])],
              El ''CollapsibleContent'' [(''keepMounted'', Flag True)]
                (entries @
                 [El ''span'' []
                    [Text (indentation depth),
                     JsonPunctuation (Text closing # comma_text trailingComma)]])])"

text \<open>The entries of a container at their positions, the last one without a comma.\<close>

fun JsonNode ::
  "(rat \<Rightarrow> string) \<Rightarrow> json \<Rightarrow> nat \<Rightarrow> string option \<Rightarrow> nat option \<Rightarrow> bool \<Rightarrow> json_action node"
  and JsonItems :: "(rat \<Rightarrow> string) \<Rightarrow> json list \<Rightarrow> nat \<Rightarrow> nat \<Rightarrow> json_action node list"
  and JsonMembers :: "(rat \<Rightarrow> string) \<Rightarrow> (string \<times> json) list \<Rightarrow> nat \<Rightarrow> json_action node list" where
  "JsonNode num (JArr vs) depth propertyName itemIndex trailingComma =
     json_container True (length vs) depth propertyName itemIndex trailingComma (JsonItems num vs 0 (Suc depth))"
| "JsonNode num (JObj ms) depth propertyName itemIndex trailingComma =
     json_container False (length ms) depth propertyName itemIndex trailingComma (JsonMembers num ms (Suc depth))"
| "JsonNode num v depth propertyName itemIndex trailingComma =
     El ''span'' []
       (Text (indentation depth) # JsonPropertyName propertyName @ [JsonScalar num v] @
        child_if trailingComma [JsonPunctuation [Text '','']])"
| "JsonItems num [] i depth = []"
| "JsonItems num (v # vs) i depth = JsonNode num v depth None (Some i) (vs \<noteq> []) # JsonItems num vs (Suc i) depth"
| "JsonMembers num [] depth = []"
| "JsonMembers num ((name, v) # ms) depth =
     JsonNode num v depth (Some name) None (ms \<noteq> []) # JsonMembers num ms depth"

text \<open>What an open tree shows: the text of a line without the summary of a closed container, and the lines.\<close>

fun shown :: "'a node \<Rightarrow> string" where
  "shown (Text s) = s"
| "shown (El n ps cs) =
     (if map_of ps ''className'' = Some (Str hidden_class) then [] else concat (map shown cs))"

fun lines_of :: "'a node \<Rightarrow> string list" where
  "lines_of (Text s) = [s]"
| "lines_of (El n ps cs) =
     (if n \<in> {''Collapsible'', ''CollapsibleContent''} then concat (map lines_of cs)
      else [shown (El n ps cs)])"

section \<open>The view\<close>

definition serializeJson :: "(rat \<Rightarrow> string) \<Rightarrow> json option \<Rightarrow> string option" where
  "serializeJson num v =
     (case v of
        None \<Rightarrow> None
      | Some (JStr s) \<Rightarrow> Some s
      | Some j \<Rightarrow> Some (JSON_stringify num 4 j))"

definition CodeBlock :: "string \<Rightarrow> string option \<Rightarrow> json_action node list \<Rightarrow> json_action node" where
  "CodeBlock copyLabel copyValue children =
     El ''div'' []
       (child_if (copyValue \<noteq> None)
          [El ''Tooltip'' []
             [El ''TooltipTrigger'' []
                [El ''Button'' [(''aria-label'', Str (''Copy '' @ copyLabel)), (''onClick'', On Copy_contents)] []],
              text_of ''TooltipContent'' (''Copy '' @ copyLabel)]] @
        [El ''pre'' [] children])"

definition payload_unavailable :: "'a node" where
  "payload_unavailable = text_of ''p'' ''Payload unavailable''"

text \<open>The view, and the text its button copies; \<open>None\<close> when parsing the text again throws.\<close>

definition JsonPayload :: "(rat \<Rightarrow> string) \<Rightarrow> json option \<Rightarrow> string \<Rightarrow> (json_action node \<times> string option) option" where
  "JsonPayload num v copyLabel =
     (if v = None \<or> v = Some JNull then Some (payload_unavailable, None)
      else case serializeJson num v of
             None \<Rightarrow> Some (payload_unavailable, None)
           | Some contents \<Rightarrow>
               (case the v of
                  JStr _ \<Rightarrow> Some (CodeBlock copyLabel (Some contents)
                               [El ''code'' [] (highlightedJson contents)], Some contents)
                | _ \<Rightarrow>
                    (case JSON_parse contents of
                       None \<Rightarrow> None
                     | Some normalizedValue \<Rightarrow>
                         Some (CodeBlock copyLabel (Some contents)
                           [El ''code'' []
                              [JsonNode num normalizedValue 0 None None False, El ''span'' [] []]], Some contents))))"

section \<open>Keeping the toggled line in place\<close>

text \<open>
  A toggle remembers where the window is and asks for one frame, replacing a frame it asked for
  before. The frame gives the spacer the height that lets the window stay where it was. The
  browser's pending frames are \<open>frames\<close>, its next handle \<open>next_frame\<close>; heights are rationals.
\<close>

record payload_view =
  pendingFrame :: "nat option"
  pendingTrigger :: "nat option"
  pendingScroll :: "rat \<times> rat"
  frames :: "nat list"
  next_frame :: nat
  spacer_height :: rat
  scroll_position :: "rat \<times> rat"

definition mounted_view :: payload_view where
  "mounted_view = \<lparr>pendingFrame = None, pendingTrigger = None, pendingScroll = (0, 0), frames = [],
     next_frame = 1, spacer_height = 0, scroll_position = (0, 0)\<rparr>"

definition preserveTogglePosition :: "nat \<Rightarrow> rat \<times> rat \<Rightarrow> payload_view \<Rightarrow> payload_view" where
  "preserveTogglePosition trigger scroll v =
     (let kept = (case pendingFrame v of None \<Rightarrow> frames v | Some f \<Rightarrow> set_delete f (frames v))
      in v\<lparr>pendingTrigger := Some trigger, pendingScroll := scroll,
          frames := kept @ [next_frame v], pendingFrame := Some (next_frame v), next_frame := next_frame v + 1\<rparr>)"

text \<open>What the frame finds in the document: \<open>content\<close> is the height without the spacer.\<close>

record scroll_env =
  trigger_connected :: bool
  has_spacer :: bool
  has_scroller :: bool
  content_height :: rat
  client_height :: rat

definition required_height :: "scroll_env \<Rightarrow> rat \<Rightarrow> rat" where
  "required_height e scrollTop = of_int \<lceil>max 0 (scrollTop + client_height e - content_height e)\<rceil>"

definition run_frame :: "scroll_env \<Rightarrow> nat \<Rightarrow> payload_view \<Rightarrow> payload_view" where
  "run_frame e f v =
     (if f \<notin> set (frames v) then v
      else let w = v\<lparr>frames := set_delete f (frames v), pendingFrame := None\<rparr>
           in if pendingTrigger w = None \<or> \<not> has_spacer e \<or> \<not> has_scroller e \<or> \<not> trigger_connected e then w
              else w\<lparr>spacer_height := required_height e (snd (pendingScroll w)),
                     scroll_position := pendingScroll w\<rparr>)"

datatype view_event = Toggled nat "rat \<times> rat" | Frame scroll_env nat

fun view_step :: "view_event \<Rightarrow> payload_view \<Rightarrow> payload_view" where
  "view_step (Toggled trigger scroll) v = preserveTogglePosition trigger scroll v"
| "view_step (Frame e f) v = run_frame e f v"

section \<open>The clipboard\<close>

text \<open>
  \<open>write_outcome\<close>: no Clipboard API, or whether its write succeeds; \<open>exec_outcome\<close>: what
  \<open>execCommand\<close> answers, \<open>None\<close> when appending, selecting or copying throws.
\<close>

record clipboard =
  write_outcome :: "bool option"
  exec_outcome :: "bool option"
  active_element :: "nat option"
  element_connected :: bool
  helper_inputs :: nat
  written :: "string option"
  focused :: "nat option"

definition copyToClipboard :: "string \<Rightarrow> clipboard \<Rightarrow> bool \<times> clipboard" where
  "copyToClipboard s c =
     (if write_outcome c = Some True then (True, c\<lparr>written := Some s\<rparr>)
      else let previous = active_element c;
               c1 = c\<lparr>helper_inputs := helper_inputs c + 1, focused := None\<rparr>;
               answer = (case exec_outcome c of None \<Rightarrow> False | Some b \<Rightarrow> b);
               c2 = (if answer then c1\<lparr>written := Some s\<rparr> else c1);
               c3 = c2\<lparr>helper_inputs := helper_inputs c2 - 1\<rparr>
           in (answer, if previous \<noteq> None \<and> element_connected c then c3\<lparr>focused := previous\<rparr> else c3))"

definition copy_contents :: "string option \<Rightarrow> clipboard \<times> string list \<Rightarrow> clipboard \<times> string list" where
  "copy_contents copyValue s =
     (case copyValue of
        None \<Rightarrow> s
      | Some contents \<Rightarrow>
          (let (ok, c) = copyToClipboard contents (fst s)
           in (c, snd s @ [if ok then ''Copied to clipboard.'' else ''Content could not be copied.''])))"

section \<open>Properties of the highlighting\<close>

lemma node_text_plain: "concat (map node_text (plain s)) = s"
  by (simp add: plain_def)

lemma highlight_text: "concat (map node_text (highlight_from index pending s :: 'a node list)) = pending @ s"
proof (induction index pending s rule: highlight_from.induct)
  case (1 index pending s)
  show ?case
  proof (cases s)
    case (Cons c r)
    show ?thesis
    proof (cases "match_token s")
      case None
      with 1(1) Cons show ?thesis by (subst highlight_from.simps) simp
    next
      case (Some m)
      obtain token remainder where m: "m = (token, remainder)" by (cases m)
      have split: "s = token @ remainder" using match_token_split(1) [of s token remainder] Some m by simp
      have "(highlight_from index pending s :: 'a node list) = plain pending @ token_node index token remainder #
          highlight_from (index + length token) [] remainder"
        using Some m by (subst highlight_from.simps) (simp add: Cons)
      with 1(2) [OF Cons Some m [symmetric]] have
        "concat (map node_text (highlight_from index pending s :: 'a node list)) = pending @ token @ remainder"
        by (simp add: node_text_plain token_node_def)
      then show ?thesis by (simp add: split)
    qed
  qed (subst highlight_from.simps, simp add: node_text_plain)
qed

lemma node_text_fragments:
  "concat (map node_text (map (\<lambda>(index, n). El ''Fragment'' [(''key'', Count (int index))] [n]) (enumerate i ns))) =
     concat (map node_text ns)"
  by (induction ns arbitrary: i) simp_all

section \<open>Properties of the tree\<close>

lemma lines_property: "concat (map shown (JsonPropertyName p)) = (case p of None \<Rightarrow> [] | Some k \<Rightarrow> json_quote k @ '': '')"
  by (simp add: JsonPropertyName_def JsonPunctuation_def split: option.splits)

lemma shown_comma: "concat (map shown (comma_text b)) = (if b then '','' else [])"
  by (simp add: comma_text_def)

text \<open>The text of a node in the serialized form.\<close>

definition node_line :: "nat \<Rightarrow> string option \<Rightarrow> string \<Rightarrow> bool \<Rightarrow> string" where
  "node_line depth p body trailingComma =
     indentation depth @ (case p of None \<Rightarrow> [] | Some k \<Rightarrow> json_quote k @ '': '') @ body @
     (if trailingComma then '','' else [])"

lemma join_append: "xs \<noteq> [] \<Longrightarrow> ys \<noteq> [] \<Longrightarrow> join s (xs @ ys) = join s xs @ s @ join s ys"
proof (induction xs rule: list_nonempty_induct)
  case (single x)
  then show ?case by (cases ys) simp_all
next
  case (cons x xs)
  then show ?case by (cases xs) simp_all
qed

lemma lines_nonempty: "lines_of (JsonNode num v depth p i c) \<noteq> []"
  by (cases v) (auto simp: json_container_def Let_def)

lemma join_concat: "\<forall>xs \<in> set xss. xs \<noteq> [] \<Longrightarrow> join s (concat xss) = join s (map (join s) xss)"
proof (induction xss)
  case (Cons xs xss)
  then show ?case by (cases xss) (simp_all add: join_append)
qed simp

lemma indentation_Suc: "indentation (Suc depth) = indentation depth @ replicate 4 CHR '' ''"
proof -
  have "replicate n x @ [x] = x # replicate n x" for n and x :: string
    by (metis replicate_append_same)
  then show ?thesis
    unfolding indentation_def by (induction depth) (simp_all add: numeral_eq_Suc)
qed

text \<open>The serialized form with the indentation of a depth.\<close>

definition pretty :: "(rat \<Rightarrow> string) \<Rightarrow> nat \<Rightarrow> json \<Rightarrow> string" where
  "pretty num depth v = serialize num (replicate 4 CHR '' '') (indentation depth) v"

definition reads_as :: "(rat \<Rightarrow> string) \<Rightarrow> json \<Rightarrow> bool" where
  "reads_as num v \<longleftrightarrow> (\<forall>depth p i c.
     join [newline] (lines_of (JsonNode num v depth p i c)) = node_line depth p (pretty num depth v) c)"

lemma lines_items:
  assumes "vs \<noteq> []" "\<forall>v \<in> set vs. reads_as num v"
  shows "join [newline] (concat (map lines_of (JsonItems num vs i depth))) =
    indentation depth @ join (CHR '','' # newline # indentation depth) (map (pretty num depth) vs)"
  using assms
proof (induction vs arbitrary: i rule: list_nonempty_induct)
  case (single v)
  then show ?case by (simp add: reads_as_def node_line_def)
next
  case (cons v vs)
  have "concat (map lines_of (JsonItems num vs (Suc i) depth)) \<noteq> []"
    using cons.hyps lines_nonempty by (cases vs) auto
  moreover have "join (CHR '','' # newline # indentation depth) (pretty num depth v # map (pretty num depth) vs) =
      pretty num depth v @ '','' @ newline # indentation depth @
        join (CHR '','' # newline # indentation depth) (map (pretty num depth) vs)"
    using cons.hyps by (cases vs) simp_all
  ultimately show ?case
    using cons by (simp add: join_append lines_nonempty reads_as_def node_line_def)
qed

lemma lines_members:
  assumes "ms \<noteq> []" "\<forall>m \<in> set ms. reads_as num (snd m)"
  shows "join [newline] (concat (map lines_of (JsonMembers num ms depth))) =
    indentation depth @ join (CHR '','' # newline # indentation depth)
      (map (\<lambda>(k, v). json_quote k @ '': '' @ pretty num depth v) ms)"
  using assms
proof (induction ms rule: list_nonempty_induct)
  case (single m)
  then show ?case by (cases m) (simp add: reads_as_def node_line_def)
next
  case (cons m ms)
  obtain k v where m: "m = (k, v)" by (cases m)
  have "concat (map lines_of (JsonMembers num ms depth)) \<noteq> []"
    using cons.hyps lines_nonempty by (cases ms) auto
  moreover have "join (CHR '','' # newline # indentation depth) (x # map f ms) =
      x @ '','' @ newline # indentation depth @ join (CHR '','' # newline # indentation depth) (map f ms)"
    for x and f :: "string \<times> json \<Rightarrow> string"
    using cons.hyps by (cases ms) simp_all
  ultimately show ?case
    using cons by (simp add: m join_append lines_nonempty reads_as_def node_line_def)
qed

lemma lines_container:
  assumes "n > 0" "entries \<noteq> []" "\<forall>e \<in> set entries. lines_of e \<noteq> []"
  shows "join [newline] (lines_of (json_container isArray n depth p i c entries)) =
    node_line depth p ((if isArray then ''['' else ''{'') @ newline #
      join [newline] (concat (map lines_of entries)) @ newline # indentation depth @
      (if isArray then '']'' else ''}'')) c"
proof -
  let ?all = "concat (map lines_of entries)"
  have ne: "?all \<noteq> []" using assms by (cases entries) auto
  have "join [newline] (x # ?all @ [y]) = x @ newline # join [newline] ?all @ newline # y" for x y
    using ne by (simp add: join_append [of "x # ?all", simplified]) (cases ?all; simp)
  then show ?thesis
    using assms(1) by (simp add: json_container_def Let_def node_line_def lines_property shown_comma
        JsonPunctuation_def hidden_class_def split: option.splits)
qed

lemma serialize_pretty: "serialize num (replicate 4 CHR '' '') (indentation depth) = pretty num depth"
  by (simp add: fun_eq_iff pretty_def)

lemma pretty_array:
  "vs \<noteq> [] \<Longrightarrow> pretty num depth (JArr vs) = ''['' @ newline # indentation (Suc depth) @
     join (CHR '','' # newline # indentation (Suc depth)) (map (pretty num (Suc depth)) vs) @
     newline # indentation depth @ '']''"
  unfolding serialize_pretty [symmetric] indentation_Suc
  by (simp add: items_text_def gap_lead_def del: replicate.simps)

lemma pretty_object:
  "ms \<noteq> [] \<Longrightarrow> pretty num depth (JObj ms) = ''{'' @ newline # indentation (Suc depth) @
     join (CHR '','' # newline # indentation (Suc depth))
       (map (\<lambda>(k, v). json_quote k @ '': '' @ pretty num (Suc depth) v) ms) @
     newline # indentation depth @ ''}''"
  unfolding serialize_pretty [symmetric] indentation_Suc
  by (simp add: items_text_def gap_lead_def colon_text_def del: replicate.simps)

lemma items_lines: "n \<in> set (JsonItems num vs i d) \<Longrightarrow> lines_of n \<noteq> []"
  by (induction vs arbitrary: i) (auto simp: lines_nonempty)

lemma members_lines: "n \<in> set (JsonMembers num ms d) \<Longrightarrow> lines_of n \<noteq> []"
  by (induction ms) (auto simp: lines_nonempty)

lemma entries_empty [simp]: "JsonItems num vs i d = [] \<longleftrightarrow> vs = []" "JsonMembers num ms d = [] \<longleftrightarrow> ms = []"
  by (cases vs; simp) (cases ms; auto)

lemma empty_container:
  "lines_of (json_container isArray 0 depth p i c entries) =
     [node_line depth p (if isArray then ''[]'' else ''{}'') c]"
  by (simp add: json_container_def Let_def node_line_def lines_property shown_comma JsonPunctuation_def)

lemma node_reads_as: "reads_as num v"
proof (induction v)
  case (JArr vs)
  show ?case
  proof (cases "vs = []")
    case True
    then show ?thesis by (simp add: reads_as_def empty_container pretty_def)
  next
    case False
    with JArr show ?thesis
      by (simp add: reads_as_def [of _ "JArr vs"] lines_container lines_items items_lines pretty_array)
  qed
next
  case (JObj ms)
  show ?case
  proof (cases "ms = []")
    case True
    then show ?thesis by (simp add: reads_as_def empty_container pretty_def)
  next
    case False
    have "\<forall>m \<in> set ms. reads_as num (snd m)" using JObj by (auto simp: snds.simps)
    with False show ?thesis
      by (simp add: reads_as_def [of _ "JObj ms"] lines_container lines_members members_lines pretty_object)
  qed
qed (simp_all add: reads_as_def node_line_def lines_property JsonScalar_def pretty_def JsonPunctuation_def)

lemma highlight_tokens: "length (concat (map (elements ''span'') (highlight_from i p s))) \<le> length s"
proof (induction i p s rule: highlight_from.induct)
  case (1 index pending s)
  have none: "map (elements ''span'') (plain t) = (if t = [] then [] else [[]])" for t by (simp add: plain_def)
  show ?case
  proof (cases s)
    case (Cons c r)
    show ?thesis
    proof (cases "match_token s")
      case None
      with 1(1) Cons show ?thesis by (subst highlight_from.simps) simp
    next
      case (Some m)
      obtain token remainder where m: "m = (token, remainder)" by (cases m)
      have split: "length s = length token + length remainder" "token \<noteq> []"
        using match_token_split [of s token remainder] Some m by simp_all
      with 1(2) [OF Cons Some m [symmetric]] Some m
      show ?thesis by (subst highlight_from.simps) (cases token; simp add: none Cons token_node_def)
    qed
  qed (subst highlight_from.simps, simp add: none)
qed

lemma elements_fragments:
  "concat (map (elements ''span'')
     (map (\<lambda>(index, n). El ''Fragment'' [(''key'', Count (int index))] [n]) (enumerate i ns))) =
   concat (map (elements ''span'') ns)"
  by (induction ns arbitrary: i) simp_all

section \<open>Claims\<close>

text \<open>
  C32: highlighting never loses or changes a character of a text payload, whatever the text is, and
  the loop over the matches ends: every token it shows is a piece of the text of its own.
\<close>

theorem highlighting_keeps_text:
  "concat (map node_text (highlightedJson contents)) = contents \<and>
   length (concat (map (elements ''span'') (highlightedJson contents))) \<le> length contents"
proof
  show "concat (map node_text (highlightedJson contents)) = contents"
    unfolding highlightedJson_def node_text_fragments highlight_text by simp
  show "length (concat (map (elements ''span'') (highlightedJson contents))) \<le> length contents"
    unfolding highlightedJson_def elements_fragments by (rule highlight_tokens)
qed

text \<open>
  C24: what the open tree shows is what its button copies. For every payload that is no string the
  view is the tree of the payload itself, its lines are the lines of the copied text, and parsing
  the text again never throws.
\<close>

theorem payload_shows_what_it_copies:
  assumes "number_law num R" and "wf_json R v" and "v \<noteq> JNull" and "\<forall>s. v \<noteq> JStr s"
  shows "JsonPayload num (Some v) label =
      Some (CodeBlock label (Some (JSON_stringify num 4 v))
        [El ''code'' [] [JsonNode num v 0 None None False, El ''span'' [] []]], Some (JSON_stringify num 4 v)) \<and>
    join [newline] (lines_of (JsonNode num v 0 None None False)) = JSON_stringify num 4 v"
proof
  show "JsonPayload num (Some v) label =
      Some (CodeBlock label (Some (JSON_stringify num 4 v))
        [El ''code'' [] [JsonNode num v 0 None None False, El ''span'' [] []]], Some (JSON_stringify num 4 v))"
    using assms(3,4) json_round_trip [OF assms(1,2), of 4]
    by (cases v) (simp_all add: JsonPayload_def serializeJson_def)
  show "join [newline] (lines_of (JsonNode num v 0 None None False)) = JSON_stringify num 4 v"
    using node_reads_as [of num v]
    by (simp add: reads_as_def node_line_def pretty_def JSON_stringify_def indentation_def del: replicate_Suc)
qed

theorem payload_shows_what_it_copies_witness:
  "join [newline] (lines_of (JsonNode whole_text
      (JObj [(''id'', JNum 7), (''tags'', JArr [JStr ''a'', JNull]), (''none'', JObj [])]) 0 None None False)) =
   JSON_stringify whole_text 4 (JObj [(''id'', JNum 7), (''tags'', JArr [JStr ''a'', JNull]), (''none'', JObj [])])"
  by (rule payload_shows_what_it_copies [OF whole_law, THEN conjunct2]) simp_all

lemma frames_invariant:
  "\<forall>f \<in> set (frames v). f < next_frame v \<Longrightarrow> frames v = (case pendingFrame v of None \<Rightarrow> [] | Some f \<Rightarrow> [f]) \<Longrightarrow>
   (\<forall>f \<in> set (frames (view_step e v)). f < next_frame (view_step e v)) \<and>
   frames (view_step e v) = (case pendingFrame (view_step e v) of None \<Rightarrow> [] | Some f \<Rightarrow> [f])"
  by (cases e) (auto simp: preserveTogglePosition_def run_frame_def set_delete_def Let_def split: option.splits)

lemma frames_run:
  defines "good v \<equiv> (\<forall>f \<in> set (frames v). f < next_frame v) \<and>
    frames v = (case pendingFrame v of None \<Rightarrow> [] | Some f \<Rightarrow> [f])"
  shows "good (fold view_step events mounted_view)"
proof -
  have "good v \<Longrightarrow> good (fold view_step events v)" for v
  proof (induction events arbitrary: v)
    case (Cons e es)
    then show ?case using frames_invariant [of v e] by (simp add: good_def)
  qed simp
  then show ?thesis by (simp add: good_def mounted_view_def)
qed

text \<open>
  Toggling a container never moves the page. After any history at most one frame is pending,
  the last one asked for; when it runs, the window is put back where it was at the toggle, the
  spacer makes the document just high enough for that, and no higher than needed by a pixel.
\<close>

lemma toggle_keeps_position:
  assumes "trigger_connected e" and "has_spacer e" and "has_scroller e"
  shows "\<exists>f before. before = preserveTogglePosition trigger (x, y) (fold view_step events mounted_view) \<and>
    frames before = [f] \<and>
    (let v = view_step (Frame e f) before; missing = y + client_height e - content_height e
     in frames v = [] \<and> scroll_position v = (x, y) \<and>
        y + client_height e \<le> content_height e + spacer_height v \<and>
        0 \<le> spacer_height v \<and> spacer_height v < max 0 missing + 1)"
proof -
  let ?v = "fold view_step events mounted_view"
  define before where "before = preserveTogglePosition trigger (x, y) ?v"
  have "frames ?v = (case pendingFrame ?v of None \<Rightarrow> [] | Some f \<Rightarrow> [f])"
    using frames_run [of events] by simp
  then have f: "frames before = [next_frame ?v]" "pendingTrigger before = Some trigger"
    "pendingScroll before = (x, y)"
    by (auto simp: before_def preserveTogglePosition_def set_delete_def Let_def split: option.splits)
  have "m \<le> of_int \<lceil>max 0 m\<rceil>" "0 \<le> (of_int \<lceil>max 0 m\<rceil> :: rat)" "of_int \<lceil>max 0 m\<rceil> < max 0 m + 1" for m :: rat
    by linarith+
  from this [of "y + client_height e - content_height e"] f assms(1-3) show ?thesis
    by (intro exI [of _ "next_frame ?v"] exI [of _ before])
      (simp add: run_frame_def Let_def set_delete_def required_height_def before_def [symmetric])
qed



end
