(* ===== verification/Preferences.thy ===== *)
theory Preferences
  imports Json_Value Types_Pages Jsx
begin

text \<open>
  What the browser remembers: the automatic loading preference and the cached navigation counts of
  \<^verbatim>\<open>resources/js/layouts/horizon-layout.tsx\<close>, and the colour scheme of
  \<^verbatim>\<open>hooks/use-color-scheme.tsx\<close> with \<^verbatim>\<open>components/shell/theme-toggle.tsx\<close>. The store is a list of
  keys and texts; using it throws when access is denied, and writing throws when it is full, so an
  operation's answer is \<open>None\<close> when it throws.
\<close>

section \<open>The local storage\<close>

record storage =
  entries :: "(string \<times> string) list"
  access :: bool
  full :: bool

definition getItem :: "string \<Rightarrow> storage \<Rightarrow> string option option" where
  "getItem key st = (if access st then Some (map_of (entries st) key) else None)"

definition setItem :: "string \<Rightarrow> string \<Rightarrow> storage \<Rightarrow> storage option" where
  "setItem key v st =
     (if access st \<and> \<not> full st then Some (st\<lparr>entries := AList.update key v (entries st)\<rparr>) else None)"

definition removeItem :: "string \<Rightarrow> storage \<Rightarrow> storage option" where
  "removeItem key st = (if access st then Some (st\<lparr>entries := AList.delete key (entries st)\<rparr>) else None)"

text \<open>Writing inside a \<open>try\<close> whose handler does nothing.\<close>

definition try_store :: "storage option \<Rightarrow> storage \<Rightarrow> storage" where
  "try_store answer st = (case answer of None \<Rightarrow> st | Some st' \<Rightarrow> st')"

section \<open>Automatic loading\<close>

definition AUTO_LOAD_STORAGE_KEY :: string where
  "AUTO_LOAD_STORAGE_KEY = ''horizonAutoLoadsNewEntries''"

definition storedAutoLoadPreference :: "storage \<Rightarrow> bool" where
  "storedAutoLoadPreference st =
     (case getItem AUTO_LOAD_STORAGE_KEY st of None \<Rightarrow> False | Some v \<Rightarrow> v = Some ''1'')"

definition updateAutoLoad :: "bool \<Rightarrow> bool \<times> storage \<Rightarrow> bool \<times> storage" where
  "updateAutoLoad enabled s =
     (enabled, try_store (setItem AUTO_LOAD_STORAGE_KEY (if enabled then ''1'' else ''0'') (snd s)) (snd s))"

section \<open>Navigation counts\<close>

definition NAVIGATION_COUNTS_STORAGE_KEY :: string where
  "NAVIGATION_COUNTS_STORAGE_KEY = ''horizonNavigationCounts''"

definition NAVIGATION_COUNTS_CACHE_TTL :: rat where
  "NAVIGATION_COUNTS_CACHE_TTL = 5 * 60 * 1000"

definition navigationCountKeys :: "string list" where
  "navigationCountKeys =
     [''instances'', ''monitoring'', ''metrics'', ''queues'', ''batches'', ''pending'', ''completed'',
      ''silenced'', ''failed'']"

definition navigationCountsStorageKey :: "string \<Rightarrow> string" where
  "navigationCountsStorageKey baseUrl = NAVIGATION_COUNTS_STORAGE_KEY @ '':'' @ baseUrl"

definition count_values :: "NavigationCounts \<Rightarrow> rat option list" where
  "count_values c =
     [nc_instances c, nc_monitoring c, nc_metrics c, nc_queues c, nc_batches c, nc_pending c,
      nc_completed c, nc_silenced c, nc_failed c]"

fun count_json :: "rat option \<Rightarrow> json" where
  "count_json None = JNull"
| "count_json (Some r) = JNum r"

definition counts_json :: "NavigationCounts \<Rightarrow> rat \<Rightarrow> json" where
  "counts_json counts expiresAt =
     JObj [(''counts'', JObj (zip navigationCountKeys (map count_json (count_values counts)))),
           (''expiresAt'', JNum expiresAt)]"

text \<open>\<open>typeof count === "number" || count === null\<close>, and the count read under the key.\<close>

fun is_count :: "json option \<Rightarrow> bool" where
  "is_count (Some (JNum r)) = True"
| "is_count (Some JNull) = True"
| "is_count v = False"

fun read_count :: "json option \<Rightarrow> rat option" where
  "read_count (Some (JNum r)) = Some r"
| "read_count v = None"

text \<open>The members of an object; an array has none of the names that are read.\<close>

fun object_members :: "json \<Rightarrow> (string \<times> json) list" where
  "object_members (JObj ms) = ms"
| "object_members v = []"

definition is_object :: "json \<Rightarrow> bool" where
  "is_object v = (case v of JObj _ \<Rightarrow> True | JArr _ \<Rightarrow> True | JNull \<Rightarrow> False | _ \<Rightarrow> False)"

definition isStoredNavigationCounts :: "json \<Rightarrow> bool" where
  "isStoredNavigationCounts v =
     (is_object v \<and>
      (case map_of (object_members v) ''expiresAt'' of Some (JNum _) \<Rightarrow> True | _ \<Rightarrow> False) \<and>
      (case map_of (object_members v) ''counts'' of
         Some counts \<Rightarrow>
           is_object counts \<and>
           list_all (\<lambda>key. is_count (map_of (object_members counts) key)) navigationCountKeys
       | None \<Rightarrow> False))"

definition parsed_counts :: "json \<Rightarrow> NavigationCounts" where
  "parsed_counts v =
     (let ms = (case map_of (object_members v) ''counts'' of Some c \<Rightarrow> object_members c | None \<Rightarrow> []);
          count = (\<lambda>key. read_count (map_of ms key))
      in \<lparr>nc_instances = count ''instances'', nc_monitoring = count ''monitoring'',
          nc_metrics = count ''metrics'', nc_queues = count ''queues'', nc_batches = count ''batches'',
          nc_pending = count ''pending'', nc_completed = count ''completed'',
          nc_silenced = count ''silenced'', nc_failed = count ''failed''\<rparr>)"

definition parsed_expiry :: "json \<Rightarrow> rat" where
  "parsed_expiry v = (case map_of (object_members v) ''expiresAt'' of Some (JNum r) \<Rightarrow> r | _ \<Rightarrow> 0)"

definition storedNavigationCounts :: "string \<Rightarrow> rat \<Rightarrow> storage \<Rightarrow> NavigationCounts option \<times> storage" where
  "storedNavigationCounts baseUrl now st =
     (let key = navigationCountsStorageKey baseUrl
      in case getItem key st of
           None \<Rightarrow> (None, st)
         | Some None \<Rightarrow> (None, st)
         | Some (Some cached) \<Rightarrow>
             (case JSON_parse cached of
                None \<Rightarrow> (None, st)
              | Some parsed \<Rightarrow>
                  if \<not> isStoredNavigationCounts parsed \<or> parsed_expiry parsed \<le> now
                  then (None, try_store (removeItem key st) st)
                  else (Some (parsed_counts parsed), st)))"

definition storeNavigationCounts ::
  "(rat \<Rightarrow> string) \<Rightarrow> string \<Rightarrow> NavigationCounts \<Rightarrow> rat \<Rightarrow> storage \<Rightarrow> storage" where
  "storeNavigationCounts num baseUrl counts now st =
     try_store (setItem (navigationCountsStorageKey baseUrl)
       (JSON_stringify num 0 (counts_json counts (now + NAVIGATION_COUNTS_CACHE_TTL))) st) st"

section \<open>The colour scheme\<close>

datatype ColorScheme = System | Dark | Light

fun scheme_text :: "ColorScheme \<Rightarrow> string" where
  "scheme_text System = ''system''"
| "scheme_text Dark = ''dark''"
| "scheme_text Light = ''light''"

definition scheme_key :: string where
  "scheme_key = ''horizonColorScheme''"

definition schemes :: "ColorScheme list" where
  "schemes = [System, Dark, Light]"

definition storedScheme :: "storage \<Rightarrow> ColorScheme" where
  "storedScheme st =
     (case getItem scheme_key st of
        None \<Rightarrow> System
      | Some v \<Rightarrow>
          if v = Some ''dark'' then Dark else if v = Some ''light'' then Light
          else if v = Some ''system'' then System else System)"

definition storeScheme :: "ColorScheme \<Rightarrow> storage \<Rightarrow> storage" where
  "storeScheme scheme st = try_store (setItem scheme_key (scheme_text scheme) st) st"

definition systemScheme :: "bool \<Rightarrow> ColorScheme" where
  "systemScheme prefersDark = (if prefersDark then Dark else Light)"

text \<open>
  The provider with what its effects leave in the document: the \<open>dark\<close> class and the
  \<open>color-scheme\<close> style. \<open>listening\<close> is the media query's listener.
\<close>

record scheme_provider =
  scheme :: ColorScheme
  systemPreference :: ColorScheme
  sp_storage :: storage
  dark_class :: bool
  style_scheme :: ColorScheme
  listening :: bool

definition resolvedScheme :: "scheme_provider \<Rightarrow> ColorScheme" where
  "resolvedScheme p = (if scheme p = System then systemPreference p else scheme p)"

definition applyScheme :: "ColorScheme \<Rightarrow> scheme_provider \<Rightarrow> scheme_provider" where
  "applyScheme resolved p = p\<lparr>dark_class := (resolved = Dark), style_scheme := resolved\<rparr>"

definition scheme_effect :: "scheme_provider \<Rightarrow> scheme_provider" where
  "scheme_effect p = applyScheme (resolvedScheme p) (p\<lparr>sp_storage := storeScheme (scheme p) (sp_storage p)\<rparr>)"

definition mount_scheme :: "bool \<Rightarrow> storage \<Rightarrow> scheme_provider" where
  "mount_scheme prefersDark st =
     scheme_effect \<lparr>scheme = storedScheme st, systemPreference = systemScheme prefersDark, sp_storage = st,
       dark_class = False, style_scheme = Light, listening = True\<rparr>"

text \<open>The effect runs again when the scheme or what it resolves to has changed.\<close>

definition after_render :: "scheme_provider \<Rightarrow> scheme_provider \<Rightarrow> scheme_provider" where
  "after_render before p =
     (if scheme p \<noteq> scheme before \<or> resolvedScheme p \<noteq> resolvedScheme before then scheme_effect p else p)"

fun index_of :: "'a \<Rightarrow> 'a list \<Rightarrow> nat" where
  "index_of x [] = 0"
| "index_of x (y # ys) = (if x = y then 0 else Suc (index_of x ys))"

definition next_scheme :: "ColorScheme \<Rightarrow> ColorScheme" where
  "next_scheme current = schemes ! ((index_of current schemes + 1) mod length schemes)"

definition cycle :: "scheme_provider \<Rightarrow> scheme_provider" where
  "cycle p = after_render p (p\<lparr>scheme := next_scheme (scheme p)\<rparr>)"

definition handleChange :: "bool \<Rightarrow> scheme_provider \<Rightarrow> scheme_provider" where
  "handleChange matches p =
     (if listening p then after_render p (p\<lparr>systemPreference := systemScheme matches\<rparr>) else p)"

definition unmount_scheme :: "scheme_provider \<Rightarrow> scheme_provider" where
  "unmount_scheme p = p\<lparr>listening := False\<rparr>"

datatype scheme_event = Cycle | System_change bool

fun scheme_step :: "scheme_event \<Rightarrow> scheme_provider \<Rightarrow> scheme_provider" where
  "scheme_step Cycle p = cycle p"
| "scheme_step (System_change matches) p = handleChange matches p"

fun scheme_icon :: "ColorScheme \<Rightarrow> string" where
  "scheme_icon System = ''MonitorIcon''"
| "scheme_icon Dark = ''MoonIcon''"
| "scheme_icon Light = ''SunIcon''"

fun scheme_next :: "ColorScheme \<Rightarrow> ColorScheme" where
  "scheme_next System = Dark"
| "scheme_next Dark = Light"
| "scheme_next Light = System"

definition scheme_label :: "ColorScheme \<Rightarrow> string" where
  "scheme_label s =
     ''Color scheme: '' @ scheme_text s @ ''. Switch to '' @ scheme_text (scheme_next s) @ ''.''"

text \<open>\<open>menu\<close> is the variant of the toggle.\<close>

definition ThemeToggle :: "ColorScheme \<Rightarrow> bool \<Rightarrow> bool \<Rightarrow> scheme_event node" where
  "ThemeToggle s showTooltip menu =
     (let label = scheme_label s;
          button = (if menu
            then El ''SidebarMenuButton'' [(''aria-label'', Str label), (''onClick'', On Cycle)]
                   [El (scheme_icon s) [] [], text_of ''span'' ''Appearance'']
            else El ''Button'' [(''aria-label'', Str label), (''onClick'', On Cycle)] [El (scheme_icon s) [] []])
      in if \<not> showTooltip \<or> menu then button
         else El ''Tooltip'' [] [El ''TooltipTrigger'' [] [button], text_of ''TooltipContent'' label])"

section \<open>Properties\<close>

lemma keys_distinct: "distinct navigationCountKeys" "length navigationCountKeys = 9"
  by (simp_all add: navigationCountKeys_def)

lemma read_count_json [simp]: "read_count (Some (count_json c)) = c" "is_count (Some (count_json c))"
  by (cases c; simp)+

lemma counts_json_valid:
  "isStoredNavigationCounts (counts_json c e)" "parsed_counts (counts_json c e) = c"
  "parsed_expiry (counts_json c e) = e"
  by (simp_all add: isStoredNavigationCounts_def parsed_counts_def parsed_expiry_def counts_json_def
      is_object_def navigationCountKeys_def count_values_def Let_def)

lemma counts_json_wf:
  "\<forall>r. Some r \<in> set (count_values c) \<longrightarrow> r \<in> R \<Longrightarrow> e \<in> R \<Longrightarrow> wf_json R (counts_json c e)"
proof -
  assume c: "\<forall>r. Some r \<in> set (count_values c) \<longrightarrow> r \<in> R" and e: "e \<in> R"
  have "length (count_values c) = 9" by (simp add: count_values_def)
  moreover have "wf_json R (count_json v)" if "v \<in> set (count_values c)" for v
    using c that by (cases v) simp_all
  ultimately show ?thesis
    using e keys_distinct by (auto simp: counts_json_def dest!: set_zip_rightD)
qed

lemma storage_key_inject: "navigationCountsStorageKey a = navigationCountsStorageKey b \<longleftrightarrow> a = b"
  by (simp add: navigationCountsStorageKey_def)

text \<open>
  The cached navigation counts survive exactly five minutes. Counts stored for a base URL are
  what a page that starts without counts reads before the five minutes are over; afterwards it reads
  none and the entry is gone; the entries of other base URLs are never touched.
\<close>

lemma cached_counts_live_five_minutes:
  assumes "number_law num R" and "\<forall>r. Some r \<in> set (count_values counts) \<longrightarrow> r \<in> R"
    and "now + NAVIGATION_COUNTS_CACHE_TTL \<in> R" and "access st" and "\<not> full st"
  shows "let stored = storeNavigationCounts num baseUrl counts now st;
             (read, left) = storedNavigationCounts baseUrl (now + d) stored
         in (d < 300000 \<longrightarrow> read = Some counts \<and> left = stored) \<and>
            (300000 \<le> d \<longrightarrow> read = None \<and> getItem (navigationCountsStorageKey baseUrl) left = Some None) \<and>
            (\<forall>other. other \<noteq> baseUrl \<longrightarrow>
               getItem (navigationCountsStorageKey other) left = getItem (navigationCountsStorageKey other) st)"
proof -
  have parsed: "JSON_parse (JSON_stringify num 0 (counts_json counts (now + 300000))) =
      Some (counts_json counts (now + 300000))"
    using json_round_trip [OF assms(1) counts_json_wf [OF assms(2,3)], of 0]
    by (simp add: NAVIGATION_COUNTS_CACHE_TTL_def)
  show ?thesis
    using assms(4,5)
    by (auto simp: storeNavigationCounts_def storedNavigationCounts_def try_store_def setItem_def getItem_def
        removeItem_def Let_def parsed counts_json_valid update_conv' delete_conv' NAVIGATION_COUNTS_CACHE_TTL_def
        storage_key_inject split: prod.splits)
qed

definition scheme_applied :: "scheme_provider \<Rightarrow> bool" where
  "scheme_applied p \<longleftrightarrow> dark_class p = (resolvedScheme p = Dark) \<and> style_scheme p = resolvedScheme p \<and>
     systemPreference p \<noteq> System \<and>
     (access (sp_storage p) \<and> \<not> full (sp_storage p) \<longrightarrow> storedScheme (sp_storage p) = scheme p)"

lemma stored_scheme_store: "access st \<Longrightarrow> \<not> full st \<Longrightarrow> storedScheme (storeScheme s st) = s"
  by (cases s) (simp_all add: storedScheme_def storeScheme_def try_store_def setItem_def getItem_def update_conv')

lemma storage_flags [simp]:
  "access (storeScheme s st) = access st" "full (storeScheme s st) = full st"
  by (simp_all add: storeScheme_def try_store_def setItem_def)

lemma effect_applies:
  "systemPreference p \<noteq> System \<Longrightarrow> scheme_applied (scheme_effect p)"
  by (simp add: scheme_applied_def scheme_effect_def applyScheme_def resolvedScheme_def stored_scheme_store)

lemma after_render_applied:
  assumes "scheme_applied before" "systemPreference p \<noteq> System"
    "dark_class p = dark_class before" "style_scheme p = style_scheme before" "sp_storage p = sp_storage before"
  shows "scheme_applied (after_render before p)"
  using assms effect_applies [OF assms(2)] by (auto simp: after_render_def scheme_applied_def)

lemma next_scheme_announced: "next_scheme s = scheme_next s"
  by (cases s) (simp_all add: next_scheme_def schemes_def)

lemma scheme_step_applied: "scheme_applied p \<Longrightarrow> scheme_applied (scheme_step e p)"
  by (cases e) (auto simp: cycle_def handleChange_def systemScheme_def intro!: after_render_applied
      dest: scheme_applied_def [THEN iffD1])

text \<open>
  What the document shows is always the chosen scheme, resolved. In every run of clicks and of
  changes of the system's preference the \<open>dark\<close> class and the style are those of the resolved
  scheme, which is never \<open>system\<close>; a click goes to the scheme its label announced; and while the
  store can be written, mounting again restores the scheme.
\<close>

lemma scheme_always_applied:
  "let p = fold scheme_step events (mount_scheme prefersDark st)
   in dark_class p = (resolvedScheme p = Dark) \<and> style_scheme p = resolvedScheme p \<and>
      resolvedScheme p \<noteq> System \<and> scheme (scheme_step Cycle p) = scheme_next (scheme p) \<and>
      (access (sp_storage p) \<longrightarrow> \<not> full (sp_storage p) \<longrightarrow>
         scheme (mount_scheme dark (sp_storage p)) = scheme p)"
proof -
  have "scheme_applied p \<Longrightarrow> scheme_applied (fold scheme_step events p)" for p
    by (induction events arbitrary: p) (simp_all add: scheme_step_applied)
  moreover have "scheme_applied (mount_scheme prefersDark st)"
    by (simp add: mount_scheme_def effect_applies systemScheme_def)
  ultimately have a: "scheme_applied (fold scheme_step events (mount_scheme prefersDark st))" by blast
  have "scheme (after_render q p) = scheme p" for q p
    by (simp add: after_render_def scheme_effect_def applyScheme_def)
  with a show ?thesis
    by (auto simp: Let_def scheme_applied_def resolvedScheme_def cycle_def next_scheme_announced mount_scheme_def
        scheme_effect_def applyScheme_def)
qed

end
