(* ===== verification/Sidebar.thy ===== *)
theory Sidebar
  imports Preferences Format Auto_Refresh
begin

text \<open>
  The shell around every page: the sidebar's state of \<^verbatim>\<open>resources/js/components/ui/sidebar.tsx\<close>,
  the navigation of \<^verbatim>\<open>components/app-sidebar.tsx\<close> with the status of
  \<^verbatim>\<open>components/shell/horizon-status.tsx\<close>, the settings of \<^verbatim>\<open>components/shell/page-header.tsx\<close>, the
  icon of \<^verbatim>\<open>hooks/use-horizon-favicon.ts\<close> and the layout of \<^verbatim>\<open>layouts/horizon-layout.tsx\<close>. The URL of
  a page is the argument \<open>urls\<close>; the icons of the entries are left out.
\<close>

section \<open>The sidebar's state\<close>

record sidebar =
  sb_open :: bool
  openMobile :: bool
  viewport_mobile :: bool
  cookie :: "bool option"

definition mounted_sidebar :: "bool \<Rightarrow> sidebar" where
  "mounted_sidebar mobile = \<lparr>sb_open = True, openMobile = False, viewport_mobile = mobile, cookie = None\<rparr>"

definition MOBILE_BREAKPOINT :: int where
  "MOBILE_BREAKPOINT = 1140"

definition useIsMobile :: "int \<Rightarrow> bool" where
  "useIsMobile innerWidth = (innerWidth < MOBILE_BREAKPOINT)"

definition sb_setOpen :: "(bool \<Rightarrow> bool) \<Rightarrow> sidebar \<Rightarrow> sidebar" where
  "sb_setOpen f s = s\<lparr>sb_open := f (sb_open s), cookie := Some (f (sb_open s))\<rparr>"

definition toggleSidebar :: "sidebar \<Rightarrow> sidebar" where
  "toggleSidebar s = (if viewport_mobile s then s\<lparr>openMobile := \<not> openMobile s\<rparr> else sb_setOpen Not s)"

text \<open>\<open>modifier\<close>: the command or the control key is held.\<close>

definition handleKeyDown :: "string \<Rightarrow> bool \<Rightarrow> sidebar \<Rightarrow> sidebar" where
  "handleKeyDown key modifier s = (if key = ''b'' \<and> modifier then toggleSidebar s else s)"

text \<open>The mobile sheet asks to change: \<open>outside\<close> press, \<open>on_trigger\<close> its target inside the trigger.\<close>

definition sheet_open_change :: "bool \<Rightarrow> bool \<Rightarrow> bool \<Rightarrow> sidebar \<Rightarrow> sidebar" where
  "sheet_open_change nextOpen outside on_trigger s =
     (if \<not> nextOpen \<and> outside \<and> on_trigger then s else s\<lparr>openMobile := nextOpen\<rparr>)"

definition setOpenMobile :: "bool \<Rightarrow> sidebar \<Rightarrow> sidebar" where
  "setOpenMobile b s = s\<lparr>openMobile := b\<rparr>"

text \<open>
  A press on the trigger: an open sheet sees it as a press outside of it first, then the trigger's
  click toggles. A press elsewhere outside the sheet closes it.
\<close>

definition press_trigger :: "sidebar \<Rightarrow> sidebar" where
  "press_trigger s =
     toggleSidebar (if viewport_mobile s \<and> openMobile s then sheet_open_change False True True s else s)"

definition press_outside :: "sidebar \<Rightarrow> sidebar" where
  "press_outside s = (if viewport_mobile s \<and> openMobile s then sheet_open_change False True False s else s)"

section \<open>Navigation\<close>

datatype count_key =
    Count_instances | Count_monitoring | Count_metrics | Count_queues | Count_batches
  | Count_pending | Count_completed | Count_silenced | Count_failed

fun count_of :: "NavigationCounts \<Rightarrow> count_key \<Rightarrow> rat option" where
  "count_of c Count_instances = nc_instances c"
| "count_of c Count_monitoring = nc_monitoring c"
| "count_of c Count_metrics = nc_metrics c"
| "count_of c Count_queues = nc_queues c"
| "count_of c Count_batches = nc_batches c"
| "count_of c Count_pending = nc_pending c"
| "count_of c Count_completed = nc_completed c"
| "count_of c Count_silenced = nc_silenced c"
| "count_of c Count_failed = nc_failed c"

record NavigationChildEntry =
  child_label :: string
  child_active :: HorizonNavigation
  child_count :: count_key
  child_route :: HorizonNavigation

record NavigationEntry =
  entry_label :: string
  entry_active :: "HorizonNavigation list"
  entry_count :: "count_key list option"
  entry_route :: HorizonNavigation
  entry_children :: "NavigationChildEntry list option"

definition navigation_children :: "NavigationChildEntry list" where
  "navigation_children =
     [\<lparr>child_label = ''Pending'', child_active = NavPending, child_count = Count_pending, child_route = NavPending\<rparr>,
      \<lparr>child_label = ''Failed'', child_active = NavFailed, child_count = Count_failed, child_route = NavFailed\<rparr>,
      \<lparr>child_label = ''Completed'', child_active = NavCompleted, child_count = Count_completed,
        child_route = NavCompleted\<rparr>,
      \<lparr>child_label = ''Silenced'', child_active = NavSilenced, child_count = Count_silenced,
        child_route = NavSilenced\<rparr>]"

definition plain_entry :: "string \<Rightarrow> HorizonNavigation \<Rightarrow> count_key list option \<Rightarrow> NavigationEntry" where
  "plain_entry label page counts =
     \<lparr>entry_label = label, entry_active = [page], entry_count = counts, entry_route = page, entry_children = None\<rparr>"

definition navigation :: "NavigationEntry list" where
  "navigation =
     [plain_entry ''Dashboard'' NavDashboard None,
      plain_entry ''Monitoring'' NavMonitoring (Some [Count_monitoring]),
      plain_entry ''Metrics'' NavMetrics (Some [Count_metrics]),
      plain_entry ''Instances'' NavInstances (Some [Count_instances]),
      plain_entry ''Queues'' NavQueues (Some [Count_queues]),
      plain_entry ''Batches'' NavBatches (Some [Count_batches]),
      \<lparr>entry_label = ''Jobs'', entry_active = [NavPending, NavFailed, NavCompleted, NavSilenced],
        entry_count = Some [Count_pending, Count_failed, Count_completed, Count_silenced],
        entry_route = NavPending, entry_children = Some navigation_children\<rparr>]"

definition navigationCount :: "count_key list option \<Rightarrow> NavigationCounts option \<Rightarrow> rat option" where
  "navigationCount keys counts =
     (case (keys, counts) of
        (Some ks, Some c) \<Rightarrow>
          let available = concat (map (\<lambda>k. case count_of c k of Some r \<Rightarrow> [r] | None \<Rightarrow> []) ks)
          in if available = [] then None else Some (foldl (+) 0 available)
      | _ \<Rightarrow> None)"

definition useResolvedNavigationCounts :: "NavigationCounts option \<Rightarrow> NavigationCounts option \<Rightarrow> NavigationCounts option" where
  "useResolvedNavigationCounts context props = (case context of Some c \<Rightarrow> Some c | None \<Rightarrow> props)"

section \<open>The status\<close>

fun statusLabels :: "HorizonStatus \<Rightarrow> string" where
  "statusLabels Running = ''Idle, no jobs to process''"
| "statusLabels Paused = ''Horizon is paused''"
| "statusLabels Inactive = ''Horizon is inactive''"
| "statusLabels Unavailable = ''Horizon is unavailable''"

definition tooltip_label :: "HorizonStatus \<Rightarrow> bool \<Rightarrow> string" where
  "tooltip_label status isProcessing =
     (case status of
        Running \<Rightarrow> (if isProcessing then ''Processing jobs'' else statusLabels Running)
      | Paused \<Rightarrow> ''Paused''
      | Inactive \<Rightarrow> ''Inactive '' @ em_dash @ '' run php artisan horizon''
      | Unavailable \<Rightarrow> ''Unavailable'')"

fun status_icon :: "HorizonStatus \<Rightarrow> string" where
  "status_icon Running = ''svg''"
| "status_icon Paused = ''CirclePauseIcon''"
| "status_icon Inactive = ''PowerIcon''"
| "status_icon Unavailable = ''TriangleAlertIcon''"

definition HorizonStatusIndicator :: "HorizonStatus \<Rightarrow> bool \<Rightarrow> bool \<Rightarrow> string option \<Rightarrow> 'a node" where
  "HorizonStatusIndicator status processing showTooltip ariaLabel =
     (let isProcessing = (status = Running \<and> processing);
          label = (if isProcessing then ''Processing jobs'' else statusLabels status);
          indicator = El ''div''
            ([(''data-status'', Str (status_literal status))] @
             prop_if (status = Running) (''data-activity'', Str (if isProcessing then ''working'' else ''idle'')) @
             [(''role'', Str ''status''), (''aria-label'', Str (nullish ariaLabel label))] @
             prop_if showTooltip (''tabIndex'', Count 0))
            [El (status_icon status)
               (prop_if (status = Running)
                  (''stroke'', Str (if isProcessing then ''var(--status-working-track)'' else ''var(--status-idle-track)''))) []]
      in if \<not> showTooltip then indicator
         else El ''Tooltip'' []
                [El ''TooltipTrigger'' [] [indicator], text_of ''TooltipContent'' (tooltip_label status isProcessing)])"

definition faviconForStatus :: "string \<Rightarrow> HorizonStatus \<Rightarrow> string" where
  "faviconForStatus horizonMarkPath status =
     (let indicatorColor = (if status = Running then ''#10b981'' else ''#f59e0b''); q = [CHR 0x22];
          svg = concat
            [''<svg xmlns='' @ q @ ''http://www.w3.org/2000/svg'' @ q @ '' viewBox='' @ q @ ''0 0 30 30'' @ q @ ''>'',
             ''<path fill='' @ q @ ''#7746ec'' @ q @ '' d='' @ q @ horizonMarkPath @ q @ ''/>'',
             ''<circle cx='' @ q @ ''24'' @ q @ '' cy='' @ q @ ''24'' @ q @ '' r='' @ q @ ''5.5'' @ q @
               '' fill='' @ q @ ''#fff'' @ q @ ''/>'',
             ''<circle cx='' @ q @ ''24'' @ q @ '' cy='' @ q @ ''24'' @ q @ '' r='' @ q @ ''4'' @ q @
               '' fill='' @ q @ indicatorColor @ q @ ''/>'',
             ''</svg>'']
      in ''data:image/svg+xml,'' @ encodeURIComponent svg)"

text \<open>The document's icon link, if it has one: its status attribute and its URL.\<close>

definition useHorizonFavicon ::
  "string \<Rightarrow> HorizonStatus \<Rightarrow> (string \<times> string) option \<Rightarrow> (string \<times> string) option" where
  "useHorizonFavicon horizonMarkPath status favicon =
     (case favicon of
        None \<Rightarrow> None
      | Some _ \<Rightarrow> Some (status_literal status, faviconForStatus horizonMarkPath status))"

section \<open>The shell\<close>

datatype shell_action = Close_mobile | Set_auto_load bool | Scheme scheme_event | Press_trigger

definition autoRefreshLabel :: string where
  "autoRefreshLabel = ''Auto load new entries''"

definition autoRefreshFailedLabel :: string where
  "autoRefreshFailedLabel = ''Auto refresh failed; retrying automatically''"

definition autoRefreshFailedDescription :: string where
  "autoRefreshFailedDescription =
     ''The last automatic refresh failed. Horizon will keep retrying at the normal interval.''"

fun refresh_literal :: "AutoRefreshStatus \<Rightarrow> string" where
  "refresh_literal Idle = ''idle''"
| "refresh_literal Refreshing = ''refreshing''"
| "refresh_literal Failed = ''failed''"

definition SidebarFooterControls ::
  "HorizonStatus \<Rightarrow> bool \<Rightarrow> AutoRefreshStatus \<Rightarrow> ColorScheme \<Rightarrow> shell_action node" where
  "SidebarFooterControls status autoLoad refreshStatus colors =
     (let visibleStatus = (if autoLoad then refreshStatus else Idle);
          isRefreshing = (visibleStatus = Refreshing);
          isFailed = (visibleStatus = Failed);
          label = (if isFailed then autoRefreshFailedLabel else autoRefreshLabel);
          button = El ''SidebarMenuButton''
            ([(''aria-label'', Str label), (''aria-pressed'', Flag autoLoad), (''aria-busy'', Flag isRefreshing)] @
             prop_if isFailed (''aria-description'', Str autoRefreshFailedDescription) @
             [(''data-refresh-status'', Str (refresh_literal visibleStatus)),
              (''onClick'', On (Set_auto_load (\<not> autoLoad)))])
            [El ''RefreshCwIcon'' [] [], text_of ''span'' ''Auto refresh'']
      in El ''SidebarGroup'' [(''data-horizon-status'', Str (status_literal status))]
           [text_of ''SidebarGroupLabel'' ''Settings'',
            El ''SidebarMenu'' []
              [El ''SidebarMenuItem'' [] (embed Scheme [ThemeToggle colors False True]),
               El ''SidebarMenuItem'' []
                 [(if isFailed
                   then El ''Tooltip'' []
                          [El ''TooltipTrigger'' [] [button],
                           text_of ''TooltipContent'' autoRefreshFailedDescription]
                   else button),
                  El ''Switch'' [(''checked'', Flag autoLoad), (''tabIndex'', Count (-1))] []]]])"

definition child_item ::
  "(rat \<Rightarrow> string) \<Rightarrow> (HorizonNavigation \<Rightarrow> string) \<Rightarrow> HorizonNavigation \<Rightarrow> NavigationCounts option \<Rightarrow>
   NavigationChildEntry \<Rightarrow> shell_action node" where
  "child_item count_text urls activeNavigation counts child =
     (let childIsActive = (child_active child = activeNavigation);
          childCount = navigationCount (Some [child_count child]) counts
      in El ''SidebarMenuSubItem'' [(''key'', Str (child_label child))]
           [El ''SidebarMenuSubButton''
              ((''isActive'', Flag childIsActive) # prop_if childIsActive (''aria-current'', Str ''page''))
              ([El ''Link'' [(''href'', Str (urls (child_route child))), (''onClick'', On Close_mobile)] [],
                text_of ''span'' (child_label child)] @
               (case childCount of Some c \<Rightarrow> [text_of ''span'' (count_text c)] | None \<Rightarrow> []))])"

definition navigation_item ::
  "(rat \<Rightarrow> string) \<Rightarrow> (HorizonNavigation \<Rightarrow> string) \<Rightarrow> HorizonNavigation \<Rightarrow> NavigationCounts option \<Rightarrow> bool \<Rightarrow>
   NavigationEntry \<Rightarrow> shell_action node" where
  "navigation_item count_text urls activeNavigation counts jobNavigationBreakdown item =
     (let isActive = (activeNavigation \<in> set (entry_active item));
          children = (if jobNavigationBreakdown then entry_children item else None)
      in El ''SidebarMenuItem'' [(''key'', Str (entry_label item))]
           (El ''div'' []
              (El ''SidebarMenuButton''
                 ([(''isActive'', Flag isActive), (''tooltip'', Str (entry_label item))] @
                  prop_if (isActive \<and> children = None) (''aria-current'', Str ''page''))
                 [El ''Link'' [(''href'', Str (urls (entry_route item))), (''onClick'', On Close_mobile)] [],
                  text_of ''span'' (entry_label item)] #
               (case navigationCount (entry_count item) counts of
                  Some c \<Rightarrow> [text_of ''SidebarMenuBadge'' (count_text c)] | None \<Rightarrow> [])) #
            (case children of
               Some cs \<Rightarrow> [El ''SidebarMenuSub'' [] (map (child_item count_text urls activeNavigation counts) cs)]
             | None \<Rightarrow> [])))"

text \<open>\<open>footer\<close>: the settings, shown when the status and the preference are given.\<close>

definition AppSidebar ::
  "(rat \<Rightarrow> string) \<Rightarrow> (HorizonNavigation \<Rightarrow> string) \<Rightarrow> bool \<Rightarrow> HorizonNavigation \<Rightarrow> HorizonStatus option \<Rightarrow> bool \<Rightarrow>
   (bool \<times> AutoRefreshStatus \<times> ColorScheme) option \<Rightarrow> NavigationCounts option \<Rightarrow> bool \<Rightarrow> shell_action node" where
  "AppSidebar count_text urls isMobile activeNavigation status processing settings counts jobNavigationBreakdown =
     El ''Sidebar'' []
       ([El ''SidebarHeader'' []
           (El ''Link'' [(''href'', Str (urls NavDashboard)), (''aria-label'', Str ''Laravel Horizon''),
               (''onClick'', On Close_mobile)] [text_of ''span'' ''Laravel Horizon''] #
            (case status of
               Some st \<Rightarrow> [HorizonStatusIndicator st processing (\<not> isMobile) None] | None \<Rightarrow> [])),
         El ''SidebarContent'' []
           [text_of ''SidebarGroupLabel'' ''Pages'',
            El ''SidebarMenu'' []
              (map (navigation_item count_text urls activeNavigation counts jobNavigationBreakdown) navigation)]] @
        (case (status, settings) of
           (Some st, Some (autoLoad, refreshStatus, colors)) \<Rightarrow>
             [El ''SidebarFooter'' [] [SidebarFooterControls st autoLoad refreshStatus colors]]
         | _ \<Rightarrow> []))"

section \<open>The layout\<close>

text \<open>
  The page props the layout reads. The counts carry the identity of their object, by which the
  effect that stores them decides whether they are new.
\<close>

record layout_props =
  lp_baseUrl :: string
  lp_status :: HorizonStatus
  lp_processing :: bool
  lp_maintenanceMode :: bool
  lp_breakdown :: "bool option"
  lp_activeNavigation :: HorizonNavigation
  lp_counts :: "(nat \<times> NavigationCounts) option"
  lp_flash_success :: "string option"
  lp_flash_error :: "string option"

record layout =
  autoLoad :: bool
  resolvedNavigationCounts :: "NavigationCounts option"
  la_storage :: storage
  la_toasts :: "(string \<times> string) list"
  la_sidebar :: sidebar

definition truthy :: "string option \<Rightarrow> bool" where
  "truthy v \<longleftrightarrow> v \<noteq> None \<and> v \<noteq> Some []"

definition counts_effect :: "(rat \<Rightarrow> string) \<Rightarrow> rat \<Rightarrow> layout_props \<Rightarrow> layout \<Rightarrow> layout" where
  "counts_effect num now p l =
     (case lp_counts p of
        None \<Rightarrow> l
      | Some (_, counts) \<Rightarrow>
          l\<lparr>resolvedNavigationCounts := Some counts,
            la_storage := storeNavigationCounts num (lp_baseUrl p) counts now (la_storage l)\<rparr>)"

definition flash_effect :: "layout_props \<Rightarrow> layout \<Rightarrow> layout" where
  "flash_effect p l =
     l\<lparr>la_toasts := la_toasts l @
        (if truthy (lp_flash_success p) then [(''success'', the (lp_flash_success p))] else []) @
        (if truthy (lp_flash_error p) then [(''error'', the (lp_flash_error p))] else [])\<rparr>"

definition mount_layout :: "(rat \<Rightarrow> string) \<Rightarrow> rat \<Rightarrow> bool \<Rightarrow> layout_props \<Rightarrow> storage \<Rightarrow> layout" where
  "mount_layout num now mobile p st =
     (let (counts, st') = (case lp_counts p of
            Some (_, c) \<Rightarrow> (Some c, st) | None \<Rightarrow> storedNavigationCounts (lp_baseUrl p) now st)
      in flash_effect p (counts_effect num now p
           \<lparr>autoLoad = storedAutoLoadPreference st, resolvedNavigationCounts = counts, la_storage = st',
            la_toasts = [], la_sidebar = mounted_sidebar mobile\<rparr>))"

text \<open>A page visit or reload brings new props; an effect runs when one of its dependencies has changed.\<close>

definition render_layout :: "(rat \<Rightarrow> string) \<Rightarrow> rat \<Rightarrow> layout_props \<Rightarrow> layout_props \<Rightarrow> layout \<Rightarrow> layout" where
  "render_layout num now before p l =
     (let l1 = (if lp_baseUrl p \<noteq> lp_baseUrl before \<or> map_option fst (lp_counts p) \<noteq> map_option fst (lp_counts before)
                then counts_effect num now p l else l)
      in if lp_flash_success p \<noteq> lp_flash_success before \<or> lp_flash_error p \<noteq> lp_flash_error before
         then flash_effect p l1 else l1)"

definition set_auto_load :: "bool \<Rightarrow> layout \<Rightarrow> layout" where
  "set_auto_load enabled l =
     (let (pref, st) = updateAutoLoad enabled (autoLoad l, la_storage l)
      in l\<lparr>autoLoad := pref, la_storage := st\<rparr>)"

definition HorizonLayout ::
  "(rat \<Rightarrow> string) \<Rightarrow> (HorizonNavigation \<Rightarrow> string) \<Rightarrow> AutoRefreshStatus \<Rightarrow> ColorScheme \<Rightarrow> layout_props \<Rightarrow> layout \<Rightarrow>
   shell_action node list \<Rightarrow> shell_action node" where
  "HorizonLayout count_text urls refreshStatus colors p l children =
     El ''SidebarProvider'' []
       [AppSidebar count_text urls (viewport_mobile (la_sidebar l)) (lp_activeNavigation p) (Some (lp_status p))
          (lp_processing p) (Some (autoLoad l, refreshStatus, colors)) (resolvedNavigationCounts l)
          (case lp_breakdown p of Some b \<Rightarrow> b | None \<Rightarrow> False),
        El ''SidebarInset'' []
          (child_if (lp_maintenanceMode p)
             [El ''Alert'' [(''variant'', Str ''warning'')]
                [text_of ''AlertTitle'' ''Application maintenance mode'',
                 text_of ''AlertDescription''
                   ''Queued jobs may not be processed unless the worker is using the force flag.'']] @
           children),
        El ''SidebarTrigger'' [(''aria-expanded'', Flag (openMobile (la_sidebar l))), (''onClick'', On Press_trigger)] []]"

section \<open>Properties\<close>

lemma foldl_plus: "foldl (+) (a :: rat) xs = a + sum_list xs"
  by (induction xs arbitrary: a) (simp_all add: add.assoc)

lemma navigationCount_exact:
  "navigationCount (Some ks) (Some c) =
     (if \<forall>k \<in> set ks. count_of c k = None then None
      else Some (sum_list (map (\<lambda>k. case count_of c k of Some r \<Rightarrow> r | None \<Rightarrow> 0) ks)))"
proof -
  let ?available = "concat (map (\<lambda>k. case count_of c k of Some r \<Rightarrow> [r] | None \<Rightarrow> []) ks)"
  have "sum_list ?available = sum_list (map (\<lambda>k. case count_of c k of Some r \<Rightarrow> r | None \<Rightarrow> 0) ks)"
    by (induction ks) (simp_all split: option.splits)
  moreover have "?available = [] \<longleftrightarrow> (\<forall>k \<in> set ks. count_of c k = None)"
    by (auto split: option.splits)
  ultimately show ?thesis by (simp add: navigationCount_def Let_def foldl_plus)
qed

text \<open>The targets of the elements marked as the current page.\<close>

definition hrefs :: "'a node list \<Rightarrow> string list" where
  "hrefs cs = concat (map (\<lambda>n. case n of El name ps _ \<Rightarrow>
     (case map_of ps ''href'' of Some (Str u) \<Rightarrow> [u] | _ \<Rightarrow> []) | Text _ \<Rightarrow> []) cs)"

fun current_pages :: "'a node \<Rightarrow> string list" where
  "current_pages (Text s) = []"
| "current_pages (El n ps cs) =
     (if map_of ps ''aria-current'' = Some (Str ''page'') then hrefs cs else []) @ concat (map current_pages cs)"

lemma current_text_of [simp]: "current_pages (text_of name s) = []"
  by (simp add: text_of_def)

lemma current_status [simp]: "current_pages (HorizonStatusIndicator st p t l) = []"
  by (cases st; cases t) (simp_all add: HorizonStatusIndicator_def Let_def)

lemma current_footer [simp]: "current_pages (SidebarFooterControls st a r c) = []"
proof -
  have "current_pages (map_node f (ThemeToggle c False True)) = []" for f :: "scheme_event \<Rightarrow> shell_action"
    by (simp add: ThemeToggle_def Let_def text_of_def)
  then show ?thesis
    by (cases "a \<and> r = Failed") (auto simp: SidebarFooterControls_def Let_def embed_def)
qed

lemma hrefs_link [simp]: "hrefs (El ''Link'' [(''href'', Str u), p] [] # ns) = u # hrefs ns"
    "hrefs (text_of name s # ns) = hrefs ns" "hrefs [] = []"
  by (simp_all add: hrefs_def text_of_def)

lemma current_child:
  "current_pages (child_item ct urls active counts child) =
     (if child_active child = active then [urls (child_route child)] else [])"
  by (simp add: child_item_def Let_def split: option.splits)

lemma current_item:
  "current_pages (navigation_item ct urls active counts breakdown item) =
     (if active \<in> set (entry_active item) \<and> (\<not> breakdown \<or> entry_children item = None)
      then [urls (entry_route item)] else []) @
     (if breakdown then concat (map (\<lambda>c. if child_active c = active then [urls (child_route c)] else [])
        (case entry_children item of Some cs \<Rightarrow> cs | None \<Rightarrow> [])) else [])"
  by (auto simp: navigation_item_def Let_def current_child comp_def split: option.splits)

text \<open>
  The navigation marks exactly one entry as the current page, whatever page is active and
  whether or not the job pages are listed on their own, and that entry leads to the active page
  (to the pending jobs, when one entry stands for all job pages).
\<close>

lemma sidebar_marks_one_page:
  "current_pages (AppSidebar ct urls isMobile active status processing settings counts breakdown) =
     [urls (if \<not> breakdown \<and> active \<in> {NavPending, NavFailed, NavCompleted, NavSilenced} then NavPending else active)]"
  by (cases active; cases breakdown)
    (auto simp: AppSidebar_def current_item navigation_def plain_entry_def navigation_children_def
      split: option.splits prod.splits)

text \<open>A press on the trigger changes what is open exactly once; the cookie remembers the desktop sidebar.\<close>

lemma trigger_toggles_once:
  "press_trigger s = (if viewport_mobile s then s\<lparr>openMobile := \<not> openMobile s\<rparr>
     else s\<lparr>sb_open := \<not> sb_open s, cookie := Some (\<not> sb_open s)\<rparr>)"
  by (simp add: press_trigger_def toggleSidebar_def sheet_open_change_def sb_setOpen_def)

lemma outside_press_closes: "viewport_mobile s \<Longrightarrow> \<not> openMobile (press_outside s)"
  by (simp add: press_outside_def sheet_open_change_def)

lemma auto_load_remembered:
  "access (la_storage l) \<Longrightarrow> \<not> full (la_storage l) \<Longrightarrow>
   autoLoad (mount_layout num now mobile p (la_storage (set_auto_load enabled l))) = enabled"
  by (simp add: mount_layout_def set_auto_load_def updateAutoLoad_def storedAutoLoadPreference_def try_store_def
      setItem_def getItem_def update_conv' flash_effect_def counts_effect_def Let_def split: option.splits prod.splits)

end
