(* ===== verification/Queue_Summary.thy ===== *)
theory Queue_Summary
  imports Types_Pages
begin

text \<open>
  The data of a queue's page, \<^verbatim>\<open>resources/js/pages/queues/show.tsx\<close>: the summary that bridges a
  moment without completed counts by the last ones known for the same queue, and the activity shown
  while retained history is prepared or no instance runs.
\<close>

section \<open>The completed counts last known\<close>

record CompletedSummarySlice =
  sl_completedJobs :: "int option"
  sl_completedComplete :: bool
  sl_completedJobsPerMinute :: "rat option"
  sl_completedJobsPerMinuteComplete :: bool
  sl_completedJobsPastHour :: "int option"
  sl_completedJobsPastHourComplete :: bool
  sl_completedJobsPastDay :: "int option"
  sl_completedJobsPastDayComplete :: bool

definition completedSummarySlice :: "QueueSummary \<Rightarrow> CompletedSummarySlice" where
  "completedSummarySlice summary =
     \<lparr>sl_completedJobs = qs_completedJobs summary,
      sl_completedComplete = qs_completedComplete summary,
      sl_completedJobsPerMinute = qs_completedJobsPerMinute summary,
      sl_completedJobsPerMinuteComplete = qs_completedJobsPerMinuteComplete summary,
      sl_completedJobsPastHour = qs_completedJobsPastHour summary,
      sl_completedJobsPastHourComplete = qs_completedJobsPastHourComplete summary,
      sl_completedJobsPastDay = qs_completedJobsPastDay summary,
      sl_completedJobsPastDayComplete = qs_completedJobsPastDayComplete summary\<rparr>"

definition unavailableCompletedSummary :: CompletedSummarySlice where
  "unavailableCompletedSummary =
     \<lparr>sl_completedJobs = None, sl_completedComplete = False, sl_completedJobsPerMinute = None,
      sl_completedJobsPerMinuteComplete = False, sl_completedJobsPastHour = None,
      sl_completedJobsPastHourComplete = False, sl_completedJobsPastDay = None,
      sl_completedJobsPastDayComplete = False\<rparr>"

text \<open>Spreading the slice over a summary.\<close>

definition with_slice :: "CompletedSummarySlice \<Rightarrow> QueueSummary \<Rightarrow> QueueSummary" where
  "with_slice sl s =
     s\<lparr>qs_completedJobs := sl_completedJobs sl,
       qs_completedComplete := sl_completedComplete sl,
       qs_completedJobsPerMinute := sl_completedJobsPerMinute sl,
       qs_completedJobsPerMinuteComplete := sl_completedJobsPerMinuteComplete sl,
       qs_completedJobsPastHour := sl_completedJobsPastHour sl,
       qs_completedJobsPastHourComplete := sl_completedJobsPastHourComplete sl,
       qs_completedJobsPastDay := sl_completedJobsPastDay sl,
       qs_completedJobsPastDayComplete := sl_completedJobsPastDayComplete sl\<rparr>"

definition loadingQueueSummary :: "string \<Rightarrow> QueueSummary" where
  "loadingQueueSummary queue =
     \<lparr>qs_available = True, qs_name = queue, qs_connections = [], qs_pauseTargets = [], qs_pendingJobs = None,
      qs_pendingComplete = False, qs_retainedJobsWarming = True, qs_pendingReserved = None,
      qs_pendingReadyNow = None, qs_pendingDelayed = None, qs_failedJobs = None, qs_failedComplete = False,
      qs_failedJobsPerMinute = None, qs_failedJobsPerMinuteComplete = False, qs_failedJobsPastHour = None,
      qs_failedJobsPastHourComplete = False, qs_failedJobsPastDay = None, qs_failedJobsPastDayComplete = False,
      qs_failedRetentionMinutes = 0, qs_completedJobs = None, qs_completedComplete = False,
      qs_completedAvailable = False, qs_completedJobsPerMinute = None,
      qs_completedJobsPerMinuteComplete = False, qs_completedJobsPastHour = None,
      qs_completedJobsPastHourComplete = False, qs_completedJobsPastDay = None,
      qs_completedJobsPastDayComplete = False, qs_completedRetentionMinutes = 0, qs_silencedJobs = None,
      qs_silencedComplete = False, qs_batches = None, qs_activeBatches = None, qs_batchesComplete = False,
      qs_batchPreviews = [], qs_processes = None, qs_waitThreshold = None, qs_jobsPerMinute = None,
      qs_throughput = None, qs_averageRuntime = None, qs_message = None\<rparr>"

type_synonym last_known = "(string \<times> CompletedSummarySlice) option"

text \<open>The effect after a render with the queue and the summary.\<close>

definition remember :: "string \<times> QueueSummary option \<Rightarrow> last_known \<Rightarrow> last_known" where
  "remember render lastKnown =
     (case render of
        (queue, None) \<Rightarrow> lastKnown
      | (queue, Some summary) \<Rightarrow>
          if \<not> qs_available summary then None
          else if qs_completedAvailable summary then Some (queue, completedSummarySlice summary)
          else (case lastKnown of
                  Some (known, sl) \<Rightarrow> if known \<noteq> queue then None else lastKnown
                | None \<Rightarrow> None))"

definition useLastKnownCompletedSummary :: "last_known \<Rightarrow> string \<Rightarrow> QueueSummary option \<Rightarrow> QueueSummary" where
  "useLastKnownCompletedSummary lastKnown queue summary =
     (let cachedSummary = (case lastKnown of
            Some (known, sl) \<Rightarrow> if known = queue then Some sl else None | None \<Rightarrow> None);
          resolvedSummary = (case summary of Some s \<Rightarrow> s | None \<Rightarrow> loadingQueueSummary queue)
      in if (case summary of Some s \<Rightarrow> qs_available s \<and> qs_completedAvailable s | None \<Rightarrow> False)
         then resolvedSummary
         else with_slice (if qs_available resolvedSummary
                then (case cachedSummary of Some sl \<Rightarrow> sl | None \<Rightarrow> unavailableCompletedSummary)
                else unavailableCompletedSummary) resolvedSummary)"

section \<open>What the page shows\<close>

record QueuesHorizon =
  qh_baseUrl :: string
  qh_pollInterval :: int
  qh_status :: HorizonStatus
  qh_capabilities :: "Capabilities option"

record QueueShowPageProps =
  qsp_horizon :: QueuesHorizon
  qsp_queue :: string
  qsp_view :: QueueDetailView
  qsp_summary :: "QueueSummary option"
  qsp_tab :: QueueActivityTab
  qsp_querySignature :: string
  qsp_listRevision :: "string option"
  qsp_preview :: "MetricPreview option"
  qsp_activity :: "QueueActivity option"
  qsp_batchAttributionAvailable :: "bool option"

definition stoppedQueueActivity :: QueueActivity where
  "stoppedQueueActivity =
     \<lparr>qa_data = [], qa_total = 0, qa_complete = True, qa_available = True, qa_warming = False, qa_message = None\<rparr>"

definition neutralizeWarmingActivity :: "QueueActivity \<Rightarrow> QueueActivity" where
  "neutralizeWarmingActivity activity =
     (if \<not> qa_warming activity then activity else activity\<lparr>qa_available := True, qa_message := None\<rparr>)"

definition hasQueueActivityData :: "QueueShowPageProps \<Rightarrow> bool" where
  "hasQueueActivityData p \<longleftrightarrow> qsp_listRevision p \<noteq> None \<and> qsp_activity p \<noteq> None"

definition refresh_props :: "QueueShowPageProps \<Rightarrow> string list" where
  "refresh_props p = (if qsp_view p = View_metrics then [''summary'', ''preview''] else [''summary''])"

text \<open>Whether the overview shows the queue as stopped.\<close>

definition overview_stopped :: "last_known \<Rightarrow> QueueShowPageProps \<Rightarrow> bool" where
  "overview_stopped lastKnown p \<longleftrightarrow>
     qh_status (qsp_horizon p) = Inactive \<and>
     \<not> qs_available (useLastKnownCompletedSummary lastKnown (qsp_queue p) (qsp_summary p))"

definition activity_stopped :: "last_known \<Rightarrow> QueueShowPageProps \<Rightarrow> bool" where
  "activity_stopped lastKnown p \<longleftrightarrow>
     qsp_summary p \<noteq> None \<and> qh_status (qsp_horizon p) = Inactive \<and>
     \<not> qs_available (useLastKnownCompletedSummary lastKnown (qsp_queue p) (qsp_summary p))"

text \<open>What the activity panel shows: nothing but a placeholder, nothing at all, or the tabs with an activity.\<close>

datatype activity_panel =
    Activity_loading
  | Activity_hidden
  | Activity_tabs QueueSummary QueueActivity bool

definition QueueActivityBoundary :: "last_known \<Rightarrow> QueueShowPageProps \<Rightarrow> activity_panel" where
  "QueueActivityBoundary lastKnown p =
     (if \<not> hasQueueActivityData p then Activity_loading
      else let effectiveSummary = useLastKnownCompletedSummary lastKnown (qsp_queue p) (qsp_summary p);
               stoppedQueue = activity_stopped lastKnown p;
               visibleActivity = (if stoppedQueue then stoppedQueueActivity
                 else neutralizeWarmingActivity (the (qsp_activity p)))
           in if qs_available effectiveSummary \<or> stoppedQueue
              then Activity_tabs effectiveSummary visibleActivity stoppedQueue else Activity_hidden)"

text \<open>The scope and the cursor of the activity's automatic loading.\<close>

definition view_literal :: "QueueDetailView \<Rightarrow> string" where
  "view_literal v = (case v of View_overview \<Rightarrow> ''overview'' | View_metrics \<Rightarrow> ''metrics'')"

definition activity_scope :: "QueueShowPageProps \<Rightarrow> string" where
  "activity_scope p = qsp_querySignature p @ '':'' @ view_literal (qsp_view p)"

definition activity_cursor :: "QueueShowPageProps \<Rightarrow> string" where
  "activity_cursor p = (if qsp_tab p = Act_batches then ''before_id'' else ''starting_at'')"

section \<open>Properties\<close>

lemma slice_with_slice [simp]: "completedSummarySlice (with_slice sl s) = sl"
  by (simp add: completedSummarySlice_def with_slice_def)

lemma available_with_slice [simp]: "qs_available (with_slice sl s) = qs_available s"
  by (simp add: with_slice_def)

text \<open>The effect does nothing when it runs again for the same render.\<close>

lemma remember_idempotent: "remember r (remember r l) = remember r l"
  by (auto simp: remember_def split: option.splits prod.splits)

text \<open>The renders since a queue's counts were known have none of their own and say nothing against them.\<close>

definition quiet_for :: "string \<Rightarrow> string \<times> QueueSummary option \<Rightarrow> bool" where
  "quiet_for queue render \<longleftrightarrow>
     (case snd render of
        None \<Rightarrow> True
      | Some s \<Rightarrow> fst render = queue \<and> qs_available s \<and> \<not> qs_completedAvailable s)"

definition remembered_from :: "(string \<times> QueueSummary option) list \<Rightarrow> string \<Rightarrow> CompletedSummarySlice \<Rightarrow> bool" where
  "remembered_from history queue sl \<longleftrightarrow>
     (\<exists>past later s. history = past @ (queue, Some s) # later \<and> qs_available s \<and> qs_completedAvailable s \<and>
        completedSummarySlice s = sl \<and> list_all (quiet_for queue) later)"

lemma remembered:
  "fold remember history None = Some (queue, sl) \<Longrightarrow> remembered_from history queue sl"
proof (induction history arbitrary: queue sl rule: rev_induct)
  case (snoc r history)
  obtain q s where r: "r = (q, s)" by (cases r)
  have step: "remember r (fold remember history None) = Some (queue, sl)" using snoc.prems by simp
  show ?case
  proof (cases "s \<noteq> None \<and> qs_available (the s) \<and> qs_completedAvailable (the s)")
    case True
    with step r have "q = queue" "completedSummarySlice (the s) = sl" "s = Some (the s)"
      by (auto simp: remember_def)
    with True r show ?thesis
      unfolding remembered_from_def
      by (intro exI [of _ history] exI [of _ "[]"] exI [of _ "the s"]) simp
  next
    case False
    with step r have "fold remember history None = Some (queue, sl)" "quiet_for queue r"
      by (auto simp: remember_def quiet_for_def split: option.splits if_splits)
    with snoc.IH obtain past later s' where
      "history = past @ (queue, Some s') # later" "qs_available s'" "qs_completedAvailable s'"
      "completedSummarySlice s' = sl" "list_all (quiet_for queue) later"
      unfolding remembered_from_def by metis
    with \<open>quiet_for queue r\<close> show ?thesis
      unfolding remembered_from_def
      by (intro exI [of _ past] exI [of _ "later @ [r]"] exI [of _ s']) simp
  qed
qed simp

text \<open>
  A queue's page never shows another queue's completed counts, nor stale ones. Whatever pages
  were rendered before, the completed counts shown are unknown or those of the latest summary of the
  very same queue that had them, and since then no summary was unavailable and no other queue
  reported one; everything else of the summary is shown as it came.
\<close>

lemma shown_counts_are_own:
  assumes "completedSummarySlice (useLastKnownCompletedSummary (fold remember history None) queue summary) = sl"
  shows "(sl = unavailableCompletedSummary \<or> remembered_from (history @ [(queue, summary)]) queue sl) \<and>
    with_slice sl (case summary of Some s \<Rightarrow> s | None \<Rightarrow> loadingQueueSummary queue) =
      useLastKnownCompletedSummary (fold remember history None) queue summary"
proof -
  let ?known = "fold remember history None"
  let ?resolved = "case summary of Some s \<Rightarrow> s | None \<Rightarrow> loadingQueueSummary queue"
  have idem: "with_slice (completedSummarySlice s) s = s" for s
    by (simp add: completedSummarySlice_def with_slice_def)
  show ?thesis
  proof (cases "summary \<noteq> None \<and> qs_available (the summary) \<and> qs_completedAvailable (the summary)")
    case True
    then obtain s where s: "summary = Some s" "qs_available s" "qs_completedAvailable s" by auto
    with assms have "sl = completedSummarySlice s"
      by (simp add: useLastKnownCompletedSummary_def Let_def)
    moreover from this s have "remembered_from (history @ [(queue, summary)]) queue sl"
      unfolding remembered_from_def
      by (intro exI [of _ history] exI [of _ "[]"] exI [of _ s]) simp
    ultimately show ?thesis using s by (simp add: useLastKnownCompletedSummary_def Let_def idem)
  next
    case False
    then have own: "\<not> (case summary of Some s \<Rightarrow> qs_available s \<and> qs_completedAvailable s | None \<Rightarrow> False)"
      by (auto split: option.splits)
    with assms have eff: "useLastKnownCompletedSummary ?known queue summary = with_slice sl ?resolved"
      by (auto simp: useLastKnownCompletedSummary_def Let_def)
    have "remembered_from (history @ [(queue, summary)]) queue sl" if "sl \<noteq> unavailableCompletedSummary"
    proof -
      from assms own that have known: "?known = Some (queue, sl)" and "qs_available ?resolved"
        by (auto simp: useLastKnownCompletedSummary_def Let_def split: option.splits if_splits prod.splits)
      moreover from this(2) own have "quiet_for queue (queue, summary)"
        by (auto simp: quiet_for_def split: option.splits)
      moreover obtain past later s where
        "history = past @ (queue, Some s) # later" "qs_available s" "qs_completedAvailable s"
        "completedSummarySlice s = sl" "list_all (quiet_for queue) later"
        using remembered [OF known] unfolding remembered_from_def by metis
      ultimately show ?thesis
        unfolding remembered_from_def
        by (intro exI [of _ past] exI [of _ "later @ [(queue, summary)]"] exI [of _ s]) simp
    qed
    with eff show ?thesis by metis
  qed
qed

end
