(* ===== verification/Tabs.thy ===== *)
theory Tabs
  imports Jsx
begin

text \<open>
  \<^verbatim>\<open>resources/js/components/responsive-tabs-header.tsx\<close> and
  \<^verbatim>\<open>components/tabbed-results-card.tsx\<close>: the tabs of every panel, as a select on small screens and
  as a list of tabs on large ones, and the search field above a tab's content. A tab's link is the
  child the caller gives as \<^verbatim>\<open>render\<close>.
\<close>

section \<open>Elements\<close>

record 'a ResponsiveTabItem =
  tab_value :: string
  tab_label :: string
  tab_count :: "string option"
  tab_render :: "'a node list"

datatype 'a tabs_action = Select_tab | Own 'a

definition TabCount :: "string option \<Rightarrow> 'a node list" where
  "TabCount count = (case count of None \<Rightarrow> [] | Some c \<Rightarrow> [El ''Badge'' [(''variant'', Str ''secondary'')] [Text c]])"

definition ResponsiveTabsHeader ::
  "string \<Rightarrow> 'a ResponsiveTabItem list \<Rightarrow> string \<Rightarrow> 'a node list \<Rightarrow> 'a tabs_action node" where
  "ResponsiveTabsHeader v items ariaLabel actions =
     (let selectedItem = find (\<lambda>item. tab_value item = v) items
      in El ''div'' []
           ([El ''Select'' [(''value'', Str v), (''onValueChange'', On Select_tab)]
               [El ''SelectTrigger'' [(''aria-label'', Str ariaLabel)]
                  [El ''SelectValue'' []
                     (case selectedItem of
                        Some item \<Rightarrow> text_of ''span'' (tab_label item) # TabCount (tab_count item)
                      | None \<Rightarrow> [])],
                El ''SelectContent'' [(''listLabel'', Str (ariaLabel @ '' options''))]
                  (map (\<lambda>item. El ''SelectItem'' [(''value'', Str (tab_value item)), (''label'', Str (tab_label item))]
                     (text_of ''span'' (tab_label item) # TabCount (tab_count item))) items)],
             El ''TabsList'' [(''aria-label'', Str ariaLabel)]
               (map (\<lambda>item. El ''TabsTrigger'' [(''value'', Str (tab_value item))]
                  (embed Own (tab_render item) @ Text (tab_label item) # TabCount (tab_count item))) items)] @
            child_if (actions \<noteq> []) [El ''div'' [] (embed Own actions)]))"

section \<open>The window's position\<close>

text \<open>
  Choosing from the select remembers where the window is; when its list has closed, the next frame
  puts the window back. \<open>frame\<close> is the pending frame, \<open>saved\<close> the position the frame will use.
\<close>

record tabs_header =
  pendingSelectScroll :: "(rat \<times> rat) option"
  restore_frame :: "(nat \<times> rat \<times> rat) option"
  cancelled_frames :: "nat list"
  next_handle :: nat
  window_scroll :: "rat \<times> rat"
  selections :: "string option list"

definition mounted_header :: "rat \<times> rat \<Rightarrow> tabs_header" where
  "mounted_header scroll =
     \<lparr>pendingSelectScroll = None, restore_frame = None, cancelled_frames = [], next_handle = 1,
      window_scroll = scroll, selections = []\<rparr>"

definition selectTab :: "string option \<Rightarrow> tabs_header \<Rightarrow> tabs_header" where
  "selectTab nextValue h =
     h\<lparr>pendingSelectScroll := Some (window_scroll h), selections := selections h @ [nextValue]\<rparr>"

definition cancel_restore :: "tabs_header \<Rightarrow> tabs_header" where
  "cancel_restore h =
     (case restore_frame h of
        None \<Rightarrow> h
      | Some (f, _) \<Rightarrow> h\<lparr>cancelled_frames := cancelled_frames h @ [f]\<rparr>)"

definition restoreSelectScrollAfterClose :: "bool \<Rightarrow> tabs_header \<Rightarrow> tabs_header" where
  "restoreSelectScrollAfterClose isOpen h =
     (if isOpen then h
      else case pendingSelectScroll h of
             None \<Rightarrow> h
           | Some pending \<Rightarrow>
               let h1 = cancel_restore h
               in h1\<lparr>restore_frame := Some (next_handle h1, pending), next_handle := next_handle h1 + 1\<rparr>)"

definition run_restore :: "nat \<Rightarrow> tabs_header \<Rightarrow> tabs_header" where
  "run_restore f h =
     (case restore_frame h of
        None \<Rightarrow> h
      | Some (g, pending) \<Rightarrow>
          if f = g then h\<lparr>restore_frame := None, pendingSelectScroll := None, window_scroll := pending\<rparr> else h)"

definition unmount_header :: "tabs_header \<Rightarrow> tabs_header" where
  "unmount_header h = (cancel_restore h)\<lparr>restore_frame := None\<rparr>"

datatype header_event =
    Selected "string option"
  | Open_change bool
  | Window_scrolled "rat \<times> rat"
  | Restore_frame nat

fun header_step :: "header_event \<Rightarrow> tabs_header \<Rightarrow> tabs_header" where
  "header_step (Selected v) h = selectTab v h"
| "header_step (Open_change b) h = restoreSelectScrollAfterClose b h"
| "header_step (Window_scrolled p) h = h\<lparr>window_scroll := p\<rparr>"
| "header_step (Restore_frame f) h = run_restore f h"

section \<open>Tabbed results\<close>

record TabbedResultsTab =
  trt_count :: "rat option"
  trt_href :: string
  trt_label :: string
  trt_preserveState :: "bool option"
  trt_value :: string

datatype results_action = Search_changed | Clear_search

text \<open>What a value chosen in the select asks the client to visit.\<close>

definition tab_visit :: "TabbedResultsTab list \<Rightarrow> string \<Rightarrow> string option \<Rightarrow> (string \<times> bool option) option" where
  "tab_visit tabs activeTab v =
     (case find (\<lambda>item. Some (trt_value item) = v) tabs of
        None \<Rightarrow> None
      | Some tab \<Rightarrow> if trt_value tab = activeTab then None else Some (trt_href tab, trt_preserveState tab))"

definition results_item :: "(rat \<Rightarrow> string) \<Rightarrow> string \<Rightarrow> TabbedResultsTab \<Rightarrow> 'a ResponsiveTabItem" where
  "results_item count_text activeTab tab =
     \<lparr>tab_value = trt_value tab, tab_label = trt_label tab, tab_count = map_option count_text (trt_count tab),
      tab_render = [El ''Link''
        ((''href'', Str (trt_href tab)) # prop_if (trt_value tab = activeTab) (''aria-current'', Str ''page'')) []]\<rparr>"

definition ListPageHeader :: "string \<Rightarrow> 'a node list \<Rightarrow> 'a node" where
  "ListPageHeader title actions =
     El ''CardHeader'' [] (text_of ''CardTitle'' title # child_if (actions \<noteq> []) [El ''CardAction'' [] actions])"

definition TabbedResultsLayout ::
  "(rat \<Rightarrow> string) \<Rightarrow> string \<Rightarrow> string \<Rightarrow> TabbedResultsTab list \<Rightarrow> string \<Rightarrow> 'a node list \<Rightarrow> 'a node list \<Rightarrow>
   'a tabs_action node" where
  "TabbedResultsLayout count_text title activeTab tabs tabListLabel actions children =
     El ''Card'' []
       (embed Own [ListPageHeader title actions] @
        [El ''CardContent'' []
           [El ''Tabs'' [(''value'', Str activeTab)]
              (ResponsiveTabsHeader activeTab (map (results_item count_text activeTab) tabs) tabListLabel [] #
               embed Own children)]])"

text \<open>
  \<open>act\<close> names the actions of the search field. The field needs its value, its label and its placeholder; \<open>search_props\<close> has the label and
  the placeholder when the caller gives them together with the handler.
\<close>

definition TabbedResultsBody ::
  "(results_action \<Rightarrow> 'a) \<Rightarrow> string \<Rightarrow> string option \<Rightarrow> (string \<times> string) option \<Rightarrow> 'a node list \<Rightarrow> 'a node list \<Rightarrow>
   'a node list" where
  "TabbedResultsBody act contentHeading search search_props filters children =
     child_if (search \<noteq> None \<or> filters \<noteq> [])
       [El ''div'' []
          ((case (search, search_props) of
              (Some s, Some (searchLabel, searchPlaceholder)) \<Rightarrow>
                El ''Field'' []
                  [text_of ''FieldLabel'' searchLabel,
                   El ''InputGroup'' []
                     ([El ''InputGroupInput''
                         [(''type'', Str ''text''), (''value'', Str s), (''aria-label'', Str searchLabel),
                          (''placeholder'', Str searchPlaceholder), (''onChange'', On (act Search_changed))] []] @
                      child_if (s \<noteq> [])
                        [El ''InputGroupButton''
                           [(''aria-label'', Str ''Clear search''), (''onClick'', On (act Clear_search))] []])]
            | _ \<Rightarrow> El ''div'' [] []) #
           child_if (filters \<noteq> []) [El ''div'' [] filters])] @
     text_of ''h2'' contentHeading # children"

definition TabbedResultsContent ::
  "(results_action \<Rightarrow> 'a) \<Rightarrow> string \<Rightarrow> string \<Rightarrow> string option \<Rightarrow> (string \<times> string) option \<Rightarrow> 'a node list \<Rightarrow>
   'a node list \<Rightarrow> 'a node" where
  "TabbedResultsContent act activeTab contentHeading search search_props filters children =
     El ''TabsContent'' [(''value'', Str activeTab)]
       (TabbedResultsBody act contentHeading search search_props filters children)"

definition TabbedResultsCard ::
  "(rat \<Rightarrow> string) \<Rightarrow> (results_action \<Rightarrow> 'a) \<Rightarrow> string \<Rightarrow> string \<Rightarrow> TabbedResultsTab list \<Rightarrow> string \<Rightarrow> string \<Rightarrow>
   string option \<Rightarrow> (string \<times> string) option \<Rightarrow> 'a node list \<Rightarrow> 'a node list \<Rightarrow> 'a node list \<Rightarrow> 'a tabs_action node" where
  "TabbedResultsCard count_text act title activeTab tabs tabListLabel contentHeading search search_props filters actions children =
     TabbedResultsLayout count_text title activeTab tabs tabListLabel actions
       [TabbedResultsContent act activeTab contentHeading search search_props filters children]"

section \<open>Properties\<close>

text \<open>The frame always restores the position remembered by the last choice before the list closed.\<close>

definition header_ok :: "tabs_header \<Rightarrow> bool" where
  "header_ok h \<longleftrightarrow>
     (case restore_frame h of
        None \<Rightarrow> True
      | Some (f, pending) \<Rightarrow> f < next_handle h \<and> f \<notin> set (cancelled_frames h) \<and> pendingSelectScroll h \<noteq> None) \<and>
     (\<forall>f \<in> set (cancelled_frames h). f < next_handle h)"

lemma header_step_ok: "header_ok h \<Longrightarrow> header_ok (header_step e h)"
  by (cases e) (auto simp: header_ok_def selectTab_def restoreSelectScrollAfterClose_def cancel_restore_def
      run_restore_def Let_def split: option.splits)

text \<open>
  Choosing a tab never moves the page. Whatever happened before, when a tab is chosen, the list
  closes and the browser's frame runs, however the popup scrolls the window meanwhile, the window
  ends where it was when the tab was chosen, and nothing stays pending.
\<close>

lemma select_keeps_scroll:
  assumes "\<forall>e \<in> set between. \<exists>p. e = Window_scrolled p"
  shows "\<exists>before after frame. before = fold header_step events (mounted_header start) \<and>
    after = fold header_step ([Selected v] @ between @ [Open_change False]) before \<and>
    restore_frame after = Some (frame, window_scroll before) \<and>
    (let final = header_step (Restore_frame frame) (fold header_step (map Window_scrolled later) after)
     in window_scroll final = window_scroll before \<and> restore_frame final = None \<and>
        pendingSelectScroll final = None)"
proof -
  let ?before = "fold header_step events (mounted_header start)"
  have scrolled: "\<exists>p. fold header_step es h = h\<lparr>window_scroll := p\<rparr>"
    if "\<forall>e \<in> set es. \<exists>p. e = Window_scrolled p" for es h
    using that
  proof (induction es arbitrary: h)
    case Nil
    show ?case by (rule exI [of _ "window_scroll h"]) simp
  next
    case (Cons e es)
    from Cons.prems obtain p where e: "e = Window_scrolled p" by auto
    from Cons obtain q where "fold header_step es (h\<lparr>window_scroll := p\<rparr>) = h\<lparr>window_scroll := p\<rparr>\<lparr>window_scroll := q\<rparr>"
      by fastforce
    then have "fold header_step (e # es) h = h\<lparr>window_scroll := q\<rparr>" by (simp add: e)
    then show ?case by blast
  qed
  obtain p where p: "fold header_step between (selectTab v ?before) = (selectTab v ?before)\<lparr>window_scroll := p\<rparr>"
    using scrolled [OF assms] by blast
  let ?after = "header_step (Open_change False) ((selectTab v ?before)\<lparr>window_scroll := p\<rparr>)"
  obtain q where q: "fold header_step (map Window_scrolled later) ?after = ?after\<lparr>window_scroll := q\<rparr>"
    using scrolled [of "map Window_scrolled later" ?after] by auto
  have r: "restore_frame ?after = Some (next_handle ?before, window_scroll ?before)"
    by (simp add: restoreSelectScrollAfterClose_def selectTab_def cancel_restore_def Let_def split: option.splits)
  show ?thesis
    by (intro exI [of _ ?before] exI [of _ ?after] exI [of _ "next_handle ?before"])
      (use p q r in \<open>simp add: run_restore_def Let_def\<close>)
qed

end
