(* ===== verification/Overview.thy ===== *)
theory Overview
  imports Queue_Summary Workload_Table Tabs
begin

text \<open>
  The statistics of the dashboard, \<^verbatim>\<open>resources/js/components/dashboard/dashboard-overview.tsx\<close>, and
  of a queue, \<^verbatim>\<open>components/queues/queue-overview.tsx\<close>, with
  \<^verbatim>\<open>components/batches/progress-ring.tsx\<close>. The number formats of the user's locale are arguments:
  \<open>num\<close> with two decimals, \<open>num3\<close> with three. \<open>chart_loader\<close> is the state of the module that loads the
  charts when they are first wanted.
\<close>

section \<open>Progress\<close>

definition ProgressRing :: "(int \<Rightarrow> string) \<Rightarrow> int \<Rightarrow> bool \<Rightarrow> int option \<Rightarrow> int \<Rightarrow> 'a node" where
  "ProgressRing toLocaleString v cancelled pendingJobs failedJobs =
     (let progress = min 100 (max 0 v);
          doneWithFailures = (\<not> cancelled \<and> failedJobs > 0 \<and> pendingJobs \<noteq> None \<and>
            max 0 (the pendingJobs - failedJobs) = 0);
          label = (if progress = 100 then ''Complete'' else int_text progress @ ''%'')
      in if cancelled then
           El ''div'' [(''role'', Str ''status''), (''aria-label'', Str ''Batch outcome: Cancelled'')]
             [El ''CircleXIcon'' [] [], text_of ''span'' ''Cancelled'']
         else if doneWithFailures then
           El ''div'' [(''role'', Str ''status''),
               (''aria-label'', Str (''Batch outcome: Incomplete '' @ [CHR 0xC2, CHR 0xB7] @ '' '' @
                  toLocaleString failedJobs @ '' failed''))]
             [El ''CircleAlertIcon'' [] [], text_of ''span'' ''Incomplete'']
         else
           El ''div'' [(''role'', Str ''progressbar''), (''aria-label'', Str ''Batch progress''),
               (''aria-valuemin'', Count 0), (''aria-valuemax'', Count 100), (''aria-valuenow'', Count progress),
               (''aria-valuetext'', Str label)]
             [El (if progress = 100 then ''CircleCheckIcon'' else ''svg'') [] [], text_of ''span'' label])"

section \<open>Statistics\<close>

text \<open>A value is a number, a text, or nothing known; some statistics show an element instead.\<close>

datatype stat_value = Stat_number rat | Stat_text string | Stat_unknown

fun stat_text :: "(rat \<Rightarrow> string) \<Rightarrow> stat_value \<Rightarrow> string" where
  "stat_text num (Stat_number r) = num r"
| "stat_text num (Stat_text s) = s"
| "stat_text num Stat_unknown = em_dash"

definition stat_int :: "int option \<Rightarrow> stat_value" where
  "stat_int v = (case v of None \<Rightarrow> Stat_unknown | Some i \<Rightarrow> Stat_number (of_int i))"

definition stat_rat :: "rat option \<Rightarrow> stat_value" where
  "stat_rat v = (case v of None \<Rightarrow> Stat_unknown | Some r \<Rightarrow> Stat_number r)"

definition THROUGHPUT_SINCE_SNAPSHOT_TOOLTIP :: string where
  "THROUGHPUT_SINCE_SNAPSHOT_TOOLTIP = ''Jobs processed since Horizon's most recent metrics snapshot.''"

definition SILENCED_JOBS_TOOLTIP :: string where
  "SILENCED_JOBS_TOOLTIP = ''Silenced completions use the same retention window as completed jobs.''"

definition AVERAGE_RUNTIME_SINCE_SNAPSHOT_TOOLTIP :: string where
  "AVERAGE_RUNTIME_SINCE_SNAPSHOT_TOOLTIP =
     ''Average runtime for jobs processed on this queue since Horizon's most recent metrics snapshot.''"

definition CompletedJobsValue :: "(rat \<Rightarrow> string) \<Rightarrow> stat_value \<Rightarrow> rat \<Rightarrow> 'a node" where
  "CompletedJobsValue num v retentionMinutes =
     El ''Tooltip'' []
       [El ''TooltipTrigger'' [] [Text (stat_text num v)],
        text_of ''TooltipContent'' (completedRetentionTooltip retentionMinutes)]"

definition OverviewDetail :: "(rat \<Rightarrow> string) \<Rightarrow> string \<Rightarrow> stat_value \<Rightarrow> string option \<Rightarrow> 'a node" where
  "OverviewDetail num label v tooltip =
     (let detail = El ''StatisticDetail'' [] [text_of ''span'' label, text_of ''span'' (stat_text num v)]
      in if falsy_text tooltip then detail
         else El ''Tooltip'' []
                [El ''TooltipTrigger'' [] [detail], text_of ''TooltipContent'' (the tooltip)])"

definition OverviewStatLink :: "string \<Rightarrow> string \<Rightarrow> 'a node \<Rightarrow> string option \<Rightarrow> 'a node list \<Rightarrow> 'a node" where
  "OverviewStatLink link title v unit children =
     El ''StatisticLink'' [(''href'', Str link)]
       [text_of ''StatisticLabel'' title,
        El ''StatisticValue'' [] (v # (case unit of Some u \<Rightarrow> [text_of ''StatisticUnit'' u] | None \<Rightarrow> [])),
        El ''StatisticDetails'' [] children]"

definition pending_link ::
  "(rat \<Rightarrow> string) \<Rightarrow> string \<Rightarrow> int option \<Rightarrow> int option \<Rightarrow> int option \<Rightarrow> 'a node" where
  "pending_link num link reserved ready delayed =
     OverviewStatLink link ''Pending Jobs'' (Text (stat_text num (stat_int (livePendingTotal reserved ready delayed)))) None
       [OverviewDetail num ''Reserved'' (stat_int reserved) (Some ''Jobs currently being worked on.''),
        OverviewDetail num ''Ready'' (stat_int ready) (Some ''Jobs waiting for an available worker.''),
        OverviewDetail num ''Delayed'' (stat_int delayed) (Some ''Jobs scheduled to run later.'')]"

record overview_links =
  link_pending :: string
  link_failed :: string
  link_completed :: string
  link_batches :: string

definition preview_ring :: "BatchPreview \<Rightarrow> 'a node list" where
  "preview_ring batch = [text_of ''span'' (bp_name batch), ProgressRing int_text (bp_progress batch) False None 0]"

definition batches_statistic :: "(rat \<Rightarrow> string) \<Rightarrow> overview_links \<Rightarrow> (string \<Rightarrow> string) \<Rightarrow> DashboardSummary \<Rightarrow> 'a node" where
  "batches_statistic num links batch_link summary =
     El ''Statistic'' []
       [El ''Link'' [(''href'', Str (link_batches links))]
          [text_of ''StatisticLabel'' ''Batches in progress'',
           El ''StatisticValue'' []
             (Text (stat_text num (stat_int (ds_activeBatches summary))) #
              child_if (ds_activeBatches summary = None) [text_of ''StatisticUnit'' ''history incomplete''])],
        El ''StatisticDetails'' []
          (map (\<lambda>batch. El ''Link'' [(''href'', Str (batch_link (bp_id batch))), (''key'', Str (bp_id batch))]
             (preview_ring batch)) (take 3 (ds_batchPreviews summary)))]"

definition DashboardOverview ::
  "(rat \<Rightarrow> string) \<Rightarrow> overview_links \<Rightarrow> (string \<Rightarrow> string) \<Rightarrow> DashboardSummary \<Rightarrow> 'a node" where
  "DashboardOverview num links batch_link summary =
     (if \<not> ds_available summary then
        El ''Alert'' [(''variant'', Str ''destructive'')]
          [text_of ''AlertTitle'' ''Horizon connection interrupted'',
           text_of ''AlertDescription'' (nullish (ds_message summary) ''Horizon data is currently unavailable.'')]
      else
        let failedPeriodLabel = ''Past '' @ determinePeriod (Num (of_int (ds_recentlyFailedPeriodMinutes summary)));
            whole = (\<lambda>i. Stat_number (of_int i))
        in El ''Card'' []
             [text_of ''CardTitle'' ''Overview'',
              El ''StatisticGrid'' []
                ([pending_link num (link_pending links) (ds_pendingReserved summary) (ds_pendingReadyNow summary)
                    (ds_pendingDelayed summary),
                  OverviewStatLink (link_failed links) ''Failed Jobs'' (Text (stat_text num (whole (ds_failedJobs summary)))) None
                    [OverviewDetail num ''Past hour'' (whole (ds_failedJobsPastHour summary)) None,
                     OverviewDetail num ''Past 24 hours'' (whole (ds_failedJobsPastDay summary)) None,
                     OverviewDetail num failedPeriodLabel (whole (ds_recentlyFailedJobs summary)) None],
                  OverviewStatLink (link_completed links) ''Completed Jobs''
                    (CompletedJobsValue num (whole (ds_completedJobs summary))
                       (of_int (ds_completedRetentionMinutes summary))) None
                    [OverviewDetail num ''Jobs per minute'' (Stat_number (ds_jobsPerMinute summary)) None,
                     OverviewDetail num ''Throughput'' (whole (ds_processedSinceSnapshot summary))
                       (Some THROUGHPUT_SINCE_SNAPSHOT_TOOLTIP),
                     OverviewDetail num ''Silenced Jobs'' (whole (ds_silencedJobs summary))
                       (Some SILENCED_JOBS_TOOLTIP)]] @
                 child_if (ds_batchesAvailable summary) [batches_statistic num links batch_link summary])])"

section \<open>A queue's statistics\<close>

definition retainedValue :: "(rat \<Rightarrow> string) \<Rightarrow> int option \<Rightarrow> bool \<Rightarrow> stat_value" where
  "retainedValue num3 v isComplete =
     (case v of
        None \<Rightarrow> Stat_text em_dash
      | Some i \<Rightarrow> if isComplete then Stat_number (of_int i) else Stat_text (num3 (of_int i) @ ''+''))"

definition QueueMetric :: "string \<Rightarrow> 'a node \<Rightarrow> string option \<Rightarrow> 'a node" where
  "QueueMetric label v tooltip =
     El ''Statistic'' []
       [El ''StatisticLabel'' []
          [(if falsy_text tooltip then Text label
            else El ''Tooltip'' [] [El ''TooltipTrigger'' [] [Text label], text_of ''TooltipContent'' (the tooltip)])],
        El ''StatisticValue'' [] [v]]"

text \<open>A number a \<open>QueueMetric\<close> shows is written as it is, by the argument \<open>plain_num\<close>.\<close>

definition QueueStatistics ::
  "(rat \<Rightarrow> string) \<Rightarrow> (rat \<Rightarrow> string) \<Rightarrow> (rat \<Rightarrow> string) \<Rightarrow> (QueueActivityTab \<Rightarrow> string) \<Rightarrow> bool \<Rightarrow> QueueSummary \<Rightarrow>
   'a node list" where
  "QueueStatistics num num3 plain_num activityUrl batchAttributionAvailable s =
     (let retained = (\<lambda>v isComplete. retainedValue num3 v isComplete)
      in [El ''StatisticGrid'' []
            ([pending_link num (activityUrl Act_pending) (qs_pendingReserved s) (qs_pendingReadyNow s)
                (qs_pendingDelayed s),
              OverviewStatLink (activityUrl Act_failed) ''Failed Jobs''
                (Text (stat_text num (retained (qs_failedJobs s) (qs_failedComplete s)))) None
                [OverviewDetail num ''Past hour'' (retained (qs_failedJobsPastHour s) (qs_failedJobsPastHourComplete s)) None,
                 OverviewDetail num ''Past 24 hours'' (retained (qs_failedJobsPastDay s) (qs_failedJobsPastDayComplete s)) None,
                 OverviewDetail num (''Past '' @ determinePeriod (Num (of_int (qs_failedRetentionMinutes s))))
                   (retained (qs_failedJobs s) (qs_failedComplete s)) None],
              OverviewStatLink (activityUrl Act_completed) ''Completed Jobs''
                (if qs_completedJobs s = None then Text em_dash
                 else CompletedJobsValue num (retained (qs_completedJobs s) (qs_completedComplete s))
                        (of_int (qs_completedRetentionMinutes s))) None
                [OverviewDetail num ''Jobs per minute'' (stat_rat (qs_jobsPerMinute s)) None,
                 OverviewDetail num ''Throughput'' (stat_rat (qs_throughput s)) (Some THROUGHPUT_SINCE_SNAPSHOT_TOOLTIP),
                 OverviewDetail num ''Silenced Jobs'' (retained (qs_silencedJobs s) (qs_silencedComplete s))
                   (Some SILENCED_JOBS_TOOLTIP)]] @
             child_if batchAttributionAvailable
               [OverviewStatLink (activityUrl Act_batches) ''Batches in progress''
                  (Text (stat_text num (retained (qs_activeBatches s) (qs_batchesComplete s)))) None
                  (map (\<lambda>batch. El ''div'' [(''key'', Str (bp_id batch))] (preview_ring batch))
                    (take 3 (qs_batchPreviews s)))]),
          El ''StatisticGrid'' []
            [QueueMetric ''Total Processes'' (Text (or_dash (plain_num \<circ> of_int) (qs_processes s))) None,
             (case qs_waitThreshold s of
                Some w \<Rightarrow> QueueWaitThresholdMetric w
              | None \<Rightarrow> QueueMetric ''Wait Threshold'' (Text em_dash) None),
             QueueMetric ''Average Runtime''
               (case qs_averageRuntime s of None \<Rightarrow> Text em_dash | Some r \<Rightarrow> Duration r Precise False)
               (Some AVERAGE_RUNTIME_SINCE_SNAPSHOT_TOOLTIP),
             QueueMetric ''Throughput'' (Text (or_dash plain_num (qs_throughput s)))
               (Some THROUGHPUT_SINCE_SNAPSHOT_TOOLTIP)]])"

section \<open>Charts loaded when they are wanted\<close>

text \<open>
  The module's promise and the component it resolves to. \<open>waiting\<close> are the visits to be made when the
  charts have arrived, \<open>visits\<close> those made, each with what was loaded at that moment.
\<close>

record chart_loader =
  metricChartPromise :: bool
  loadedMetricChart :: bool
  imports_started :: nat
  chart_waiting :: "string list"
  chart_visits :: "(string \<times> bool) list"

definition initial_loader :: chart_loader where
  "initial_loader = \<lparr>metricChartPromise = False, loadedMetricChart = False, imports_started = 0,
     chart_waiting = [], chart_visits = []\<rparr>"

definition loadMetricChart :: "chart_loader \<Rightarrow> chart_loader" where
  "loadMetricChart c =
     (if metricChartPromise c then c
      else c\<lparr>metricChartPromise := True, imports_started := imports_started c + 1\<rparr>)"

definition chart_visit :: "string \<Rightarrow> chart_loader \<Rightarrow> chart_loader" where
  "chart_visit url c = c\<lparr>chart_visits := chart_visits c @ [(url, loadedMetricChart c)]\<rparr>"

definition load_then_visit :: "string \<Rightarrow> chart_loader \<Rightarrow> chart_loader" where
  "load_then_visit url c =
     (let c1 = loadMetricChart c
      in if loadedMetricChart c1 then chart_visit url c1 else c1\<lparr>chart_waiting := chart_waiting c1 @ [url]\<rparr>)"

definition chart_arrives :: "chart_loader \<Rightarrow> chart_loader" where
  "chart_arrives c =
     (if \<not> metricChartPromise c \<or> loadedMetricChart c then c
      else fold chart_visit (chart_waiting c) (c\<lparr>loadedMetricChart := True, chart_waiting := []\<rparr>))"

definition selectView :: "(QueueDetailView \<Rightarrow> string) \<Rightarrow> QueueDetailView \<Rightarrow> QueueDetailView option \<Rightarrow> chart_loader \<Rightarrow> chart_loader" where
  "selectView viewUrl view nextView c =
     (case nextView of
        None \<Rightarrow> c
      | Some v \<Rightarrow>
          if v = view then c
          else if v = View_metrics \<and> \<not> loadedMetricChart c then load_then_visit (viewUrl v) c
          else chart_visit (viewUrl v) c)"

text \<open>The click on the metrics tab: once the charts are there it is the link's own visit.\<close>

definition metrics_click :: "(QueueDetailView \<Rightarrow> string) \<Rightarrow> chart_loader \<Rightarrow> chart_loader" where
  "metrics_click viewUrl c =
     (if loadedMetricChart c then chart_visit (viewUrl View_metrics) c else load_then_visit (viewUrl View_metrics) c)"

datatype view_event =
    Hover_metrics
  | Click_metrics
  | Click_overview
  | Select_view QueueDetailView "QueueDetailView option"
  | Chart_arrives

fun view_step :: "(QueueDetailView \<Rightarrow> string) \<Rightarrow> view_event \<Rightarrow> chart_loader \<Rightarrow> chart_loader" where
  "view_step viewUrl Hover_metrics c = loadMetricChart c"
| "view_step viewUrl Click_metrics c = metrics_click viewUrl c"
| "view_step viewUrl Click_overview c = chart_visit (viewUrl View_overview) c"
| "view_step viewUrl (Select_view view nextView) c = selectView viewUrl view nextView c"
| "view_step viewUrl Chart_arrives c = chart_arrives c"

section \<open>The overview of a queue\<close>

datatype overview_action =
    View_hover
  | View_click QueueDetailView
  | Overview_menu queue_action

definition view_items :: "(QueueDetailView \<Rightarrow> string) \<Rightarrow> overview_action ResponsiveTabItem list" where
  "view_items viewUrl =
     [\<lparr>tab_value = ''overview'', tab_label = ''Overview'', tab_count = None,
       tab_render = [El ''Link'' [(''href'', Str (viewUrl View_overview)), (''onClick'', On (View_click View_overview))] []]\<rparr>,
      \<lparr>tab_value = ''metrics'', tab_label = ''Metrics'', tab_count = None,
       tab_render = [El ''Link'' [(''href'', Str (viewUrl View_metrics)), (''onMouseEnter'', On View_hover),
         (''onClick'', On (View_click View_metrics))] []]\<rparr>]"

definition metric_chart_panel :: "chart_loader \<Rightarrow> string \<Rightarrow> string \<Rightarrow> string \<Rightarrow> MetricSnapshot list \<Rightarrow> 'a node" where
  "metric_chart_panel c kind title name snapshots =
     (let full = title @ '' '' @ em_dash @ '' '' @ name;
          chart = El ''MetricChart'' [(''kind'', Str kind), (''snapshots'', Count (int (length snapshots)))] []
      in El ''section'' []
           [text_of ''h2'' full,
            (if loadedMetricChart c then chart
             else El ''Suspense'' [] [El ''fallback'' [(''aria-label'', Str ''Loading queue metrics'')] [], chart])])"

definition QueueMetrics :: "chart_loader \<Rightarrow> string \<Rightarrow> MetricPreview option \<Rightarrow> 'a node" where
  "QueueMetrics c name preview =
     (let snapshots = (case preview of Some p \<Rightarrow> mp_data p | None \<Rightarrow> [])
      in El ''div'' []
           ((case preview of
               Some p \<Rightarrow> child_if (\<not> mp_available p)
                 [El ''Alert'' [(''variant'', Str ''destructive'')]
                    [text_of ''AlertTitle'' ''Metrics unavailable'',
                     text_of ''AlertDescription''
                       (nullish (mp_message p) ''Metrics for this queue are currently unavailable.'')]]
             | None \<Rightarrow> []) @
            [metric_chart_panel c ''throughput'' ''Throughput'' name snapshots,
             metric_chart_panel c ''runtime'' ''Runtime'' name snapshots]))"

text \<open>A target of the queue as the menu takes it.\<close>

definition action_target :: "QueueTarget \<Rightarrow> QueueActionTarget" where
  "action_target t =
     \<lparr>qat_connection = qt_connection t, qat_paused = qt_paused t, qat_pausedUntil = qt_pausedUntil t,
      qat_total = Some (qt_total t)\<rparr>"

definition summary_menu_props :: "bool \<Rightarrow> bool \<Rightarrow> QueueSummary \<Rightarrow> queue_menu_props" where
  "summary_menu_props queuePausing timedQueuePausing s =
     \<lparr>qp_connection = None, qp_queue = qs_name s, qp_paused = None, qp_pausedUntil = None,
      qp_targets = Some (map action_target (qs_pauseTargets s)), qp_pendingJobs = None, qp_failedJobs = Some (qs_failedJobs s),
      qp_queuePausing = queuePausing, qp_timedQueuePausing = timedQueuePausing, qp_scope = Scope_all\<rparr>"

definition QueueOverview ::
  "(rat \<Rightarrow> string) \<Rightarrow> (rat \<Rightarrow> string) \<Rightarrow> (rat \<Rightarrow> string) \<Rightarrow> (rat \<Rightarrow> string) \<Rightarrow> (QueueActivityTab \<Rightarrow> string) \<Rightarrow>
   (QueueDetailView \<Rightarrow> string) \<Rightarrow> chart_loader \<Rightarrow> queue_menu \<Rightarrow> QueueDetailView \<Rightarrow>
   QueueSummary \<Rightarrow> MetricPreview option \<Rightarrow> bool \<Rightarrow> bool \<Rightarrow> bool \<Rightarrow> bool \<Rightarrow> overview_action tabs_action node" where
  "QueueOverview num num3 plain_num deadline activityUrl viewUrl c menu view s preview
     queuePausing timedQueuePausing batchAttributionAvailable inactive =
     (if \<not> qs_available s \<and> \<not> inactive then
        El ''Alert'' [(''variant'', Str ''destructive'')]
          [text_of ''AlertTitle'' ''Queue unavailable'',
           text_of ''AlertDescription'' (nullish (qs_message s) ''This queue is no longer supervised by Horizon.'')]
      else
        El ''Card'' []
          [El ''CardHeader'' []
             (El ''CardTitle'' [(''title'', Str (qs_name s))]
                (text_of ''span'' (qs_name s) #
                 concat (map (\<lambda>target. QueuePauseBadge deadline (qt_paused target) (qt_pausedUntil target)
                   (if length (qs_pauseTargets s) > 1 then Some (qt_connection target) else None)) (qs_pauseTargets s))) #
              child_if (\<not> inactive)
                [El ''CardAction'' []
                   (embed (Own \<circ> Overview_menu)
                     (QueueActionsMenu (summary_menu_props queuePausing timedQueuePausing s) menu))]),
           El ''CardContent'' []
             [El ''Tabs'' [(''value'', Str (view_literal view))]
                [ResponsiveTabsHeader (view_literal view) (view_items viewUrl) ''Queue view'' []],
              El ''div'' []
                (El ''div''
                   (prop_if (view = View_metrics) (''aria-hidden'', Flag True) @
                    prop_if (view = View_metrics) (''inert'', Flag True))
                   (QueueStatistics num num3 plain_num activityUrl batchAttributionAvailable s) #
                 child_if (view = View_metrics) [QueueMetrics c (qs_name s) preview])]])"

section \<open>Properties\<close>

definition loader_ok :: "(QueueDetailView \<Rightarrow> string) \<Rightarrow> chart_loader \<Rightarrow> bool" where
  "loader_ok viewUrl c \<longleftrightarrow>
     imports_started c = (if metricChartPromise c then 1 else 0) \<and>
     (loadedMetricChart c \<longrightarrow> metricChartPromise c) \<and>
     (chart_waiting c \<noteq> [] \<longrightarrow> metricChartPromise c \<and> \<not> loadedMetricChart c) \<and>
     (\<forall>u \<in> set (chart_waiting c). u = viewUrl View_metrics) \<and>
     (\<forall>v \<in> set (chart_visits c). fst v \<noteq> viewUrl View_overview \<longrightarrow> snd v)"

lemma fold_chart_visit:
  "fold chart_visit urls c = c\<lparr>chart_visits := chart_visits c @ map (\<lambda>u. (u, loadedMetricChart c)) urls\<rparr>"
  by (induction urls arbitrary: c) (simp_all add: chart_visit_def)

lemma chart_arrives_exact:
  "chart_arrives c =
     (if \<not> metricChartPromise c \<or> loadedMetricChart c then c
      else c\<lparr>loadedMetricChart := True, chart_waiting := [],
             chart_visits := chart_visits c @ map (\<lambda>u. (u, True)) (chart_waiting c)\<rparr>)"
  by (simp add: chart_arrives_def fold_chart_visit)

lemmas loader_simps = loader_ok_def loadMetricChart_def chart_visit_def load_then_visit_def metrics_click_def
  selectView_def chart_arrives_exact Let_def

lemma loader_step_ok: "loader_ok viewUrl c \<Longrightarrow> loader_ok viewUrl (view_step viewUrl e c)"
proof (cases e)
  case (Select_view view nextView)
  assume ok: "loader_ok viewUrl c"
  show ?thesis
  proof (cases nextView)
    case (Some v)
    with ok Select_view show ?thesis by (cases v) (auto simp: loader_simps)
  qed (use ok Select_view in \<open>simp add: loader_simps\<close>)
qed (auto simp: loader_simps)

text \<open>
  The charts are fetched at most once, and the metrics are never opened before they are there. In
  every run of hovers, clicks and selections no visit to the metrics is made before the charts have
  arrived; when they arrive, every visit that waited is made, in order, and nothing waits any more.
\<close>

lemma metrics_open_with_charts:
  "let c = fold (view_step viewUrl) events initial_loader; arrived = view_step viewUrl Chart_arrives c
   in imports_started c \<le> 1 \<and>
      (\<forall>v \<in> set (chart_visits c). fst v \<noteq> viewUrl View_overview \<longrightarrow> snd v) \<and>
      chart_visits arrived = chart_visits c @ map (\<lambda>u. (u, True)) (chart_waiting c) \<and> chart_waiting arrived = []"
proof -
  let ?c = "fold (view_step viewUrl) events initial_loader"
  have "loader_ok viewUrl c \<Longrightarrow> loader_ok viewUrl (fold (view_step viewUrl) events c)" for c
    by (induction events arbitrary: c) (simp_all add: loader_step_ok)
  moreover have "loader_ok viewUrl initial_loader" by (simp add: loader_ok_def initial_loader_def)
  ultimately have ok: "loader_ok viewUrl ?c" by blast
  then have "chart_waiting ?c \<noteq> [] \<longrightarrow> metricChartPromise ?c \<and> \<not> loadedMetricChart ?c"
    by (simp add: loader_ok_def)
  with ok show ?thesis by (auto simp: loader_ok_def chart_arrives_exact Let_def)
qed

end
