(* ===== verification/Action_Menu.thy ===== *)
theory Action_Menu
  imports Types_Pages Instance_Commands
begin

text \<open>
  What the menus of the lists and of their rows have in common: a dropdown of actions, dialogs
  that ask for confirmation, and one flag that is set while a request is under way. The menus
  themselves are in \<open>Job_Actions\<close> and \<open>Batch_Actions\<close>.

  Router calls and their callbacks are transitions of the menu's state: \<open>onStart\<close> runs with the
  call, \<open>onSuccess\<close> with a successful answer, \<open>onFinish\<close> with every answer. A request is its
  value; its URL is that of the generated route of its kind. The kit's dropdown opens from its
  trigger unless that is disabled, and closes on a selection; a dialog's controls can be used
  while it is open, and the dialog can be dismissed at any time.
\<close>

section \<open>State\<close>

record ('d, 'w, 'r) action_menu =
  am_dialogs :: 'd
  am_working :: 'w
  am_sent :: "'r list"

text \<open>The router call, with its \<open>onStart\<close>.\<close>

definition router_call :: "'w \<Rightarrow> 'r \<Rightarrow> ('d, 'w, 'r) action_menu \<Rightarrow> ('d, 'w, 'r) action_menu" where
  "router_call w r m = m\<lparr>am_working := w, am_sent := am_sent m @ [r]\<rparr>"

datatype 'k menu_act = Ask 'k | Dismiss 'k | Send 'k

datatype operation = Retry_op | Clear_op | Remove_op | Cancel_op | Release_op | Stop_op

section \<open>What the reader can do\<close>

definition can_open :: "'a node list \<Rightarrow> bool" where
  "can_open ns \<longleftrightarrow> list_ex (\<lambda>(ps, cs). list_all (\<lambda>(qs, _). \<not> is_disabled qs) (rows_of ''Button'' cs))
     (rows_of ''DropdownMenuTrigger'' ns)"

fun reachable_in :: "'a node \<Rightarrow> 'a list" where
  "reachable_in (Text s) = []"
| "reachable_in (El n ps cs) =
     (if n = ''DropdownMenu'' then (if can_open cs then offers cs else [])
      else if n = ''Dialog'' then (if map_of ps ''open'' = Some (Flag True) then offered (El n ps cs) else [])
      else offered (El n ps cs))"

definition reachable :: "'a node list \<Rightarrow> 'a list" where
  "reachable ns = concat (map reachable_in ns)"

lemma reachable_simps [simp]:
  "reachable [] = []" "reachable (n # ns) = reachable_in n @ reachable ns"
  by (simp_all add: reachable_def)

section \<open>The shared elements\<close>

definition menu_item :: "bool \<Rightarrow> bool \<Rightarrow> 'a \<Rightarrow> string \<Rightarrow> string \<Rightarrow> 'a node" where
  "menu_item destructive disabled act icon label =
     El ''DropdownMenuItem''
       (prop_if destructive (''variant'', Str ''destructive'') @ prop_if disabled (''disabled'', Flag True) @
        [(''onSelect'', On act)]) [El icon [] [], Text label]"

definition separator :: "'a node" where "separator = El ''DropdownMenuSeparator'' [] []"

definition dropdown :: "bool \<Rightarrow> string \<Rightarrow> bool \<Rightarrow> 'a node list \<Rightarrow> 'a node list \<Rightarrow> 'a node" where
  "dropdown available label busy children items =
     El ''DropdownMenu'' [] (ActionMenuTrigger available label busy children @
       [El ''DropdownMenuContent'' [(''align'', Str ''end'')] items])"

definition busy_button :: "string \<Rightarrow> string option \<Rightarrow> bool \<Rightarrow> 'a \<Rightarrow> string \<Rightarrow> string \<Rightarrow> 'a node" where
  "busy_button spinner variant busy act icon label =
     El ''Button''
       ([(''type'', Str ''button'')] @
        (case variant of Some v \<Rightarrow> [(''variant'', Str v)] | None \<Rightarrow> []) @
        [(''disabled'', Flag busy), (''onClick'', On act)])
       [El (if busy then spinner else icon) [] [], Text label]"

definition action_button :: "string option \<Rightarrow> bool \<Rightarrow> 'a \<Rightarrow> string \<Rightarrow> string \<Rightarrow> 'a node" where
  "action_button = busy_button ''LoaderCircleIcon''"

definition confirmation ::
  "bool \<Rightarrow> 'a \<Rightarrow> string \<Rightarrow> string \<Rightarrow> bool \<Rightarrow> string \<Rightarrow> 'a node \<Rightarrow> 'a node" where
  "confirmation is_open dismiss title description busy keep button =
     El ''Dialog'' [(''open'', Flag is_open), (''onOpenChange'', On dismiss)]
       [El ''DialogContent'' []
          [El ''DialogHeader'' []
             [text_of ''DialogTitle'' title, text_of ''DialogDescription'' description],
           El ''DialogFooter'' []
             [El ''DialogClose'' [(''disabled'', Flag busy)] [Text keep], button]]]"

lemma offered_menu_item [simp]: "offered (menu_item d dis a i l) = (if dis then [] else [a])"
  by (simp add: menu_item_def prop_if_def)

lemma offered_separator [simp]: "offered separator = []"
  by (simp add: separator_def)

lemma offered_busy_button [simp]: "offered (busy_button sp v busy a i l) = (if busy then [] else [a])"
  by (simp add: busy_button_def split: option.split)

lemma offered_action_button [simp]: "offered (action_button v busy a i l) = (if busy then [] else [a])"
  by (simp add: action_button_def)

lemma offered_confirmation [simp]: "offered (confirmation o' a t d busy k b) = a # offered b"
  by (simp add: confirmation_def)

lemma reachable_confirmation [simp]:
  "reachable_in (confirmation o' a t d busy k b) = (if o' then a # offered b else [])"
  by (simp add: confirmation_def)

lemma can_open_trigger:
  "can_open (ActionMenuTrigger available label busy children @ [El ''DropdownMenuContent'' ps items]) \<longleftrightarrow>
     available \<and> \<not> busy"
  if "rows_of ''Button'' children = []" "rows_of ''DropdownMenuTrigger'' children = []"
     "rows_of ''DropdownMenuTrigger'' items = []"
  using that
  by (auto simp: can_open_def ActionMenuTrigger_def Let_def text_of_def prop_if_def)

lemma offers_trigger: "offers children = [] \<Longrightarrow> offers (ActionMenuTrigger available label busy children) = []"
  by (auto simp: ActionMenuTrigger_def Let_def prop_if_def)

lemma reachable_dropdown:
  "reachable_in (dropdown available label busy children items) =
     (if available \<and> \<not> busy then offers items else [])"
  if "rows_of ''Button'' children = []" "rows_of ''DropdownMenuTrigger'' children = []"
     "rows_of ''DropdownMenuTrigger'' items = []" "offers children = []"
  using that by (simp add: dropdown_def can_open_trigger offers_trigger)

lemma no_triggers [simp]:
  "i \<noteq> ''DropdownMenuTrigger'' \<Longrightarrow> elements ''DropdownMenuTrigger'' (menu_item d dis a i l) = []"
  "elements ''DropdownMenuTrigger'' (separator :: 'a node) = []"
  "elements ''DropdownMenuTrigger'' (text_of ''DropdownMenuLabel'' s :: 'a node) = []"
  by (simp_all add: menu_item_def separator_def text_of_def)

lemma reachable_plain_dropdown [simp]:
  "rows_of ''DropdownMenuTrigger'' items = [] \<Longrightarrow>
   reachable_in (dropdown available label busy [] items) = (if available \<and> \<not> busy then offers items else [])"
  by (rule reachable_dropdown) simp_all

section \<open>The life of a menu\<close>

text \<open>
  The reader chooses a reachable action, or the request under way is answered. The ghost fields
  record the requests under way and those answered.
\<close>

datatype 'a menu_event = Choose 'a | Answered bool

record ('d, 'w, 'r) menu_life =
  ml_menu :: "('d, 'w, 'r) action_menu"
  ml_under_way :: "'r list"
  ml_answered :: "'r list"

definition answer :: "'w \<Rightarrow> ('r \<Rightarrow> ('d, 'w, 'r) action_menu \<Rightarrow> ('d, 'w, 'r) action_menu) \<Rightarrow> bool \<Rightarrow> 'r \<Rightarrow>
    ('d, 'w, 'r) action_menu \<Rightarrow> ('d, 'w, 'r) action_menu" where
  "answer idle on_success ok r m = (if ok then on_success r m else m)\<lparr>am_working := idle\<rparr>"

fun menu_next ::
  "(('d, 'w, 'r) action_menu \<Rightarrow> 'a node list) \<Rightarrow>
   ('a \<Rightarrow> ('d, 'w, 'r) action_menu \<Rightarrow> ('d, 'w, 'r) action_menu) \<Rightarrow>
   ('r \<Rightarrow> ('d, 'w, 'r) action_menu \<Rightarrow> ('d, 'w, 'r) action_menu) \<Rightarrow> 'w \<Rightarrow>
   'a menu_event \<Rightarrow> ('d, 'w, 'r) menu_life \<Rightarrow> ('d, 'w, 'r) menu_life" where
  "menu_next view perform on_success idle (Choose a) l =
     (if a \<in> set (reachable (view (ml_menu l)))
      then let m = perform a (ml_menu l)
           in l\<lparr>ml_menu := m,
                ml_under_way := ml_under_way l @ drop (length (am_sent (ml_menu l))) (am_sent m)\<rparr>
      else l)"
| "menu_next view perform on_success idle (Answered ok) l =
     (case ml_under_way l of
        [] \<Rightarrow> l
      | r # rs \<Rightarrow> l\<lparr>ml_menu := answer idle on_success ok r (ml_menu l), ml_under_way := rs,
                    ml_answered := ml_answered l @ [r]\<rparr>)"

definition begin_life :: "'w \<Rightarrow> 'd \<Rightarrow> ('d, 'w, 'r) menu_life" where
  "begin_life idle dialogs =
     \<lparr>ml_menu = \<lparr>am_dialogs = dialogs, am_working = idle, am_sent = []\<rparr>, ml_under_way = [], ml_answered = []\<rparr>"

definition menu_life ::
  "(('d, 'w, 'r) action_menu \<Rightarrow> 'a node list) \<Rightarrow>
   ('a \<Rightarrow> ('d, 'w, 'r) action_menu \<Rightarrow> ('d, 'w, 'r) action_menu) \<Rightarrow>
   ('r \<Rightarrow> ('d, 'w, 'r) action_menu \<Rightarrow> ('d, 'w, 'r) action_menu) \<Rightarrow> 'w \<Rightarrow> 'd \<Rightarrow>
   'a menu_event list \<Rightarrow> ('d, 'w, 'r) menu_life" where
  "menu_life view perform on_success idle dialogs es =
     fold (menu_next view perform on_success idle) es (begin_life idle dialogs)"

text \<open>At most one request is under way, the flag says so, and requests are answered in their order.\<close>

definition one_at_a_time :: "'w \<Rightarrow> ('d, 'w, 'r) menu_life \<Rightarrow> bool" where
  "one_at_a_time idle l \<longleftrightarrow> length (ml_under_way l) \<le> 1 \<and>
     (ml_under_way l = [] \<longleftrightarrow> am_working (ml_menu l) = idle) \<and>
     am_sent (ml_menu l) = ml_answered l @ ml_under_way l"

text \<open>
  What each menu promises: a reachable action sends nothing, or sends one request, marks the
  menu as working and was chosen in an idle menu; a success changes nothing but the dialogs.
\<close>

definition quiet :: "('d, 'w, 'r) action_menu \<Rightarrow> ('d, 'w, 'r) action_menu \<Rightarrow> bool" where
  "quiet m m' \<longleftrightarrow> am_sent m' = am_sent m \<and> am_working m' = am_working m"

definition sends :: "'w \<Rightarrow> ('d, 'w, 'r) action_menu \<Rightarrow> ('d, 'w, 'r) action_menu \<Rightarrow> bool" where
  "sends idle m m' \<longleftrightarrow> am_working m = idle \<and> am_working m' \<noteq> idle \<and> (\<exists>r. am_sent m' = am_sent m @ [r])"

locale single_request =
  fixes view :: "('d, 'w, 'r) action_menu \<Rightarrow> 'a node list"
    and perform :: "'a \<Rightarrow> ('d, 'w, 'r) action_menu \<Rightarrow> ('d, 'w, 'r) action_menu"
    and on_success :: "'r \<Rightarrow> ('d, 'w, 'r) action_menu \<Rightarrow> ('d, 'w, 'r) action_menu"
    and idle :: 'w
  assumes act_sends: "a \<in> set (reachable (view m)) \<Longrightarrow> quiet m (perform a m) \<or> sends idle m (perform a m)"
    and success_sends: "am_sent (on_success r m) = am_sent m"
begin

lemma event_keeps: "one_at_a_time idle l \<Longrightarrow> one_at_a_time idle (menu_next view perform on_success idle e l)"
proof (cases e)
  case (Choose a)
  assume l: "one_at_a_time idle l"
  show ?thesis
  proof (cases "a \<in> set (reachable (view (ml_menu l)))")
    case True
    from act_sends [OF True] show ?thesis
      using l True Choose by (auto simp: one_at_a_time_def quiet_def sends_def Let_def)
  qed (use l Choose in simp)
next
  case (Answered ok)
  assume "one_at_a_time idle l"
  then show ?thesis
    using Answered success_sends
    by (cases "ml_under_way l") (auto simp: one_at_a_time_def answer_def)
qed

theorem never_two_requests: "one_at_a_time idle (menu_life view perform on_success idle dialogs es)"
proof -
  have "one_at_a_time idle l \<Longrightarrow> one_at_a_time idle (fold (menu_next view perform on_success idle) es l)" for l
    by (induction es arbitrary: l) (simp_all add: event_keeps)
  then show ?thesis by (simp add: menu_life_def begin_life_def one_at_a_time_def)
qed

end

text \<open>
  The stronger contract of a menu some of whose requests need a confirmation: such a request is
  sent only from its open dialog, and a success closes just that dialog.
\<close>

locale confirmed_request = single_request view perform on_success idle
  for view :: "('d, 'w, 'r) action_menu \<Rightarrow> 'a node list"
    and perform :: "'a \<Rightarrow> ('d, 'w, 'r) action_menu \<Rightarrow> ('d, 'w, 'r) action_menu"
    and on_success :: "'r \<Rightarrow> ('d, 'w, 'r) action_menu \<Rightarrow> ('d, 'w, 'r) action_menu"
    and idle :: 'w +
  fixes dialog_of :: "'r \<Rightarrow> ('d \<Rightarrow> bool) option"
  assumes confirmed:
    "a \<in> set (reachable (view m)) \<Longrightarrow> am_sent (perform a m) = am_sent m @ [r] \<Longrightarrow> dialog_of r = Some shown \<Longrightarrow>
     shown (am_dialogs m) \<and> am_dialogs (perform a m) = am_dialogs m"
    and success_closes: "dialog_of r = Some shown \<Longrightarrow> \<not> shown (am_dialogs (on_success r m))"
begin

text \<open>A request that needs a confirmation was sent with its dialog shown.\<close>

lemma sent_from_dialog:
  "r \<in> set (am_sent (ml_menu (menu_next view perform on_success idle e l))) \<Longrightarrow>
   r \<notin> set (am_sent (ml_menu l)) \<Longrightarrow> dialog_of r = Some shown \<Longrightarrow> shown (am_dialogs (ml_menu l))"
proof (cases e)
  case (Choose a)
  assume r: "r \<in> set (am_sent (ml_menu (menu_next view perform on_success idle e l)))"
    "r \<notin> set (am_sent (ml_menu l))" "dialog_of r = Some shown"
  have reach: "a \<in> set (reachable (view (ml_menu l)))" and "r \<in> set (am_sent (perform a (ml_menu l)))"
    using r(1,2) Choose by (auto simp: Let_def split: if_splits)
  with act_sends [OF reach] r(2) have "am_sent (perform a (ml_menu l)) = am_sent (ml_menu l) @ [r]"
    by (auto simp: quiet_def sends_def)
  with confirmed [OF reach _ r(3)] show ?thesis by blast
next
  case (Answered ok)
  assume "r \<in> set (am_sent (ml_menu (menu_next view perform on_success idle e l)))" "r \<notin> set (am_sent (ml_menu l))"
  with Answered show ?thesis by (auto simp: answer_def success_sends split: list.splits if_splits)
qed

lemma success_shuts: "dialog_of r = Some shown \<Longrightarrow> \<not> shown (am_dialogs (answer idle on_success True r m))"
  by (simp add: answer_def success_closes)

end

text \<open>
  A menu asks first: a request with a dialog is sent only while the dialog is shown, and a
  successful answer leaves the dialog closed.
\<close>

definition asks_first ::
  "(('d, 'w, 'r) action_menu \<Rightarrow> 'a node list) \<Rightarrow>
   ('a \<Rightarrow> ('d, 'w, 'r) action_menu \<Rightarrow> ('d, 'w, 'r) action_menu) \<Rightarrow>
   ('r \<Rightarrow> ('d, 'w, 'r) action_menu \<Rightarrow> ('d, 'w, 'r) action_menu) \<Rightarrow> 'w \<Rightarrow>
   ('r \<Rightarrow> ('d \<Rightarrow> bool) option) \<Rightarrow> bool" where
  "asks_first view perform on_success idle dialog_of \<longleftrightarrow>
     (\<forall>r shown. dialog_of r = Some shown \<longrightarrow>
        (\<forall>e l. r \<in> set (am_sent (ml_menu (menu_next view perform on_success idle e l))) - set (am_sent (ml_menu l)) \<longrightarrow>
           shown (am_dialogs (ml_menu l))) \<and>
        (\<forall>m. \<not> shown (am_dialogs (answer idle on_success True r m))))"

context confirmed_request begin

lemma asks_before_sending: "asks_first view perform on_success idle dialog_of"
  unfolding asks_first_def using sent_from_dialog success_shuts by blast

end

end
