(* ===== verification/Job_Actions.thy ===== *)
theory Job_Actions
  imports Action_Menu
begin

text \<open>
  The actions on jobs: \<^verbatim>\<open>resources/js/components/jobs/failed-job-actions.tsx\<close>,
  \<^verbatim>\<open>pending-job-actions.tsx\<close> and \<^verbatim>\<open>pending-jobs-actions.tsx\<close>, as menus in the sense of
  \<open>Action_Menu\<close>. The buttons have no dialogs; a form's submission is its submit button's action,
  the only control that submits it.
\<close>

datatype job_request =
    Retry_job string
  | Retry_all_jobs
  | Remove_job string
  | Clear_all_jobs
  | Cancel_job string
  | Release_job string

text \<open>The callbacks of a button without a dialog.\<close>

definition no_dialog :: "'r \<Rightarrow> (unit, bool, 'r) action_menu \<Rightarrow> (unit, bool, 'r) action_menu" where
  "no_dialog r m = m"

section \<open>Retry buttons\<close>

definition RetryFailedJobButton ::
  "bool \<Rightarrow> bool \<Rightarrow> (unit, bool, job_request) action_menu \<Rightarrow> operation menu_act node list" where
  "RetryFailedJobButton disabled showLabel m =
     (let busy = am_working m
      in [El ''Button''
            [(''type'', Str ''button''),
             (''aria-label'', Str (if busy then ''Retrying failed job'' else ''Retry failed job'')),
             (''disabled'', Flag (disabled \<or> busy)), (''onClick'', On (Send Retry_op))]
            (El (if busy then ''LoaderCircleIcon'' else ''RotateCcwIcon'') [] [] #
             child_if showLabel [text_of ''span'' (if busy then ''Retrying'' else ''Retry'')])])"

definition retry_button ::
  "string \<Rightarrow> operation menu_act \<Rightarrow> (unit, bool, job_request) action_menu \<Rightarrow> (unit, bool, job_request) action_menu" where
  "retry_button jobId a = router_call True (Retry_job jobId)"

definition RetryAllFailedJobsButton ::
  "bool \<Rightarrow> (unit, bool, job_request) action_menu \<Rightarrow> operation menu_act node list" where
  "RetryAllFailedJobsButton disabled m =
     (let busy = am_working m
      in [El ''Button''
            [(''type'', Str ''button''),
             (''aria-label'', Str (if busy then ''Retrying failed jobs'' else ''Retry all failed jobs'')),
             (''disabled'', Flag (disabled \<or> busy)), (''onClick'', On (Send Retry_op))]
            [El (if busy then ''LoaderCircleIcon'' else ''RotateCcwIcon'') [] [],
             text_of ''span'' (if busy then ''Retrying'' else ''Retry All'')]])"

definition retry_all_button ::
  "operation menu_act \<Rightarrow> (unit, bool, job_request) action_menu \<Rightarrow> (unit, bool, job_request) action_menu" where
  "retry_all_button a = router_call True Retry_all_jobs"

interpretation retry_one: single_request "RetryFailedJobButton disabled showLabel" "retry_button jobId" no_dialog False
  by unfold_locales (auto simp: RetryFailedJobButton_def retry_button_def router_call_def sends_def no_dialog_def
      Let_def child_if_def split: if_splits)

interpretation retry_all: single_request "RetryAllFailedJobsButton disabled" retry_all_button no_dialog False
  by unfold_locales (auto simp: RetryAllFailedJobsButton_def retry_all_button_def router_call_def sends_def
      no_dialog_def Let_def split: if_splits)

section \<open>The failed jobs\<close>

text \<open>\<open>FailedJobsActionsMenu\<close>: \<open>dialogOpen\<close> is the state of its dialog.\<close>

definition reason_label :: "string option \<Rightarrow> 'a node list" where
  "reason_label reason = (case reason of Some r \<Rightarrow> [text_of ''DropdownMenuLabel'' r] | None \<Rightarrow> [])"

definition FailedJobsActionsMenu ::
  "FailedJobBulkActions \<Rightarrow> (bool, bool, job_request) action_menu \<Rightarrow> operation menu_act node list" where
  "FailedJobsActionsMenu p m =
     [dropdown (fa_hasFailedJobs p) ''Failed jobs actions'' (am_working m) []
        [El ''DropdownMenuGroup'' []
           (menu_item False (\<not> fa_retryable p) (Send Retry_op) ''RotateCcwIcon'' ''Retry all'' #
            reason_label (fa_retryUnavailableReason p)),
         separator,
         El ''DropdownMenuGroup'' []
           (menu_item True (\<not> fa_clearable p) (Ask Clear_op) ''Trash2Icon'' ''Clear all failed jobs'' #
            reason_label (fa_clearUnavailableReason p))],
      confirmation (am_dialogs m) (Dismiss Clear_op) ''Clear all failed jobs?''
        (''Permanently remove every failed job record from Horizon and Laravel'' @ right_quote @
         ''s failed-job storage. These jobs will no longer be available to inspect or retry. This action cannot be undone.'')
        (am_working m) ''Cancel''
        (action_button (Some ''destructive'') (am_working m) (Send Clear_op) ''Trash2Icon''
           (if am_working m then ''Clearing'' @ ellipsis else ''Clear all failed jobs''))]"

fun failed_jobs_perform ::
  "operation menu_act \<Rightarrow> (bool, bool, job_request) action_menu \<Rightarrow> (bool, bool, job_request) action_menu" where
  "failed_jobs_perform (Ask k) m = m\<lparr>am_dialogs := True\<rparr>"
| "failed_jobs_perform (Dismiss k) m = m\<lparr>am_dialogs := False\<rparr>"
| "failed_jobs_perform (Send k) m =
     router_call True (if k = Retry_op then Retry_all_jobs else Clear_all_jobs) m"

fun failed_jobs_success :: "job_request \<Rightarrow> (bool, bool, job_request) action_menu \<Rightarrow> (bool, bool, job_request) action_menu" where
  "failed_jobs_success Clear_all_jobs m = m\<lparr>am_dialogs := False\<rparr>"
| "failed_jobs_success r m = m"

text \<open>The dialog that confirms a request of a menu with one dialog.\<close>

definition only_dialog :: "'r \<Rightarrow> 'r \<Rightarrow> (bool \<Rightarrow> bool) option" where
  "only_dialog confirmed r = (if r = confirmed then Some (\<lambda>shown. shown) else None)"

lemma reason_label_simps [simp]:
  "offers (reason_label r) = []" "rows_of ''DropdownMenuTrigger'' (reason_label r) = []"
  by (cases r; simp add: reason_label_def text_of_def)+

lemmas menu_defs = quiet_def sends_def router_call_def Let_def child_if_def only_dialog_def

interpretation failed_jobs: confirmed_request "FailedJobsActionsMenu p" failed_jobs_perform failed_jobs_success False
  "only_dialog Clear_all_jobs"
proof unfold_locales
  fix a m r and shown :: "bool \<Rightarrow> bool"
  show "a \<in> set (reachable (FailedJobsActionsMenu p m)) \<Longrightarrow>
      quiet m (failed_jobs_perform a m) \<or> sends False m (failed_jobs_perform a m)"
    by (auto simp: FailedJobsActionsMenu_def menu_defs split: if_splits)
  show "am_sent (failed_jobs_success r m) = am_sent m" by (cases r) simp_all
  show "a \<in> set (reachable (FailedJobsActionsMenu p m)) \<Longrightarrow>
      am_sent (failed_jobs_perform a m) = am_sent m @ [r] \<Longrightarrow> only_dialog Clear_all_jobs r = Some shown \<Longrightarrow>
      shown (am_dialogs m) \<and> am_dialogs (failed_jobs_perform a m) = am_dialogs m"
    by (auto simp: FailedJobsActionsMenu_def menu_defs split: if_splits)
  show "only_dialog Clear_all_jobs r = Some shown \<Longrightarrow> \<not> shown (am_dialogs (failed_jobs_success r m))"
    by (auto simp: only_dialog_def split: if_splits)
qed

text \<open>\<open>FailedJobActionsMenu\<close>\<close>

definition FailedJobActionsMenu ::
  "bool \<Rightarrow> (bool, bool, job_request) action_menu \<Rightarrow> operation menu_act node list" where
  "FailedJobActionsMenu canRetry m =
     [dropdown True (if canRetry then ''Retry failed job'' else ''Remove failed job'') (am_working m) []
        (child_if canRetry [menu_item False False (Send Retry_op) ''RotateCcwIcon'' ''Retry'', separator] @
         [menu_item True False (Ask Remove_op) ''Trash2Icon'' ''Remove'']),
      El ''Dialog'' [(''open'', Flag (am_dialogs m)), (''onOpenChange'', On (Dismiss Remove_op))]
        [El ''DialogContent'' []
           [El ''form'' []
              [El ''DialogHeader'' []
                 [text_of ''DialogTitle'' ''Remove failed job?'',
                  text_of ''DialogDescription''
                    ''This permanently removes the failed job record. This action cannot be undone.''],
               El ''DialogFooter'' []
                 [El ''DialogClose'' [(''disabled'', Flag (am_working m))] [Text ''Cancel''],
                  El ''Button''
                    [(''type'', Str ''submit''), (''variant'', Str ''destructive''),
                     (''disabled'', Flag (am_working m)), (''onSubmit'', On (Send Remove_op))]
                    [El (if am_working m then ''LoaderCircleIcon'' else ''Trash2Icon'') [] [],
                     Text (if am_working m then ''Removing'' else ''Remove'')]]]]]]"

fun failed_job_perform ::
  "string \<Rightarrow> operation menu_act \<Rightarrow> (bool, bool, job_request) action_menu \<Rightarrow> (bool, bool, job_request) action_menu" where
  "failed_job_perform jobId (Ask k) m = m\<lparr>am_dialogs := True\<rparr>"
| "failed_job_perform jobId (Dismiss k) m = m\<lparr>am_dialogs := False\<rparr>"
| "failed_job_perform jobId (Send k) m =
     router_call True (if k = Retry_op then Retry_job jobId else Remove_job jobId) m"

fun failed_job_success :: "job_request \<Rightarrow> (bool, bool, job_request) action_menu \<Rightarrow> (bool, bool, job_request) action_menu" where
  "failed_job_success (Remove_job jobId) m = m\<lparr>am_dialogs := False\<rparr>"
| "failed_job_success r m = m"

interpretation failed_job: confirmed_request "FailedJobActionsMenu canRetry" "failed_job_perform jobId"
  failed_job_success False "only_dialog (Remove_job jobId)"
proof unfold_locales
  fix a m r and shown :: "bool \<Rightarrow> bool"
  show "a \<in> set (reachable (FailedJobActionsMenu canRetry m)) \<Longrightarrow>
      quiet m (failed_job_perform jobId a m) \<or> sends False m (failed_job_perform jobId a m)"
    by (auto simp: FailedJobActionsMenu_def menu_defs split: if_splits)
  show "am_sent (failed_job_success r m) = am_sent m" by (cases r) simp_all
  show "a \<in> set (reachable (FailedJobActionsMenu canRetry m)) \<Longrightarrow>
      am_sent (failed_job_perform jobId a m) = am_sent m @ [r] \<Longrightarrow>
      only_dialog (Remove_job jobId) r = Some shown \<Longrightarrow>
      shown (am_dialogs m) \<and> am_dialogs (failed_job_perform jobId a m) = am_dialogs m"
    by (auto simp: FailedJobActionsMenu_def menu_defs split: if_splits)
  show "only_dialog (Remove_job jobId) r = Some shown \<Longrightarrow> \<not> shown (am_dialogs (failed_job_success r m))"
    by (auto simp: only_dialog_def split: if_splits)
qed

section \<open>A pending job\<close>

text \<open>The state is the action its dialog asks about, \<open>None\<close> when it is closed.\<close>

definition pending_job_dialog :: "operation option \<Rightarrow> bool \<Rightarrow> operation menu_act node" where
  "pending_job_dialog action busy =
     (let releasing = (action = Some Release_op)
      in confirmation (action \<noteq> None) (Dismiss Cancel_op)
           (if releasing then ''Make this job available now?'' else ''Cancel this job?'')
           (if releasing
            then ''Move this job out of its schedule and make it available to workers immediately. Existing ready jobs remain ahead of it.''
            else ''Remove this job before a worker reserves it. The job will not run, and this action cannot be undone.'')
           busy (if releasing then ''Keep scheduled'' else ''Keep job'')
           (action_button (Some (if releasing then ''default'' else ''destructive'')) busy
              (Send (if releasing then Release_op else Cancel_op)) (if releasing then ''PlayIcon'' else ''BanIcon'')
              (if busy then (if releasing then ''Making available'' else ''Cancelling'') @ ellipsis
               else if releasing then ''Make available now'' else ''Cancel job'')))"

definition PendingJobActionsMenu ::
  "bool \<Rightarrow> bool \<Rightarrow> (operation option, bool, job_request) action_menu \<Rightarrow> operation menu_act node list" where
  "PendingJobActionsMenu canCancel canRelease m =
     (if \<not> canCancel \<and> \<not> canRelease then []
      else [dropdown True ''Pending job actions'' (am_working m) []
              (child_if canRelease [menu_item False False (Ask Release_op) ''PlayIcon'' ''Make available now''] @
               child_if canCancel [menu_item True False (Ask Cancel_op) ''BanIcon'' ''Cancel job'']),
            pending_job_dialog (am_dialogs m) (am_working m)])"

fun pending_job_perform ::
  "string \<Rightarrow> operation menu_act \<Rightarrow> (operation option, bool, job_request) action_menu \<Rightarrow>
   (operation option, bool, job_request) action_menu" where
  "pending_job_perform jobId (Ask k) m = m\<lparr>am_dialogs := Some k\<rparr>"
| "pending_job_perform jobId (Dismiss k) m = m\<lparr>am_dialogs := None\<rparr>"
| "pending_job_perform jobId (Send k) m =
     router_call True (if k = Release_op then Release_job jobId else Cancel_job jobId) m"

definition pending_job_success ::
  "job_request \<Rightarrow> (operation option, bool, job_request) action_menu \<Rightarrow> (operation option, bool, job_request) action_menu" where
  "pending_job_success r m = m\<lparr>am_dialogs := None\<rparr>"

text \<open>The dialog asks for just the operation whose request it sends.\<close>

definition job_dialog :: "string \<Rightarrow> job_request \<Rightarrow> (operation option \<Rightarrow> bool) option" where
  "job_dialog jobId r =
     (if r = Release_job jobId then Some (\<lambda>action. action = Some Release_op)
      else if r = Cancel_job jobId then Some (\<lambda>action. action \<noteq> None \<and> action \<noteq> Some Release_op) else None)"

interpretation pending_job: confirmed_request "PendingJobActionsMenu canCancel canRelease" "pending_job_perform jobId"
  pending_job_success False "job_dialog jobId"
proof unfold_locales
  fix a m r and shown :: "operation option \<Rightarrow> bool"
  show "a \<in> set (reachable (PendingJobActionsMenu canCancel canRelease m)) \<Longrightarrow>
      quiet m (pending_job_perform jobId a m) \<or> sends False m (pending_job_perform jobId a m)"
    by (auto simp: PendingJobActionsMenu_def pending_job_dialog_def menu_defs split: if_splits)
  show "a \<in> set (reachable (PendingJobActionsMenu canCancel canRelease m)) \<Longrightarrow>
      am_sent (pending_job_perform jobId a m) = am_sent m @ [r] \<Longrightarrow> job_dialog jobId r = Some shown \<Longrightarrow>
      shown (am_dialogs m) \<and> am_dialogs (pending_job_perform jobId a m) = am_dialogs m"
    by (auto simp: PendingJobActionsMenu_def pending_job_dialog_def menu_defs job_dialog_def split: if_splits)
qed (auto simp: pending_job_success_def job_dialog_def split: if_splits)

section \<open>The pending jobs\<close>

datatype PendingCancellationScope = Scope_ready | Scope_delayed | Scope_all_pending

record cancellation_copy =
  cc_label :: string
  cc_title :: string
  cc_description :: string

fun cancellationCopy :: "PendingCancellationScope \<Rightarrow> cancellation_copy" where
  "cancellationCopy Scope_ready = \<lparr>cc_label = ''Cancel all ready jobs'', cc_title = ''Cancel all ready jobs?'',
     cc_description = ''Cancel every ready job before a worker reserves it. Delayed, reserved, and running jobs will not be affected. Batched jobs are skipped and must be cancelled from their batch.''\<rparr>"
| "cancellationCopy Scope_delayed = \<lparr>cc_label = ''Cancel all delayed jobs'', cc_title = ''Cancel all delayed jobs?'',
     cc_description = ''Cancel every job that is currently delayed. Ready, reserved, and running jobs will not be affected. Batched jobs are skipped and must be cancelled from their batch.''\<rparr>"
| "cancellationCopy Scope_all_pending = \<lparr>cc_label = ''Cancel all pending jobs'', cc_title = ''Cancel all pending jobs?'',
     cc_description = ''Cancel every ready and delayed job before a worker reserves it. Reserved and running jobs will not be affected. Batched jobs are skipped and must be cancelled from their batch.''\<rparr>"

definition cancellationScopes :: "PendingCancellationScope list" where
  "cancellationScopes = [Scope_all_pending, Scope_ready, Scope_delayed]"

definition scope_has_jobs :: "int \<Rightarrow> int \<Rightarrow> PendingCancellationScope \<Rightarrow> bool" where
  "scope_has_jobs ready delayed scope =
     (if scope = Scope_ready then ready > 0
      else if scope = Scope_delayed then delayed > 0 else ready > 0 \<and> delayed > 0)"

definition availableScopes :: "int option \<Rightarrow> int option \<Rightarrow> PendingCancellationScope list" where
  "availableScopes ready delayed =
     filter (\<lambda>scope. case (ready, delayed) of (Some r, Some d) \<Rightarrow> scope_has_jobs r d scope | _ \<Rightarrow> False)
       cancellationScopes"

text \<open>
  \<open>title.replace(/\?$/, replacement)\<close>: the pattern stands at the end, and the dollar patterns of
  the replacement are expanded, also those in the name of the queue: \<^verbatim>\<open>$$\<close> a dollar,
  \<^verbatim>\<open>$&\<close> the match, the text before it and the (empty) text after it.
\<close>

fun expand_pattern :: "string \<Rightarrow> string \<Rightarrow> string \<Rightarrow> string" where
  "expand_pattern before matched [] = []"
| "expand_pattern before matched [c] = [c]"
| "expand_pattern before matched (c # d # cs) =
     (if c \<noteq> CHR ''$'' then c # expand_pattern before matched (d # cs)
      else if d = CHR ''$'' then CHR ''$'' # expand_pattern before matched cs
      else if d = CHR ''&'' then matched @ expand_pattern before matched cs
      else if d = CHR 0x60 then before @ expand_pattern before matched cs
      else if d = CHR 0x27 then expand_pattern before matched cs
      else c # expand_pattern before matched (d # cs))"

definition title_from_queue :: "string \<Rightarrow> string \<Rightarrow> string" where
  "title_from_queue title queue =
     (if title \<noteq> [] \<and> last title = CHR ''?''
      then butlast title @ expand_pattern (butlast title) ''?'' ('' from '' @ queue @ ''?'') else title)"

record pending_jobs_props =
  pp_disabled :: bool
  pp_queue :: "string option"
  pp_ready :: "int option"
  pp_delayed :: "int option"

definition pending_jobs_title :: "pending_jobs_props \<Rightarrow> PendingCancellationScope option \<Rightarrow> string" where
  "pending_jobs_title p scope =
     (case scope of
        None \<Rightarrow> []
      | Some s \<Rightarrow> if falsy_text (pp_queue p) then cc_title (cancellationCopy s)
                  else title_from_queue (cc_title (cancellationCopy s)) (the (pp_queue p)))"

definition copy_text :: "(cancellation_copy \<Rightarrow> string) \<Rightarrow> PendingCancellationScope option \<Rightarrow> string" where
  "copy_text f scope = (case scope of None \<Rightarrow> [] | Some s \<Rightarrow> f (cancellationCopy s))"

definition pending_jobs_description :: "pending_jobs_props \<Rightarrow> PendingCancellationScope option \<Rightarrow> string" where
  "pending_jobs_description p scope =
     copy_text cc_description scope @
     (if falsy_text (pp_queue p) then []
      else '' This action is limited to the '' @ the (pp_queue p) @ '' queue.'')"

datatype pending_request = Cancel_pending PendingCancellationScope "string option"

definition PendingJobsActions ::
  "pending_jobs_props \<Rightarrow> (PendingCancellationScope option, bool, pending_request) action_menu \<Rightarrow>
   PendingCancellationScope option menu_act node list" where
  "PendingJobsActions p m =
     (let scopes = availableScopes (pp_ready p) (pp_delayed p); busy = am_working m
      in [dropdown (scopes \<noteq> [] \<and> \<not> pp_disabled p)
            (if falsy_text (pp_queue p) then ''Pending jobs actions''
             else ''Pending jobs actions for '' @ the (pp_queue p)) busy []
            [El ''DropdownMenuGroup'' []
               (map (\<lambda>s. menu_item True (pp_disabled p) (Ask (Some s)) ''BanIcon'' (cc_label (cancellationCopy s)))
                  scopes)],
          confirmation (am_dialogs m \<noteq> None) (Dismiss None) (pending_jobs_title p (am_dialogs m))
            (pending_jobs_description p (am_dialogs m)) busy ''Cancel''
            (busy_button ''Spinner'' (Some ''destructive'') busy (Send None) ''BanIcon''
               (if busy then ''Cancelling'' @ ellipsis else copy_text cc_label (am_dialogs m)))])"

fun pending_jobs_perform ::
  "pending_jobs_props \<Rightarrow> PendingCancellationScope option menu_act \<Rightarrow>
   (PendingCancellationScope option, bool, pending_request) action_menu \<Rightarrow>
   (PendingCancellationScope option, bool, pending_request) action_menu" where
  "pending_jobs_perform p (Ask scope) m = m\<lparr>am_dialogs := scope\<rparr>"
| "pending_jobs_perform p (Dismiss k) m = m\<lparr>am_dialogs := None\<rparr>"
| "pending_jobs_perform p (Send k) m =
     (case am_dialogs m of
        None \<Rightarrow> m
      | Some scope \<Rightarrow>
          router_call True (Cancel_pending scope (if falsy_text (pp_queue p) then None else pp_queue p)) m)"

definition close_scope :: "'r \<Rightarrow> ('s option, bool, 'r) action_menu \<Rightarrow> ('s option, bool, 'r) action_menu" where
  "close_scope r m = m\<lparr>am_dialogs := None\<rparr>"

fun cancellation_dialog :: "pending_request \<Rightarrow> (PendingCancellationScope option \<Rightarrow> bool) option" where
  "cancellation_dialog (Cancel_pending scope queue) = Some (\<lambda>s. s = Some scope)"

lemma scope_items:
  "offers (map (\<lambda>s. menu_item d dis (f s) icon (label s)) ss) = (if dis then [] else map f ss)"
  "icon \<noteq> ''DropdownMenuTrigger'' \<Longrightarrow>
   rows_of ''DropdownMenuTrigger'' (map (\<lambda>s. menu_item d dis (f s) icon (label s)) ss) = []"
  by (induction ss) simp_all

interpretation pending_jobs: confirmed_request "PendingJobsActions p" "pending_jobs_perform p" close_scope False
  cancellation_dialog
proof unfold_locales
  fix a m r and shown :: "PendingCancellationScope option \<Rightarrow> bool"
  show "a \<in> set (reachable (PendingJobsActions p m)) \<Longrightarrow>
      quiet m (pending_jobs_perform p a m) \<or> sends False m (pending_jobs_perform p a m)"
    by (auto simp: PendingJobsActions_def menu_defs scope_items split: if_splits option.splits)
  show "a \<in> set (reachable (PendingJobsActions p m)) \<Longrightarrow>
      am_sent (pending_jobs_perform p a m) = am_sent m @ [r] \<Longrightarrow> cancellation_dialog r = Some shown \<Longrightarrow>
      shown (am_dialogs m) \<and> am_dialogs (pending_jobs_perform p a m) = am_dialogs m"
    by (auto simp: PendingJobsActions_def menu_defs scope_items split: if_splits option.splits)
  show "cancellation_dialog r = Some shown \<Longrightarrow> \<not> shown (am_dialogs (close_scope r m))"
    by (cases r) (auto simp: close_scope_def)
qed (simp add: close_scope_def)

text \<open>Exactly the nonempty scopes are offered, and the menu opens exactly when there is one.\<close>

lemma pending_scopes_offered:
  "am_dialogs m = None \<Longrightarrow> \<not> am_working m \<Longrightarrow>
   reachable (PendingJobsActions p m) =
     (if pp_disabled p then [] else map (Ask \<circ> Some) (availableScopes (pp_ready p) (pp_delayed p)))"
  by (simp add: PendingJobsActions_def Let_def scope_items)

end
