(* ===== verification/Batch_Actions.thy ===== *)
theory Batch_Actions
  imports Job_Actions
begin

text \<open>
  The actions on batches, queues and monitored tags, as menus in the sense of \<open>Action_Menu\<close>:
  \<^verbatim>\<open>resources/js/components/batches/batch-actions.tsx\<close>, \<^verbatim>\<open>batches/batches-actions.tsx\<close>,
  \<^verbatim>\<open>batches/queue-batches-actions.tsx\<close>, \<^verbatim>\<open>queues/queues-actions.tsx\<close> and
  \<^verbatim>\<open>monitoring/monitoring-actions-menu.tsx\<close>. A number's text in the user's locale is the
  argument \<open>toLocaleString\<close>.
\<close>

datatype batch_request =
    Retry_batch string
  | Cancel_batch string
  | Clear_batch_failed string
  | Clear_batches BatchClearScope
  | Retry_queue_batches string
  | Clear_all_queues

section \<open>The pending and failed jobs of a batch\<close>

record batch_dialogs =
  bd_cancel :: bool
  bd_retry :: bool

text \<open>\<open>BatchPendingJobsActions\<close>\<close>

definition BatchPendingJobsActions ::
  "bool \<Rightarrow> bool \<Rightarrow> string \<Rightarrow> (batch_dialogs, bool, batch_request) action_menu \<Rightarrow> operation menu_act node list" where
  "BatchPendingJobsActions canCancel canRetry ariaLabel m =
     (let busy = am_working m
      in [dropdown (canRetry \<or> canCancel) ariaLabel busy []
            (child_if canRetry
               [menu_item False False (Ask Retry_op) ''RotateCcwIcon'' ''Retry all failed jobs'', separator] @
             [menu_item True (\<not> canCancel) (Ask Cancel_op) ''BanIcon'' ''Cancel batch'']),
          confirmation (bd_retry (am_dialogs m)) (Dismiss Retry_op) ''Retry all failed jobs?''
            ''Retry every failed job retained for this batch. Jobs that fail again will return to the failed jobs list.''
            busy ''Cancel''
            (action_button None busy (Send Retry_op) ''RotateCcwIcon''
               (if busy then ''Retrying'' @ ellipsis else ''Retry all failed jobs'')),
          confirmation (bd_cancel (am_dialogs m)) (Dismiss Cancel_op) ''Cancel this batch?''
            ''Mark this batch as cancelled. Pending jobs that honor Laravel batch cancellation will be skipped, while jobs already running may still finish. This action cannot be undone.''
            busy ''Keep batch running''
            (action_button (Some ''destructive'') busy (Send Cancel_op) ''BanIcon''
               (if busy then ''Cancelling'' @ ellipsis else ''Cancel batch''))])"

definition show_batch_dialog :: "operation \<Rightarrow> bool \<Rightarrow> batch_dialogs \<Rightarrow> batch_dialogs" where
  "show_batch_dialog k b d = (if k = Retry_op then d\<lparr>bd_retry := b\<rparr> else d\<lparr>bd_cancel := b\<rparr>)"

fun batch_pending_perform ::
  "string \<Rightarrow> operation menu_act \<Rightarrow> (batch_dialogs, bool, batch_request) action_menu \<Rightarrow>
   (batch_dialogs, bool, batch_request) action_menu" where
  "batch_pending_perform batchId (Ask k) m = m\<lparr>am_dialogs := show_batch_dialog k True (am_dialogs m)\<rparr>"
| "batch_pending_perform batchId (Dismiss k) m = m\<lparr>am_dialogs := show_batch_dialog k False (am_dialogs m)\<rparr>"
| "batch_pending_perform batchId (Send k) m =
     router_call True (if k = Retry_op then Retry_batch batchId else Cancel_batch batchId) m"

fun batch_pending_success ::
  "batch_request \<Rightarrow> (batch_dialogs, bool, batch_request) action_menu \<Rightarrow> (batch_dialogs, bool, batch_request) action_menu" where
  "batch_pending_success (Retry_batch b) m = m\<lparr>am_dialogs := show_batch_dialog Retry_op False (am_dialogs m)\<rparr>"
| "batch_pending_success (Cancel_batch b) m = m\<lparr>am_dialogs := show_batch_dialog Cancel_op False (am_dialogs m)\<rparr>"
| "batch_pending_success r m = m"

fun batch_pending_dialog :: "batch_request \<Rightarrow> (batch_dialogs \<Rightarrow> bool) option" where
  "batch_pending_dialog (Retry_batch b) = Some bd_retry"
| "batch_pending_dialog (Cancel_batch b) = Some bd_cancel"
| "batch_pending_dialog r = None"

interpretation batch_pending: confirmed_request "BatchPendingJobsActions canCancel canRetry ariaLabel"
  "batch_pending_perform batchId" batch_pending_success False batch_pending_dialog
proof unfold_locales
  fix a m r and shown :: "batch_dialogs \<Rightarrow> bool"
  show "a \<in> set (reachable (BatchPendingJobsActions canCancel canRetry ariaLabel m)) \<Longrightarrow>
      quiet m (batch_pending_perform batchId a m) \<or> sends False m (batch_pending_perform batchId a m)"
    by (auto simp: BatchPendingJobsActions_def menu_defs split: if_splits)
  show "am_sent (batch_pending_success r m) = am_sent m" by (cases r) simp_all
  show "a \<in> set (reachable (BatchPendingJobsActions canCancel canRetry ariaLabel m)) \<Longrightarrow>
      am_sent (batch_pending_perform batchId a m) = am_sent m @ [r] \<Longrightarrow> batch_pending_dialog r = Some shown \<Longrightarrow>
      shown (am_dialogs m) \<and> am_dialogs (batch_pending_perform batchId a m) = am_dialogs m"
    by (auto simp: BatchPendingJobsActions_def menu_defs split: if_splits)
  show "batch_pending_dialog r = Some shown \<Longrightarrow> \<not> shown (am_dialogs (batch_pending_success r m))"
    by (cases r) (auto simp: show_batch_dialog_def)
qed

text \<open>\<open>BatchFailedJobsActions\<close>\<close>

definition BatchFailedJobsActions ::
  "bool \<Rightarrow> (bool, bool, batch_request) action_menu \<Rightarrow> operation menu_act node list" where
  "BatchFailedJobsActions disabled m =
     [dropdown (\<not> disabled) ''Failed batch jobs actions'' (am_working m) []
        [menu_item False False (Send Retry_op) ''RotateCcwIcon'' ''Retry all failed jobs'', separator,
         menu_item True False (Ask Clear_op) ''Trash2Icon'' ''Clear all failed jobs''],
      confirmation (am_dialogs m) (Dismiss Clear_op) (''Clear this batch'' @ right_quote @ ''s failed jobs?'')
        ''Permanently remove every failed job record retained for this batch. Failed jobs from other batches are not affected. This action cannot be undone.''
        (am_working m) ''Cancel''
        (action_button (Some ''destructive'') (am_working m) (Send Clear_op) ''Trash2Icon''
           (if am_working m then ''Clearing'' @ ellipsis else ''Clear all failed jobs''))]"

fun batch_failed_perform ::
  "string \<Rightarrow> operation menu_act \<Rightarrow> (bool, bool, batch_request) action_menu \<Rightarrow> (bool, bool, batch_request) action_menu" where
  "batch_failed_perform batchId (Ask k) m = m\<lparr>am_dialogs := True\<rparr>"
| "batch_failed_perform batchId (Dismiss k) m = m\<lparr>am_dialogs := False\<rparr>"
| "batch_failed_perform batchId (Send k) m =
     router_call True (if k = Retry_op then Retry_batch batchId else Clear_batch_failed batchId) m"

fun batch_failed_success :: "batch_request \<Rightarrow> (bool, bool, batch_request) action_menu \<Rightarrow> (bool, bool, batch_request) action_menu" where
  "batch_failed_success (Clear_batch_failed b) m = m\<lparr>am_dialogs := False\<rparr>"
| "batch_failed_success r m = m"

interpretation batch_failed: confirmed_request "BatchFailedJobsActions disabled" "batch_failed_perform batchId"
  batch_failed_success False "only_dialog (Clear_batch_failed batchId)"
proof unfold_locales
  fix a m r and shown :: "bool \<Rightarrow> bool"
  show "a \<in> set (reachable (BatchFailedJobsActions disabled m)) \<Longrightarrow>
      quiet m (batch_failed_perform batchId a m) \<or> sends False m (batch_failed_perform batchId a m)"
    by (auto simp: BatchFailedJobsActions_def menu_defs split: if_splits)
  show "am_sent (batch_failed_success r m) = am_sent m" by (cases r) simp_all
  show "a \<in> set (reachable (BatchFailedJobsActions disabled m)) \<Longrightarrow>
      am_sent (batch_failed_perform batchId a m) = am_sent m @ [r] \<Longrightarrow>
      only_dialog (Clear_batch_failed batchId) r = Some shown \<Longrightarrow>
      shown (am_dialogs m) \<and> am_dialogs (batch_failed_perform batchId a m) = am_dialogs m"
    by (auto simp: BatchFailedJobsActions_def menu_defs split: if_splits)
  show "only_dialog (Clear_batch_failed batchId) r = Some shown \<Longrightarrow>
      \<not> shown (am_dialogs (batch_failed_success r m))"
    by (auto simp: only_dialog_def split: if_splits)
qed

section \<open>Clearing batches\<close>

definition clearScopes :: "BatchClearScope list" where
  "clearScopes = [Clear_incomplete, Clear_complete, Clear_finished, Clear_cancelled]"

fun clear_scope_name :: "BatchClearScope \<Rightarrow> string" where
  "clear_scope_name Clear_incomplete = ''incomplete''"
| "clear_scope_name Clear_complete = ''complete''"
| "clear_scope_name Clear_finished = ''finished''"
| "clear_scope_name Clear_cancelled = ''cancelled''"

definition clear_label :: "BatchClearScope \<Rightarrow> string" where
  "clear_label scope = ''Clear '' @ clear_scope_name scope @ '' batches''"

definition batch_word :: "int \<Rightarrow> string" where
  "batch_word count = (if count = 1 then ''batch'' else ''batches'')"

fun clear_description :: "(int \<Rightarrow> string) \<Rightarrow> BatchClearScope \<Rightarrow> int \<Rightarrow> string" where
  "clear_description toLocaleString Clear_incomplete count =
     ''Permanently remove '' @ toLocaleString count @ '' failure-stalled '' @ batch_word count @
     '' with no pending or reserved jobs. In-progress and cancelled batches are not affected. This action cannot be undone.''"
| "clear_description toLocaleString Clear_complete count =
     ''Permanently remove '' @ toLocaleString count @ '' completed '' @ batch_word count @
     ''. In-progress, incomplete, and cancelled batches are not affected. This action cannot be undone.''"
| "clear_description toLocaleString Clear_finished count =
     ''Permanently remove '' @ toLocaleString count @ '' complete or incomplete '' @ batch_word count @
     ''. In-progress and cancelled batches are not affected. This action cannot be undone.''"
| "clear_description toLocaleString Clear_cancelled count =
     ''Permanently remove '' @ toLocaleString count @ '' cancelled '' @ batch_word count @
     '' with no pending or reserved jobs. Cancelled batches that still have live work are not affected. This action cannot be undone.''"

definition BatchesActions ::
  "(int \<Rightarrow> string) \<Rightarrow> BatchClearCounts \<Rightarrow> (BatchClearScope option, bool, batch_request) action_menu \<Rightarrow>
   BatchClearScope option menu_act node list" where
  "BatchesActions toLocaleString counts m =
     (let busy = am_working m
      in if \<not> bcc_completeScan counts then []
         else [dropdown (bcc_available counts \<and> list_ex (\<lambda>s. bcc_count counts s > 0) clearScopes) ''Batch actions'' busy []
                 (map (\<lambda>s. menu_item True (\<not> bcc_available counts \<or> bcc_count counts s = 0) (Ask (Some s))
                    ''Trash2Icon'' (clear_label s)) clearScopes),
               confirmation (am_dialogs m \<noteq> None) (Dismiss None)
                 (case am_dialogs m of Some s \<Rightarrow> clear_label s @ ''?'' | None \<Rightarrow> [])
                 (case am_dialogs m of
                    Some s \<Rightarrow> clear_description toLocaleString s (bcc_count counts s) | None \<Rightarrow> [])
                 busy ''Cancel''
                 (action_button (Some ''destructive'') busy (Send None) ''Trash2Icon''
                    (if busy then ''Clearing'' @ ellipsis
                     else case am_dialogs m of Some s \<Rightarrow> clear_label s | None \<Rightarrow> []))])"

fun batches_perform ::
  "BatchClearScope option menu_act \<Rightarrow> (BatchClearScope option, bool, batch_request) action_menu \<Rightarrow>
   (BatchClearScope option, bool, batch_request) action_menu" where
  "batches_perform (Ask scope) m = m\<lparr>am_dialogs := scope\<rparr>"
| "batches_perform (Dismiss k) m = m\<lparr>am_dialogs := None\<rparr>"
| "batches_perform (Send k) m =
     (case am_dialogs m of None \<Rightarrow> m | Some scope \<Rightarrow> router_call True (Clear_batches scope) m)"

fun clear_dialog_of :: "batch_request \<Rightarrow> (BatchClearScope option \<Rightarrow> bool) option" where
  "clear_dialog_of (Clear_batches scope) = Some (\<lambda>s. s = Some scope)"
| "clear_dialog_of r = None"

interpretation batches: confirmed_request "BatchesActions toLocaleString counts" batches_perform close_scope False
  clear_dialog_of
proof unfold_locales
  fix a m r and shown :: "BatchClearScope option \<Rightarrow> bool"
  show "a \<in> set (reachable (BatchesActions toLocaleString counts m)) \<Longrightarrow>
      quiet m (batches_perform a m) \<or> sends False m (batches_perform a m)"
    by (auto simp: BatchesActions_def menu_defs clearScopes_def split: if_splits option.splits)
  show "a \<in> set (reachable (BatchesActions toLocaleString counts m)) \<Longrightarrow>
      am_sent (batches_perform a m) = am_sent m @ [r] \<Longrightarrow> clear_dialog_of r = Some shown \<Longrightarrow>
      shown (am_dialogs m) \<and> am_dialogs (batches_perform a m) = am_dialogs m"
    by (auto simp: BatchesActions_def menu_defs clearScopes_def split: if_splits option.splits)
  show "clear_dialog_of r = Some shown \<Longrightarrow> \<not> shown (am_dialogs (close_scope r m))"
    by (cases r) (auto simp: close_scope_def)
qed (simp add: close_scope_def)

section \<open>The jobs of a queue's batches, and all queues\<close>

text \<open>A menu with one operation, which its dialog confirms.\<close>

fun one_dialog_perform ::
  "'r \<Rightarrow> operation menu_act \<Rightarrow> (bool, bool, 'r) action_menu \<Rightarrow> (bool, bool, 'r) action_menu" where
  "one_dialog_perform request (Ask k) m = m\<lparr>am_dialogs := True\<rparr>"
| "one_dialog_perform request (Dismiss k) m = m\<lparr>am_dialogs := False\<rparr>"
| "one_dialog_perform request (Send k) m = router_call True request m"

definition shut_dialog :: "'r \<Rightarrow> (bool, bool, 'r) action_menu \<Rightarrow> (bool, bool, 'r) action_menu" where
  "shut_dialog r m = m\<lparr>am_dialogs := False\<rparr>"

definition QueueBatchesActions ::
  "string \<Rightarrow> int \<Rightarrow> (bool, bool, batch_request) action_menu \<Rightarrow> operation menu_act node list" where
  "QueueBatchesActions queue failedJobs m =
     [dropdown (failedJobs > 0) (''Batch jobs actions for '' @ queue) (am_working m) []
        [menu_item False (failedJobs = 0) (Ask Retry_op) ''RotateCcwIcon'' ''Retry all failed jobs''],
      confirmation (am_dialogs m) (Dismiss Retry_op) ''Retry all failed jobs from these batches?''
        ''Schedule every eligible failed job from the retained batches in this queue. Previously retried jobs are skipped.''
        (am_working m) ''Cancel''
        (action_button None (am_working m) (Send Retry_op) ''RotateCcwIcon''
           (if am_working m then ''Retrying'' @ ellipsis else ''Retry all failed jobs''))]"

definition QueuesActions ::
  "int \<Rightarrow> int \<Rightarrow> (bool, bool, batch_request) action_menu \<Rightarrow> operation menu_act node list" where
  "QueuesActions queueCount pendingJobs m =
     [dropdown (pendingJobs > 0) ''Queue list actions'' (am_working m) []
        [menu_item True (pendingJobs = 0) (Ask Clear_op) ''Trash2Icon'' ''Clear all queues''],
      confirmation (am_dialogs m) (Dismiss Clear_op) ''Clear all queues?''
        (''Permanently delete all pending, delayed, and reserved jobs from '' @ int_text queueCount @ '' supervised'' @
         (if queueCount = 1 then '' queue'' else '' queues'') @
         ''. Jobs already processing may still finish. This cannot be undone.'')
        (am_working m) ''Cancel''
        (action_button (Some ''destructive'') (am_working m) (Send Clear_op) ''Trash2Icon''
           (if am_working m then ''Clearing'' @ ellipsis else ''Clear all queues''))]"

lemma one_dialog_contract:
  assumes "\<And>m a. a \<in> set (reachable (view m)) \<Longrightarrow>
      (\<exists>k. a = Ask k \<or> a = Dismiss k) \<or> (\<exists>k. a = Send k) \<and> am_dialogs m \<and> \<not> am_working m"
  shows "confirmed_request view (one_dialog_perform request) shut_dialog False (only_dialog request)"
proof unfold_locales
  fix a m r and shown :: "bool \<Rightarrow> bool"
  assume "a \<in> set (reachable (view m))"
  note a = assms [OF this]
  show "quiet m (one_dialog_perform request a m) \<or> sends False m (one_dialog_perform request a m)"
    using a by (auto simp: menu_defs)
  assume "am_sent (one_dialog_perform request a m) = am_sent m @ [r]" "only_dialog request r = Some shown"
  with a show "shown (am_dialogs m) \<and> am_dialogs (one_dialog_perform request a m) = am_dialogs m"
    by (auto simp: menu_defs split: if_splits)
qed (auto simp: shut_dialog_def only_dialog_def split: if_splits)

interpretation queue_batches: confirmed_request "QueueBatchesActions queue failedJobs"
  "one_dialog_perform (Retry_queue_batches queue)" shut_dialog False "only_dialog (Retry_queue_batches queue)"
  by (rule one_dialog_contract) (auto simp: QueueBatchesActions_def split: if_splits)

interpretation all_queues: confirmed_request "QueuesActions queueCount pendingJobs"
  "one_dialog_perform Clear_all_queues" shut_dialog False "only_dialog Clear_all_queues"
  by (rule one_dialog_contract) (auto simp: QueuesActions_def split: if_splits)

section \<open>A monitored tag\<close>

text \<open>
  Here the flag says which action is under way. A success of \<open>stop\<close> visits the list of monitored
  tags when the menu is on the tag's own page; \<open>md_visits\<close> counts these visits.
\<close>

record monitoring_dialogs =
  md_clear :: bool
  md_retry :: bool
  md_visits :: nat

datatype monitoring_request =
    Stop_monitoring string bool
  | Retry_tagged string
  | Clear_recent string

type_synonym monitoring_menu = "(monitoring_dialogs, operation option, monitoring_request) action_menu"

definition job_word :: "int option \<Rightarrow> string" where
  "job_word count = (if count = Some 1 then ''job'' else ''jobs'')"

definition count_text :: "int option \<Rightarrow> string" where
  "count_text count = (case count of Some n \<Rightarrow> int_text n | None \<Rightarrow> [])"

definition monitoring_button ::
  "string option \<Rightarrow> operation option \<Rightarrow> operation \<Rightarrow> string \<Rightarrow> string \<Rightarrow> operation menu_act node" where
  "monitoring_button variant busy k working_label label =
     El ''Button''
       ([(''type'', Str ''button'')] @
        (case variant of Some v \<Rightarrow> [(''variant'', Str v)] | None \<Rightarrow> []) @
        [(''disabled'', Flag (busy \<noteq> None)), (''onClick'', On (Send k))])
       (child_if (busy = Some k) [El ''LoaderCircleIcon'' [] []] @
        [Text (if busy = Some k then working_label @ ellipsis else label)])"

definition MonitoringActionsMenu ::
  "string \<Rightarrow> int option \<Rightarrow> int option \<Rightarrow> monitoring_menu \<Rightarrow> operation menu_act node list" where
  "MonitoringActionsMenu tag trackedCount failedCount m =
     (let busy = am_working m; failed = nullish failedCount 0 > 0; tracked = nullish trackedCount 0 > 0
      in [dropdown True ((if busy \<noteq> None then ''Updating monitoring for '' else ''Monitoring actions for '') @ tag)
            (busy \<noteq> None) (child_if (busy \<noteq> None) [El ''LoaderCircleIcon'' [] []])
            (child_if (failed \<or> tracked)
               [El ''DropdownMenuGroup'' []
                  (child_if failed [menu_item False False (Ask Retry_op) ''RotateCcwIcon'' ''Retry failed jobs''] @
                   child_if tracked [menu_item False False (Ask Clear_op) ''Trash2Icon'' ''Clear recent jobs'']),
                separator] @
             [El ''DropdownMenuGroup'' []
                [menu_item True False (Send Stop_op) ''CircleXIcon'' ''Stop monitoring'']]),
          confirmation (md_retry (am_dialogs m)) (Dismiss Retry_op) (''Retry failed jobs tagged '' @ tag @ ''?'')
            (''Schedule '' @ count_text failedCount @ '' eligible failed '' @ job_word failedCount @
             '' for retry. Previously retried jobs are skipped.'')
            (busy \<noteq> None) ''Cancel'' (monitoring_button None busy Retry_op ''Retrying'' ''Retry failed jobs''),
          confirmation (md_clear (am_dialogs m)) (Dismiss Clear_op) (''Clear recent jobs for '' @ tag @ ''?'')
            (''Remove '' @ count_text trackedCount @ '' recent '' @ job_word trackedCount @
             '' from this monitor. Monitoring continues and new matching jobs will appear.'')
            (busy \<noteq> None) ''Cancel''
            (monitoring_button (Some ''destructive'') busy Clear_op ''Clearing'' ''Clear recent jobs'')])"

definition show_monitoring_dialog :: "operation \<Rightarrow> bool \<Rightarrow> monitoring_dialogs \<Rightarrow> monitoring_dialogs" where
  "show_monitoring_dialog k b d = (if k = Retry_op then d\<lparr>md_retry := b\<rparr> else d\<lparr>md_clear := b\<rparr>)"

fun monitoring_request_of :: "string \<Rightarrow> bool \<Rightarrow> operation \<Rightarrow> monitoring_request" where
  "monitoring_request_of tag redirectToIndex Stop_op = Stop_monitoring tag (\<not> redirectToIndex)"
| "monitoring_request_of tag redirectToIndex Retry_op = Retry_tagged tag"
| "monitoring_request_of tag redirectToIndex k = Clear_recent tag"

fun monitoring_perform :: "string \<Rightarrow> bool \<Rightarrow> operation menu_act \<Rightarrow> monitoring_menu \<Rightarrow> monitoring_menu" where
  "monitoring_perform tag redirectToIndex (Ask k) m =
     m\<lparr>am_dialogs := show_monitoring_dialog k True (am_dialogs m)\<rparr>"
| "monitoring_perform tag redirectToIndex (Dismiss k) m =
     m\<lparr>am_dialogs := show_monitoring_dialog k False (am_dialogs m)\<rparr>"
| "monitoring_perform tag redirectToIndex (Send k) m =
     router_call (Some k) (monitoring_request_of tag redirectToIndex k) m"

fun monitoring_success :: "bool \<Rightarrow> monitoring_request \<Rightarrow> monitoring_menu \<Rightarrow> monitoring_menu" where
  "monitoring_success redirectToIndex (Stop_monitoring t p) m =
     (if redirectToIndex then m\<lparr>am_dialogs := (am_dialogs m)\<lparr>md_visits := Suc (md_visits (am_dialogs m))\<rparr>\<rparr> else m)"
| "monitoring_success redirectToIndex (Retry_tagged t) m =
     m\<lparr>am_dialogs := show_monitoring_dialog Retry_op False (am_dialogs m)\<rparr>"
| "monitoring_success redirectToIndex (Clear_recent t) m =
     m\<lparr>am_dialogs := show_monitoring_dialog Clear_op False (am_dialogs m)\<rparr>"

fun monitoring_dialog :: "monitoring_request \<Rightarrow> (monitoring_dialogs \<Rightarrow> bool) option" where
  "monitoring_dialog (Retry_tagged t) = Some md_retry"
| "monitoring_dialog (Clear_recent t) = Some md_clear"
| "monitoring_dialog r = None"

lemma offered_monitoring_button [simp]:
  "offered (monitoring_button v busy k w l) = (if busy \<noteq> None then [] else [Send k])"
  by (simp add: monitoring_button_def child_if_def split: option.split)

lemma reachable_spinner_dropdown [simp]:
  "rows_of ''DropdownMenuTrigger'' items = [] \<Longrightarrow>
   reachable_in (dropdown available label busy [El ''LoaderCircleIcon'' [] []] items) =
     (if available \<and> \<not> busy then offers items else [])"
  by (rule reachable_dropdown) simp_all

interpretation monitoring: confirmed_request "MonitoringActionsMenu tag trackedCount failedCount"
  "monitoring_perform tag redirectToIndex" "monitoring_success redirectToIndex" None monitoring_dialog
proof unfold_locales
  fix a m r and shown :: "monitoring_dialogs \<Rightarrow> bool"
  have items: "rows_of ''DropdownMenuTrigger'' (child_if c ns) = (if c then rows_of ''DropdownMenuTrigger'' ns else [])"
    for c and ns :: "operation menu_act node list" by (simp add: child_if_def)
  show "a \<in> set (reachable (MonitoringActionsMenu tag trackedCount failedCount m)) \<Longrightarrow>
      quiet m (monitoring_perform tag redirectToIndex a m) \<or> sends None m (monitoring_perform tag redirectToIndex a m)"
    by (auto simp: MonitoringActionsMenu_def quiet_def sends_def router_call_def Let_def items child_if_def
        split: if_splits)
  show "am_sent (monitoring_success redirectToIndex r m) = am_sent m" by (cases r) simp_all
  show "a \<in> set (reachable (MonitoringActionsMenu tag trackedCount failedCount m)) \<Longrightarrow>
      am_sent (monitoring_perform tag redirectToIndex a m) = am_sent m @ [r] \<Longrightarrow> monitoring_dialog r = Some shown \<Longrightarrow>
      shown (am_dialogs m) \<and> am_dialogs (monitoring_perform tag redirectToIndex a m) = am_dialogs m"
    by (auto simp: MonitoringActionsMenu_def router_call_def Let_def items child_if_def split: if_splits)
  show "monitoring_dialog r = Some shown \<Longrightarrow> \<not> shown (am_dialogs (monitoring_success redirectToIndex r m))"
    by (cases r) (auto simp: show_monitoring_dialog_def)
qed

section \<open>Properties\<close>

text \<open>
  C22: no menu has two requests under way. Whatever the reader chooses among the actions he can
  reach, and however the requests are answered, each of the twelve menus and buttons has at most
  one request under way, shows itself as working exactly while there is one, and sends the next
  one only when the last was answered.
\<close>

theorem menus_send_one_request_at_a_time:
  "one_at_a_time False (menu_life (RetryFailedJobButton disabled showLabel) (retry_button jobId) no_dialog False () es1) \<and>
   one_at_a_time False (menu_life (RetryAllFailedJobsButton disabled) retry_all_button no_dialog False () es2) \<and>
   one_at_a_time False (menu_life (FailedJobsActionsMenu p) failed_jobs_perform failed_jobs_success False False es3) \<and>
   one_at_a_time False (menu_life (FailedJobActionsMenu canRetry) (failed_job_perform jobId) failed_job_success False False es4) \<and>
   one_at_a_time False (menu_life (PendingJobActionsMenu canCancel canRelease) (pending_job_perform jobId)
     pending_job_success False None es5) \<and>
   one_at_a_time False (menu_life (PendingJobsActions pp) (pending_jobs_perform pp) close_scope False None es6) \<and>
   one_at_a_time False (menu_life (BatchPendingJobsActions canCancel canRetry ariaLabel) (batch_pending_perform batchId)
     batch_pending_success False \<lparr>bd_cancel = False, bd_retry = False\<rparr> es7) \<and>
   one_at_a_time False (menu_life (BatchFailedJobsActions disabled) (batch_failed_perform batchId)
     batch_failed_success False False es8) \<and>
   one_at_a_time False (menu_life (BatchesActions toLocaleString counts) batches_perform close_scope False None es9) \<and>
   one_at_a_time False (menu_life (QueueBatchesActions queue failedJobs)
     (one_dialog_perform (Retry_queue_batches queue)) shut_dialog False False es10) \<and>
   one_at_a_time False (menu_life (QueuesActions queueCount pendingJobs)
     (one_dialog_perform Clear_all_queues) shut_dialog False False es11) \<and>
   one_at_a_time None (menu_life (MonitoringActionsMenu tag trackedCount failedCount)
     (monitoring_perform tag redirectToIndex) (monitoring_success redirectToIndex) None
     \<lparr>md_clear = False, md_retry = False, md_visits = 0\<rparr> es12)"
  by (intro conjI retry_one.never_two_requests retry_all.never_two_requests failed_jobs.never_two_requests
      failed_job.never_two_requests pending_job.never_two_requests pending_jobs.never_two_requests
      batch_pending.never_two_requests batch_failed.never_two_requests batches.never_two_requests
      queue_batches.never_two_requests all_queues.never_two_requests monitoring.never_two_requests)


end
