(* ===== verification/Data_Table.thy ===== *)
theory Data_Table
  imports Workload_Table Job_Actions
begin

text \<open>
  What the tables share: \<^verbatim>\<open>resources/js/components/data-table/table-sorting.ts\<close>,
  \<^verbatim>\<open>data-table/new-entries-alert.tsx\<close>, \<^verbatim>\<open>jobs/job-tags.tsx\<close>,
  \<^verbatim>\<open>jobs/job-table-primary-cell.tsx\<close>, \<^verbatim>\<open>jobs/job-row.tsx\<close> and the click on a row
  (\<^verbatim>\<open>lib/interactive-target.ts\<close>). A table's action is one of its own type; the URLs of the
  generated routes and the text of a time are arguments.
\<close>

section \<open>Sorting controlled by the parent\<close>

record ControlledTableSorting =
  cs_key :: "string option"
  cs_direction :: SortDirection
  cs_columns :: "string list"

text \<open>The props of a sortable head, or \<open>None\<close> for the empty object.\<close>

definition controlledSortHeader :: "ControlledTableSorting option \<Rightarrow> string \<Rightarrow> (string \<times> SortDirection option) option" where
  "controlledSortHeader sorting key =
     (case sorting of
        None \<Rightarrow> None
      | Some s \<Rightarrow>
          if key \<in> set (cs_columns s) then Some (key, if cs_key s = Some key then Some (cs_direction s) else None)
          else None)"

datatype 'm table_act =
    Sort_column string
  | Row_visit string
  | Row_prefetch string
  | Load_new_entries
  | Row_menu string 'm
  | Tag_action string "operation menu_act"


text \<open>A head without a column key is its label.\<close>

definition sort_head :: "ControlledTableSorting option \<Rightarrow> string \<Rightarrow> string \<Rightarrow> 'm table_act node" where
  "sort_head sorting label key =
     (case controlledSortHeader sorting key of
        Some (k, direction) \<Rightarrow> SortableTableHead label k direction (Sort_column k)
      | None \<Rightarrow> El ''TableHead'' [(''scope'', Str ''col'')] [Text label])"

section \<open>Notices\<close>

definition TableNoticeRow :: "int \<Rightarrow> 'a node list \<Rightarrow> 'a node" where
  "TableNoticeRow cols children =
     El ''TableRow'' []
       [El ''TableCell'' [(''colSpan'', Count cols)]
          [El ''span'' [] [El ''svg'' [(''aria-hidden'', Str ''true'')] []], El ''div'' [] children]]"

definition NewEntriesTableRow :: "int \<Rightarrow> 'a \<Rightarrow> 'a node" where
  "NewEntriesTableRow cols load =
     TableNoticeRow cols
       [El ''p'' []
          [El ''RefreshCwIcon'' [(''aria-hidden'', Str ''true'')] [],
           El ''span'' []
             [Text ''Results have changed. '',
              El ''a'' [(''href'', Str ''#''), (''onClick'', On load)] [Text ''Reload'']]]]"

definition unavailable_alert :: "string \<Rightarrow> string \<Rightarrow> 'a node" where
  "unavailable_alert title description =
     El ''Alert'' [(''variant'', Str ''destructive'')]
       [El ''TriangleAlertIcon'' [] [], text_of ''AlertTitle'' title, text_of ''AlertDescription'' description]"

section \<open>Clicks on rows\<close>

text \<open>
  A row visits its page unless the click's target lies in an interactive element; \<open>ancestors\<close> are
  the elements from the target up, by their tag names and roles.
\<close>

definition isInteractiveTarget :: "(string \<times> string option) list \<Rightarrow> bool" where
  "isInteractiveTarget ancestors \<longleftrightarrow>
     list_ex (\<lambda>(tag, role). tag \<in> {''a'', ''button'', ''input'', ''select'', ''textarea''} \<or>
       role = Some ''menuitem'' \<or> role = Some ''dialog'') ancestors"

definition table_row_click :: "(string \<times> string option) list \<Rightarrow> string \<Rightarrow> string list \<Rightarrow> string list" where
  "table_row_click ancestors detailUrl visits = (if isInteractiveTarget ancestors then visits else visits @ [detailUrl])"

section \<open>Tags\<close>

text \<open>
  \<open>JobTagBadge\<close>: a link to the tag's page when it is monitored, otherwise a button that starts
  monitoring it, with a flag of its own while the request is under way.
\<close>

type_synonym tag_menu = "(unit, bool, string) action_menu"

definition JobTagBadge :: "(string \<Rightarrow> string) \<Rightarrow> string \<Rightarrow> bool \<Rightarrow> tag_menu \<Rightarrow> operation menu_act node" where
  "JobTagBadge monitoring_url tag monitored m =
     (if monitored
      then El ''Badge'' [(''variant'', Str ''secondary''), (''title'', Str tag)]
             [El ''render'' [] [El ''Link'' [(''href'', Str (monitoring_url tag)), (''prefetch'', Flag True)] []],
              Text tag]
      else El ''Badge'' [(''variant'', Str ''secondary''), (''title'', Str (''Monitor '' @ tag))]
             [El ''render'' []
                [El ''button''
                   [(''type'', Str ''button''), (''aria-label'', Str (''Monitor '' @ tag)),
                    (''disabled'', Flag (am_working m)), (''onClick'', On (Send Retry_op))] []],
              Text tag])"

definition monitor_tag :: "string \<Rightarrow> operation menu_act \<Rightarrow> tag_menu \<Rightarrow> tag_menu" where
  "monitor_tag tag a = router_call True tag"

interpretation tag_badge: single_request "\<lambda>m. [JobTagBadge monitoring_url tag monitored m]" "monitor_tag tag"
  no_dialog False
  by unfold_locales (auto simp: JobTagBadge_def monitor_tag_def menu_defs no_dialog_def split: if_splits)

text \<open>\<open>JobTags\<close>; the state of the badges is the argument \<open>badges\<close>. A badge's action is its tag's.\<close>

definition JobTags ::
  "(string \<Rightarrow> string) \<Rightarrow> string list option \<Rightarrow> (string \<Rightarrow> tag_menu) \<Rightarrow> string list \<Rightarrow> bool \<Rightarrow> nat option \<Rightarrow>
   (string \<times> operation menu_act) node" where
  "JobTags monitoring_url monitoredTags badges tags interactive limit =
     (if tags = [] then text_of ''span'' em_dash
      else let visibleTags = (case limit of None \<Rightarrow> tags | Some n \<Rightarrow> take n tags);
               hiddenTagCount = length tags - length visibleTags
           in El ''div'' []
                (map (\<lambda>tag.
                   if \<not> interactive
                   then El ''Badge'' [(''variant'', Str ''secondary''), (''key'', Str tag), (''title'', Str tag)] [Text tag]
                   else map_node (\<lambda>a. (tag, a))
                          (JobTagBadge monitoring_url tag (tag \<in> set (nullish monitoredTags [])) (badges tag)))
                   visibleTags @
                 child_if (hiddenTagCount > 0)
                   [text_of ''span'' (''+'' @ nat_text hiddenTagCount @ '' more'')]))"

section \<open>The primary cell\<close>

definition JobTablePrimaryCell ::
  "(string list \<Rightarrow> nat option \<Rightarrow> 'a node) \<Rightarrow> string \<Rightarrow> string option \<Rightarrow> string \<Rightarrow> string list \<Rightarrow> string option \<Rightarrow>
   'a node list \<Rightarrow> 'a node list \<Rightarrow> nat option \<Rightarrow> 'a node" where
  "JobTablePrimaryCell job_tags name fullName queue tags url accessory details tagLimit =
     (let title = (''title'', Str (nullish fullName name))
      in El ''TableCell'' []
           [El ''div'' []
              ((if falsy_text url then El ''span'' [title] [Text name]
                else El ''Link'' [(''href'', Str (the url)), (''prefetch'', Flag True), title] [Text name]) #
               accessory),
            El ''div'' []
              (text_of ''span'' (''Queue: '' @ queue) # details @
               child_if (tags \<noteq> []) [job_tags tags tagLimit])])"

definition RetryMarker :: "'a node" where
  "RetryMarker = El ''Badge'' [(''variant'', Str ''outline'')] [Text ''Retried'']"

record JobRowView =
  jv_id :: string
  jv_name :: string
  jv_queue :: string
  jv_tags :: "string list"
  jv_runtime :: string
  jv_timestamp :: string
  jv_retried :: bool

definition job_row_element ::
  "(string list \<Rightarrow> nat option \<Rightarrow> 'm table_act node) \<Rightarrow> JobRowView \<Rightarrow> string \<Rightarrow> 'm table_act node list \<Rightarrow> 'm table_act node" where
  "job_row_element job_tags job detailUrl actions =
     El ''TableRow'' [(''onClick'', On (Row_visit detailUrl)), (''onMouseEnter'', On (Row_prefetch detailUrl))]
       ([El ''TableCell'' []
           [El ''Link'' [(''href'', Str detailUrl), (''prefetch'', Flag True)] [Text (jv_name job)],
            El ''p'' [(''title'', Str (jv_id job))] [Text (jv_id job)]],
         text_of ''TableCell'' (jv_queue job),
         El ''TableCell'' [] [job_tags (jv_tags job) None],
         text_of ''TableCell'' (jv_runtime job),
         text_of ''TableCell'' (jv_timestamp job)] @
        child_if (jv_retried job \<or> actions \<noteq> [])
          [El ''TableCell'' []
             [El ''div'' [] (child_if (jv_retried job) [RetryMarker] @ actions)]])"

section \<open>The shape of a table\<close>

text \<open>
  The columns a row's cells take up, and a rectangular tree: every row takes up \<open>n\<close> columns. The
  cells' contents have no tables of their own.
\<close>

definition cell_width :: "'a node \<Rightarrow> int" where
  "cell_width c =
     (case c of
        Text s \<Rightarrow> 0
      | El n ps cs \<Rightarrow>
          if n = ''TableCell'' \<or> n = ''TableHead''
          then (case map_of ps ''colSpan'' of Some (Count k) \<Rightarrow> k | _ \<Rightarrow> 1) else 0)"

definition row_width :: "'a node list \<Rightarrow> int" where
  "row_width cs = sum_list (map cell_width cs)"

definition rectangular :: "int \<Rightarrow> 'a node list \<Rightarrow> bool" where
  "rectangular n ns \<longleftrightarrow> list_all (\<lambda>(ps, cs). row_width cs = n) (rows_of ''TableRow'' ns)"

lemma row_width_simps [simp]:
  "row_width [] = 0" "row_width (c # cs) = cell_width c + row_width cs"
  "row_width (cs @ ds) = row_width cs + row_width ds"
  by (simp_all add: row_width_def)

lemma cell_width_El [simp]:
  "cell_width (El n ps cs) =
     (if n = ''TableCell'' \<or> n = ''TableHead''
      then (case map_of ps ''colSpan'' of Some (Count k) \<Rightarrow> k | _ \<Rightarrow> 1) else 0)"
  "cell_width (text_of ''TableCell'' s) = 1"
  by (simp_all add: cell_width_def text_of_def)

lemma rectangular_Nil [simp]: "rectangular n []"
  by (simp add: rectangular_def)

lemma rectangular_two [simp]:
  "rectangular n (c # d # cs) \<longleftrightarrow> rectangular n [c] \<and> rectangular n (d # cs)"
  by (simp add: rectangular_def)

lemma rectangular_append [simp]: "rectangular n (cs @ ds) \<longleftrightarrow> rectangular n cs \<and> rectangular n ds"
  by (simp add: rectangular_def)

lemma rectangular_Cons: "rectangular n (c # cs) \<longleftrightarrow> rectangular n [c] \<and> rectangular n cs"
  by (simp add: rectangular_def)

lemma rectangular_row [simp]:
  "rectangular n [El ''TableRow'' ps cs] \<longleftrightarrow> row_width cs = n \<and> rectangular n cs"
  by (simp add: rectangular_def)

lemma rectangular_other: "name \<noteq> ''TableRow'' \<Longrightarrow> rectangular n [El name ps cs] \<longleftrightarrow> rectangular n cs"
  by (simp add: rectangular_def)

lemma rectangular_concat: "rectangular n (concat nss) \<longleftrightarrow> (\<forall>ns \<in> set nss. rectangular n ns)"
  by (induction nss) auto

lemma rectangular_map: "rectangular n (map f xs) \<longleftrightarrow> (\<forall>x \<in> set xs. rectangular n [f x])"
proof (induction xs)
  case (Cons x xs)
  with rectangular_Cons [of n "f x" "map f xs"] show ?case by auto
qed simp

lemma elements_map_node:
  "elements name (map_node f n) = map (\<lambda>(ps, cs). (map (map_prod id (map_attr f)) ps, map (map_node f) cs)) (elements name n)"
proof (induction n)
  case (El m ps cs)
  have "rows_of name (map (map_node f) cs) =
      map (\<lambda>(ps, cs). (map (map_prod id (map_attr f)) ps, map (map_node f) cs)) (rows_of name cs)"
    using El by (induction cs) simp_all
  then show ?case by (simp add: id_def)
qed simp

text \<open>Trees without rows are rectangular whatever the width.\<close>

definition no_rows :: "'a node list \<Rightarrow> bool" where
  "no_rows ns \<longleftrightarrow> rows_of ''TableRow'' ns = []"

lemma no_rows_rectangular [simp]: "no_rows ns \<Longrightarrow> rectangular n ns"
  by (simp add: no_rows_def rectangular_def)

lemma no_rows_simps [simp]:
  "no_rows []" "no_rows (c # cs) \<longleftrightarrow> elements ''TableRow'' c = [] \<and> no_rows cs"
  "no_rows (cs @ ds) \<longleftrightarrow> no_rows cs \<and> no_rows ds"
  by (simp_all add: no_rows_def)

lemma no_rows_embed [simp]: "no_rows (embed f ns) \<longleftrightarrow> no_rows ns"
  by (induction ns) (simp_all add: embed_def elements_map_node)

lemma rows_of_none: "rows_of ''TableRow'' cs = [] \<longleftrightarrow> no_rows cs"
  by (simp add: no_rows_def)

end
