(* ===== verification/Job_Tables.thy ===== *)
theory Job_Tables
  imports Data_Table Batch_Actions Page_Refresh Overview
begin

text \<open>
  The lists of jobs and batches: \<^verbatim>\<open>resources/js/components/jobs/job-table.tsx\<close>,
  \<^verbatim>\<open>jobs/failed-job-table.tsx\<close>, \<^verbatim>\<open>jobs/job-status.tsx\<close> and \<^verbatim>\<open>batches/batch-table.tsx\<close>.
  What a table takes from its surroundings is a record: the URLs of the generated routes, the
  text of a time in milliseconds, the user's number format, the page's monitored tags and the
  state of the menus and badges in its cells.
\<close>

section \<open>Surroundings\<close>

record table_env =
  te_dateText :: "rat \<Rightarrow> string"
  te_number :: "int \<Rightarrow> string"
  te_job_url :: "JobListType \<Rightarrow> string \<Rightarrow> string"
  te_failed_url :: "string \<Rightarrow> string"
  te_batch_url :: "string \<Rightarrow> string"
  te_monitoring_url :: "string \<Rightarrow> string"
  te_monitoredTags :: "string list option"
  te_badges :: "string \<Rightarrow> string \<Rightarrow> tag_menu"
  te_pending_menu :: "string \<Rightarrow> (operation option, bool, job_request) action_menu"
  te_failed_menu :: "string \<Rightarrow> (bool, bool, job_request) action_menu"
  te_batch_menu :: "string \<Rightarrow> (batch_dialogs, bool, batch_request) action_menu"

record table_props =
  tp_available :: bool
  tp_message :: "string option"
  tp_hasNewEntries :: bool
  tp_onLoadNewEntries :: bool
  tp_emptyTitle :: "string option"
  tp_emptyDescription :: "string option"
  tp_sorting :: "ControlledTableSorting option"

definition row_tags ::
  "table_env \<Rightarrow> string \<Rightarrow> string list \<Rightarrow> nat option \<Rightarrow> operation menu_act table_act node" where
  "row_tags e row tags limit =
     map_node (\<lambda>(tag, a). Tag_action tag a)
       (JobTags (te_monitoring_url e) (te_monitoredTags e) (te_badges e row) tags True limit)"

definition formatTimestamp :: "table_env \<Rightarrow> rat option \<Rightarrow> string" where
  "formatTimestamp e timestamp = (case timestamp of None \<Rightarrow> em_dash | Some t \<Rightarrow> te_dateText e (t * 1000))"

definition precise_duration :: "rat option \<Rightarrow> 'a node" where
  "precise_duration runtime =
     (case runtime of None \<Rightarrow> Text em_dash | Some s \<Rightarrow> Duration s Precise False)"

text \<open>The first body of a table: the notice of new entries, and what stands for no rows.\<close>

definition notices_body ::
  "table_props \<Rightarrow> int \<Rightarrow> 'm table_act node list \<Rightarrow> bool \<Rightarrow> string \<Rightarrow> string \<Rightarrow> 'm table_act node" where
  "notices_body p cols notice hasVisible title description =
     El ''TableBody'' [(''role'', Str ''presentation'')]
       (child_if (tp_hasNewEntries p \<and> tp_onLoadNewEntries p) [NewEntriesTableRow cols Load_new_entries] @
        notice @
        child_if (\<not> hasVisible)
          [TableEmpty cols (nullish (tp_emptyTitle p) title) (nullish (tp_emptyDescription p) description)])"

section \<open>Job states\<close>

datatype JobStatusValue =
    Status_ready | Status_reserved | Status_delayed | Status_released | Status_completed | Status_silenced
  | Status_failed

fun job_status_details :: "JobStatusValue \<Rightarrow> string \<times> string" where
  "job_status_details Status_ready = (''Ready'', ''CirclePauseIcon'')"
| "job_status_details Status_reserved = (''Reserved'', ''LoaderCircleIcon'')"
| "job_status_details Status_delayed = (''Delayed'', ''Clock3Icon'')"
| "job_status_details Status_released = (''Released'', ''CirclePlayIcon'')"
| "job_status_details Status_completed = (''Completed'', ''CircleCheckIcon'')"
| "job_status_details Status_silenced = (''Silenced'', ''BellOffIcon'')"
| "job_status_details Status_failed = (''Failed'', ''CircleXIcon'')"

definition JobStatus :: "JobStatusValue \<Rightarrow> 'a node" where
  "JobStatus status =
     (let (label, icon) = job_status_details status
      in El ''div'' [(''role'', Str ''status''), (''aria-label'', Str (''Job status: '' @ label))]
           [El icon [(''aria-hidden'', Str ''true'')] [], text_of ''span'' label])"

text \<open>The label and the variant of a pending state's badge, and its description.\<close>

fun pendingStates :: "PendingJobState \<Rightarrow> string \<times> string" where
  "pendingStates Ready = (''Ready'', ''secondary'')"
| "pendingStates Reserved = (''Reserved'', ''processing'')"
| "pendingStates Delayed = (''Delayed'', ''delayed'')"
| "pendingStates Released = (''Released'', ''success'')"

fun state_description :: "PendingJobState \<Rightarrow> string" where
  "state_description Ready = ''Waiting for a worker to pick it up.''"
| "state_description Reserved = ''Reserved by a worker and awaiting processing.''"
| "state_description Released = ''Its scheduled release time has passed and it is waiting for a worker.''"
| "state_description Delayed = []"

definition pendingStateDescription :: "JobRow \<Rightarrow> PendingJobState \<Rightarrow> rat \<Rightarrow> string" where
  "pendingStateDescription job state now =
     (if state = Delayed
      then (case jr_scheduledAt job of
              None \<Rightarrow> ''Scheduled to run later.''
            | Some t \<Rightarrow> ''Scheduled to run in '' @
                formatDuration (Num (of_int (max 0 \<lceil>t - now\<rceil>))) Approximate @ ''.'')
      else state_description state)"

definition job_state :: "rat \<Rightarrow> JobRow \<Rightarrow> PendingJobState" where
  "job_state now job = pendingJobState (jr_status job) (jr_scheduledAt job) now"

text \<open>\<open>groupReservedPendingJobs\<close>, with its loop.\<close>

fun group_loop :: "rat \<Rightarrow> JobRow list \<Rightarrow> JobRow list \<times> JobRow list \<Rightarrow> JobRow list \<times> JobRow list" where
  "group_loop now [] (reserved, other) = (reserved, other)"
| "group_loop now (job # jobs) (reserved, other) =
     (if job_state now job = Reserved then group_loop now jobs (reserved @ [job], other)
      else group_loop now jobs (reserved, other @ [job]))"

definition groupReservedPendingJobs :: "JobRow list \<Rightarrow> rat \<Rightarrow> JobRow list" where
  "groupReservedPendingJobs jobs now =
     (let (reserved, other) = group_loop now jobs ([], []) in if reserved = [] then jobs else reserved @ other)"

section \<open>The table of jobs\<close>

fun type_text :: "JobListType \<Rightarrow> string" where
  "type_text PendingList = ''pending''"
| "type_text CompletedList = ''completed''"
| "type_text SilencedList = ''silenced''"

fun type_title :: "JobListType \<Rightarrow> string" where
  "type_title PendingList = ''Pending''"
| "type_title CompletedList = ''Completed''"
| "type_title SilencedList = ''Silenced''"

definition jobs_unavailable :: "JobListType \<Rightarrow> string option \<Rightarrow> 'a node" where
  "jobs_unavailable type message =
     El ''div'' []
       [unavailable_alert (type_title type @ '' jobs couldn'' @ right_quote @ ''t be loaded'')
          (nullish message (''Horizon could not read retained '' @ type_text type @
             '' jobs. Refresh the page to try again.''))]"

record job_table_props = table_props +
  jt_type :: JobListType
  jt_notice :: "string option"
  jt_showPendingActions :: bool

definition pending_actions :: "job_table_props \<Rightarrow> bool" where
  "pending_actions p \<longleftrightarrow> jt_type p = PendingList \<and> jt_showPendingActions p"

definition job_columns :: "job_table_props \<Rightarrow> int" where
  "job_columns p = (if jt_type p = PendingList then (if pending_actions p then 4 else 3) else 4)"

definition job_heads :: "job_table_props \<Rightarrow> operation menu_act table_act node list" where
  "job_heads p =
     (let compact = (jt_type p = PendingList); head = sort_head (tp_sorting p)
      in [head ''Job'' ''name''] @
         child_if compact [head ''State'' ''status''] @
         [head ''Queued'' ''pushedAt''] @
         child_if (\<not> compact) [head ''Completed'' ''completedAt''] @
         child_if (\<not> compact) [head ''Runtime'' ''runtime''] @
         child_if (pending_actions p) [text_of ''TableHead'' ''Actions''])"

definition detail_url :: "table_env \<Rightarrow> JobListType \<Rightarrow> JobRow \<Rightarrow> string option" where
  "detail_url e type job =
     (if jr_inspectable job = Some False then None else Some (te_job_url e type (jr_id job)))"

definition retry_link :: "table_env \<Rightarrow> JobRow \<Rightarrow> 'a node list" where
  "retry_link e job =
     child_if (\<not> falsy_text (jr_retryOf job))
       [El ''span'' []
          [Text ''Retry of '',
           El ''Link'' [(''href'', Str (te_failed_url e (the (jr_retryOf job)))), (''prefetch'', Flag True)]
             [Text (the (jr_retryOf job))]]]"

definition state_cell :: "JobRow \<Rightarrow> PendingJobState \<Rightarrow> rat \<Rightarrow> 'a node" where
  "state_cell job state now =
     El ''TableCell'' []
       [El ''Tooltip'' []
          [El ''TooltipTrigger'' []
             [El ''Badge'' [(''variant'', Str (snd (pendingStates state)))] [Text (fst (pendingStates state))]],
           text_of ''TooltipContent'' (pendingStateDescription job state now)]]"

definition job_row :: "table_env \<Rightarrow> job_table_props \<Rightarrow> rat \<Rightarrow> JobRow \<Rightarrow> operation menu_act table_act node" where
  "job_row e p now job =
     (let compact = (jt_type p = PendingList); url = detail_url e (jt_type p) job; state = job_state now job
      in El ''TableRow''
           ([(''key'', Str (jr_id job))] @
            (case url of Some u \<Rightarrow> [(''onClick'', On (Row_visit u)), (''onMouseEnter'', On (Row_prefetch u))]
             | None \<Rightarrow> []))
           ([JobTablePrimaryCell (row_tags e (jr_id job)) (jr_shortName job) (Some (jr_name job)) (jr_queue job)
               (jr_tags job) url
               (child_if (\<not> falsy_text (jr_retryOf job))
                  [El ''Badge'' [(''variant'', Str ''retry'')] [Text ''Retry'']])
               (retry_link e job) (Some 3)] @
            child_if compact [state_cell job state now] @
            [text_of ''TableCell'' (formatTimestamp e (jr_pushedAt job))] @
            child_if (pending_actions p)
              [El ''TableCell'' []
                 (child_if (state \<noteq> Reserved)
                    (embed (Row_menu (jr_id job))
                       (PendingJobActionsMenu True (state = Delayed) (te_pending_menu e (jr_id job)))))] @
            child_if (\<not> compact) [text_of ''TableCell'' (formatTimestamp e (jr_completedAt job))] @
            child_if (\<not> compact) [El ''TableCell'' [] [precise_duration (jr_runtime job)]]))"

definition display_jobs :: "job_table_props \<Rightarrow> rat \<Rightarrow> JobRow list \<Rightarrow> JobRow list" where
  "display_jobs p now jobs = (if jt_type p = PendingList then groupReservedPendingJobs jobs now else jobs)"

definition JobTable ::
  "table_env \<Rightarrow> job_table_props \<Rightarrow> rat \<Rightarrow> JobRow list \<Rightarrow> operation menu_act table_act node list" where
  "JobTable e p now jobs =
     (let displayJobs = display_jobs p now jobs; hasVisibleJobs = (displayJobs \<noteq> []); cols = job_columns p
      in if \<not> tp_available p then [jobs_unavailable (jt_type p) (tp_message p)]
         else [El ''Table'' []
                 [El ''TableHeader'' [] [El ''TableRow'' [] (job_heads p)],
                  notices_body (table_props.truncate p) cols
                    (child_if (\<not> falsy_text (jt_notice p) \<and> hasVisibleJobs)
                       [TableNoticeRow cols [Text (the (jt_notice p))]])
                    hasVisibleJobs (''No '' @ type_text (jt_type p) @ '' jobs'')
                    (''Horizon is not reporting any '' @ type_text (jt_type p) @ '' jobs.''),
                  El ''TableBody'' [] (map (job_row e p now) displayJobs)]])"

section \<open>The table of failed jobs\<close>

text \<open>The upper case of an ASCII letter; a status from the server is an ASCII word.\<close>

definition upper_char :: "char \<Rightarrow> char" where
  "upper_char c = (if 97 \<le> (of_char c :: nat) \<and> (of_char c :: nat) \<le> 122 then char_of ((of_char c :: nat) - 32) else c)"

definition upperFirst :: "string option \<Rightarrow> string" where
  "upperFirst v = (case v of Some (c # cs) \<Rightarrow> upper_char c # cs | _ \<Rightarrow> ''Unknown'')"

definition retried_dot :: string where
  "retried_dot = ''Retried '' @ [CHR 0xC2, CHR 0xB7] @ '' ''"

definition retryStatus :: "string option \<Rightarrow> string \<times> string" where
  "retryStatus status =
     (if status = Some ''pending'' \<or> status = Some ''reserved'' then (''Retry queued'', ''retry'')
      else if status = Some ''completed'' then (retried_dot @ ''Completed'', ''success'')
      else if status = Some ''failed'' then (''Retried'', ''destructive'')
      else (retried_dot @ ''Unknown'', ''warning''))"

definition retry_summary :: "JobRow \<Rightarrow> string" where
  "retry_summary job =
     ''Total retries: '' @ int_text (jr_retryCount job) @ '', Last retry status: '' @ upperFirst (jr_latestRetryStatus job)"

definition retry_badge :: "JobRow \<Rightarrow> 'a node list" where
  "retry_badge job =
     child_if (jr_retried job)
       [El ''Tooltip'' []
          [El ''TooltipTrigger'' []
             [El ''render'' [] [El ''button'' [(''type'', Str ''button''), (''title'', Str (retry_summary job))] []],
              El ''Badge'' [(''variant'', Str (snd (retryStatus (jr_latestRetryStatus job))))]
                [Text (fst (retryStatus (jr_latestRetryStatus job)))]],
           text_of ''TooltipContent'' (retry_summary job)]]"

definition failed_heads :: "table_props \<Rightarrow> operation menu_act table_act node list" where
  "failed_heads p =
     [sort_head (tp_sorting p) ''Job'' ''name'', sort_head (tp_sorting p) ''Runtime'' ''runtime'',
      sort_head (tp_sorting p) ''Failed'' ''failedAt'', sort_head None ''Actions'' []]"

definition failed_row :: "table_env \<Rightarrow> JobRow \<Rightarrow> operation menu_act table_act node" where
  "failed_row e job =
     (let detailUrl = te_failed_url e (jr_id job)
      in El ''TableRow''
           [(''key'', Str (jr_id job)), (''onClick'', On (Row_visit detailUrl)),
            (''onMouseEnter'', On (Row_prefetch detailUrl))]
           [JobTablePrimaryCell (row_tags e (jr_id job)) (jr_shortName job) (Some (jr_name job)) (jr_queue job)
              (jr_tags job) (Some detailUrl) (retry_badge job)
              (text_of ''span'' (''Attempts: '' @ int_text (jr_attempts job)) # retry_link e job) None,
            El ''TableCell'' [] [precise_duration (jr_runtime job)],
            text_of ''TableCell'' (formatTimestamp e (jr_failedAt job)),
            El ''TableCell'' []
              (embed (Row_menu (jr_id job))
                 (FailedJobActionsMenu (jr_retryEligible job) (te_failed_menu e (jr_id job))))])"

definition FailedJobTable :: "table_env \<Rightarrow> table_props \<Rightarrow> JobRow list \<Rightarrow> operation menu_act table_act node list" where
  "FailedJobTable e p jobs =
     (if \<not> tp_available p then
        [El ''div'' []
           [unavailable_alert (''Failed jobs couldn'' @ right_quote @ ''t be loaded'')
              (nullish (tp_message p) ''Horizon could not read retained failed jobs. Refresh the page to try again.'')]]
      else [El ''Table'' []
              [El ''TableHeader'' [] [El ''TableRow'' [] (failed_heads p)],
               notices_body p 4 [] (jobs \<noteq> []) ''No failed jobs'' (''There aren'' @ [CHR 0x27] @ ''t any failed jobs.''),
               El ''TableBody'' [] (map (failed_row e) jobs)]])"

section \<open>The table of batches\<close>

definition can_cancel_batch :: "BatchRow \<Rightarrow> bool" where
  "can_cancel_batch b \<longleftrightarrow> br_status b \<noteq> Batch_cancelled \<and> br_status b \<noteq> Batch_finished \<and>
     max 0 (br_pendingJobs b - br_failedJobs b) > 0"

definition batch_columns :: "bool \<Rightarrow> int" where
  "batch_columns showBatchActions = (if showBatchActions then 6 else 5)"

definition batch_heads :: "table_props \<Rightarrow> bool \<Rightarrow> operation menu_act table_act node list" where
  "batch_heads p showBatchActions =
     (let head = sort_head (tp_sorting p)
      in [head ''Batch'' ''name'', head ''Total'' ''totalJobs'', head ''Failed'' ''failedJobs'',
          head ''Progress'' ''progress'', head ''Created At'' ''createdAt''] @
         child_if showBatchActions [text_of ''TableHead'' ''Actions''])"

definition batch_row :: "table_env \<Rightarrow> bool \<Rightarrow> BatchRow \<Rightarrow> operation menu_act table_act node" where
  "batch_row e showBatchActions b =
     (let detailUrl = te_batch_url e (br_id b)
      in El ''TableRow''
           [(''key'', Str (br_id b)), (''onClick'', On (Row_visit detailUrl)),
            (''onMouseEnter'', On (Row_prefetch detailUrl))]
           ([El ''TableCell'' []
               [El ''Link''
                  [(''data-batch-id'', Str (br_id b)), (''href'', Str detailUrl), (''prefetch'', Flag True),
                   (''title'', Str (br_displayName b))] [Text (br_displayName b)]],
             text_of ''TableCell'' (te_number e (br_totalJobs b)),
             text_of ''TableCell'' (te_number e (br_failedJobs b)),
             El ''TableCell'' []
               [ProgressRing (te_number e) (br_progress b) (br_status b = Batch_cancelled)
                  (Some (br_pendingJobs b)) (br_failedJobs b)],
             text_of ''TableCell'' (te_dateText e (br_createdAt b * 1000))] @
            child_if showBatchActions
              [El ''TableCell'' []
                 (embed (Row_menu (br_id b))
                    (BatchPendingJobsActions (can_cancel_batch b) (br_failedJobs b > 0)
                       (''Batch actions for '' @ br_displayName b) (te_batch_menu e (br_id b))))]))"

definition BatchTable ::
  "table_env \<Rightarrow> table_props \<Rightarrow> bool \<Rightarrow> BatchRow list \<Rightarrow> operation menu_act table_act node list" where
  "BatchTable e p showBatchActions batches =
     (if \<not> tp_available p then
        [unavailable_alert ''Batches unavailable'' (nullish (tp_message p) ''Batches are currently unavailable.'')]
      else [El ''Table'' []
              [El ''TableHeader'' [] [El ''TableRow'' [] (batch_heads p showBatchActions)],
               notices_body p (batch_columns showBatchActions) [] (batches \<noteq> []) ''No batches''
                 (''There aren'' @ [CHR 0x27] @ ''t any batches.''),
               El ''TableBody'' [] (map (batch_row e showBatchActions) batches)]])"

section \<open>The reserved jobs lead\<close>

lemma group_loop_filters:
  "group_loop now jobs (r, other) =
     (r @ filter (\<lambda>j. job_state now j = Reserved) jobs, other @ filter (\<lambda>j. job_state now j \<noteq> Reserved) jobs)"
  by (induction jobs arbitrary: r other) simp_all

lemma group_reserved:
  "groupReservedPendingJobs jobs now =
     filter (\<lambda>j. job_state now j = Reserved) jobs @ filter (\<lambda>j. job_state now j \<noteq> Reserved) jobs"
proof (cases "filter (\<lambda>j. job_state now j = Reserved) jobs = []")
  case True
  then have "filter (\<lambda>j. job_state now j \<noteq> Reserved) jobs = jobs" by (simp add: filter_empty_conv)
  with True show ?thesis by (simp add: groupReservedPendingJobs_def group_loop_filters)
qed (simp add: groupReservedPendingJobs_def group_loop_filters)

lemma set_group [simp]: "set (groupReservedPendingJobs jobs now) = set jobs"
  by (auto simp: group_reserved)

lemma set_display [simp]: "set (display_jobs p now jobs) = set jobs"
  by (simp add: display_jobs_def)

lemma display_none [simp]: "display_jobs p now jobs = [] \<longleftrightarrow> jobs = []"
  by (metis set_display set_empty2 set_empty)

section \<open>Shapes\<close>

lemma width_heads [simp]:
  "cell_width (sort_head s l k) = 1" "elements ''TableRow'' (sort_head s l k) = []"
  "cell_width (text_of ''TableHead'' t) = 1"
  by (auto simp: sort_head_def SortableTableHead_def text_of_def Let_def child_if_def split: option.split prod.split)

lemma width_primary [simp]: "cell_width (JobTablePrimaryCell g n f q ts u a d l) = 1"
  by (simp add: JobTablePrimaryCell_def Let_def)

lemma no_rows_text [simp]: "name \<noteq> ''TableRow'' \<Longrightarrow> elements ''TableRow'' (text_of name s) = []"
  by (simp add: text_of_def)

lemma no_rows_tags [simp]: "elements ''TableRow'' (row_tags e row tags limit) = []"
proof -
  have "rows_of ''TableRow'' (map f ts) = []" if "\<And>t. elements ''TableRow'' (f t) = []"
    for f :: "string \<Rightarrow> (string \<times> operation menu_act) node" and ts
    using that by (induction ts) simp_all
  moreover have "elements ''TableRow'' (JobTagBadge u t m b) = []" for u t m b
    by (simp add: JobTagBadge_def)
  ultimately show ?thesis
    by (auto simp: row_tags_def JobTags_def Let_def elements_map_node child_if_def text_of_def)
qed

lemma no_rows_primary:
  "no_rows a \<Longrightarrow> no_rows d \<Longrightarrow>
   elements ''TableRow'' (JobTablePrimaryCell (row_tags e row) n f q ts u a d l) = []"
  by (auto simp: JobTablePrimaryCell_def Let_def rows_of_none child_if_def)

lemma no_rows_small [simp]:
  "no_rows (retry_link e job)" "no_rows (retry_badge job)" "elements ''TableRow'' (state_cell job s now) = []"
  "elements ''TableRow'' (precise_duration r) = []" "cell_width (state_cell job s now) = 1"
  by (auto simp: retry_link_def retry_badge_def state_cell_def precise_duration_def Duration_def child_if_def Let_def
      split: option.split)

lemma no_rows_menu_parts [simp]:
  "i \<noteq> ''TableRow'' \<Longrightarrow>
   elements ''TableRow'' (confirmation o' a t d b k (action_button v b' act i l) :: 'a node) = []"
  "i \<noteq> ''TableRow'' \<Longrightarrow> elements ''TableRow'' (menu_item ds dis a i l) = []"
  "elements ''TableRow'' (separator :: 'a node) = []"
  "no_rows items \<Longrightarrow> elements ''TableRow'' (dropdown av l b [] items) = []"
  by (auto simp: confirmation_def action_button_def busy_button_def menu_item_def separator_def dropdown_def
      ActionMenuTrigger_def Let_def rows_of_none prop_if_def)

lemma no_rows_menus [simp]:
  "no_rows (PendingJobActionsMenu c r m)" "no_rows (FailedJobActionsMenu c fm)"
  "no_rows (BatchPendingJobsActions c r l bm)"
  by (auto simp: PendingJobActionsMenu_def pending_job_dialog_def FailedJobActionsMenu_def
      BatchPendingJobsActions_def Let_def child_if_def)

lemma row_of_job [simp]: "rectangular (job_columns p) [job_row e p now job]"
  by (auto simp: job_row_def job_columns_def pending_actions_def Let_def child_if_def no_rows_primary
      rectangular_other)

lemma row_of_failed [simp]: "rectangular 4 [failed_row e job]"
  by (simp add: failed_row_def Let_def no_rows_primary rectangular_other)

lemma row_of_batch [simp]: "rectangular (batch_columns s) [batch_row e s b]"
  by (auto simp: batch_row_def batch_columns_def Let_def child_if_def ProgressRing_def rectangular_other)

lemma table_of_rows:
  assumes "row_width heads = n" "no_rows heads" "\<And>r. r \<in> set jobs \<Longrightarrow> rectangular n [f r]"
    and "rectangular n notice"
  shows "rectangular n [El ''Table'' []
     [El ''TableHeader'' [] [El ''TableRow'' [] heads], notices_body p n notice v t d, El ''TableBody'' [] (map f jobs)]]"
  using assms
  by (auto simp: rectangular_other rectangular_map notices_body_def child_if_def NewEntriesTableRow_def
      TableNoticeRow_def TableEmpty_def)

lemma alerts_have_no_rows [simp]:
  "elements ''TableRow'' (jobs_unavailable t m) = []" "elements ''TableRow'' (unavailable_alert t' d) = []"
  by (simp_all add: jobs_unavailable_def unavailable_alert_def)

text \<open>
  C34: the tables are well formed. Whatever the jobs or batches, the sorting, the notices and the
  mode, every row of a table, its head, its notices and its empty state included, takes up
  exactly the columns the table declares.
\<close>

theorem tables_are_rectangular:
  "rectangular (job_columns jp) (JobTable e jp now jobs) \<and>
   rectangular 4 (FailedJobTable e p jobs) \<and>
   rectangular (batch_columns showBatchActions) (BatchTable e p showBatchActions batches)"
proof (intro conjI)
  have heads: "row_width (job_heads jp) = job_columns jp" "no_rows (job_heads jp)"
    by (auto simp: job_heads_def job_columns_def pending_actions_def Let_def child_if_def)
  have "rectangular (job_columns jp) (child_if c [TableNoticeRow (job_columns jp) [Text s]])" for c s
    by (simp add: child_if_def TableNoticeRow_def rectangular_other)
  then show "rectangular (job_columns jp) (JobTable e jp now jobs)"
    unfolding JobTable_def Let_def using heads by (auto intro!: table_of_rows)
  show "rectangular 4 (FailedJobTable e p jobs)"
    unfolding FailedJobTable_def by (auto intro!: table_of_rows simp: failed_heads_def)
  have "row_width (batch_heads p showBatchActions) = batch_columns showBatchActions"
    "no_rows (batch_heads p showBatchActions)"
    by (auto simp: batch_heads_def batch_columns_def Let_def child_if_def)
  then show "rectangular (batch_columns showBatchActions) (BatchTable e p showBatchActions batches)"
    unfolding BatchTable_def by (auto intro!: table_of_rows)
qed

section \<open>Menus\<close>

lemma tag_offers: "Row_menu k a \<notin> set (offered (row_tags e row tags limit))"
  by (auto simp: row_tags_def offered_map_node)

lemma primary_offers:
  "offers acc = [] \<Longrightarrow> offers details = [] \<Longrightarrow>
   Row_menu k a \<notin> set (offered (JobTablePrimaryCell (row_tags e row) n f q ts u acc details l))"
  by (auto simp: JobTablePrimaryCell_def Let_def tag_offers child_if_def)

lemma small_offers [simp]:
  "offers (retry_link e job) = []" "offers (retry_badge job) = []" "offered (state_cell job s now) = []"
  "offered (precise_duration r) = []"
  by (auto simp: retry_link_def retry_badge_def state_cell_def precise_duration_def child_if_def split: option.split)

lemma job_row_menus:
  "Row_menu k a \<in> set (offered (job_row e p now job)) \<longleftrightarrow>
     pending_actions p \<and> job_state now job \<noteq> Reserved \<and> k = jr_id job \<and>
     a \<in> set (offers (PendingJobActionsMenu True (job_state now job = Delayed) (te_pending_menu e k)))"
  by (auto simp: job_row_def Let_def child_if_def primary_offers pending_actions_def split: option.splits)

lemma notices_menus [simp]: "Row_menu k a \<in> set (offered (notices_body p n notice v t d)) \<longleftrightarrow> Row_menu k a \<in> set (offers notice)"
  by (auto simp: notices_body_def child_if_def NewEntriesTableRow_def TableNoticeRow_def)

lemma heads_menus: "Row_menu k a \<notin> set (offers (job_heads p))"
  by (auto simp: job_heads_def sort_head_def Let_def child_if_def split: option.splits prod.splits)


definition sample_env :: table_env where
  "sample_env = \<lparr>te_dateText = (\<lambda>t. ''today''), te_number = int_text, te_job_url = (\<lambda>t j. ''/jobs/'' @ j),
     te_failed_url = (\<lambda>j. ''/failed/'' @ j), te_batch_url = (\<lambda>b. ''/batches/'' @ b),
     te_monitoring_url = (\<lambda>t. ''/monitoring/'' @ t), te_monitoredTags = None,
     te_badges = (\<lambda>r t. \<lparr>am_dialogs = (), am_working = False, am_sent = []\<rparr>),
     te_pending_menu = (\<lambda>j. \<lparr>am_dialogs = None, am_working = False, am_sent = []\<rparr>),
     te_failed_menu = (\<lambda>j. \<lparr>am_dialogs = False, am_working = False, am_sent = []\<rparr>),
     te_batch_menu = (\<lambda>b. \<lparr>am_dialogs = \<lparr>bd_cancel = False, bd_retry = False\<rparr>, am_working = False, am_sent = []\<rparr>)\<rparr>"

definition sample_props :: job_table_props where
  "sample_props = \<lparr>tp_available = True, tp_message = None, tp_hasNewEntries = False, tp_onLoadNewEntries = False,
     tp_emptyTitle = None, tp_emptyDescription = None, tp_sorting = None, jt_type = PendingList, jt_notice = None,
     jt_showPendingActions = True\<rparr>"

definition sample_job :: "string \<Rightarrow> string \<Rightarrow> JobRow" where
  "sample_job i status = \<lparr>jr_id = i, jr_index = 0, jr_name = ''App.Job'', jr_shortName = ''Job'', jr_connection = ''redis'',
     jr_queue = ''mail'', jr_status = status, jr_tags = [], jr_attempts = 0, jr_attemptsComplete = None, jr_retryOf = None,
     jr_delay = None, jr_scheduledAt = None, jr_originalScheduledAt = None, jr_pushedAt = None, jr_reservedAt = None,
     jr_completedAt = None, jr_failedAt = None, jr_runtime = None, jr_occurredAt = None, jr_retried = False,
     jr_retryCompleted = False, jr_retryCount = 0, jr_latestRetryStatus = None, jr_retryEligible = False,
     jr_inspectable = None\<rparr>"


end
