(* ===== verification/Queue_Activity.thy ===== *)
theory Queue_Activity
  imports Job_Tables Tabs
begin

text \<open>
  \<^verbatim>\<open>resources/js/components/queues/queue-activity-tabs.tsx\<close>: the tabs below a queue's overview, the
  delayed prefetch of a tab under the pointer, and the table of the chosen tab. The URL of a
  queue's page with its query is the argument \<open>tab_url\<close>; the rows are jobs, or batches in the
  tab of batches. The collator and the text of numbers are those of \<open>Sort_Rows\<close>.
\<close>

section \<open>Tabs\<close>

fun activity_literal :: "QueueActivityTab \<Rightarrow> string" where
  "activity_literal Act_pending = ''pending''"
| "activity_literal Act_completed = ''completed''"
| "activity_literal Act_failed = ''failed''"
| "activity_literal Act_silenced = ''silenced''"
| "activity_literal Act_batches = ''batches''"

definition activity_tabs :: "(QueueActivityTab \<times> string) list" where
  "activity_tabs =
     [(Act_pending, ''Pending Jobs''), (Act_completed, ''Completed Jobs''), (Act_failed, ''Failed Jobs''),
      (Act_silenced, ''Silenced Jobs''), (Act_batches, ''Batches'')]"

fun tab_total :: "QueueSummary \<Rightarrow> QueueActivityTab \<Rightarrow> int option \<times> bool" where
  "tab_total s Act_pending = (qs_pendingJobs s, qs_pendingComplete s)"
| "tab_total s Act_completed = (qs_completedJobs s, qs_completedComplete s)"
| "tab_total s Act_failed = (qs_failedJobs s, qs_failedComplete s)"
| "tab_total s Act_silenced = (qs_silencedJobs s, qs_silencedComplete s)"
| "tab_total s Act_batches = (qs_batches s, qs_batchesComplete s)"

text \<open>\<open>formatted\<close> is \<open>formatCount\<close> in the user's locale.\<close>

definition tabCount :: "(int \<Rightarrow> string) \<Rightarrow> QueueSummary \<Rightarrow> QueueActivityTab \<Rightarrow> string" where
  "tabCount formatted summary tab =
     (let (v, is_complete) = tab_total summary tab
      in case v of None \<Rightarrow> em_dash | Some n \<Rightarrow> if is_complete then formatted n else formatted n @ ''+'')"

record visit_choice =
  vc_replace :: bool
  vc_preserveScroll :: bool
  vc_preserveState :: bool
  vc_only :: "string list"
  vc_reset :: "string list"

definition activity_visit_options :: visit_choice where
  "activity_visit_options =
     \<lparr>vc_replace = True, vc_preserveScroll = True, vc_preserveState = True,
      vc_only = [''activity'', ''tab'', ''view'', ''querySignature'', ''listRevision'', ''horizon'', ''navigationCounts''],
      vc_reset = [''activity'']\<rparr>"

record activity_tab_item =
  at_value :: QueueActivityTab
  at_label :: string
  at_count :: string
  at_href :: string

definition tab_query :: "QueueDetailView \<Rightarrow> QueueActivityTab \<Rightarrow> (string \<times> string) list" where
  "tab_query view tab =
     (''tab'', activity_literal tab) # (if view = View_metrics then [(''view'', ''metrics'')] else [])"

definition availableTabs ::
  "(int \<Rightarrow> string) \<Rightarrow> (string \<Rightarrow> (string \<times> string) list \<Rightarrow> string) \<Rightarrow> string \<Rightarrow> QueueDetailView \<Rightarrow> bool \<Rightarrow> QueueSummary \<Rightarrow>
   activity_tab_item list" where
  "availableTabs formatted tab_url queue view batchAttributionAvailable summary =
     map (\<lambda>(tab, label). \<lparr>at_value = tab, at_label = label, at_count = tabCount formatted summary tab,
            at_href = tab_url queue (tab_query view tab)\<rparr>)
       (filter (\<lambda>(tab, _). tab \<noteq> Act_batches \<or> batchAttributionAvailable) activity_tabs)"

section \<open>Prefetching under the pointer\<close>

text \<open>
  The timer of \<open>hoverPrefetchTimeout\<close>: when it is due and the URL it prefetches. Prefetches and
  visits are recorded with their time.
\<close>

record hover_state =
  hp_timer :: "(int \<times> string) option"
  hp_prefetched :: "(int \<times> string) list"
  hp_visited :: "(int \<times> string) list"

definition mounted_hover :: hover_state where
  "mounted_hover = \<lparr>hp_timer = None, hp_prefetched = [], hp_visited = []\<rparr>"

definition cancelHoverPrefetch :: "hover_state \<Rightarrow> hover_state" where
  "cancelHoverPrefetch s = s\<lparr>hp_timer := None\<rparr>"

definition prefetchAfterHoverDelay :: "int \<Rightarrow> int \<Rightarrow> string \<Rightarrow> hover_state \<Rightarrow> hover_state" where
  "prefetchAfterHoverDelay hoverDelay now url s =
     (cancelHoverPrefetch s)\<lparr>hp_timer := Some (now + hoverDelay, url)\<rparr>"

text \<open>
  \<open>intercept\<close> is the answer of the client library's \<open>shouldIntercept\<close> for a link without a
  \<open>download\<close> attribute.
\<close>

definition click_tab :: "int \<Rightarrow> bool \<Rightarrow> string \<Rightarrow> hover_state \<Rightarrow> hover_state" where
  "click_tab now intercept url s =
     (if \<not> intercept then s
      else (cancelHoverPrefetch s)\<lparr>hp_visited := hp_visited s @ [(now, url)]\<rparr>)"

definition select_tab ::
  "int \<Rightarrow> activity_tab_item list \<Rightarrow> QueueActivityTab \<Rightarrow> QueueActivityTab option \<Rightarrow> hover_state \<Rightarrow> hover_state" where
  "select_tab now items tab v s =
     (case find (\<lambda>item. Some (at_value item) = v) items of
        None \<Rightarrow> s
      | Some nextTab \<Rightarrow>
          if at_value nextTab = tab then s else s\<lparr>hp_visited := hp_visited s @ [(now, at_href nextTab)]\<rparr>)"

datatype hover_event =
    Pointer_enters string
  | Pointer_leaves
  | Link_focused string
  | Link_clicked bool string
  | Tab_selected "QueueActivityTab option"
  | Scope_changed
  | Timer_due

fun hover_step ::
  "int \<Rightarrow> activity_tab_item list \<Rightarrow> QueueActivityTab \<Rightarrow> int \<times> hover_event \<Rightarrow> hover_state \<Rightarrow> hover_state" where
  "hover_step hoverDelay items tab (now, Pointer_enters url) s = prefetchAfterHoverDelay hoverDelay now url s"
| "hover_step hoverDelay items tab (now, Pointer_leaves) s = cancelHoverPrefetch s"
| "hover_step hoverDelay items tab (now, Link_focused url) s = s\<lparr>hp_prefetched := hp_prefetched s @ [(now, url)]\<rparr>"
| "hover_step hoverDelay items tab (now, Link_clicked intercept url) s = click_tab now intercept url s"
| "hover_step hoverDelay items tab (now, Tab_selected v) s = select_tab now items tab v s"
| "hover_step hoverDelay items tab (now, Scope_changed) s = cancelHoverPrefetch s"
| "hover_step hoverDelay items tab (now, Timer_due) s =
     (case hp_timer s of
        Some (due, url) \<Rightarrow>
          if due \<le> now then s\<lparr>hp_timer := None, hp_prefetched := hp_prefetched s @ [(now, url)]\<rparr> else s
      | None \<Rightarrow> s)"

definition hover_run ::
  "int \<Rightarrow> activity_tab_item list \<Rightarrow> QueueActivityTab \<Rightarrow> (int \<times> hover_event) list \<Rightarrow> hover_state" where
  "hover_run hoverDelay items tab evs = fold (hover_step hoverDelay items tab) evs mounted_hover"

section \<open>Rows and sorting\<close>

definition job_rows :: "QueueActivityTab \<Rightarrow> QueueActivity \<Rightarrow> JobRow list" where
  "job_rows tab activity =
     (if tab = Act_batches then []
      else concat (map (\<lambda>r. case r of Inl j \<Rightarrow> [j] | Inr _ \<Rightarrow> []) (qa_data activity)))"

definition batch_rows :: "QueueActivityTab \<Rightarrow> QueueActivity \<Rightarrow> BatchRow list" where
  "batch_rows tab activity =
     (if tab = Act_batches then concat (map (\<lambda>r. case r of Inl _ \<Rightarrow> [] | Inr b \<Rightarrow> [b]) (qa_data activity)) else [])"

definition time_value :: "rat option \<Rightarrow> SortValue" where
  "time_value t = (case t of None \<Rightarrow> SortNull | Some x \<Rightarrow> SortNumber (Num x))"

definition finished_columns :: "JobRow SortColumn list" where
  "finished_columns =
     [\<lparr>column_key = ''name'', column_value = SortString \<circ> jr_name\<rparr>,
      \<lparr>column_key = ''pushedAt'', column_value = time_value \<circ> jr_pushedAt\<rparr>,
      \<lparr>column_key = ''completedAt'', column_value = time_value \<circ> jr_completedAt\<rparr>,
      \<lparr>column_key = ''runtime'', column_value = time_value \<circ> jr_runtime\<rparr>]"

fun sortColumns :: "QueueActivityTab \<Rightarrow> JobRow SortColumn list" where
  "sortColumns Act_pending =
     [\<lparr>column_key = ''name'', column_value = SortString \<circ> jr_name\<rparr>,
      \<lparr>column_key = ''pushedAt'', column_value = time_value \<circ> jr_pushedAt\<rparr>]"
| "sortColumns Act_completed = finished_columns"
| "sortColumns Act_failed =
     [\<lparr>column_key = ''name'', column_value = SortString \<circ> jr_name\<rparr>,
      \<lparr>column_key = ''runtime'', column_value = time_value \<circ> jr_runtime\<rparr>,
      \<lparr>column_key = ''failedAt'', column_value = time_value \<circ> jr_failedAt\<rparr>]"
| "sortColumns Act_silenced = finished_columns"
| "sortColumns Act_batches = []"

definition completedAtDescending :: SortState where
  "completedAtDescending = \<lparr>state_key = ''completedAt'', state_direction = Desc\<rparr>"

definition progress_rank :: "BatchRow \<Rightarrow> int" where
  "progress_rank b = (if br_status b \<noteq> Batch_cancelled \<and> br_pendingJobs b > 0 then 101 + br_progress b else 0)"

definition batchSortColumns :: "BatchRow SortColumn list" where
  "batchSortColumns = [\<lparr>column_key = ''progress'', column_value = count_value \<circ> progress_rank\<rparr>]"

definition progressDescending :: SortState where
  "progressDescending = \<lparr>state_key = ''progress'', state_direction = Desc\<rparr>"

text \<open>The options of the two sorted lists.\<close>

definition job_sort_options :: "QueueActivityTab \<Rightarrow> SortUrlOptions" where
  "job_sort_options tab =
     \<lparr>opt_persist = Some (tab \<noteq> Act_batches), opt_prefix = None,
      opt_defaultSort = (if tab = Act_completed \<or> tab = Act_silenced then Some completedAtDescending else None)\<rparr>"

definition batch_sort_options :: SortUrlOptions where
  "batch_sort_options = \<lparr>opt_persist = None, opt_prefix = None, opt_defaultSort = Some progressDescending\<rparr>"

definition controlled :: "SortState option \<Rightarrow> 'row SortColumn list \<Rightarrow> ControlledTableSorting" where
  "controlled sorting cols =
     \<lparr>cs_key = map_option state_key sorting,
      cs_direction = (case sorting of Some s \<Rightarrow> state_direction s | None \<Rightarrow> Asc),
      cs_columns = map column_key cols\<rparr>"

section \<open>The content of a tab\<close>

text \<open>What the tab shows in place of rows, and above them.\<close>

definition empty_title :: "bool \<Rightarrow> QueueActivityTab \<Rightarrow> string" where
  "empty_title warming tab =
     (if warming
      then (if tab = Act_batches then ''Preparing attributed batches''
            else ''Preparing '' @ activity_literal tab @ '' jobs'')
      else if tab = Act_batches then ''No attributed batches''
      else ''No retained '' @ activity_literal tab @ '' jobs'')"

definition empty_description :: "bool \<Rightarrow> QueueActivity \<Rightarrow> QueueActivityTab \<Rightarrow> string" where
  "empty_description inactive activity tab =
     (if inactive then ''Run php artisan horizon to start an instance and process queues.''
      else if qa_warming activity then ''Horizon is updating retained history. Results will appear automatically.''
      else if qa_complete activity then
        (if tab = Act_batches then ''No retained batches are attributed to this queue.''
         else ''Horizon is not retaining any '' @ activity_literal tab @ '' jobs for this queue.'')
      else ''No matches in the inspected history. More retained entries may exist.'')"

definition activity_table_props ::
  "bool \<Rightarrow> bool \<Rightarrow> QueueActivity \<Rightarrow> QueueActivityTab \<Rightarrow> ControlledTableSorting \<Rightarrow> table_props" where
  "activity_table_props inactive newEntries activity tab sorting =
     \<lparr>tp_available = (qa_available activity \<or> qa_warming activity),
      tp_message = (if qa_warming activity then None else qa_message activity),
      tp_hasNewEntries = newEntries, tp_onLoadNewEntries = True,
      tp_emptyTitle = Some (if inactive then ''No Horizon instances'' else empty_title (qa_warming activity) tab),
      tp_emptyDescription = Some (empty_description inactive activity tab),
      tp_sorting = Some sorting\<rparr>"

definition history_alert :: "QueueActivity \<Rightarrow> QueueActivityTab \<Rightarrow> 'a node list" where
  "history_alert activity tab =
     child_if (qa_available activity \<and> \<not> qa_warming activity \<and> \<not> falsy_text (qa_message activity))
       [El ''Alert'' []
          [El ''HistoryIcon'' [(''aria-hidden'', Str ''true'')] [],
           text_of ''AlertTitle''
             (if tab = Act_batches then ''Batch activity limitation'' else ''Retained history is incomplete''),
           text_of ''AlertDescription'' (the (qa_message activity))]]"

fun list_type :: "QueueActivityTab \<Rightarrow> JobListType" where
  "list_type Act_completed = CompletedList"
| "list_type Act_silenced = SilencedList"
| "list_type tab = PendingList"

text \<open>The state of the two \<open>useSortableRows\<close> is \<open>job_sort\<close> and \<open>batch_sort\<close>.\<close>

definition activity_table ::
  "(string \<Rightarrow> string \<Rightarrow> rat) \<Rightarrow> (number \<Rightarrow> string) \<Rightarrow> table_env \<Rightarrow> rat \<Rightarrow> bool \<Rightarrow> bool \<Rightarrow> QueueActivity \<Rightarrow>
   QueueActivityTab \<Rightarrow> SortState option \<Rightarrow> SortState option \<Rightarrow> operation menu_act table_act node list" where
  "activity_table collate number_text e now inactive newEntries activity tab job_sort batch_sort =
     (let jobs = sortRows collate number_text (job_rows tab activity) (sortColumns tab) job_sort;
          batches = sortRows collate number_text (batch_rows tab activity) batchSortColumns batch_sort;
          jobs_sorting = controlled job_sort (sortColumns tab);
          p = activity_table_props inactive newEntries activity tab
      in if tab = Act_batches then BatchTable e (p (controlled batch_sort batchSortColumns)) True batches
         else if tab = Act_failed then FailedJobTable e (p jobs_sorting) jobs
         else JobTable e
                (table_props.extend (p jobs_sorting)
                   \<lparr>jt_type = list_type tab, jt_notice = None, jt_showPendingActions = True\<rparr>) now jobs)"

definition QueueActivityContent ::
  "(string \<Rightarrow> string \<Rightarrow> rat) \<Rightarrow> (number \<Rightarrow> string) \<Rightarrow> table_env \<Rightarrow> rat \<Rightarrow> bool \<Rightarrow> bool \<Rightarrow> QueueActivity \<Rightarrow>
   QueueActivityTab \<Rightarrow> SortState option \<Rightarrow> SortState option \<Rightarrow> operation menu_act table_act node list" where
  "QueueActivityContent collate number_text e now inactive newEntries activity tab job_sort batch_sort =
     history_alert activity tab @
     [El ''InfiniteScroll'' [(''data'', Str ''activity''), (''onlyNext'', Flag True), (''buffer'', Count 600)]
        (activity_table collate number_text e now inactive newEntries activity tab job_sort batch_sort)]"

section \<open>The panel\<close>

datatype activity_action =
    Batches_menu "operation menu_act"
  | Pending_menu "PendingCancellationScope option menu_act"
  | Failed_menu queue_action
  | Tab_link hover_event
  | Table_action "operation menu_act table_act"

record activity_menus =
  av_batches :: "(bool, bool, batch_request) action_menu"
  av_pending :: "(PendingCancellationScope option, bool, pending_request) action_menu"
  av_failed :: queue_menu

definition failed_menu_props :: "string \<Rightarrow> QueueSummary \<Rightarrow> queue_menu_props" where
  "failed_menu_props queue summary =
     \<lparr>qp_connection = None, qp_queue = queue, qp_paused = None, qp_pausedUntil = None,
      qp_targets = Some (map action_target (qs_pauseTargets summary)),
      qp_pendingJobs = None, qp_failedJobs = Some (qs_failedJobs summary),
      qp_queuePausing = True, qp_timedQueuePausing = True, qp_scope = Scope_failed\<rparr>"

text \<open>The actions beside the tabs; the menu of failed jobs takes its other props' defaults.\<close>

definition activityActions ::
  "string \<Rightarrow> QueueActivityTab \<Rightarrow> QueueSummary \<Rightarrow> QueueActivity \<Rightarrow> bool \<Rightarrow> activity_menus \<Rightarrow>
   activity_action node list" where
  "activityActions queue tab summary activity inactive menus =
     (if inactive then []
      else if tab = Act_batches then
        embed Batches_menu (QueueBatchesActions queue
          (foldl (\<lambda>total b. total + br_failedJobs b) 0 (batch_rows tab activity)) (av_batches menus))
      else if tab = Act_pending then
        embed Pending_menu (PendingJobsActions
          \<lparr>pp_disabled = (\<not> qa_available activity), pp_queue = Some queue,
           pp_ready = qs_pendingReadyNow summary, pp_delayed = qs_pendingDelayed summary\<rparr> (av_pending menus))
      else if tab = Act_failed then
        embed Failed_menu (QueueActionsMenu (failed_menu_props queue summary) (av_failed menus))
      else [])"

definition tab_link :: "activity_tab_item \<Rightarrow> activity_action ResponsiveTabItem" where
  "tab_link item =
     \<lparr>tab_value = activity_literal (at_value item), tab_label = at_label item, tab_count = Some (at_count item),
      tab_render =
        [El ''Link''
           [(''href'', Str (at_href item)), (''prefetch'', Flag False),
            (''aria-label'', Str (at_label item @ '' '' @ at_count item)),
            (''onFocus'', On (Tab_link (Link_focused (at_href item)))),
            (''onMouseEnter'', On (Tab_link (Pointer_enters (at_href item)))),
            (''onMouseLeave'', On (Tab_link Pointer_leaves)),
            (''onClick'', On (Tab_link (Link_clicked True (at_href item))))] []]\<rparr>"

definition QueueActivityTabs ::
  "QueueActivityTab \<Rightarrow> activity_tab_item list \<Rightarrow> activity_action node list \<Rightarrow> operation menu_act table_act node list \<Rightarrow>
   activity_action tabs_action node" where
  "QueueActivityTabs tab items actions content =
     El ''Card'' []
       [El ''CardContent'' []
          [El ''Tabs'' [(''value'', Str (activity_literal tab))]
             (ResponsiveTabsHeader (activity_literal tab) (map tab_link items) ''Queue activity'' actions #
              embed (Own \<circ> Table_action) content)]]"

section \<open>Properties of the prefetch\<close>

text \<open>
  The hovers that last: the pointer enters a link, and from then on nothing leaves or enters a
  link, visits, or changes the scope, until the timer runs at its time or later.
\<close>

fun interrupts :: "hover_event \<Rightarrow> bool" where
  "interrupts (Pointer_enters u) = True"
| "interrupts Pointer_leaves = True"
| "interrupts (Link_clicked intercept u) = intercept"
| "interrupts Scope_changed = True"
| "interrupts e = False"

fun waiting_hover :: "int \<Rightarrow> (int \<times> hover_event) list \<Rightarrow> (int \<times> string) option" where
  "waiting_hover d [] = None"
| "waiting_hover d ((now, Pointer_enters u) # evs) = Some (now + d, u)"
| "waiting_hover d ((now, Timer_due) # evs) =
     (case waiting_hover d evs of Some (due, u) \<Rightarrow> if due \<le> now then None else Some (due, u) | None \<Rightarrow> None)"
| "waiting_hover d ((now, e) # evs) = (if interrupts e then None else waiting_hover d evs)"

text \<open>What a history, its latest event first, has prefetched and visited.\<close>

fun prefetched_by :: "int \<Rightarrow> (int \<times> hover_event) list \<Rightarrow> (int \<times> string) list" where
  "prefetched_by d [] = []"
| "prefetched_by d ((now, Link_focused u) # evs) = prefetched_by d evs @ [(now, u)]"
| "prefetched_by d ((now, Timer_due) # evs) =
     prefetched_by d evs @
     (case waiting_hover d evs of Some (due, u) \<Rightarrow> if due \<le> now then [(now, u)] else [] | None \<Rightarrow> [])"
| "prefetched_by d (e # evs) = prefetched_by d evs"

lemma hover_refines:
  "hp_timer (hover_run d items tab (rev h)) = waiting_hover d h \<and>
   hp_prefetched (hover_run d items tab (rev h)) = prefetched_by d h"
proof (induction h)
  case (Cons e h)
  obtain now ev where e: "e = (now, ev)" by (cases e)
  have "hover_run d items tab (rev (e # h)) = hover_step d items tab e (hover_run d items tab (rev h))"
    by (simp add: hover_run_def)
  with Cons e show ?case
    by (cases ev)
      (auto simp: prefetchAfterHoverDelay_def cancelHoverPrefetch_def click_tab_def select_tab_def
        split: option.splits prod.splits)
qed (simp add: hover_run_def mounted_hover_def)

text \<open>A timer that is waiting was set by the last hover, which nothing has interrupted.\<close>

lemma waiting_from_hover:
  "waiting_hover d h = Some (due, u) \<Longrightarrow>
   \<exists>later earlier. h = later @ (due - d, Pointer_enters u) # earlier \<and> (\<forall>e \<in> set later. \<not> interrupts (snd e))"
proof (induction h)
  case (Cons e h)
  obtain now ev where e: "e = (now, ev)" by (cases e)
  show ?case
  proof (cases "\<exists>v. ev = Pointer_enters v")
    case True
    with Cons e show ?thesis by (auto intro: exI [of _ "[]"])
  next
    case False
    with Cons.prems e have w: "waiting_hover d h = Some (due, u)" "\<not> interrupts ev"
      by (cases ev; auto split: option.splits if_splits prod.splits)+
    from Cons.IH [OF w(1)] obtain later earlier where
      "h = later @ (due - d, Pointer_enters u) # earlier" "\<forall>e \<in> set later. \<not> interrupts (snd e)" by blast
    with e w(2) have "e # h = (e # later) @ (due - d, Pointer_enters u) # earlier"
      "\<forall>x \<in> set (e # later). \<not> interrupts (snd x)" by simp_all
    then show ?thesis by blast
  qed
qed simp

lemma prefetched_from_hover:
  "(t, u) \<in> set (prefetched_by d h) \<Longrightarrow>
   (t, Link_focused u) \<in> set h \<or>
   (\<exists>start between earlier later. h = later @ (t, Timer_due) # between @ (start, Pointer_enters u) # earlier \<and>
      start + d \<le> t \<and> (\<forall>e \<in> set between. \<not> interrupts (snd e)))"
proof (induction h)
  case (Cons e h)
  obtain now ev where e: "e = (now, ev)" by (cases e)
  show ?case
  proof (cases "(t, u) \<in> set (prefetched_by d h)")
    case True
    from Cons.IH [OF this] show ?thesis
      by (metis append_Cons list.set_intros(2))
  next
    case False
    with Cons.prems e have "ev = Link_focused u \<and> now = t \<or>
        ev = Timer_due \<and> now = t \<and> (\<exists>due. waiting_hover d h = Some (due, u) \<and> due \<le> t)"
      by (cases ev) (auto split: option.splits if_splits prod.splits dest: sym)
    then show ?thesis
    proof
      assume "ev = Timer_due \<and> now = t \<and> (\<exists>due. waiting_hover d h = Some (due, u) \<and> due \<le> t)"
      then obtain due where w: "ev = Timer_due" "now = t" "waiting_hover d h = Some (due, u)" "due \<le> t" by blast
      from waiting_from_hover [OF w(3)] obtain later earlier where
        h: "h = later @ (due - d, Pointer_enters u) # earlier" "\<forall>e \<in> set later. \<not> interrupts (snd e)" by blast
      have "e # h = [] @ (t, Timer_due) # later @ (due - d, Pointer_enters u) # earlier"
        using e w h by simp
      with h(2) w(4) show ?thesis by (metis diff_add_cancel)
    qed (use e in auto)
  qed
qed simp

text \<open>
  A tab is prefetched only for a reader who means it. Every prefetch that has happened was
  asked for by the focus on its link, or by a pointer that entered the link at least the delay
  before and since then has neither left it, entered another one nor clicked, with the queue, the
  tab and the query unchanged.
\<close>

lemma prefetch_needs_hover:
  assumes "(t, u) \<in> set (hp_prefetched (hover_run d items tab evs))"
  shows "(t, Link_focused u) \<in> set evs \<or>
    (\<exists>earlier start between later. evs = earlier @ (start, Pointer_enters u) # between @ (t, Timer_due) # later \<and>
      start + d \<le> t \<and> (\<forall>e \<in> set between. \<not> interrupts (snd e)))"
proof -
  have "(t, u) \<in> set (prefetched_by d (rev evs))"
    using assms hover_refines [of d items tab "rev evs"] by simp
  from prefetched_from_hover [OF this] show ?thesis
  proof
    assume "\<exists>start between earlier later. rev evs = later @ (t, Timer_due) # between @ (start, Pointer_enters u) # earlier \<and>
      start + d \<le> t \<and> (\<forall>e \<in> set between. \<not> interrupts (snd e))"
    then obtain start between earlier later where
      r: "rev evs = later @ (t, Timer_due) # between @ (start, Pointer_enters u) # earlier"
      and o': "start + d \<le> t" "\<forall>e \<in> set between. \<not> interrupts (snd e)" by blast
    from r have "evs = rev earlier @ (start, Pointer_enters u) # rev between @ (t, Timer_due) # rev later"
      by (metis append_assoc append_Cons append_Nil rev.simps(2) rev_append rev_rev_ident)
    with o' show ?thesis by (metis set_rev)
  qed simp
qed

section \<open>Running batches first\<close>

definition running :: "BatchRow \<Rightarrow> bool" where
  "running b \<longleftrightarrow> br_status b \<noteq> Batch_cancelled \<and> br_pendingJobs b > 0"

lemma progress_column_uniform: "uniform (column_values (hd batchSortColumns) rows)"
  by (auto simp: uniform_def column_values_def batchSortColumns_def count_value_def)

lemma rank_before:
  "row_before collate num (hd batchSortColumns) Desc rows i j \<longleftrightarrow>
     progress_rank (rows ! j) < progress_rank (rows ! i) \<or>
     progress_rank (rows ! i) = progress_rank (rows ! j) \<and> i < j"
proof -
  have "of_int a - of_int b = (of_int (a - b) :: rat)" for a b by simp
  then show ?thesis
    by (auto simp: row_before_def batchSortColumns_def count_value_def compare_numbers Let_def)
qed

text \<open>
  The batches that are still running lead. With the sorting a tab of batches opens with, the
  table holds the given batches, each exactly once; one with work left that is not cancelled never
  stands below one that is finished or cancelled, of two that run the further one stands above,
  and equals keep their order.
\<close>

lemma running_batches_lead:
  assumes "collator_law collate" and "\<forall>b \<in> set rows. 0 \<le> br_progress b"
  shows "\<exists>is. sortRows collate num rows batchSortColumns (initialSort location batchSortColumns batch_sort_options) =
      map ((!) rows) is \<and> mset is = mset [0..<length rows] \<and>
    sorted_wrt (\<lambda>i j. (running (rows ! j) \<longrightarrow> running (rows ! i)) \<and>
      (running (rows ! i) \<and> running (rows ! j) \<longrightarrow> br_progress (rows ! j) \<le> br_progress (rows ! i)) \<and>
      (\<not> running (rows ! i) \<and> \<not> running (rows ! j) \<longrightarrow> i < j)) is"
proof -
  have init: "initialSort location batchSortColumns batch_sort_options = Some progressDescending"
    by (simp add: initialSort_def batch_sort_options_def batchSortColumns_def progressDescending_def)
  have d: "state_direction progressDescending = Desc" by (simp add: progressDescending_def)
  have "find (\<lambda>candidate. column_key candidate = state_key progressDescending) batchSortColumns = Some (hd batchSortColumns)"
    by (simp add: batchSortColumns_def progressDescending_def)
  from sorted_rows [OF assms(1) progress_column_uniform this, of num] obtain "is" where
    s: "sortRows collate num rows batchSortColumns (Some progressDescending) = map ((!) rows) is"
    "mset is = mset [0..<length rows]" "sorted_wrt (row_before collate num (hd batchSortColumns) Desc rows) is"
    unfolding d by blast
  have bound: "i < length rows" if "i \<in> set is" for i
    using that s(2) by (metis atLeastLessThan_iff set_mset_mset set_upt)
  have "sorted_wrt (\<lambda>i j. (running (rows ! j) \<longrightarrow> running (rows ! i)) \<and>
      (running (rows ! i) \<and> running (rows ! j) \<longrightarrow> br_progress (rows ! j) \<le> br_progress (rows ! i)) \<and>
      (\<not> running (rows ! i) \<and> \<not> running (rows ! j) \<longrightarrow> i < j)) is"
  proof (rule sorted_wrt_mono_rel [OF _ s(3)])
    fix i j
    assume "i \<in> set is" "j \<in> set is" and r: "row_before collate num (hd batchSortColumns) Desc rows i j"
    then have "0 \<le> br_progress (rows ! i)" "0 \<le> br_progress (rows ! j)" using assms(2) bound by simp_all
    with r show "(running (rows ! j) \<longrightarrow> running (rows ! i)) \<and>
      (running (rows ! i) \<and> running (rows ! j) \<longrightarrow> br_progress (rows ! j) \<le> br_progress (rows ! i)) \<and>
      (\<not> running (rows ! i) \<and> \<not> running (rows ! j) \<longrightarrow> i < j)"
      unfolding rank_before by (auto simp: progress_rank_def running_def split: if_splits)
  qed
  with s(1,2) show ?thesis unfolding init by (intro exI [of _ "is"] conjI)
qed

definition sample_batch :: "string \<Rightarrow> BatchStatus \<Rightarrow> int \<Rightarrow> int \<Rightarrow> BatchRow" where
  "sample_batch i status pending progress =
     \<lparr>br_id = i, br_name = None, br_displayName = i, br_connection = None, br_queue = None,
      br_connectionExplicit = False, br_queueExplicit = False, br_attributionCaptured = False, br_totalJobs = 10,
      br_pendingJobs = pending, br_failedJobs = 0, br_failedJobAttempts = 0, br_processedJobs = 0,
      br_progress = progress, br_status = status, br_createdAt = 0, br_cancelledAt = None, br_finishedAt = None\<rparr>"

end
