(* ===== verification/Detail_List.thy ===== *)
theory Detail_List
  imports Json_Payload
begin

text \<open>
  \<^verbatim>\<open>resources/js/components/detail-list.tsx\<close>: the list of details of a page, with values that scroll
  sideways and fade where something is hidden; and \<^verbatim>\<open>components/jobs/stack-trace.tsx\<close>: the lines of
  an exception with their parts marked. The sizes and the position of a value's viewport are
  events; a frame of the browser is one too. A line terminator is LF or CR.
\<close>

section \<open>Values that scroll\<close>

record overflow_value =
  ov_scrollLeft :: rat
  ov_scrollWidth :: rat
  ov_clientWidth :: rat
  ov_edges :: "bool \<times> bool"
  ov_frame :: bool
  ov_mounted :: bool

definition overflow_edges :: "overflow_value \<Rightarrow> bool \<times> bool" where
  "overflow_edges v =
     (let maximumScrollLeft = max 0 (ov_scrollWidth v - ov_clientWidth v);
          scrollLeft = min maximumScrollLeft (max 0 (ov_scrollLeft v))
      in (scrollLeft > 1, maximumScrollLeft - scrollLeft > 1))"

definition updateOverflowEdges :: "overflow_value \<Rightarrow> overflow_value" where
  "updateOverflowEdges v =
     (if \<not> ov_mounted v then v
      else if ov_edges v = overflow_edges v then v else v\<lparr>ov_edges := overflow_edges v\<rparr>)"

definition scheduleUpdate :: "overflow_value \<Rightarrow> overflow_value" where
  "scheduleUpdate v = (if ov_frame v then v else v\<lparr>ov_frame := True\<rparr>)"

text \<open>The layout effect: the edges are set at once, then at most one frame waits.\<close>

definition mount_overflow :: "rat \<Rightarrow> rat \<Rightarrow> rat \<Rightarrow> overflow_value" where
  "mount_overflow left width client =
     updateOverflowEdges
       \<lparr>ov_scrollLeft = left, ov_scrollWidth = width, ov_clientWidth = client, ov_edges = (False, False),
        ov_frame = False, ov_mounted = True\<rparr>"

datatype overflow_event =
    Value_scrolled rat
  | Value_resized rat rat
  | Animation_frame
  | Value_unmounted

text \<open>\<open>observed\<close> says whether the browser has a \<open>ResizeObserver\<close>.\<close>

fun overflow_step :: "bool \<Rightarrow> overflow_event \<Rightarrow> overflow_value \<Rightarrow> overflow_value" where
  "overflow_step observed (Value_scrolled left) v =
     (if ov_mounted v then scheduleUpdate (v\<lparr>ov_scrollLeft := left\<rparr>) else v)"
| "overflow_step observed (Value_resized width client) v =
     (if ov_mounted v
      then (let w = v\<lparr>ov_scrollWidth := width, ov_clientWidth := client\<rparr>
            in if observed then scheduleUpdate w else w)
      else v)"
| "overflow_step observed Animation_frame v =
     (if ov_frame v then updateOverflowEdges (v\<lparr>ov_frame := False\<rparr>) else v)"
| "overflow_step observed Value_unmounted v = v\<lparr>ov_frame := False, ov_mounted := False\<rparr>"

definition overflow_run :: "bool \<Rightarrow> overflow_event list \<Rightarrow> overflow_value \<Rightarrow> overflow_value" where
  "overflow_run observed es v = fold (overflow_step observed) es v"

definition ScrollableDetailValue :: "bool \<times> bool \<Rightarrow> string option \<Rightarrow> 'a node list \<Rightarrow> 'a node" where
  "ScrollableDetailValue edges label children =
     (let hasOverflow = (fst edges \<or> snd edges)
      in El ''div'' [(''data-overflow-left'', Flag (fst edges)), (''data-overflow-right'', Flag (snd edges))]
           [El ''div''
              ([(''aria-label'', Str (case label of Some l \<Rightarrow> l @ '' value'' | None \<Rightarrow> ''Scrollable value''))] @
               prop_if hasOverflow (''role'', Str ''region'') @ prop_if hasOverflow (''tabIndex'', Count 0))
              [El ''span'' [] children],
            El ''span'' [(''aria-hidden'', Str ''true'')] [],
            El ''span'' [(''aria-hidden'', Str ''true'')] []])"

section \<open>Items\<close>

record 'a detail =
  dl_label :: string
  dl_value :: "'a node list"
  dl_identifier :: bool
  dl_testId :: "string option"
  dl_title :: "string option"

definition DetailListItem :: "(string \<Rightarrow> bool \<times> bool) \<Rightarrow> 'a detail \<Rightarrow> 'a node list" where
  "DetailListItem edges d =
     [text_of ''dt'' (dl_label d),
      El ''dd''
        ((case dl_testId d of Some t \<Rightarrow> [(''data-test'', Str t)] | None \<Rightarrow> []) @
         (case dl_title d of Some t \<Rightarrow> [(''title'', Str t)] | None \<Rightarrow> []))
        (if dl_identifier d
         then [ScrollableDetailValue (edges (dl_label d)) (Some (dl_label d)) (dl_value d)]
         else dl_value d)]"

definition DetailList :: "(string \<Rightarrow> bool \<times> bool) \<Rightarrow> 'a detail list \<Rightarrow> 'a node" where
  "DetailList edges details = El ''dl'' [] (concat (map (DetailListItem edges) details))"

text \<open>A text value has itself as its title.\<close>

definition text_detail :: "string \<Rightarrow> string \<Rightarrow> 'a detail" where
  "text_detail label t =
     \<lparr>dl_label = label, dl_value = [Text t], dl_identifier = False, dl_testId = None, dl_title = Some t\<rparr>"

definition node_detail :: "string \<Rightarrow> 'a node list \<Rightarrow> 'a detail" where
  "node_detail label v =
     \<lparr>dl_label = label, dl_value = v, dl_identifier = False, dl_testId = None, dl_title = None\<rparr>"

definition identified :: "string \<Rightarrow> 'a detail \<Rightarrow> 'a detail" where
  "identified testId d = d\<lparr>dl_identifier := True, dl_testId := Some testId\<rparr>"

section \<open>Stack traces\<close>

definition dot :: "char \<Rightarrow> bool" where
  "dot c \<longleftrightarrow> c \<noteq> CHR 0x0A \<and> c \<noteq> CHR 0x0D"

definition trace_token :: "string \<Rightarrow> string \<Rightarrow> 'a node" where
  "trace_token kind t = El ''span'' [(''data-trace-token'', Str kind)] [Text t]"

text \<open>The pattern \<^verbatim>\<open>^([^:]+)(:)(.*)$\<close>: what stands before and after the first colon.\<close>

definition match_exception :: "string \<Rightarrow> (string \<times> string) option" where
  "match_exception v =
     (let before = takeWhile (\<lambda>c. c \<noteq> CHR '':'') v
      in case dropWhile (\<lambda>c. c \<noteq> CHR '':'') v of
           [] \<Rightarrow> None
         | c # after \<Rightarrow> if before \<noteq> [] \<and> list_all dot after then Some (before, after) else None)"

text \<open>
  The head \<^verbatim>\<open>^(#\d+)(\s+)\<close> of a frame: the number with its hash, all the white space after it,
  and the rest.
\<close>

definition match_head :: "string \<Rightarrow> (string \<times> string \<times> string) option" where
  "match_head v =
     (case v of
        [] \<Rightarrow> None
      | h # t \<Rightarrow>
          let digits = takeWhile is_digit t; r = dropWhile is_digit t; space = takeWhile is_space r
          in if h = CHR ''#'' \<and> digits \<noteq> [] \<and> space \<noteq> [] then Some (h # digits, space, dropWhile is_space r)
             else None)"

text \<open>\<^verbatim>\<open>\((\d+)\)(:\s*)(.*)$\<close> at the head of a text.\<close>

definition match_location :: "string \<Rightarrow> (string \<times> string \<times> string) option" where
  "match_location v =
     (case v of
        [] \<Rightarrow> None
      | h # t \<Rightarrow>
          (let digits = takeWhile is_digit t
           in case dropWhile is_digit t of
                a # b # q \<Rightarrow>
                  if h = CHR ''('' \<and> digits \<noteq> [] \<and> a = CHR '')'' \<and> b = CHR '':'' \<and> list_all dot (dropWhile is_space q)
                  then Some (digits, b # takeWhile is_space q, dropWhile is_space q) else None
              | _ \<Rightarrow> None))"

text \<open>\<^verbatim>\<open>(.+)\((\d+)\)(:\s*)(.*)$\<close>: greedy, so the last place where the location matches.\<close>

fun match_path :: "string \<Rightarrow> string \<Rightarrow> (string \<times> string \<times> string \<times> string) option" where
  "match_path path [] = None"
| "match_path path (c # cs) =
     (case (if dot c then match_path (path @ [c]) cs else None) of
        Some m \<Rightarrow> Some m
      | None \<Rightarrow> if path = [] then None else map_option (\<lambda>m. (path, m)) (match_location (c # cs)))"

text \<open>
  The whole pattern of a located frame. White space is matched greedily; when the rest then does
  not match, its last character is given back to the path. The space is passed in reverse.
\<close>

fun match_located :: "string \<Rightarrow> string \<Rightarrow> (string \<times> string \<times> string \<times> string \<times> string) option" where
  "match_located [] r = None"
| "match_located (c # cs) r =
     (case match_path [] r of
        Some m \<Rightarrow> Some (rev (c # cs), m)
      | None \<Rightarrow> match_located cs (c # r))"

definition frame_parts :: "string \<Rightarrow> 'a node list option" where
  "frame_parts v =
     (case match_head v of
        None \<Rightarrow> None
      | Some (number, space, r) \<Rightarrow>
          (case match_located (rev space) r of
             Some (space', path, line, colon, after) \<Rightarrow>
               Some [trace_token ''frame'' number, trace_token ''path'' (space' @ path @ ''(''),
                     trace_token ''line'' line, text_of ''span'' ('')'' @ colon), Text after]
           | None \<Rightarrow>
               if list_all dot r then Some [trace_token ''frame'' number, Text space, Text r] else None))"

definition TraceLine :: "string \<Rightarrow> bool \<Rightarrow> 'a node list" where
  "TraceLine v first =
     (case (if first then match_exception v else None) of
        Some (before, after) \<Rightarrow> [trace_token ''exception'' before, text_of ''span'' '':'', Text after]
      | None \<Rightarrow>
          if v = ''Stack trace:'' then [text_of ''span'' v]
          else (case frame_parts v of Some ns \<Rightarrow> ns | None \<Rightarrow> [Text v]))"

definition trace_frames :: "string \<Rightarrow> string list" where
  "trace_frames v = filter (\<lambda>frame. frame \<noteq> []) (split_on (CHR 0x0A) v)"

definition trace_lines :: "string list \<Rightarrow> 'a node list" where
  "trace_lines kept =
     map (\<lambda>(index, frame). El ''span'' [(''className'', Str ''block'')] (TraceLine frame (index = 0)))
       (zip [0..<length kept] kept)"

text \<open>The trace and the text its button copies.\<close>

definition StackTrace :: "string \<Rightarrow> json_action node \<times> string option" where
  "StackTrace v =
     (let kept = trace_frames v
      in if kept = [] then (text_of ''p'' ''No exception was recorded.'', None)
         else (CodeBlock ''exception'' (Some v) [El ''code'' [] (trace_lines kept)], Some v))"

section \<open>The edges follow the viewport\<close>

definition edges_current :: "overflow_value \<Rightarrow> bool" where
  "edges_current v \<longleftrightarrow> (ov_mounted v \<and> \<not> ov_frame v \<longrightarrow> ov_edges v = overflow_edges v)"

lemma overflow_edges_update [simp]:
  "overflow_edges (v\<lparr>ov_edges := e\<rparr>) = overflow_edges v"
  "overflow_edges (v\<lparr>ov_frame := f\<rparr>) = overflow_edges v"
  by (simp_all add: overflow_edges_def)

lemma edges_current_step: "edges_current v \<Longrightarrow> edges_current (overflow_step True e v)"
  by (cases e) (auto simp: edges_current_def scheduleUpdate_def updateOverflowEdges_def Let_def)

lemma edges_current_run: "edges_current v \<Longrightarrow> edges_current (overflow_run True es v)"
  unfolding overflow_run_def by (induction es arbitrary: v) (simp_all add: edges_current_step)

lemma edges_current_update: "edges_current (updateOverflowEdges v)"
  by (simp add: edges_current_def updateOverflowEdges_def)

lemma edges_current_mount: "edges_current (mount_overflow left width client)"
  unfolding mount_overflow_def by (rule edges_current_update)

lemma frame_refreshes: "edges_current v \<Longrightarrow> ov_mounted v \<Longrightarrow>
    ov_edges (overflow_step observed Animation_frame v) = overflow_edges v"
  by (simp add: edges_current_def updateOverflowEdges_def)

text \<open>
  A mounted value settles: after any events from its mounting, with an observer of sizes, the
  next frame of the browser leaves the left fade exactly when more than a pixel is hidden on the
  left of the clamped position, and the right fade exactly when more than a pixel remains on the
  right; a value that fits has neither.
\<close>

lemma overflow_fades_settle:
  assumes "ov_mounted (overflow_run True es (mount_overflow left width client))"
    and "v = overflow_run True es (mount_overflow left width client)"
  shows "ov_edges (overflow_step True Animation_frame v) =
      (min (max 0 (ov_scrollWidth v - ov_clientWidth v)) (max 0 (ov_scrollLeft v)) > 1,
       max 0 (ov_scrollWidth v - ov_clientWidth v) -
         min (max 0 (ov_scrollWidth v - ov_clientWidth v)) (max 0 (ov_scrollLeft v)) > 1) \<and>
    (ov_scrollWidth v \<le> ov_clientWidth v \<longrightarrow> ov_edges (overflow_step True Animation_frame v) = (False, False))"
proof -
  have e: "ov_edges (overflow_step True Animation_frame v) = overflow_edges v"
    using assms by (intro frame_refreshes) (simp_all add: edges_current_run edges_current_mount)
  show ?thesis
    unfolding e by (auto simp: overflow_edges_def Let_def)
qed

section \<open>A stack trace keeps its text\<close>

lemma take_drop_while: "takeWhile P xs @ dropWhile P xs = xs"
  by simp

lemma match_exception_keeps: "match_exception v = Some (a, b) \<Longrightarrow> a @ '':'' @ b = v"
proof -
  assume m: "match_exception v = Some (a, b)"
  then obtain c where d: "dropWhile (\<lambda>c. c \<noteq> CHR '':'') v = c # b" and a: "a = takeWhile (\<lambda>c. c \<noteq> CHR '':'') v"
    by (auto simp: match_exception_def Let_def split: list.splits if_splits)
  have "c = CHR '':''"
    using d hd_dropWhile [of "\<lambda>c. c \<noteq> CHR '':''" v] by simp
  then show ?thesis
    using d a take_drop_while [of "\<lambda>c. c \<noteq> CHR '':''" v] by simp
qed

lemma match_head_keeps: "match_head v = Some (n, s, r) \<Longrightarrow> n @ s @ r = v"
  by (auto simp: match_head_def Let_def split: list.splits if_splits)

lemma match_location_keeps: "match_location v = Some (l, c, r) \<Longrightarrow> ''('' @ l @ '')'' @ c @ r = v"
proof -
  assume m: "match_location v = Some (l, c, r)"
  then obtain h t a b q where v: "v = h # t" and d: "dropWhile is_digit t = a # b # q"
    by (auto simp: match_location_def Let_def split: list.splits)
  then have "h = CHR ''(''" "a = CHR '')''" "b = CHR '':''" "l = takeWhile is_digit t"
      "c = b # takeWhile is_space q" "r = dropWhile is_space q"
    using m by (auto simp: match_location_def Let_def split: if_splits)
  then show ?thesis
    using d v take_drop_while [of is_digit t] by simp
qed

lemma match_path_keeps: "match_path p s = Some (a, l, c, r) \<Longrightarrow> a @ ''('' @ l @ '')'' @ c @ r = p @ s"
proof (induction p s rule: match_path.induct)
  case (2 p x xs)
  show ?case
  proof (cases "if dot x then match_path (p @ [x]) xs else None")
    case None
    then have "a = p" "match_location (x # xs) = Some (l, c, r)"
      using 2(2) by (auto split: if_splits)
    then show ?thesis
      using match_location_keeps by simp
  next
    case (Some m)
    then have "dot x" "match_path (p @ [x]) xs = Some (a, l, c, r)"
      using 2(2) by (auto split: if_splits)
    then show ?thesis
      using 2(1) by simp
  qed
qed simp

lemma match_located_keeps:
  "match_located s r = Some (sp, a, l, c, t) \<Longrightarrow> sp @ a @ ''('' @ l @ '')'' @ c @ t = rev s @ r"
  by (induction s r rule: match_located.induct)
     (fastforce dest: match_path_keeps split: option.splits)+

lemma frame_parts_keep: "frame_parts v = Some ns \<Longrightarrow> concat (map node_text ns) = v"
  by (auto simp: frame_parts_def trace_token_def text_of_def split: option.splits if_splits
      dest!: match_head_keeps match_located_keeps)

lemma TraceLine_keeps: "concat (map node_text (TraceLine v first)) = v"
  by (auto simp: TraceLine_def trace_token_def text_of_def split: option.splits if_splits
      dest: match_exception_keeps frame_parts_keep)

lemma trace_lines_text: "map node_text (trace_lines ls :: 'a node list) = ls"
proof -
  have "map node_text (trace_lines ls :: 'a node list) = map snd (zip [0..<length ls] ls)"
    unfolding trace_lines_def map_map
    by (rule map_cong [OF refl]) (simp add: TraceLine_keeps case_prod_unfold)
  then show ?thesis
    by simp
qed

lemma concat_split_on: "concat (split_on c s) = filter (\<lambda>x. x \<noteq> c) s"
  by (induction c s rule: split_on.induct) (auto split: list.splits)

lemma concat_trace_frames: "concat (trace_frames v) = filter (\<lambda>x. x \<noteq> CHR 0x0A) v"
proof -
  have "concat (filter (\<lambda>l. l \<noteq> []) ls) = concat ls" for ls :: "string list"
    by (induction ls) auto
  then show ?thesis
    unfolding trace_frames_def concat_split_on [symmetric] by simp
qed

text \<open>
  C38: A stack trace shows what was recorded: whatever the patterns of its lines find, the marked
  parts of every line read as the line, the lines are the recorded ones without the empty ones, in
  order, together they read as the trace without its line feeds, and the button copies the whole
  trace; a trace without any text has no button.
\<close>

theorem stack_trace_keeps_text:
  "map node_text (trace_lines (trace_frames v) :: json_action node list) =
      filter (\<lambda>line. line \<noteq> []) (split_on (CHR 0x0A) v) \<and>
    concat (map node_text (trace_lines (trace_frames v) :: json_action node list)) =
      filter (\<lambda>c. c \<noteq> CHR 0x0A) v \<and>
    snd (StackTrace v) = (if filter (\<lambda>c. c \<noteq> CHR 0x0A) v = [] then None else Some v)"
proof -
  have "concat (trace_frames v) = [] \<longleftrightarrow> trace_frames v = []"
    by (auto simp: trace_frames_def filter_empty_conv)
  then have e: "filter (\<lambda>c. c \<noteq> CHR 0x0A) v = [] \<longleftrightarrow> trace_frames v = []"
    by (simp only: concat_trace_frames)
  show ?thesis
    unfolding trace_lines_text concat_trace_frames e StackTrace_def Let_def
    by (simp add: trace_frames_def)
qed

end

