(* ===== verification/Active_Tab.thy ===== *)
theory Active_Tab
  imports Sort_Rows
begin

text \<open>
  \<^verbatim>\<open>resources/js/hooks/use-active-tab-query.ts\<close> in a page: the chosen tab is the state of a
  component, the hook writes it into the page's query. Its effect runs when the tab has changed:
  it clears the timer of the effect before and sets one that is due at once; after every
  navigation that keeps the component the query is written too. The pages read the query again
  when they are loaded, which is the argument \<open>initial\<close>.
\<close>

section \<open>State\<close>

record 't tab_state =
  ts_tab :: 't
  ts_location :: url
  ts_timer :: bool

definition mount_tab :: "(string option \<Rightarrow> 't) \<Rightarrow> url \<Rightarrow> 't tab_state" where
  "mount_tab initial location =
     \<lparr>ts_tab = initial (currentQueryParameter location ''tab''), ts_location = location, ts_timer = True\<rparr>"

definition sync_location :: "('t \<Rightarrow> string) \<Rightarrow> 't tab_state \<Rightarrow> 't tab_state" where
  "sync_location literal s =
     s\<lparr>ts_location := follow (ts_location s) (sync_tab (literal (ts_tab s)) (ts_location s))\<rparr>"

text \<open>Choosing the tab that is shown leaves the state as it is.\<close>

definition choose_tab :: "'t \<Rightarrow> 't tab_state \<Rightarrow> 't tab_state" where
  "choose_tab t s = (if t = ts_tab s then s else s\<lparr>ts_tab := t, ts_timer := True\<rparr>)"

datatype 't tab_event =
    Tab_chosen 't
  | Sync_due
  | Navigated url

fun tab_step :: "('t \<Rightarrow> string) \<Rightarrow> 't tab_event \<Rightarrow> 't tab_state \<Rightarrow> 't tab_state" where
  "tab_step literal (Tab_chosen t) s = choose_tab t s"
| "tab_step literal Sync_due s = (if ts_timer s then sync_location literal (s\<lparr>ts_timer := False\<rparr>) else s)"
| "tab_step literal (Navigated target) s = sync_location literal (s\<lparr>ts_location := target\<rparr>)"

definition tab_run ::
  "(string option \<Rightarrow> 't) \<Rightarrow> ('t \<Rightarrow> string) \<Rightarrow> url \<Rightarrow> 't tab_event list \<Rightarrow> 't tab_state" where
  "tab_run initial literal location es = fold (tab_step literal) es (mount_tab initial location)"

text \<open>The URLs of the navigations are those a browser reports.\<close>

fun event_ok :: "'t tab_event \<Rightarrow> bool" where
  "event_ok (Navigated target) = url_ok target"
| "event_ok _ = True"

section \<open>The contract of a page\<close>

lemma sync_location_simps [simp]:
  "ts_tab (sync_location literal s) = ts_tab s" "ts_timer (sync_location literal s) = ts_timer s"
  by (simp_all add: sync_location_def)

lemma sync_location_get:
  assumes "url_ok (ts_location s)"
  shows "currentQueryParameter (ts_location (sync_location literal s)) n =
      (if n = ''tab'' then wanted (QString (literal (ts_tab s))) else currentQueryParameter (ts_location s) n)"
    and "url_ok (ts_location (sync_location literal s))"
proof -
  have f: "ts_location (sync_location literal s) =
      apply_parameter (''tab'', QString (literal (ts_tab s))) (ts_location s)"
    using follow_replace [OF assms, of "[(''tab'', QString (literal (ts_tab s)))]"]
    by (simp add: sync_location_def sync_tab_def)
  show "currentQueryParameter (ts_location (sync_location literal s)) n =
      (if n = ''tab'' then wanted (QString (literal (ts_tab s))) else currentQueryParameter (ts_location s) n)"
    unfolding f currentQueryParameter_def by (simp add: apply_get)
  show "url_ok (ts_location (sync_location literal s))"
    unfolding f using url_ok_fold [OF assms, of "[(''tab'', QString (literal (ts_tab s)))]"] by simp
qed

locale remembered_tab =
  fixes initial :: "string option \<Rightarrow> 't" and literal :: "'t \<Rightarrow> string" and available :: "'t \<Rightarrow> bool"
  assumes reads_literal: "available t \<Longrightarrow> initial (Some (literal t)) = t"
    and literal_text: "literal t \<noteq> []"
begin

definition synced :: "'t tab_state \<Rightarrow> bool" where
  "synced s \<longleftrightarrow> url_ok (ts_location s) \<and>
     (\<not> ts_timer s \<longrightarrow> currentQueryParameter (ts_location s) ''tab'' = Some (literal (ts_tab s)))"

lemma synced_step: "synced s \<Longrightarrow> event_ok e \<Longrightarrow> synced (tab_step literal e s)"
  by (cases e) (auto simp: synced_def choose_tab_def sync_location_get wanted_def literal_text)

lemma synced_fold: "synced s \<Longrightarrow> list_all event_ok es \<Longrightarrow> synced (fold (tab_step literal) es s)"
  by (induction es arbitrary: s) (simp_all add: synced_step)

lemma synced_mount: "url_ok location \<Longrightarrow> synced (mount_tab start location)"
  by (simp add: synced_def mount_tab_def)

lemma synced_run: "url_ok location \<Longrightarrow> list_all event_ok es \<Longrightarrow> synced (tab_run initial literal location es)"
  unfolding tab_run_def by (intro synced_fold synced_mount)

text \<open>A page loaded again where the timer has run opens with the tab that was chosen.\<close>

lemma synced_reload:
  assumes "synced s" "available (ts_tab s)"
  shows "ts_tab (mount_tab initial (ts_location (tab_step literal Sync_due s))) = ts_tab s"
proof -
  have "synced (tab_step literal Sync_due s)"
    using assms(1) by (rule synced_step) simp
  moreover have "\<not> ts_timer (tab_step literal Sync_due s)" "ts_tab (tab_step literal Sync_due s) = ts_tab s"
    by simp_all
  ultimately show ?thesis
    using assms(2) by (simp add: synced_def mount_tab_def reads_literal)
qed

lemma reload_keeps:
  assumes "url_ok location" "list_all event_ok es" "available (ts_tab (tab_run initial literal location es))"
  shows "ts_tab (mount_tab initial (ts_location (tab_step literal Sync_due (tab_run initial literal location es)))) =
    ts_tab (tab_run initial literal location es)"
  using synced_run [OF assms(1,2)] assms(3) by (rule synced_reload)

lemma other_parameters:
  assumes "url_ok location" "n \<noteq> ''tab''" "\<forall>e \<in> set es. \<nexists>u. e = Navigated u"
  shows "currentQueryParameter (ts_location (tab_run initial literal location es)) n = currentQueryParameter location n"
proof -
  have "currentQueryParameter (ts_location (fold (tab_step literal) es s)) n = currentQueryParameter (ts_location s) n"
    if "url_ok (ts_location s)" for s
    using that assms(3)
  proof (induction es arbitrary: s)
    case (Cons e es)
    have "url_ok (ts_location (tab_step literal e s)) \<and>
        currentQueryParameter (ts_location (tab_step literal e s)) n = currentQueryParameter (ts_location s) n"
      using Cons.prems assms(2) by (cases e) (auto simp: choose_tab_def sync_location_get)
    with Cons show ?case by simp
  qed simp
  then show ?thesis
    using assms(1) by (simp add: tab_run_def mount_tab_def)
qed

end

end
