(* ===== verification/Job_Pages.thy ===== *)
theory Job_Pages
  imports Job_Tables Detail_List Tabs Active_Tab
begin

text \<open>
  The pages of one job: \<^verbatim>\<open>resources/js/pages/failed-jobs/show.tsx\<close> and \<^verbatim>\<open>pages/jobs/show.tsx\<close>.
  What a page takes from its surroundings is a record: the text of a time in milliseconds, the
  URLs of the generated routes resolved against the base URL, and the state of the badges. The
  clock of \<open>useScheduledJobClock\<close> is the argument \<open>now\<close>, the overflow of a value \<open>edges\<close>. A panel
  is \<open>None\<close> when rendering it throws.
\<close>

section \<open>Surroundings\<close>

record page_env =
  pg_dateText :: "rat \<Rightarrow> string"
  pg_json_number :: "rat \<Rightarrow> string"
  pg_failed_url :: "string \<Rightarrow> string"
  pg_batch_url :: "string \<Rightarrow> string"
  pg_queue_url :: "string \<Rightarrow> string"
  pg_job_url :: "string \<Rightarrow> string \<Rightarrow> string"
  pg_monitoring_url :: "string \<Rightarrow> string"
  pg_monitoredTags :: "string list option"
  pg_badges :: "string \<Rightarrow> tag_menu"
  pg_edges :: "string \<Rightarrow> bool \<times> bool"

datatype page_act =
    Job_menu "operation menu_act"
  | Tag_menu "string \<times> operation menu_act"
  | Payload json_action
  | Choose_tab
  | Retry_visit string
  | Retry_prefetch string

definition timestamp :: "page_env \<Rightarrow> rat option \<Rightarrow> string" where
  "timestamp e v = (case v of None \<Rightarrow> em_dash | Some t \<Rightarrow> pg_dateText e (t * 1000))"

definition refresh_props :: "string list" where
  "refresh_props = [''job'']"

section \<open>Details\<close>

definition link_detail :: "string \<Rightarrow> string \<Rightarrow> string \<Rightarrow> string option \<Rightarrow> 'a detail" where
  "link_detail label url shown_text title =
     node_detail label
       [El ''Link''
          ([(''href'', Str url), (''prefetch'', Flag True)] @
           (case title of Some t \<Rightarrow> [(''title'', Str t)] | None \<Rightarrow> [])) [Text shown_text]]"

definition duration_detail :: "string \<Rightarrow> rat \<Rightarrow> 'a detail" where
  "duration_detail label seconds = node_detail label [Duration seconds Precise True]"

definition only_if :: "bool \<Rightarrow> 'b list \<Rightarrow> 'b list" where
  "only_if c xs = (if c then xs else [])"

definition if_some :: "'b option \<Rightarrow> ('b \<Rightarrow> 'c) \<Rightarrow> 'c list" where
  "if_some v f = (case v of None \<Rightarrow> [] | Some x \<Rightarrow> [f x])"

definition waitTime :: "'j JobDetail_scheme \<Rightarrow> rat option" where
  "waitTime job =
     (case (jd_pushedAt job, jd_reservedAt job) of
        (Some pushedAt, Some reservedAt) \<Rightarrow> Some (max 0 (reservedAt - pushedAt))
      | _ \<Rightarrow> None)"

text \<open>The details both pages have: up to the attempts, the batch, the retried job, and the times.\<close>

definition leading_details ::
  "page_env \<Rightarrow> JobStatusValue \<Rightarrow> string \<Rightarrow> string \<Rightarrow> 'j JobDetail_scheme \<Rightarrow> 'a detail list" where
  "leading_details e status id_test attempts_label job =
     [node_detail ''Status'' [JobStatus status],
      identified id_test (text_detail ''ID'' (jd_id job)),
      text_detail ''Connection'' (jd_connection job),
      link_detail ''Queue'' (pg_queue_url e (encodeURIComponent (jd_queue job))) (jd_queue job) None,
      text_detail attempts_label (int_text (jd_attempts job))]"

definition batch_detail :: "page_env \<Rightarrow> string \<Rightarrow> 'j JobDetail_scheme \<Rightarrow> 'a detail list" where
  "batch_detail e test job =
     only_if (\<not> falsy_text (jd_batchId job))
       [identified test (link_detail ''Batch'' (pg_batch_url e (the (jd_batchId job))) (the (jd_batchId job)) None)]"

definition retry_detail :: "page_env \<Rightarrow> string \<Rightarrow> 'j JobDetail_scheme \<Rightarrow> 'a detail list" where
  "retry_detail e test job =
     only_if (\<not> falsy_text (jd_retryOf job))
       [identified test
          (link_detail ''Retry of ID'' (pg_failed_url e (the (jd_retryOf job))) (the (jd_retryOf job)) (jd_retryOf job))]"

definition time_details :: "page_env \<Rightarrow> 'j JobDetail_scheme \<Rightarrow> 'a detail list" where
  "time_details e job =
     [text_detail ''Created at'' (timestamp e (jd_pushedAt job))] @
     if_some (jd_scheduledAt job) (\<lambda>t. text_detail ''Scheduled at'' (timestamp e (Some t))) @
     only_if (jd_originalScheduledAt job \<noteq> None \<and> jd_originalScheduledAt job \<noteq> jd_scheduledAt job)
       [text_detail ''Originally scheduled at'' (timestamp e (jd_originalScheduledAt job))] @
     if_some (jd_reservedAt job) (\<lambda>t. text_detail ''Reserved at'' (timestamp e (Some t))) @
     if_some (waitTime job) (duration_detail ''Wait time'')"

definition failed_job_details :: "page_env \<Rightarrow> 'j JobDetail_scheme \<Rightarrow> 'a detail list" where
  "failed_job_details e job =
     leading_details e Status_failed ''failed-job-id'' ''Attempts'' job @
     batch_detail e ''failed-job-batch-id'' job @ retry_detail e ''failed-job-retry-id'' job @
     time_details e job @
     [text_detail ''Failed at'' (timestamp e (jd_failedAt job))] @
     if_some (jd_runtime job) (duration_detail ''Runtime'')"

text \<open>The state of a job on the page of a list: its own status, then the list, then the schedule.\<close>

fun pending_status :: "PendingJobState \<Rightarrow> JobStatusValue" where
  "pending_status Ready = Status_ready"
| "pending_status Reserved = Status_reserved"
| "pending_status Delayed = Status_delayed"
| "pending_status Released = Status_released"

definition jobDetailStatus :: "JobListType \<Rightarrow> 'j JobDetail_scheme \<Rightarrow> rat \<Rightarrow> JobStatusValue" where
  "jobDetailStatus type job now =
     (if jd_status job = ''completed'' then (if type = SilencedList then Status_silenced else Status_completed)
      else if jd_status job = ''failed'' then Status_failed
      else if jd_status job = ''reserved'' then Status_reserved
      else if type = CompletedList then Status_completed
      else if type = SilencedList then Status_silenced
      else pending_status (pendingJobState (jd_status job) (jd_scheduledAt job) now))"

definition job_details :: "page_env \<Rightarrow> JobStatusValue \<Rightarrow> 'j JobDetail_scheme \<Rightarrow> 'a detail list" where
  "job_details e status job =
     leading_details e status ''job-id'' ''Tries'' job @
     retry_detail e ''job-retry-id'' job @ batch_detail e ''job-batch-id'' job @
     time_details e job @
     only_if (status = Status_failed)
       (if_some (jd_failedAt job) (\<lambda>t. text_detail ''Failed at'' (timestamp e (Some t)))) @
     only_if (status = Status_completed \<or> status = Status_silenced)
       (if_some (jd_completedAt job) (\<lambda>t. text_detail ''Completed at'' (timestamp e (Some t)))) @
     only_if (status = Status_reserved) (if_some (jd_runtime job) (duration_detail ''Processing for'')) @
     only_if (status = Status_failed \<or> status = Status_completed \<or> status = Status_silenced)
       (if_some (jd_runtime job) (duration_detail ''Runtime''))"

section \<open>Panels of data\<close>

datatype FailedJobDataTab = Exception_tab | Context_tab | Failed_data_tab | Failed_tags_tab | Retries_tab

fun failed_tab_literal :: "FailedJobDataTab \<Rightarrow> string" where
  "failed_tab_literal Exception_tab = ''exception''"
| "failed_tab_literal Context_tab = ''context''"
| "failed_tab_literal Failed_data_tab = ''data''"
| "failed_tab_literal Failed_tags_tab = ''tags''"
| "failed_tab_literal Retries_tab = ''retries''"

definition initialFailedJobDataTab :: "string option \<Rightarrow> FailedJobDataTab" where
  "initialFailedJobDataTab requestedTab =
     (if requestedTab = Some ''exception'' then Exception_tab
      else if requestedTab = Some ''context'' then Context_tab
      else if requestedTab = Some ''data'' then Failed_data_tab
      else if requestedTab = Some ''tags'' then Failed_tags_tab
      else if requestedTab = Some ''retries'' then Retries_tab
      else Exception_tab)"

datatype JobDataTab = Data_tab | Tags_tab

fun job_tab_literal :: "JobDataTab \<Rightarrow> string" where
  "job_tab_literal Data_tab = ''data''"
| "job_tab_literal Tags_tab = ''tags''"

definition initialJobDataTab :: "string option \<Rightarrow> JobDataTab" where
  "initialJobDataTab requestedTab = (if requestedTab = Some ''tags'' then Tags_tab else Data_tab)"

interpretation failed_tabs: remembered_tab initialFailedJobDataTab failed_tab_literal "\<lambda>_. True"
proof
  show "initialFailedJobDataTab (Some (failed_tab_literal t)) = t" "failed_tab_literal t \<noteq> []" for t
    by (cases t; simp add: initialFailedJobDataTab_def)+
qed

interpretation job_tabs: remembered_tab initialJobDataTab job_tab_literal "\<lambda>_. True"
proof
  show "initialJobDataTab (Some (job_tab_literal t)) = t" "job_tab_literal t \<noteq> []" for t
    by (cases t; simp add: initialJobDataTab_def)+
qed

definition DataEmptyState :: "string \<Rightarrow> string \<Rightarrow> string \<Rightarrow> 'a node" where
  "DataEmptyState icon title description =
     El ''Empty'' []
       [El ''EmptyHeader'' []
          [El ''EmptyMedia'' [] [El icon [(''aria-hidden'', Flag True)] []],
           text_of ''EmptyTitle'' title, text_of ''EmptyDescription'' description]]"

definition plain_tab :: "string \<Rightarrow> string \<Rightarrow> nat option \<Rightarrow> 'a ResponsiveTabItem" where
  "plain_tab v label amount =
     \<lparr>tab_value = v, tab_label = label, tab_count = map_option nat_text amount, tab_render = []\<rparr>"

definition payload_panel :: "page_env \<Rightarrow> (string \<times> json) list \<Rightarrow> string \<Rightarrow> page_act node list option" where
  "payload_panel e v copyLabel =
     map_option (\<lambda>(n, _). [map_node Payload n]) (JsonPayload (pg_json_number e) (Some (JObj v)) copyLabel)"

definition tags_panel :: "page_env \<Rightarrow> string list \<Rightarrow> page_act node list" where
  "tags_panel e tags =
     [map_node Tag_menu (JobTags (pg_monitoring_url e) (pg_monitoredTags e) (pg_badges e) tags True None)]"

text \<open>The card of the tabs: the header and the panel of the chosen tab.\<close>

definition data_card ::
  "string \<Rightarrow> string \<Rightarrow> page_act ResponsiveTabItem list \<Rightarrow> page_act node list \<Rightarrow> page_act node" where
  "data_card v ariaLabel items panel =
     El ''Card'' []
       [El ''CardContent'' []
          [El ''Tabs'' [(''value'', Str v), (''onValueChange'', On Choose_tab)]
             [El ''div'' [] [map_node (\<lambda>a. case a of Select_tab \<Rightarrow> Choose_tab | Own p \<Rightarrow> p)
                               (ResponsiveTabsHeader v items ariaLabel [])],
              El ''TabsContent'' [(''value'', Str v)] panel]]]"

definition JobDataTabs :: "page_env \<Rightarrow> (string \<times> json) list \<Rightarrow> string list \<Rightarrow> JobDataTab \<Rightarrow> page_act node option" where
  "JobDataTabs e payload tags activeTab =
     map_option
       (data_card (job_tab_literal activeTab) ''Job data''
          [plain_tab ''data'' ''Data'' None, plain_tab ''tags'' ''Tags'' (Some (length tags))])
       (case activeTab of
          Data_tab \<Rightarrow> payload_panel e payload ''job data''
        | Tags_tab \<Rightarrow> Some (tags_panel e tags))"

definition retryDetailUrl :: "page_env \<Rightarrow> FailedJobRetry \<Rightarrow> string option" where
  "retryDetailUrl e retry =
     (if fr_status retry = ''failed'' then Some (pg_failed_url e (fr_id retry))
      else if fr_status retry = ''pending'' \<or> fr_status retry = ''reserved''
      then Some (pg_job_url e ''pending'' (fr_id retry))
      else if fr_status retry = ''completed'' then Some (pg_job_url e ''completed'' (fr_id retry))
      else None)"

definition RetryStatus :: "string \<Rightarrow> 'a node" where
  "RetryStatus status =
     (if status = ''completed'' then El ''Badge'' [(''variant'', Str ''success'')] [Text ''Completed'']
      else if status = ''failed'' then El ''Badge'' [(''variant'', Str ''destructive'')] [Text ''Failed'']
      else El ''Badge'' [(''variant'', Str ''warning'')]
             [Text (case status of [] \<Rightarrow> [] | c # cs \<Rightarrow> upper_char c # cs)])"

text \<open>A click on the link of the ID is the link's own visit.\<close>

definition retry_row :: "page_env \<Rightarrow> FailedJobRetry \<Rightarrow> page_act node" where
  "retry_row e retry =
     (let detailUrl = retryDetailUrl e retry
      in El ''TableRow''
           ((''key'', Str (fr_id retry)) #
            (case detailUrl of
               Some u \<Rightarrow> [(''onClick'', On (Retry_visit u)), (''onMouseEnter'', On (Retry_prefetch u))] | None \<Rightarrow> []))
           [El ''TableCell'' [] [RetryStatus (fr_status retry)],
            El ''TableCell'' []
              [case detailUrl of
                 Some u \<Rightarrow> El ''Link'' [(''href'', Str u), (''prefetch'', Flag True)] [Text (fr_id retry)]
               | None \<Rightarrow> Text (fr_id retry)],
            text_of ''TableCell'' (timestamp e (fr_retriedAt retry))])"

definition RecentRetries :: "page_env \<Rightarrow> FailedJobRetry list \<Rightarrow> page_act node" where
  "RecentRetries e retries =
     El ''Table'' []
       [El ''TableHeader'' []
          [El ''TableRow'' [] [text_of ''TableHead'' ''Status'', text_of ''TableHead'' ''ID'', text_of ''TableHead'' ''Retry Time'']],
        El ''TableBody'' [] (map (retry_row e) retries)]"

definition failed_tab_items :: "'j FailedJobDetail_scheme \<Rightarrow> page_act ResponsiveTabItem list" where
  "failed_tab_items job =
     [plain_tab ''exception'' ''Exception'' None, plain_tab ''context'' ''Context'' None,
      plain_tab ''data'' ''Data'' None, plain_tab ''tags'' ''Tags'' (Some (length (jd_tags job))),
      plain_tab ''retries'' ''Retries'' (Some (length (fd_retriedBy job)))]"

definition failed_panel :: "page_env \<Rightarrow> 'j FailedJobDetail_scheme \<Rightarrow> FailedJobDataTab \<Rightarrow> page_act node list option" where
  "failed_panel e job tab =
     (case tab of
        Exception_tab \<Rightarrow>
          Some (if trim (fd_exception job) \<noteq> [] then [map_node Payload (fst (StackTrace (fd_exception job)))]
                else [DataEmptyState ''CircleAlertIcon'' ''No exception details''
                        ''No exception message was retained for this failed job.''])
      | Context_tab \<Rightarrow>
          if fd_context job \<noteq> [] then payload_panel e (fd_context job) ''exception context''
          else Some [DataEmptyState ''BracesIcon'' ''No exception context''
                       ''No additional exception context was retained.'']
      | Failed_data_tab \<Rightarrow>
          if jd_payload job \<noteq> [] then payload_panel e (jd_payload job) ''job data''
          else Some [DataEmptyState ''DatabaseIcon'' ''No job data'' ''No payload data was retained for this job.'']
      | Failed_tags_tab \<Rightarrow> Some (tags_panel e (jd_tags job))
      | Retries_tab \<Rightarrow>
          Some (if fd_retriedBy job \<noteq> [] then [RecentRetries e (fd_retriedBy job)]
                else [DataEmptyState ''RotateCcwIcon'' ''No retry attempts'' ''This failed job has not been retried.'']))"

definition FailedJobDataTabs ::
  "page_env \<Rightarrow> 'j FailedJobDetail_scheme \<Rightarrow> FailedJobDataTab \<Rightarrow> page_act node option" where
  "FailedJobDataTabs e job activeTab =
     map_option (data_card (failed_tab_literal activeTab) ''Failed job data'' (failed_tab_items job))
       (failed_panel e job activeTab)"

section \<open>The pages\<close>

definition details_card :: "page_env \<Rightarrow> page_act node \<Rightarrow> page_act node list \<Rightarrow> page_act detail list \<Rightarrow> page_act node" where
  "details_card e title actions details =
     El ''Card'' []
       [El ''CardHeader'' [] (title # child_if (actions \<noteq> []) [El ''CardAction'' [] actions]),
        El ''CardContent'' [] [DetailList (pg_edges e) details]]"

definition FailedJobShow ::
  "page_env \<Rightarrow> 'j FailedJobDetail_scheme \<Rightarrow> (bool, bool, job_request) action_menu \<Rightarrow> FailedJobDataTab \<Rightarrow>
   page_act node list option" where
  "FailedJobShow e job m activeTab =
     map_option
       (\<lambda>tabs.
          [El ''Head'' [(''title'', Str ''Failed Job Detail'')] [],
           El ''div'' []
             [details_card e (El ''CardTitle'' [(''title'', Str (jd_name job))] [Text (jd_name job)])
                (embed Job_menu (FailedJobActionsMenu (fd_retryEligible job) m)) (failed_job_details e job),
              tabs]])
       (FailedJobDataTabs e job activeTab)"

definition has_pending_menu :: "JobListType \<Rightarrow> 'j JobDetail_scheme \<Rightarrow> bool" where
  "has_pending_menu type job \<longleftrightarrow> type = PendingList \<and> jd_status job = ''pending'' \<and> jd_batchId job = None"

definition job_heading :: "'j JobDetail_scheme \<Rightarrow> 'a node" where
  "job_heading job =
     El ''CardTitle'' []
       (El ''span'' [(''title'', Str (jd_name job))] [Text (jd_name job)] #
        child_if (\<not> falsy_text (jd_retryOf job)) [El ''Badge'' [(''variant'', Str ''retry'')] [Text ''Retry'']])"

definition JobShow ::
  "page_env \<Rightarrow> JobListType \<Rightarrow> 'j JobDetail_scheme \<Rightarrow> rat \<Rightarrow> (operation option, bool, job_request) action_menu \<Rightarrow>
   JobDataTab \<Rightarrow> page_act node list option" where
  "JobShow e type job now m activeTab =
     (let status = jobDetailStatus type job now
      in map_option
           (\<lambda>tabs.
              [El ''Head'' [(''title'', Str ''Job Detail'')] [],
               El ''div'' []
                 [details_card e
                    (job_heading job)
                    (child_if (has_pending_menu type job)
                       (embed Job_menu (PendingJobActionsMenu (jd_batchId job = None) (status = Status_delayed) m)))
                    (job_details e status job),
                  tabs]])
           (JobDataTabs e (jd_payload job) (jd_tags job) activeTab))"

section \<open>What the pages offer\<close>

definition silent :: "'a detail list \<Rightarrow> bool" where
  "silent ds \<longleftrightarrow> list_all (\<lambda>d. offers (dl_value d) = []) ds"

lemma silent_simps [simp]:
  "silent []" "silent (d # ds) \<longleftrightarrow> offers (dl_value d) = [] \<and> silent ds" "silent (ds @ es) \<longleftrightarrow> silent ds \<and> silent es"
  "silent (only_if c ds) \<longleftrightarrow> (c \<longrightarrow> silent ds)" "silent (if_some v f) \<longleftrightarrow> (\<forall>x. v = Some x \<longrightarrow> offers (dl_value (f x)) = [])"
  by (auto simp: silent_def only_if_def if_some_def split: option.splits)

lemma detail_values [simp]:
  "dl_value (text_detail l t) = [Text t]" "dl_value (identified i d) = dl_value d"
  "offers (dl_value (link_detail l u s title)) = []" "dl_value (node_detail l ns) = ns"
  "offers (dl_value (duration_detail l x)) = []"
  by (auto simp: text_detail_def identified_def link_detail_def node_detail_def duration_detail_def Duration_def
      split: option.splits)

lemma offered_DetailList: "silent ds \<Longrightarrow> offered (DetailList edges ds) = []"
  by (induction ds) (auto simp: DetailList_def DetailListItem_def ScrollableDetailValue_def Let_def silent_def prop_if_def
      split: option.splits)

lemma offered_JobStatus [simp]: "offered (JobStatus status) = []"
  by (cases status) (simp_all add: JobStatus_def)

lemma silent_details [simp]: "silent (job_details e status job)" "silent (failed_job_details e job)"
  by (simp_all add: job_details_def failed_job_details_def leading_details_def batch_detail_def retry_detail_def
      time_details_def)

lemma no_menu_header:
  assumes "list_all (\<lambda>i. tab_render i = []) items"
  shows "Job_menu a \<notin> set (offered (map_node (\<lambda>a. case a of Select_tab \<Rightarrow> Choose_tab | Own p \<Rightarrow> p)
    (ResponsiveTabsHeader v items l [])))"
proof -
  have "set (offered (ResponsiveTabsHeader v items l [] :: page_act tabs_action node)) \<subseteq> {Select_tab}"
    using assms
    by (auto simp: ResponsiveTabsHeader_def Let_def TabCount_def offers_set child_if_def list_all_iff embed_def
        split: option.splits)
  then show ?thesis
    by (auto simp: offered_map_node)
qed

lemma plain_tab_render [simp]: "tab_render (plain_tab v l c) = []"
  by (simp add: plain_tab_def)

lemma card_menu [simp]:
  "list_all (\<lambda>i. tab_render i = []) items \<Longrightarrow>
   Job_menu a \<in> set (offered (data_card v l items panel)) \<longleftrightarrow> Job_menu a \<in> set (offers panel)"
  using no_menu_header by (auto simp: data_card_def)

lemma no_menu_panels [simp]:
  "payload_panel e v l = Some panel \<Longrightarrow> Job_menu a \<notin> set (offers panel)"
  "Job_menu a \<notin> set (offers (tags_panel e tags))"
  "Job_menu a \<notin> set (offered (map_node Payload n))" "Job_menu a \<notin> set (offered (DataEmptyState i t d))"
  by (auto simp: payload_panel_def tags_panel_def offered_map_node DataEmptyState_def)

lemma offered_RetryStatus [simp]: "offered (RetryStatus status) = []"
  by (simp add: RetryStatus_def)

lemma no_menu_retries [simp]: "Job_menu a \<notin> set (offered (RecentRetries e retries))"
  by (auto simp: RecentRetries_def retry_row_def offers_set Let_def split: option.splits)

lemma job_tabs_menu: "JobDataTabs e payload tags tab = Some n \<Longrightarrow> Job_menu a \<notin> set (offered n)"
  by (auto simp: JobDataTabs_def split: JobDataTab.splits)

lemma failed_tabs_menu: "FailedJobDataTabs e job tab = Some n \<Longrightarrow> Job_menu a \<notin> set (offered n)"
  by (auto simp: FailedJobDataTabs_def failed_panel_def failed_tab_items_def
      split: FailedJobDataTab.splits if_splits)

lemma offered_details_card:
  "silent details \<Longrightarrow> offered heading = [] \<Longrightarrow> offered (details_card e heading actions details) = offers actions"
  by (simp add: details_card_def offered_DetailList child_if_def)

lemma offered_job_heading [simp]: "offered (job_heading job) = []"
  by (simp add: job_heading_def child_if_def)

lemma job_page_offers:
  assumes "JobShow e type job now m tab = Some ns"
  shows "Job_menu a \<in> set (offers ns) \<longleftrightarrow> has_pending_menu type job \<and>
      a \<in> set (offers (PendingJobActionsMenu True (jobDetailStatus type job now = Status_delayed) m))"
proof -
  obtain tabs where t: "JobDataTabs e (jd_payload job) (jd_tags job) tab = Some tabs"
    using assms by (auto simp: JobShow_def Let_def)
  have "set (offers ns) = set (offers (child_if (has_pending_menu type job)
      (embed Job_menu (PendingJobActionsMenu (jd_batchId job = None) (jobDetailStatus type job now = Status_delayed) m))))
      \<union> set (offered tabs)"
    using assms t by (auto simp: JobShow_def Let_def offered_details_card)
  then show ?thesis
    using job_tabs_menu [OF t, of a] by (auto simp: child_if_def has_pending_menu_def)
qed

lemma failed_page_offers:
  assumes "FailedJobShow e job m tab = Some ns"
  shows "Job_menu a \<in> set (offers ns) \<longleftrightarrow> a \<in> set (offers (FailedJobActionsMenu (fd_retryEligible job) m))"
proof -
  obtain tabs where t: "FailedJobDataTabs e job tab = Some tabs"
    using assms by (auto simp: FailedJobShow_def)
  then show ?thesis
    using assms failed_tabs_menu [OF t, of a] by (auto simp: FailedJobShow_def offered_details_card)
qed

section \<open>Properties\<close>

definition sample_detail :: JobDetail where
  "sample_detail = \<lparr>jd_id = ''7'', jd_name = ''App.Job'', jd_shortName = ''Job'', jd_connection = ''redis'', jd_queue = ''mail'',
     jd_status = ''pending'', jd_tags = [], jd_attempts = 1, jd_retryOf = None, jd_delay = None, jd_scheduledAt = Some 50,
     jd_originalScheduledAt = None, jd_pushedAt = Some 10, jd_reservedAt = None, jd_completedAt = None, jd_failedAt = None,
     jd_runtime = None, jd_inspectable = None, jd_batchId = None, jd_payload = []\<rparr>"

definition sample_page :: page_env where
  "sample_page = \<lparr>pg_dateText = (\<lambda>_. ''now''), pg_json_number = (\<lambda>_. ''0''), pg_failed_url = (\<lambda>i. ''/failed/'' @ i),
     pg_batch_url = (\<lambda>i. ''/batches/'' @ i), pg_queue_url = (\<lambda>q. ''/queues/'' @ q), pg_job_url = (\<lambda>t i. ''/jobs/'' @ t @ ''/'' @ i),
     pg_monitoring_url = (\<lambda>t. ''/monitoring/'' @ t), pg_monitoredTags = None, pg_badges = (\<lambda>_. \<lparr>am_dialogs = (), am_working = False, am_sent = []\<rparr>), pg_edges = (\<lambda>_. (False, False))\<rparr>"

lemma cancel_item: "Ask Cancel_op \<in> set (offers (PendingJobActionsMenu True r m))"
  by (simp add: PendingJobActionsMenu_def dropdown_def)

lemma release_item: "Ask Release_op \<in> set (offers (PendingJobActionsMenu True r m)) \<longleftrightarrow> r"
  by (auto simp: PendingJobActionsMenu_def pending_job_dialog_def Let_def child_if_def dropdown_def offers_trigger
      split: if_splits)

lemma delayed_status:
  "jobDetailStatus PendingList job now = Status_delayed \<longleftrightarrow>
     jd_status job \<notin> {''completed'', ''failed'', ''reserved''} \<and> (\<exists>t. jd_scheduledAt job = Some t \<and> now < t)"
  by (auto simp: jobDetailStatus_def pendingJobState_def split: option.splits)

text \<open>
  The page of a job offers to change the job exactly while it waits: only in the list of
  pending jobs, for a job that has the status pending and no batch, can it be cancelled, and it can
  be made available at once exactly when moreover it is scheduled for a time that has not come. A
  job that is reserved, finished or part of a batch has no menu.
\<close>

lemma job_page_menu_exact:
  assumes "JobShow e type job now m tab = Some ns"
  shows "(Job_menu a \<in> set (offers ns) \<longrightarrow>
      type = PendingList \<and> jd_status job = ''pending'' \<and> jd_batchId job = None) \<and>
    (Job_menu (Ask Cancel_op) \<in> set (offers ns) \<longleftrightarrow>
      type = PendingList \<and> jd_status job = ''pending'' \<and> jd_batchId job = None) \<and>
    (Job_menu (Ask Release_op) \<in> set (offers ns) \<longleftrightarrow>
      type = PendingList \<and> jd_status job = ''pending'' \<and> jd_batchId job = None \<and>
      (\<exists>t. jd_scheduledAt job = Some t \<and> now < t))"
  using job_page_offers [OF assms] cancel_item release_item
  by (auto simp: has_pending_menu_def delayed_status)

text \<open>
  C37: The tab of a job's data survives a reload. However often the reader chose a tab and the
  page was visited again meanwhile, once the timer has run the page's URL opens the page with the
  tab last chosen; this holds of both pages.
\<close>

theorem chosen_tab_survives_reload:
  assumes "url_ok location" "list_all event_ok es" "list_all event_ok fs"
  shows "ts_tab (mount_tab initialFailedJobDataTab
      (ts_location (tab_step failed_tab_literal Sync_due (tab_run initialFailedJobDataTab failed_tab_literal location es)))) =
      ts_tab (tab_run initialFailedJobDataTab failed_tab_literal location es) \<and>
    ts_tab (mount_tab initialJobDataTab
      (ts_location (tab_step job_tab_literal Sync_due (tab_run initialJobDataTab job_tab_literal location fs)))) =
      ts_tab (tab_run initialJobDataTab job_tab_literal location fs)"
  using failed_tabs.reload_keeps [OF assms(1,2)] job_tabs.reload_keeps [OF assms(1,3)] by blast

theorem chosen_tab_survives_reload_witness:
  "ts_tab (mount_tab initialFailedJobDataTab
      (ts_location (tab_step failed_tab_literal Sync_due
        (tab_run initialFailedJobDataTab failed_tab_literal jobs_url [Tab_chosen Retries_tab, Navigated jobs_url, Tab_chosen Context_tab])))) =
    Context_tab"
proof -
  have u: "url_ok jobs_url" by (simp add: url_ok_def jobs_url_def)
  then have ok: "list_all event_ok [Tab_chosen Retries_tab, Navigated jobs_url, Tab_chosen Context_tab]"
    "list_all event_ok ([] :: JobDataTab tab_event list)" by simp_all
  have "ts_tab (tab_run initialFailedJobDataTab failed_tab_literal jobs_url
      [Tab_chosen Retries_tab, Navigated jobs_url, Tab_chosen Context_tab]) = Context_tab"
    by (simp add: tab_run_def choose_tab_def)
  with chosen_tab_survives_reload [OF u ok] show ?thesis by simp
qed

lemma set_if_some: "x \<in> set (if_some v f) \<longleftrightarrow> (\<exists>y. v = Some y \<and> x = f y)"
  by (auto simp: if_some_def split: option.splits)

lemma labels [simp]:
  "dl_label (text_detail l t) = l" "dl_label (identified i d) = dl_label d" "dl_label (link_detail l u s title) = l"
  "dl_label (node_detail l ns) = l" "dl_label (duration_detail l x) = l"
  by (simp_all add: text_detail_def identified_def link_detail_def node_detail_def duration_detail_def)

text \<open>The labels of a page are those of a fixed list whose condition holds.\<close>

definition listed :: "(string \<times> bool) list \<Rightarrow> string list" where
  "listed ls = map fst (filter snd ls)"

lemma distinct_listed: "distinct (map fst ls) \<Longrightarrow> distinct (listed ls)"
  by (simp add: listed_def distinct_map_filter)

lemma in_listed: "l \<in> set (listed ls) \<longleftrightarrow> (l, True) \<in> set ls"
  by (force simp: listed_def)

lemma map_conditional:
  "map g (if_some v f) = only_if (v \<noteq> None) [g (f (the v))]" "map g (only_if c xs) = only_if c (map g xs)"
  "only_if c (listed [(l, d)]) = listed [(l, c \<and> d)]" "only_if c [l] = listed [(l, c)]"
  by (auto simp: only_if_def if_some_def listed_def split: option.splits)

definition job_labels :: "JobStatusValue \<Rightarrow> 'j JobDetail_scheme \<Rightarrow> (string \<times> bool) list" where
  "job_labels status job =
     [(''Status'', True), (''ID'', True), (''Connection'', True), (''Queue'', True), (''Tries'', True),
      (''Retry of ID'', \<not> falsy_text (jd_retryOf job)), (''Batch'', \<not> falsy_text (jd_batchId job)), (''Created at'', True),
      (''Scheduled at'', jd_scheduledAt job \<noteq> None),
      (''Originally scheduled at'', jd_originalScheduledAt job \<noteq> None \<and> jd_originalScheduledAt job \<noteq> jd_scheduledAt job),
      (''Reserved at'', jd_reservedAt job \<noteq> None), (''Wait time'', waitTime job \<noteq> None),
      (''Failed at'', status = Status_failed \<and> jd_failedAt job \<noteq> None),
      (''Completed at'', (status = Status_completed \<or> status = Status_silenced) \<and> jd_completedAt job \<noteq> None),
      (''Processing for'', status = Status_reserved \<and> jd_runtime job \<noteq> None),
      (''Runtime'', (status = Status_failed \<or> status = Status_completed \<or> status = Status_silenced) \<and> jd_runtime job \<noteq> None)]"

lemma listed_simps: "listed [] = []" "listed ((l, True) # ls) = l # listed ls"
  by (simp_all add: listed_def)

lemma listed_Cons: "listed (p # q # ps) = listed [p] @ listed (q # ps)"
  by (simp add: listed_def)

lemma labels_listed: "map dl_label (job_details e status job :: page_act detail list) = listed (job_labels status job)"
proof -
  have "map dl_label (job_details e status job :: page_act detail list) =
      [''Status'', ''ID'', ''Connection'', ''Queue'', ''Tries''] @ listed [(''Retry of ID'', \<not> falsy_text (jd_retryOf job))] @
      listed [(''Batch'', \<not> falsy_text (jd_batchId job))] @ [''Created at''] @
      listed [(''Scheduled at'', jd_scheduledAt job \<noteq> None)] @
      listed [(''Originally scheduled at'', jd_originalScheduledAt job \<noteq> None \<and> jd_originalScheduledAt job \<noteq> jd_scheduledAt job)] @
      listed [(''Reserved at'', jd_reservedAt job \<noteq> None)] @ listed [(''Wait time'', waitTime job \<noteq> None)] @
      listed [(''Failed at'', status = Status_failed \<and> jd_failedAt job \<noteq> None)] @
      listed [(''Completed at'', (status = Status_completed \<or> status = Status_silenced) \<and> jd_completedAt job \<noteq> None)] @
      listed [(''Processing for'', status = Status_reserved \<and> jd_runtime job \<noteq> None)] @
      listed [(''Runtime'', (status = Status_failed \<or> status = Status_completed \<or> status = Status_silenced) \<and> jd_runtime job \<noteq> None)]"
    unfolding job_details_def leading_details_def batch_detail_def retry_detail_def time_details_def
      map_append map_conditional(1,2) list.map labels map_conditional(3,4) append_assoc ..
  then show ?thesis
    by (simp only: job_labels_def listed_Cons listed_simps append_assoc append_Cons append_Nil)
qed

text \<open>
  The details of a job fit its state. No label stands twice; a time of failure is listed only
  for a failed job, a time of completion only for a completed or silenced one, the running time as
  under way only for a reserved job and as final only for one that is finished, each exactly when
  it is known; a waiting time is listed exactly when the job was queued and reserved, and it is
  never negative, whatever the clocks say.
\<close>

lemma details_fit_state:
  "distinct (map dl_label (job_details e status job :: page_act detail list)) \<and>
   (''Failed at'' \<in> dl_label ` set (job_details e status job :: page_act detail list) \<longleftrightarrow>
      status = Status_failed \<and> jd_failedAt job \<noteq> None) \<and>
   (''Completed at'' \<in> dl_label ` set (job_details e status job :: page_act detail list) \<longleftrightarrow>
      status \<in> {Status_completed, Status_silenced} \<and> jd_completedAt job \<noteq> None) \<and>
   (''Processing for'' \<in> dl_label ` set (job_details e status job :: page_act detail list) \<longleftrightarrow>
      status = Status_reserved \<and> jd_runtime job \<noteq> None) \<and>
   (''Runtime'' \<in> dl_label ` set (job_details e status job :: page_act detail list) \<longleftrightarrow>
      status \<in> {Status_failed, Status_completed, Status_silenced} \<and> jd_runtime job \<noteq> None) \<and>
   (''Wait time'' \<in> dl_label ` set (job_details e status job :: page_act detail list) \<longleftrightarrow>
      jd_pushedAt job \<noteq> None \<and> jd_reservedAt job \<noteq> None) \<and>
   (\<forall>w. waitTime job = Some w \<longrightarrow> 0 \<le> w)"
proof -
  have d: "distinct (listed (job_labels status job))"
    by (rule distinct_listed) (simp add: job_labels_def)
  have w: "waitTime job \<noteq> None \<longleftrightarrow> jd_pushedAt job \<noteq> None \<and> jd_reservedAt job \<noteq> None"
      "\<forall>w. waitTime job = Some w \<longrightarrow> 0 \<le> w"
    by (auto simp: waitTime_def split: option.splits)
  have l: "l \<in> dl_label ` set (job_details e status job :: page_act detail list) \<longleftrightarrow> (l, True) \<in> set (job_labels status job)" for l
    using in_listed [of l] labels_listed [of e status job] by (metis set_map)
  show ?thesis
    unfolding l labels_listed using d w(2) w(1) by (simp add: job_labels_def)
qed

end
