(* ===== verification/Batch_Page.thy ===== *)
theory Batch_Page
  imports Job_Pages Queue_Activity
begin

text \<open>
  The page of a batch: \<^verbatim>\<open>resources/js/pages/batches/show.tsx\<close>, the tabs of its jobs
  \<^verbatim>\<open>components/batches/batch-jobs-tabs.tsx\<close> and the table of its failed jobs
  \<^verbatim>\<open>components/batches/batch-failed-jobs-table.tsx\<close>. The clock of \<open>useScheduledJobClock\<close> is \<open>now\<close>, the
  time \<open>Date.now() / 1000\<close> is \<open>clock\<close>; the text of a time in milliseconds, the user's number
  format and the URLs are those of the record \<open>batch_env\<close>.
\<close>

record batch_env =
  be_table :: table_env
  be_dateText :: "rat \<Rightarrow> string"
  be_number :: "int \<Rightarrow> string"
  be_queue_url :: "string \<Rightarrow> string"
  be_edges :: "string \<Rightarrow> bool \<times> bool"

section \<open>The chosen tab\<close>

fun batch_tab_literal :: "BatchJobTab \<Rightarrow> string" where
  "batch_tab_literal Tab_pending = ''pending''"
| "batch_tab_literal Tab_completed = ''completed''"
| "batch_tab_literal Tab_failed = ''failed''"

definition tab_jobs :: "'b BatchDetail_scheme \<Rightarrow> BatchJobTab \<Rightarrow> int" where
  "tab_jobs b tab = bjl_total (bd_jobs b tab)"

text \<open>\<open>initialJobTab\<close> for the tab its URL asks for.\<close>

definition requested_job_tab :: "'b BatchDetail_scheme \<Rightarrow> string option \<Rightarrow> BatchJobTab" where
  "requested_job_tab b requestedTab =
     (if requestedTab = Some ''pending'' \<and> tab_jobs b Tab_pending > 0 then Tab_pending
      else if requestedTab = Some ''completed'' then Tab_completed
      else if requestedTab = Some ''failed'' then Tab_failed
      else if tab_jobs b Tab_completed > 0 \<and> tab_jobs b Tab_pending = 0 then Tab_completed
      else if tab_jobs b Tab_failed > 0 then Tab_failed
      else if tab_jobs b Tab_pending > 0 then Tab_pending
      else Tab_completed)"

definition on_batch_page :: "'b BatchDetail_scheme \<Rightarrow> url \<Rightarrow> bool" where
  "on_batch_page b location \<longleftrightarrow> suffix (''/batches/'' @ encodeURIComponent (br_id b)) (pathname location)"

definition initialJobTab :: "'b BatchDetail_scheme \<Rightarrow> url \<Rightarrow> BatchJobTab" where
  "initialJobTab b location =
     requested_job_tab b (if on_batch_page b location then currentQueryParameter location ''tab'' else None)"

record 'b batch_view =
  bv_batch :: 'b
  bv_tabs :: "BatchJobTab tab_state"

text \<open>The effect that leaves a tab of pending jobs without jobs.\<close>

definition leave_empty_tab :: "BatchDetail batch_view \<Rightarrow> BatchDetail batch_view" where
  "leave_empty_tab v =
     (if ts_tab (bv_tabs v) = Tab_pending \<and> tab_jobs (bv_batch v) Tab_pending = 0
      then v\<lparr>bv_tabs :=
        choose_tab (if tab_jobs (bv_batch v) Tab_failed > 0 then Tab_failed else Tab_completed) (bv_tabs v)\<rparr>
      else v)"

definition mount_batch :: "BatchDetail \<Rightarrow> url \<Rightarrow> BatchDetail batch_view" where
  "mount_batch b location =
     leave_empty_tab \<lparr>bv_batch = b,
       bv_tabs = \<lparr>ts_tab = initialJobTab b location, ts_location = location, ts_timer = True\<rparr>\<rparr>"

datatype batch_event = Batch_refreshed BatchDetail | Tab_event "BatchJobTab tab_event"

fun batch_step :: "batch_event \<Rightarrow> BatchDetail batch_view \<Rightarrow> BatchDetail batch_view" where
  "batch_step (Batch_refreshed b) v = leave_empty_tab (v\<lparr>bv_batch := b\<rparr>)"
| "batch_step (Tab_event e) v = leave_empty_tab (v\<lparr>bv_tabs := tab_step batch_tab_literal e (bv_tabs v)\<rparr>)"

definition batch_run :: "BatchDetail \<Rightarrow> url \<Rightarrow> batch_event list \<Rightarrow> BatchDetail batch_view" where
  "batch_run b location es = fold batch_step es (mount_batch b location)"

section \<open>Timings\<close>

record batch_timings =
  bt_queuedAt :: rat
  bt_waitTime :: "rat option"
  bt_runtime :: "rat option"
  bt_unavailableReason :: "string option"

definition tab_order :: "BatchJobTab list" where
  "tab_order = [Tab_pending, Tab_completed, Tab_failed]"

definition known_times :: "(JobRow \<Rightarrow> rat option) \<Rightarrow> JobRow list \<Rightarrow> rat list" where
  "known_times time rows = concat (map (\<lambda>job. case time job of None \<Rightarrow> [] | Some t \<Rightarrow> [t]) rows)"

text \<open>\<open>Math.min\<close> of a list that is not empty.\<close>

fun earliest :: "rat list \<Rightarrow> rat option" where
  "earliest [] = None"
| "earliest (t # ts) = Some (foldl min t ts)"

definition batchTimings :: "rat \<Rightarrow> 'b BatchDetail_scheme \<Rightarrow> batch_timings" where
  "batchTimings clock b =
     (let jobLists = map (bd_jobs b) tab_order
      in if list_ex (\<lambda>jobList. \<not> bjl_complete jobList) jobLists
         then \<lparr>bt_queuedAt = br_createdAt b, bt_waitTime = None, bt_runtime = None,
               bt_unavailableReason = Some (''Some job history was trimmed, so this value can'' @ [CHR 0x27] @ ''t be calculated.'')\<rparr>
         else
           let rows = concat (map bjl_rows jobLists);
               queuedAt = nullish (earliest (known_times jr_pushedAt rows)) (br_createdAt b)
           in case earliest (known_times jr_reservedAt rows) of
                None \<Rightarrow> \<lparr>bt_queuedAt = queuedAt, bt_waitTime = None, bt_runtime = None,
                         bt_unavailableReason = Some ''No batch job has started processing yet.''\<rparr>
              | Some startedAt \<Rightarrow>
                  let finishedAt = nullish (br_finishedAt b) (nullish (br_cancelledAt b) clock)
                  in \<lparr>bt_queuedAt = queuedAt, bt_waitTime = Some (max 0 (startedAt - queuedAt)),
                      bt_runtime = Some (max 0 (finishedAt - startedAt)), bt_unavailableReason = None\<rparr>)"

definition timingValue :: "rat option \<Rightarrow> string option \<Rightarrow> 'a node" where
  "timingValue v unavailableReason =
     (case v of
        Some s \<Rightarrow> Duration s Precise True
      | None \<Rightarrow>
          (case unavailableReason of
             None \<Rightarrow> Text em_dash
           | Some reason \<Rightarrow>
               El ''Tooltip'' []
                 [El ''TooltipTrigger'' []
                    [El ''render'' []
                       [El ''span'' [(''aria-label'', Str (''Unavailable. '' @ reason)), (''tabIndex'', Count 0)]
                          [Text em_dash]]],
                  text_of ''TooltipContent'' reason]))"

section \<open>Details\<close>

definition attributionValue :: "string option \<Rightarrow> bool \<Rightarrow> bool \<Rightarrow> string" where
  "attributionValue v explicit captured =
     (if explicit then nullish v ''Not recorded''
      else case v of
             None \<Rightarrow> ''Not recorded''
           | Some s \<Rightarrow>
               if captured then ''Inferred when first discovered: '' @ s
               else ''Not recorded (current default: '' @ s @ '')'')"

definition span_detail :: "string \<Rightarrow> 'a node list \<Rightarrow> 'a detail" where
  "span_detail label v = node_detail label [El ''span'' [] v]"

text \<open>The URL of the queue, and the link it is given.\<close>

definition queue_href :: "batch_env \<Rightarrow> 'b BatchDetail_scheme \<Rightarrow> string option" where
  "queue_href e b =
     (if falsy_text (br_queue b) then None
      else if br_queueExplicit b \<or> br_attributionCaptured b
      then Some (be_queue_url e (encodeURIComponent (the (br_queue b)))) else None)"

definition queue_detail :: "batch_env \<Rightarrow> 'b BatchDetail_scheme \<Rightarrow> 'a detail" where
  "queue_detail e b =
     (let v = [Text (attributionValue (br_queue b) (br_queueExplicit b) (br_attributionCaptured b))]
      in case queue_href e b of
           Some link \<Rightarrow> node_detail ''Queue'' [El ''Link'' [(''href'', Str link), (''prefetch'', Flag True)] v]
         | None \<Rightarrow> span_detail ''Queue'' v)"

text \<open>A time that is \<open>null\<close> or zero is not listed.\<close>

definition truthy_time :: "rat option \<Rightarrow> rat option" where
  "truthy_time t = (if t = Some 0 then None else t)"

definition batch_details :: "batch_env \<Rightarrow> rat \<Rightarrow> 'b BatchDetail_scheme \<Rightarrow> 'a detail list" where
  "batch_details e clock b =
     (let timings = batchTimings clock b
      in [span_detail ''Progress''
            [ProgressRing (be_number e) (br_progress b) (br_status b = Batch_cancelled) (Some (br_pendingJobs b)) (br_failedJobs b)],
          identified ''batch-id'' (span_detail ''ID'' [Text (br_id b)])] @
         only_if (\<not> falsy_text (br_name b)) [span_detail ''Name'' [Text (the (br_name b))]] @
         [span_detail ''Connection''
            [Text (attributionValue (br_connection b) (br_connectionExplicit b) (br_attributionCaptured b))],
          queue_detail e b,
          span_detail ''Total jobs'' [Text (be_number e (br_totalJobs b))],
          span_detail ''Pending jobs'' [Text (be_number e (tab_jobs b Tab_pending))],
          span_detail ''Failed job attempts'' [Text (be_number e (br_failedJobAttempts b))],
          span_detail ''Queued at'' [Text (be_dateText e (bt_queuedAt timings * 1000))],
          span_detail ''Wait time'' [timingValue (bt_waitTime timings) (bt_unavailableReason timings)],
          span_detail ''Runtime'' [timingValue (bt_runtime timings) (bt_unavailableReason timings)]] @
         if_some (truthy_time (br_finishedAt b)) (\<lambda>t. span_detail ''Finished at'' [Text (be_dateText e (t * 1000))]) @
         if_some (truthy_time (br_cancelledAt b)) (\<lambda>t. span_detail ''Cancelled at'' [Text (be_dateText e (t * 1000))]))"

definition BatchDetails :: "batch_env \<Rightarrow> rat \<Rightarrow> 'b BatchDetail_scheme \<Rightarrow> 'a node" where
  "BatchDetails e clock b = DetailList (be_edges e) (batch_details e clock b)"

section \<open>The failed jobs of a batch\<close>

definition failed_columns :: "JobRow SortColumn list" where
  "failed_columns =
     [\<lparr>column_key = ''name'', column_value = SortString \<circ> jr_name\<rparr>,
      \<lparr>column_key = ''attempts'', column_value = count_value \<circ> jr_attempts\<rparr>,
      \<lparr>column_key = ''failedAt'', column_value = time_value \<circ> jr_failedAt\<rparr>]"

definition failed_sort_options :: SortUrlOptions where
  "failed_sort_options = \<lparr>opt_persist = Some True, opt_prefix = None, opt_defaultSort = None\<rparr>"

definition failed_job_head :: "bool \<Rightarrow> SortState option \<Rightarrow> string \<Rightarrow> string \<Rightarrow> 'm table_act node" where
  "failed_job_head sortable sorting label key =
     (if sortable then SortableTableHead label key (directionFor key sorting) (Sort_column key)
      else El ''TableHead'' [(''scope'', Str ''col'')] [Text label])"

definition attempts_cell :: "JobRow \<Rightarrow> 'a node" where
  "attempts_cell job =
     El ''TableCell'' []
       [if jr_attemptsComplete job \<noteq> Some False then Text (int_text (jr_attempts job))
        else El ''Tooltip'' []
               [El ''TooltipTrigger'' [] [El ''render'' [] [El ''span'' [] []], Text (int_text (jr_attempts job) @ ''+'')],
                text_of ''TooltipContent''
                  (''Earlier attempts were trimmed by Horizon. At least '' @ int_text (jr_attempts job) @
                   '' attempts are known.'')]]"

definition batch_failed_row :: "batch_env \<Rightarrow> JobRow \<Rightarrow> operation menu_act table_act node" where
  "batch_failed_row e job =
     (let detailUrl = te_failed_url (be_table e) (jr_id job)
      in El ''TableRow''
           [(''key'', Str (jr_id job)), (''onClick'', On (Row_visit detailUrl)),
            (''onMouseEnter'', On (Row_prefetch detailUrl))]
           [JobTablePrimaryCell (row_tags (be_table e) (jr_id job)) (jr_shortName job) (Some (jr_name job)) (jr_queue job)
              (jr_tags job) (Some detailUrl) [] [text_of ''span'' (jr_id job)] None,
            attempts_cell job,
            text_of ''TableCell''
              (case jr_failedAt job of None \<Rightarrow> em_dash | Some t \<Rightarrow> be_dateText e (t * 1000))])"

definition BatchFailedJobsTable ::
  "(string \<Rightarrow> string \<Rightarrow> rat) \<Rightarrow> (number \<Rightarrow> string) \<Rightarrow> batch_env \<Rightarrow> JobRow list \<Rightarrow> bool \<Rightarrow> string option \<Rightarrow> string option \<Rightarrow>
   string \<Rightarrow> string \<Rightarrow> bool \<Rightarrow> SortState option \<Rightarrow> operation menu_act table_act node list" where
  "BatchFailedJobsTable collate number_text e jobs available message notice emptyTitle emptyDescription sortable sorting =
     (let rows = (if sortable then sortRows collate number_text jobs failed_columns sorting else jobs)
      in if \<not> available then
           [unavailable_alert ''Failed jobs unavailable''
              (nullish message ''Failed jobs for this batch are currently unavailable.'')]
         else [El ''Table'' []
                 [El ''TableHeader'' []
                    [El ''TableRow'' []
                       [failed_job_head sortable sorting ''Job'' ''name'', failed_job_head sortable sorting ''Attempts'' ''attempts'',
                        failed_job_head sortable sorting ''Failed At'' ''failedAt'']],
                  El ''TableBody'' []
                    (child_if (\<not> falsy_text notice \<and> rows \<noteq> []) [TableNoticeRow 3 [Text (the notice)]] @
                     child_if (rows = []) [TableEmpty 3 emptyTitle emptyDescription] @
                     map (batch_failed_row e) rows)]])"

section \<open>The tabs of a batch's jobs\<close>

fun pending_state_text :: "PendingJobState \<Rightarrow> string" where
  "pending_state_text Ready = ''ready''"
| "pending_state_text Reserved = ''reserved''"
| "pending_state_text Delayed = ''delayed''"
| "pending_state_text Released = ''released''"

text \<open>The columns of the retained jobs; \<open>narrow\<close> is the tab of pending jobs, else the completed ones.\<close>

definition retained_columns :: "bool \<Rightarrow> rat \<Rightarrow> JobRow SortColumn list" where
  "retained_columns narrow now =
     [\<lparr>column_key = ''name'', column_value = SortString \<circ> jr_name\<rparr>] @
     only_if narrow [\<lparr>column_key = ''status'', column_value = SortString \<circ> pending_state_text \<circ> job_state now\<rparr>] @
     [\<lparr>column_key = ''pushedAt'', column_value = time_value \<circ> jr_pushedAt\<rparr>] @
     only_if (\<not> narrow)
       [\<lparr>column_key = ''completedAt'', column_value = time_value \<circ> jr_completedAt\<rparr>,
        \<lparr>column_key = ''runtime'', column_value = time_value \<circ> jr_runtime\<rparr>]"

definition retained_sort_options :: "bool \<Rightarrow> SortUrlOptions" where
  "retained_sort_options narrow =
     \<lparr>opt_persist = Some True, opt_prefix = Some (''batch_'' @ (if narrow then ''pending'' else ''completed'')),
      opt_defaultSort = (if narrow then None else Some completedAtDescending)\<rparr>"

definition list_is_trimmed :: "BatchJobList \<Rightarrow> bool" where
  "list_is_trimmed l \<longleftrightarrow> bjl_total l > 0 \<and> bjl_rows l = [] \<and> \<not> bjl_complete l"

definition list_empty_title :: "BatchJobTab \<Rightarrow> BatchJobList \<Rightarrow> string" where
  "list_empty_title status l =
     (if list_is_trimmed l then ''No retained '' else ''No '') @ batch_tab_literal status @ '' jobs''"

definition list_empty_description :: "BatchJobTab \<Rightarrow> BatchJobList \<Rightarrow> string" where
  "list_empty_description status l =
     (if list_is_trimmed l then ''Horizon has already trimmed these '' @ batch_tab_literal status @ '' jobs.''
      else ''This batch has no '' @ batch_tab_literal status @ '' jobs.'')"

definition list_notice :: "BatchJobList \<Rightarrow> string option" where
  "list_notice l = (if bjl_available l \<and> \<not> bjl_complete l then bjl_message l else None)"

definition BatchRetainedJobsTable ::
  "(string \<Rightarrow> string \<Rightarrow> rat) \<Rightarrow> (number \<Rightarrow> string) \<Rightarrow> batch_env \<Rightarrow> rat \<Rightarrow> BatchJobTab \<Rightarrow> BatchJobList \<Rightarrow> SortState option \<Rightarrow>
   operation menu_act table_act node list" where
  "BatchRetainedJobsTable collate number_text e now status l sorting =
     (let narrow = (status = Tab_pending); cols = retained_columns narrow now
      in JobTable (be_table e)
           \<lparr>tp_available = bjl_available l, tp_message = bjl_message l, tp_hasNewEntries = False,
            tp_onLoadNewEntries = False, tp_emptyTitle = Some (list_empty_title status l),
            tp_emptyDescription = Some (list_empty_description status l),
            tp_sorting = (if bjl_complete l then Some (controlled sorting cols) else None),
            jt_type = (if narrow then PendingList else CompletedList), jt_notice = list_notice l,
            jt_showPendingActions = False\<rparr>
           now (if bjl_complete l then sortRows collate number_text (bjl_rows l) cols sorting else bjl_rows l))"

definition BatchJobTabContent ::
  "(string \<Rightarrow> string \<Rightarrow> rat) \<Rightarrow> (number \<Rightarrow> string) \<Rightarrow> batch_env \<Rightarrow> rat \<Rightarrow> BatchJobTab \<Rightarrow> BatchJobList \<Rightarrow> SortState option \<Rightarrow>
   operation menu_act table_act node list" where
  "BatchJobTabContent collate number_text e now status l sorting =
     (if status = Tab_failed
      then BatchFailedJobsTable collate number_text e (bjl_rows l) (bjl_available l) (bjl_message l) (list_notice l)
             (list_empty_title status l) (list_empty_description status l) (bjl_complete l) sorting
      else BatchRetainedJobsTable collate number_text e now status l sorting)"

section \<open>The page\<close>

datatype batch_page_act =
    Batch_menu "operation menu_act"
  | Failed_menu "operation menu_act"
  | Table_act "operation menu_act table_act"
  | Choose_job_tab

definition job_tab_label :: "BatchJobTab \<Rightarrow> string" where
  "job_tab_label tab =
     (case tab of Tab_pending \<Rightarrow> ''Pending Jobs'' | Tab_completed \<Rightarrow> ''Completed Jobs'' | Tab_failed \<Rightarrow> ''Failed Jobs'')"

definition available_job_tabs :: "'b BatchDetail_scheme \<Rightarrow> BatchJobTab \<Rightarrow> BatchJobTab list" where
  "available_job_tabs b v =
     filter (\<lambda>tab. tab \<noteq> Tab_pending \<or> tab_jobs b Tab_pending > 0 \<or> v = Tab_pending) tab_order"

definition BatchJobsTabs ::
  "'b BatchDetail_scheme \<Rightarrow> BatchJobTab \<Rightarrow> (bool, bool, batch_request) action_menu \<Rightarrow>
   (BatchJobTab \<Rightarrow> operation menu_act table_act node list) \<Rightarrow> batch_page_act node" where
  "BatchJobsTabs b v m panel =
     El ''Tabs'' [(''value'', Str (batch_tab_literal v)), (''onValueChange'', On Choose_job_tab)]
       ([map_node (\<lambda>a. case a of Select_tab \<Rightarrow> Choose_job_tab | Own p \<Rightarrow> p)
           (ResponsiveTabsHeader (batch_tab_literal v)
              (map (\<lambda>tab. \<lparr>tab_value = batch_tab_literal tab, tab_label = job_tab_label tab,
                      tab_count = Some (int_text (tab_jobs b tab)), tab_render = []\<rparr>) (available_job_tabs b v))
              ''Batch jobs''
              (child_if (v = Tab_failed) (embed Failed_menu (BatchFailedJobsActions (tab_jobs b Tab_failed = 0) m)))),
         El ''h2'' []
           (case find (\<lambda>tab. tab = v) (available_job_tabs b v) of
              Some tab \<Rightarrow> [Text (job_tab_label tab)] | None \<Rightarrow> [])] @
        map (\<lambda>tab. El ''TabsContent'' [(''value'', Str (batch_tab_literal tab))] (embed Table_act (panel tab))) tab_order)"

definition can_cancel :: "'b BatchDetail_scheme \<Rightarrow> bool" where
  "can_cancel b \<longleftrightarrow> br_status b \<noteq> Batch_cancelled \<and> br_status b \<noteq> Batch_finished \<and> tab_jobs b Tab_pending > 0"

record batch_menus =
  bm_pending :: "(batch_dialogs, bool, batch_request) action_menu"
  bm_failed :: "(bool, bool, batch_request) action_menu"

definition BatchShow ::
  "(string \<Rightarrow> string \<Rightarrow> rat) \<Rightarrow> (number \<Rightarrow> string) \<Rightarrow> batch_env \<Rightarrow> rat \<Rightarrow> rat \<Rightarrow> 'b BatchDetail_scheme \<Rightarrow> BatchJobTab \<Rightarrow>
   batch_menus \<Rightarrow> (BatchJobTab \<Rightarrow> SortState option) \<Rightarrow> batch_page_act node list" where
  "BatchShow collate number_text e clock now b activeTab menus sorting =
     [El ''Head'' [(''title'', Str (br_displayName b))] [],
      El ''div'' []
        [El ''Card'' []
           [El ''CardHeader'' []
              [El ''CardTitle'' [(''title'', Str (br_displayName b))] [Text (br_displayName b)],
               El ''CardAction'' []
                 (embed Batch_menu
                    (BatchPendingJobsActions (can_cancel b) (tab_jobs b Tab_failed > 0) ''Batch actions'' (bm_pending menus)))],
            El ''CardContent'' [] [BatchDetails e clock b]],
         El ''Card'' []
           [El ''CardContent'' []
              [BatchJobsTabs b activeTab (bm_failed menus)
                 (\<lambda>tab. BatchJobTabContent collate number_text e now tab (bd_jobs b tab) (sorting tab))]]]]"

section \<open>The tab is always one with something to show\<close>

lemma batch_tab_requested: "(t = Tab_pending \<longrightarrow> tab_jobs b Tab_pending > 0) \<Longrightarrow> requested_job_tab b (Some (batch_tab_literal t)) = t"
  by (cases t) (simp_all add: requested_job_tab_def)

definition tab_available :: "'b BatchDetail_scheme \<Rightarrow> BatchJobTab \<Rightarrow> bool" where
  "tab_available b t \<longleftrightarrow> (t = Tab_pending \<longrightarrow> tab_jobs b Tab_pending > 0)"

interpretation batch_tabs: remembered_tab "requested_job_tab b" batch_tab_literal "tab_available b"
proof
  show "requested_job_tab b (Some (batch_tab_literal t)) = t" if "tab_available b t" for t
    using that by (simp add: batch_tab_requested tab_available_def)
  show "batch_tab_literal t \<noteq> []" for t
    by (cases t) simp_all
qed

text \<open>Totals are counts.\<close>

fun batch_event_ok :: "batch_event \<Rightarrow> bool" where
  "batch_event_ok (Batch_refreshed b) \<longleftrightarrow> 0 \<le> tab_jobs b Tab_pending"
| "batch_event_ok (Tab_event e) \<longleftrightarrow> event_ok e"

definition view_ok :: "BatchDetail batch_view \<Rightarrow> bool" where
  "view_ok v \<longleftrightarrow> tab_available (bv_batch v) (ts_tab (bv_tabs v)) \<and> batch_tabs.synced (bv_tabs v) \<and>
     0 \<le> tab_jobs (bv_batch v) Tab_pending"

lemma leave_empty_simps [simp]:
  "bv_batch (leave_empty_tab v) = bv_batch v"
  by (simp add: leave_empty_tab_def)

lemma leave_empty_ok:
  assumes "batch_tabs.synced (bv_tabs v)" "0 \<le> tab_jobs (bv_batch v) Tab_pending"
  shows "view_ok (leave_empty_tab v)"
proof -
  have "batch_tabs.synced (choose_tab t (bv_tabs v))" for t
    using batch_tabs.synced_step [OF assms(1), of "Tab_chosen t"] by simp
  moreover have "tab_available (bv_batch v) (ts_tab (bv_tabs (leave_empty_tab v)))"
    using assms(2) by (auto simp: leave_empty_tab_def tab_available_def choose_tab_def)
  moreover have "batch_tabs.synced (bv_tabs (leave_empty_tab v))"
    using calculation(1) assms(1) by (simp add: leave_empty_tab_def)
  ultimately show ?thesis
    using assms(2) by (simp add: view_ok_def)
qed

lemma view_ok_step: "view_ok v \<Longrightarrow> batch_event_ok e \<Longrightarrow> view_ok (batch_step e v)"
proof (cases e)
  case (Batch_refreshed b)
  then show "view_ok v \<Longrightarrow> batch_event_ok e \<Longrightarrow> view_ok (batch_step e v)"
    by (auto simp: view_ok_def [of v] intro!: leave_empty_ok)
next
  case (Tab_event t)
  then show "view_ok v \<Longrightarrow> batch_event_ok e \<Longrightarrow> view_ok (batch_step e v)"
    by (auto simp: view_ok_def [of v] intro!: leave_empty_ok batch_tabs.synced_step)
qed

lemma view_ok_run:
  assumes "url_ok location" "0 \<le> tab_jobs b Tab_pending" "list_all batch_event_ok es"
  shows "view_ok (batch_run b location es)"
proof -
  have "view_ok (fold batch_step es v)" if "view_ok v" for v
    using that assms(3) by (induction es arbitrary: v) (simp_all add: view_ok_step)
  moreover have "view_ok (mount_batch b location)"
    unfolding mount_batch_def using assms(1,2) by (intro leave_empty_ok) (simp_all add: batch_tabs.synced_def)
  ultimately show ?thesis by (simp add: batch_run_def)
qed

text \<open>
  C20: The page of a batch always shows a tab that has its place. However the batch changes while
  it is watched, the tabs chosen and the page visited again, the shown tab is one of the tabs on
  offer, and it is the tab of pending jobs only while jobs are pending; and a reload of the batch's
  page, once the timer has run, opens with the tab that was shown.
\<close>

theorem batch_tab_has_its_place:
  assumes "url_ok location" "0 \<le> tab_jobs b Tab_pending" "list_all batch_event_ok es"
    and "v = batch_run b location es"
  shows "ts_tab (bv_tabs v) \<in> set (available_job_tabs (bv_batch v) (ts_tab (bv_tabs v))) \<and>
    (ts_tab (bv_tabs v) = Tab_pending \<longrightarrow> tab_jobs (bv_batch v) Tab_pending > 0) \<and>
    (on_batch_page (bv_batch v) (ts_location (tab_step batch_tab_literal Sync_due (bv_tabs v))) \<longrightarrow>
      initialJobTab (bv_batch v) (ts_location (tab_step batch_tab_literal Sync_due (bv_tabs v))) = ts_tab (bv_tabs v))"
proof -
  have ok: "view_ok v"
    unfolding assms(4) by (rule view_ok_run [OF assms(1-3)])
  then have "ts_tab (mount_tab (requested_job_tab (bv_batch v))
      (ts_location (tab_step batch_tab_literal Sync_due (bv_tabs v)))) = ts_tab (bv_tabs v)"
    by (intro batch_tabs.synced_reload) (simp_all add: view_ok_def)
  with ok show ?thesis
    by (cases "ts_tab (bv_tabs v)")
       (auto simp: view_ok_def tab_available_def available_job_tabs_def tab_order_def initialJobTab_def mount_tab_def)
qed

definition empty_list :: "int \<Rightarrow> BatchJobList" where
  "empty_list n = \<lparr>bjl_total = n, bjl_rows = [], bjl_available = True, bjl_complete = True, bjl_message = None\<rparr>"

definition sample_batch_detail :: "int \<Rightarrow> BatchDetail" where
  "sample_batch_detail pending =
     \<lparr>br_id = ''b1'', br_name = None, br_displayName = ''Import'', br_connection = None, br_queue = Some ''mail'',
      br_connectionExplicit = False, br_queueExplicit = False, br_attributionCaptured = True, br_totalJobs = 4,
      br_pendingJobs = pending, br_failedJobs = 0, br_failedJobAttempts = 0, br_processedJobs = 4 - pending,
      br_progress = 50, br_status = Batch_pending, br_createdAt = 100, br_cancelledAt = None, br_finishedAt = None,
      bd_jobs = (\<lambda>tab. case tab of Tab_pending \<Rightarrow> empty_list pending | Tab_completed \<Rightarrow> empty_list (4 - pending)
        | Tab_failed \<Rightarrow> empty_list 0)\<rparr>"

lemma sample_totals [simp]: "tab_jobs (sample_batch_detail n) Tab_pending = n" "tab_jobs (sample_batch_detail n) Tab_failed = 0"
    "tab_jobs (sample_batch_detail n) Tab_completed = 4 - n"
  by (simp_all add: tab_jobs_def sample_batch_detail_def empty_list_def)

theorem batch_tab_has_its_place_witness:
  "ts_tab (bv_tabs (batch_run (sample_batch_detail 2) jobs_url [Tab_event (Tab_chosen Tab_pending), Batch_refreshed (sample_batch_detail 0)]))
    \<noteq> Tab_pending"
proof -
  have u: "url_ok jobs_url" by (simp add: url_ok_def jobs_url_def)
  have p: "0 \<le> tab_jobs (sample_batch_detail 2) Tab_pending"
    "list_all batch_event_ok [Tab_event (Tab_chosen Tab_pending), Batch_refreshed (sample_batch_detail 0)]"
    by simp_all
  have "bv_batch (batch_run (sample_batch_detail 2) jobs_url
      [Tab_event (Tab_chosen Tab_pending), Batch_refreshed (sample_batch_detail 0)]) = sample_batch_detail 0"
    by (simp add: batch_run_def)
  then show ?thesis
    using batch_tab_has_its_place [OF u p refl] by auto
qed

section \<open>Timings\<close>

lemma earliest_some:
  "earliest ts = Some m \<Longrightarrow> m \<in> set ts \<and> (\<forall>t \<in> set ts. m \<le> t)"
proof -
  have "foldl min t us \<in> insert t (set us) \<and> (\<forall>u \<in> insert t (set us). foldl min t us \<le> u)" for t :: rat and us
  proof (induction us arbitrary: t)
    case (Cons u us)
    from Cons.IH [of "min t u"] show ?case by (auto simp: min_def split: if_splits)
  qed simp
  then show "earliest ts = Some m \<Longrightarrow> ?thesis"
    by (cases ts) auto
qed

lemma earliest_none [simp]: "earliest ts = None \<longleftrightarrow> ts = []"
  by (cases ts) auto

lemma set_known_times: "t \<in> set (known_times time rows) \<longleftrightarrow> (\<exists>job \<in> set rows. time job = Some t)"
  by (auto simp: known_times_def split: option.splits) force

definition batch_rows_of :: "'b BatchDetail_scheme \<Rightarrow> JobRow set" where
  "batch_rows_of b = (\<Union>tab. set (bjl_rows (bd_jobs b tab)))"

lemma rows_of_lists: "set (concat (map bjl_rows (map (bd_jobs b) tab_order))) = batch_rows_of b"
proof -
  have u: "UNIV = {Tab_pending, Tab_completed, Tab_failed}"
    using BatchJobTab.exhaust by blast
  show ?thesis
    unfolding batch_rows_of_def u by (simp add: tab_order_def)
qed

lemma lists_trimmed:
  "list_ex (\<lambda>l. \<not> bjl_complete l) (map (bd_jobs b) tab_order) \<longleftrightarrow> \<not> (\<forall>tab. bjl_complete (bd_jobs b tab))"
proof -
  have "set tab_order = UNIV"
    using BatchJobTab.exhaust by (auto simp: tab_order_def)
  then show ?thesis
    by (auto simp: list_ex_iff)
qed

lemma queued_before_jobs:
  assumes "job \<in> batch_rows_of b" "jr_pushedAt job = Some p"
  shows "nullish (earliest (known_times jr_pushedAt (concat (map bjl_rows (map (bd_jobs b) tab_order))))) (br_createdAt b) \<le> p"
proof -
  let ?times = "known_times jr_pushedAt (concat (map bjl_rows (map (bd_jobs b) tab_order)))"
  have "p \<in> set ?times"
    using assms unfolding set_known_times rows_of_lists by blast
  then show ?thesis
    using earliest_some [of ?times] by (cases "earliest ?times") auto
qed

lemma none_reserved:
  "earliest (known_times jr_reservedAt (concat (map bjl_rows (map (bd_jobs b) tab_order)))) = None \<Longrightarrow>
   \<not> (\<exists>job \<in> batch_rows_of b. jr_reservedAt job \<noteq> None)"
  using set_known_times [of _ jr_reservedAt "concat (map bjl_rows (map (bd_jobs b) tab_order))"]
  unfolding rows_of_lists by auto

lemma first_reserved:
  assumes "earliest (known_times jr_reservedAt (concat (map bjl_rows (map (bd_jobs b) tab_order)))) = Some s"
  shows "\<exists>job \<in> batch_rows_of b. jr_reservedAt job = Some s \<and>
    (\<forall>other \<in> batch_rows_of b. \<forall>u. jr_reservedAt other = Some u \<longrightarrow> s \<le> u)"
proof -
  let ?times = "known_times jr_reservedAt (concat (map bjl_rows (map (bd_jobs b) tab_order)))"
  have m: "s \<in> set ?times" "\<And>u. u \<in> set ?times \<Longrightarrow> s \<le> u"
    using earliest_some [OF assms] by blast+
  from m(1) obtain job where "job \<in> batch_rows_of b" "jr_reservedAt job = Some s"
    unfolding set_known_times rows_of_lists by blast
  moreover have "\<forall>other \<in> batch_rows_of b. \<forall>u. jr_reservedAt other = Some u \<longrightarrow> s \<le> u"
    using m(2) unfolding set_known_times rows_of_lists by blast
  ultimately show ?thesis by blast
qed

text \<open>
  C35: The timings of a batch are honest. Either both times are shown, neither is negative and no
  reason is given, or neither is shown and the reason is: exactly when a list was trimmed or no
  job of the batch has been reserved. When the lists are whole, the batch counts as queued no later
  than any of its jobs, the wait is the time from there to the first job that was reserved, and
  the run lasts from there to the end of the batch, or to now.
\<close>

theorem batch_timings_honest:
  assumes "t = batchTimings clock b"
  shows "(bt_waitTime t \<noteq> None \<longleftrightarrow> bt_unavailableReason t = None) \<and>
    (bt_runtime t \<noteq> None \<longleftrightarrow> bt_unavailableReason t = None) \<and>
    (bt_unavailableReason t = None \<longleftrightarrow>
      (\<forall>tab. bjl_complete (bd_jobs b tab)) \<and> (\<exists>job \<in> batch_rows_of b. jr_reservedAt job \<noteq> None)) \<and>
    (\<forall>w. bt_waitTime t = Some w \<longrightarrow> 0 \<le> w) \<and> (\<forall>r. bt_runtime t = Some r \<longrightarrow> 0 \<le> r) \<and>
    ((\<forall>tab. bjl_complete (bd_jobs b tab)) \<longrightarrow>
      (\<forall>job \<in> batch_rows_of b. \<forall>p. jr_pushedAt job = Some p \<longrightarrow> bt_queuedAt t \<le> p)) \<and>
    (\<forall>w r. bt_waitTime t = Some w \<and> bt_runtime t = Some r \<longrightarrow>
      (\<exists>job \<in> batch_rows_of b. \<exists>s. jr_reservedAt job = Some s \<and>
        (\<forall>other \<in> batch_rows_of b. \<forall>u. jr_reservedAt other = Some u \<longrightarrow> s \<le> u) \<and>
        w = max 0 (s - bt_queuedAt t) \<and>
        r = max 0 (nullish (br_finishedAt b) (nullish (br_cancelledAt b) clock) - s)))"
proof (cases "\<forall>tab. bjl_complete (bd_jobs b tab)")
  case False
  then show ?thesis
    unfolding assms batchTimings_def Let_def lists_trimmed by auto
next
  case True
  let ?rows = "concat (map bjl_rows (map (bd_jobs b) tab_order))"
  show ?thesis
  proof (cases "earliest (known_times jr_reservedAt ?rows)")
    case None
    with none_reserved [OF None] True show ?thesis
      using queued_before_jobs unfolding assms batchTimings_def Let_def lists_trimmed by auto
  next
    case (Some s)
    define q w r where "q = nullish (earliest (known_times jr_pushedAt ?rows)) (br_createdAt b)"
      and "w = max 0 (s - q)" and "r = max 0 (nullish (br_finishedAt b) (nullish (br_cancelledAt b) clock) - s)"
    note d = this
    have t: "t = \<lparr>bt_queuedAt = q, bt_waitTime = Some w, bt_runtime = Some r, bt_unavailableReason = None\<rparr>"
      unfolding assms batchTimings_def Let_def lists_trimmed Some d using True
      by (simp only: not_True_eq_False if_False option.case simp_thms)
    have b: "0 \<le> w" "0 \<le> r" "\<forall>job \<in> batch_rows_of b. \<forall>p. jr_pushedAt job = Some p \<longrightarrow> q \<le> p"
      unfolding d by (simp_all add: queued_before_jobs del: map_map)
    obtain job where j: "job \<in> batch_rows_of b" "jr_reservedAt job = Some s"
        "\<forall>other \<in> batch_rows_of b. \<forall>u. jr_reservedAt other = Some u \<longrightarrow> s \<le> u"
      using first_reserved [OF Some] by blast
    then have "\<exists>job \<in> batch_rows_of b. \<exists>s. jr_reservedAt job = Some s \<and>
        (\<forall>other \<in> batch_rows_of b. \<forall>u. jr_reservedAt other = Some u \<longrightarrow> s \<le> u) \<and>
        w = max 0 (s - q) \<and> r = max 0 (nullish (br_finishedAt b) (nullish (br_cancelledAt b) clock) - s)"
      unfolding d(2,3) by blast
    then show ?thesis
      unfolding t using True b j by (simp, blast)
  qed
qed

theorem batch_timings_honest_witness:
  "let t = batchTimings 130 (sample_batch_detail 2) in
     bt_waitTime t = None \<and> bt_runtime t = None \<and> bt_unavailableReason t \<noteq> None"
proof -
  have "batch_rows_of (sample_batch_detail 2) = {}"
    by (auto simp: batch_rows_of_def sample_batch_detail_def empty_list_def split: BatchJobTab.splits)
  with batch_timings_honest [OF refl, of 130 "sample_batch_detail 2"] show ?thesis
    by (auto simp: Let_def)
qed

section \<open>What the page offers\<close>

lemma offered_batch_details: "silent (batch_details e clock b)"
proof -
  have t [simp]: "offered (timingValue v r) = []" for v r
    by (auto simp: timingValue_def Duration_def split: option.splits)
  have p [simp]: "offered (ProgressRing n v c p f) = []" for n v c p f
    by (auto simp: ProgressRing_def Let_def)
  show ?thesis
    unfolding batch_details_def Let_def
    by (auto simp: span_detail_def queue_detail_def Let_def split: option.splits)
qed

lemma batch_actions_offer:
  "Ask Cancel_op \<in> set (offers (BatchPendingJobsActions c r l m)) \<longleftrightarrow> c"
  "Ask Retry_op \<in> set (offers (BatchPendingJobsActions c r l m)) \<longleftrightarrow> r"
  by (auto simp: BatchPendingJobsActions_def Let_def dropdown_def offers_trigger child_if_def)

lemma tabs_header_offers:
  "a \<in> set (offered (ResponsiveTabsHeader v items l actions)) \<Longrightarrow> list_all (\<lambda>i. tab_render i = []) items \<Longrightarrow>
   a = Select_tab \<or> (\<exists>p \<in> set (offers actions). a = Own p)"
  by (auto simp: ResponsiveTabsHeader_def Let_def TabCount_def offers_set child_if_def list_all_iff embed_def offered_map_node
      split: option.splits if_splits)

lemma tabs_header_actions:
  "p \<in> set (offers actions) \<Longrightarrow> Own p \<in> set (offered (ResponsiveTabsHeader v items l actions))"
  by (auto simp: ResponsiveTabsHeader_def Let_def child_if_def)

lemma job_tabs_offer:
  "Batch_menu a \<notin> set (offered (BatchJobsTabs b v m panel))"
  "Failed_menu a \<in> set (offered (BatchJobsTabs b v m panel)) \<longleftrightarrow>
     v = Tab_failed \<and> a \<in> set (offers (BatchFailedJobsActions (tab_jobs b Tab_failed = 0) m))"
proof -
  let ?items = "map (\<lambda>tab. \<lparr>tab_value = batch_tab_literal tab, tab_label = job_tab_label tab,
      tab_count = Some (int_text (tab_jobs b tab)), tab_render = []\<rparr>) (available_job_tabs b v)
      :: batch_page_act ResponsiveTabItem list"
  let ?actions = "child_if (v = Tab_failed) (embed Failed_menu (BatchFailedJobsActions (tab_jobs b Tab_failed = 0) m))"
  let ?header = "ResponsiveTabsHeader (batch_tab_literal v) ?items ''Batch jobs'' ?actions"
  have r: "list_all (\<lambda>i. tab_render i = []) ?items" by (simp add: list_all_iff)
  define H where "H = set (offered ?header)"
  define M where "M = set (offers (BatchFailedJobsActions (tab_jobs b Tab_failed = 0) m))"
  have h: "H \<subseteq> {Select_tab} \<union> {Own (Failed_menu p) |p. v = Tab_failed \<and> p \<in> M}"
    unfolding H_def M_def using tabs_header_offers [OF _ r, of _ "batch_tab_literal v" "''Batch jobs''" ?actions]
    by (force simp: child_if_def split: if_splits)
  have m: "p \<in> M \<Longrightarrow> v = Tab_failed \<Longrightarrow> Own (Failed_menu p) \<in> H" for p
    unfolding H_def M_def by (intro tabs_header_actions) (simp add: child_if_def)
  let ?f = "\<lambda>a. case a of Select_tab \<Rightarrow> Choose_job_tab | Own p \<Rightarrow> p"
  have t: "set (offered (BatchJobsTabs b v m panel)) \<subseteq> {Choose_job_tab} \<union> ?f ` H \<union> range Table_act"
    unfolding H_def by (auto simp: BatchJobsTabs_def offered_map_node offers_set split: option.splits)
  have f: "?f ` H \<subseteq> set (offered (BatchJobsTabs b v m panel))"
    unfolding H_def by (auto simp: BatchJobsTabs_def offered_map_node)
  have fh: "?f ` H \<subseteq> {Choose_job_tab} \<union> {Failed_menu p |p. v = Tab_failed \<and> p \<in> M}"
    using h by (force split: tabs_action.splits)
  show "Batch_menu a \<notin> set (offered (BatchJobsTabs b v m panel))"
    using t fh by blast
  show "Failed_menu a \<in> set (offered (BatchJobsTabs b v m panel)) \<longleftrightarrow>
      v = Tab_failed \<and> a \<in> set (offers (BatchFailedJobsActions (tab_jobs b Tab_failed = 0) m))"
    unfolding M_def [symmetric]
  proof
    show "Failed_menu a \<in> set (offered (BatchJobsTabs b v m panel)) \<Longrightarrow> v = Tab_failed \<and> a \<in> M"
      using t fh by blast
    assume "v = Tab_failed \<and> a \<in> M"
    then have "?f (Own (Failed_menu a)) \<in> ?f ` H"
      using m by (intro imageI) simp
    then show "Failed_menu a \<in> set (offered (BatchJobsTabs b v m panel))"
      using f by auto
  qed
qed


end
