(* ===== verification/Filters.thy ===== *)
theory Filters
  imports Types_Pages Jsx
begin

text \<open>
  The dialogs of filters: \<^verbatim>\<open>resources/js/components/jobs/job-filters.tsx\<close> and
  \<^verbatim>\<open>components/batches/batch-filters.tsx\<close>. A select calls its handler with the value of the item
  that was chosen; the item of all values has the value \<^verbatim>\<open>__all__\<close>.
\<close>

section \<open>A select of one filter\<close>

definition ALL_OPTIONS :: string where
  "ALL_OPTIONS = ''__all__''"

definition select_items :: "string \<Rightarrow> JobOption list \<Rightarrow> JobOption list" where
  "select_items allLabel options = \<lparr>jo_value = ALL_OPTIONS, jo_label = allLabel\<rparr> # options"

text \<open>The value the select shows, and what its handler passes on.\<close>

definition select_shows :: "string option \<Rightarrow> string" where
  "select_shows v = (case v of None \<Rightarrow> ALL_OPTIONS | Some s \<Rightarrow> s)"

definition select_passes :: "string \<Rightarrow> string option" where
  "select_passes nextValue = (if nextValue = ALL_OPTIONS then None else Some nextValue)"

text \<open>
  The contract of a select over a filter: choosing a filter's item sets that filter, choosing the item
  of all values clears it. Then no two items have the same value, and the value the select shows is
  the one that sets what is shown.
\<close>

locale select_choice =
  fixes literal :: "'f \<Rightarrow> string" and passes :: "string \<Rightarrow> 'f option" and all_value :: string
  assumes passes_literal: "passes (literal f) = Some f"
    and passes_all: "passes all_value = None"
begin

lemma literal_inj: "literal f = literal g \<longleftrightarrow> f = g"
  by (metis option.inject passes_literal)

lemma literal_not_all: "literal f \<noteq> all_value"
  using passes_literal [of f] passes_all by auto

lemma shown_again: "passes (case v of None \<Rightarrow> all_value | Some f \<Rightarrow> literal f) = v"
  by (cases v) (simp_all add: passes_literal passes_all)

lemma items_distinct: "distinct fs \<Longrightarrow> distinct (all_value # map literal fs)"
  using literal_not_all by (auto simp: distinct_map inj_on_def literal_inj dest: sym)

end

definition FilterSelect :: "string \<Rightarrow> string \<Rightarrow> JobOption list \<Rightarrow> string option \<Rightarrow> 'a \<Rightarrow> 'a node" where
  "FilterSelect label allLabel options v change =
     El ''Field'' []
       [text_of ''FieldLabel'' label,
        El ''Select'' [(''value'', Str (select_shows v)), (''onValueChange'', On change)]
          [El ''SelectTrigger'' [] [El ''SelectValue'' [] []],
           El ''SelectContent'' [(''listLabel'', Str (label @ '' options''))]
             [El ''SelectGroup'' []
                (map (\<lambda>item. El ''SelectItem'' [(''value'', Str (jo_value item))] [Text (jo_label item)])
                   (select_items allLabel options))]]]"

text \<open>The button that opens the dialog, with a mark when filters are active, and the dialog's end.\<close>

definition filter_trigger :: "string \<Rightarrow> string \<Rightarrow> nat \<Rightarrow> (string \<times> 'a attr) list \<Rightarrow> 'a node" where
  "filter_trigger label title active handlers =
     El ''DialogTrigger'' []
       ([El ''render'' []
           [El ''Button'' ([(''type'', Str ''button''), (''aria-label'', Str label), (''title'', Str title)] @ handlers) []],
         El ''FilterIcon'' [] []] @
        child_if (active > 0) [El ''span'' [(''aria-hidden'', Str ''true'')] []])"

definition filter_footer :: "nat \<Rightarrow> 'a \<Rightarrow> 'a node" where
  "filter_footer active clear =
     El ''DialogFooter'' []
       [El ''Button'' [(''type'', Str ''button''), (''disabled'', Flag (active = 0)), (''onClick'', On clear)]
          [Text ''Clear filters''],
        El ''DialogClose'' [] [Text ''Done'']]"

definition filter_dialog :: "'a node \<Rightarrow> string \<Rightarrow> string \<Rightarrow> 'a node list \<Rightarrow> 'a node \<Rightarrow> (string \<times> 'a attr) list \<Rightarrow> 'a node" where
  "filter_dialog trigger title description selects footer handlers =
     El ''Dialog'' handlers
       [trigger,
        El ''DialogContent'' []
          [El ''DialogHeader'' [] [text_of ''DialogTitle'' title, text_of ''DialogDescription'' description],
           El ''FieldGroup'' [] selects, footer]]"

definition filter_label :: "string \<Rightarrow> nat \<Rightarrow> string" where
  "filter_label subject active =
     (if active > 0 then ''Filter '' @ subject @ '', '' @ nat_text active @ '' active'' else ''Filter '' @ subject)"

section \<open>Jobs\<close>

datatype job_scope = List_scope JobListType | Failed_scope

fun jobFilterKeys :: "job_scope \<Rightarrow> JobFilterKey list" where
  "jobFilterKeys (List_scope PendingList) = [JobKey, QueueKey, ConnectionKey, StateKey]"
| "jobFilterKeys scope = [JobKey, QueueKey, ConnectionKey]"

fun filterLabels :: "JobFilterKey \<Rightarrow> string \<times> string" where
  "filterLabels JobKey = (''Job class'', ''All job classes'')"
| "filterLabels QueueKey = (''Queue'', ''All queues'')"
| "filterLabels ConnectionKey = (''Connection'', ''All connections'')"
| "filterLabels StateKey = (''State'', ''All pending states'')"

definition state_options :: "JobOption list" where
  "state_options =
     [\<lparr>jo_value = ''ready'', jo_label = ''Ready''\<rparr>, \<lparr>jo_value = ''reserved'', jo_label = ''Reserved''\<rparr>,
      \<lparr>jo_value = ''delayed'', jo_label = ''Delayed''\<rparr>, \<lparr>jo_value = ''released'', jo_label = ''Released''\<rparr>]"

definition filterOptions :: "JobFilterKey \<Rightarrow> (JobFilterKey \<Rightarrow> JobOption list option) \<Rightarrow> JobOption list" where
  "filterOptions filterKey options =
     (if filterKey = StateKey then state_options else (case options filterKey of Some os \<Rightarrow> os | None \<Rightarrow> []))"

definition active_job_filters :: "JobFilterKey list \<Rightarrow> JobFilterValues \<Rightarrow> nat" where
  "active_job_filters keys values = length (filter (\<lambda>k. get_filter k values \<noteq> None) keys)"

datatype filter_act = Filter_intent | Filter_opened | Change_filter JobFilterKey | Clear_filters

definition default_filter_description :: string where
  "default_filter_description = ''Narrow the complete retained job history using exact filters.''"

definition JobFilters ::
  "JobFilterKey list \<Rightarrow> (JobFilterKey \<Rightarrow> JobOption list option) \<Rightarrow> JobFilterValues \<Rightarrow> string \<Rightarrow> filter_act node" where
  "JobFilters filterKeys options values description =
     (let active = active_job_filters filterKeys values; label = filter_label ''jobs'' active
      in filter_dialog
           (filter_trigger label label active [(''onFocus'', On Filter_intent), (''onPointerEnter'', On Filter_intent)])
           ''Filter jobs'' description
           (map (\<lambda>k. FilterSelect (fst (filterLabels k)) (snd (filterLabels k)) (filterOptions k options)
              (get_filter k values) (Change_filter k)) filterKeys)
           (filter_footer active Clear_filters) [(''onOpenChange'', On Filter_opened)])"

section \<open>Batches\<close>

fun created_literal :: "BatchCreatedRange \<Rightarrow> string" where
  "created_literal Hour = ''hour''"
| "created_literal Day = ''day''"
| "created_literal Week = ''week''"
| "created_literal Month = ''month''"

definition createdOptions :: "JobOption list" where
  "createdOptions =
     [\<lparr>jo_value = ''hour'', jo_label = ''Last hour''\<rparr>, \<lparr>jo_value = ''day'', jo_label = ''Last 24 hours''\<rparr>,
      \<lparr>jo_value = ''week'', jo_label = ''Last 7 days''\<rparr>, \<lparr>jo_value = ''month'', jo_label = ''Last 30 days''\<rparr>]"

text \<open>The range of the option that was chosen; every option is one.\<close>

definition created_range :: "string option \<Rightarrow> BatchCreatedRange option" where
  "created_range v =
     (case v of None \<Rightarrow> None | Some s \<Rightarrow> find (\<lambda>r. created_literal r = s) [Hour, Day, Week, Month])"

interpretation created: select_choice created_literal "created_range \<circ> select_passes" ALL_OPTIONS
proof unfold_locales
  show "(created_range \<circ> select_passes) (created_literal r) = Some r" for r
    by (cases r) (simp_all add: created_range_def select_passes_def ALL_OPTIONS_def)
qed (simp add: created_range_def select_passes_def)

definition active_batch_filters :: "BatchFilterValues \<Rightarrow> nat" where
  "active_batch_filters v =
     length (filter id [bf_queue v \<noteq> None, bf_connection v \<noteq> None, bf_created v \<noteq> None])"

datatype batch_filter_act = Change_queue | Change_connection | Change_created | Clear_batch_filters

text \<open>What the handlers pass on, for the value of the chosen item.\<close>

fun batch_filter_change :: "batch_filter_act \<Rightarrow> string \<Rightarrow> BatchFilterValues \<Rightarrow> BatchFilterValues" where
  "batch_filter_change Change_queue nextValue v = v\<lparr>bf_queue := select_passes nextValue\<rparr>"
| "batch_filter_change Change_connection nextValue v = v\<lparr>bf_connection := select_passes nextValue\<rparr>"
| "batch_filter_change Change_created nextValue v = v\<lparr>bf_created := created_range (select_passes nextValue)\<rparr>"
| "batch_filter_change Clear_batch_filters nextValue v = \<lparr>bf_queue = None, bf_connection = None, bf_created = None\<rparr>"

definition option_of :: "string \<Rightarrow> JobOption" where
  "option_of s = \<lparr>jo_value = s, jo_label = s\<rparr>"

definition BatchFilters ::
  "string list \<Rightarrow> string list \<Rightarrow> BatchFilterValues \<Rightarrow> bool \<Rightarrow> string option \<Rightarrow> batch_filter_act node" where
  "BatchFilters queues connections values attributionAvailable attributionMessage =
     (let active = active_batch_filters values
      in filter_dialog (filter_trigger (filter_label ''batches'' active) ''Filter batches'' active [])
           ''Filter batches''
           (if attributionAvailable
            then ''Narrow retained batches by queue, connection, or creation time. Historical batches without a recorded destination are inferred once from the queue configuration active when New Dawn first discovers them.''
            else ''Narrow retained batches by creation time. '' @
              nullish attributionMessage ''Run the Horizon New Dawn migration to enable queue and connection filters.'')
           (child_if attributionAvailable
              [FilterSelect ''Queue'' ''All queues'' (map option_of queues) (bf_queue values) Change_queue,
               FilterSelect ''Connection'' ''All connections'' (map option_of connections) (bf_connection values) Change_connection] @
            [FilterSelect ''Created'' ''Any time'' createdOptions (map_option created_literal (bf_created values)) Change_created])
           (filter_footer active Clear_batch_filters) [])"

end
