(* ===== verification/Batches_Index.thy ===== *)
theory Batches_Index
  imports Batch_Page Filters
begin

text \<open>
  The list of batches: \<^verbatim>\<open>resources/js/pages/batches/index.tsx\<close> with the types of its query from
  \<^verbatim>\<open>types/batches.ts\<close>. The list below the tabs loads further entries as \<open>Auto_Load\<close> says; here are the
  search with its timer, the visits the filters, tabs and columns ask for, and the page they show.

  The client library has one visit that changes the page under way; a newer one takes its place
  and the older is dropped. A visit's answer moves the page to its URL and brings the query and
  the filters that the server reads from it.
\<close>

section \<open>Data\<close>

record BatchQueryFilters = BatchFilterValues +
  bq_status :: "BatchStatus option" \<comment> \<open>\<open>None\<close> is all\<close>
  bq_sort :: BatchSort
  bq_direction :: SortDirection

record BatchQueryCapability =
  bqc_supported :: bool
  bqc_message :: "string option"
  bqc_attributionSupported :: bool
  bqc_attributionMessage :: "string option"

fun batch_status_literal :: "BatchStatus \<Rightarrow> string" where
  "batch_status_literal Batch_pending = ''pending''"
| "batch_status_literal Batch_failures = ''failures''"
| "batch_status_literal Batch_finished = ''finished''"
| "batch_status_literal Batch_cancelled = ''cancelled''"

fun batch_sort_literal :: "BatchSort \<Rightarrow> string" where
  "batch_sort_literal By_name = ''name''"
| "batch_sort_literal By_totalJobs = ''totalJobs''"
| "batch_sort_literal By_pendingJobs = ''pendingJobs''"
| "batch_sort_literal By_failedJobs = ''failedJobs''"
| "batch_sort_literal By_progress = ''progress''"
| "batch_sort_literal By_createdAt = ''createdAt''"

definition status_scope :: "BatchStatus option \<Rightarrow> string" where
  "status_scope s = (case s of None \<Rightarrow> ''all'' | Some t \<Rightarrow> batch_status_literal t)"

definition batchTabs :: "(string \<times> BatchStatus) list" where
  "batchTabs =
     [(''Pending'', Batch_pending), (''Complete'', Batch_finished), (''Incomplete'', Batch_failures),
      (''Cancelled'', Batch_cancelled)]"

fun emptyBatchStatusCopy :: "BatchStatus \<Rightarrow> string \<times> string" where
  "emptyBatchStatusCopy Batch_pending = (''No pending batches'', ''Horizon is not reporting any pending batches.'')"
| "emptyBatchStatusCopy Batch_finished = (''No complete batches'', ''Horizon is not reporting any complete batches.'')"
| "emptyBatchStatusCopy Batch_failures = (''No incomplete batches'', ''Horizon is not reporting any incomplete batches.'')"
| "emptyBatchStatusCopy Batch_cancelled = (''No cancelled batches'', ''Horizon is not reporting any cancelled batches.'')"

definition index_sort_columns :: "BatchSort list" where
  "index_sort_columns = [By_name, By_totalJobs, By_failedJobs, By_progress, By_createdAt]"

definition emptyBatchFilters :: BatchQueryFilters where
  "emptyBatchFilters =
     \<lparr>bf_queue = None, bf_connection = None, bf_created = None, bq_status = None, bq_sort = By_createdAt,
      bq_direction = Desc\<rparr>"

definition unavailableBatchQuery :: BatchQueryCapability where
  "unavailableBatchQuery =
     \<lparr>bqc_supported = False, bqc_message = Some ''Exact retained batch filters and sorting are unavailable.'',
      bqc_attributionSupported = False,
      bqc_attributionMessage = Some ''Batch queue and connection attribution is unavailable.''\<rparr>"

definition filterScope :: "string \<Rightarrow> BatchQueryFilters \<Rightarrow> string" where
  "filterScope query filters =
     join '':''
       [query, nullish (bf_queue filters) [], nullish (bf_connection filters) [],
        (case bf_created filters of None \<Rightarrow> [] | Some r \<Rightarrow> created_literal r),
        status_scope (bq_status filters), batch_sort_literal (bq_sort filters), direction_text (bq_direction filters)]"

text \<open>The options of a filter, with the active one; \<open>collate\<close> is the comparison without regard to case.\<close>

definition batchFilterOptions :: "(string \<Rightarrow> string \<Rightarrow> rat) \<Rightarrow> string list \<Rightarrow> string option \<Rightarrow> string list" where
  "batchFilterOptions collate vs active =
     (let options = (case active of None \<Rightarrow> vs | Some a \<Rightarrow> vs @ [a])
      in sort_by (\<lambda>left right. Num (collate left right)) (uniq (filter (\<lambda>v. v \<noteq> []) options)))"

section \<open>Search and visits\<close>

text \<open>\<open>ix_timer\<close> is the armed timer with the search its callback closed over.\<close>

record batches_view =
  ix_search :: string
  ix_query :: string
  ix_filters :: BatchQueryFilters
  ix_location :: url
  ix_timer :: "string option"
  ix_visit :: "string option"

text \<open>The URL of a visit, from the page's URL at the time; \<open>index\<close> is the resolved route of the list.\<close>

definition index_visit :: "string \<Rightarrow> (string \<times> QueryParameterValue) list \<Rightarrow> batches_view \<Rightarrow> batches_view" where
  "index_visit index parameters v =
     v\<lparr>ix_visit := Some (urlWithCurrentQuery (ix_location v) index parameters [''before_id''])\<rparr>"

text \<open>The effect of the search: its cleanup clears the timer of the effect before.\<close>

definition search_effect :: "batches_view \<Rightarrow> batches_view" where
  "search_effect v = v\<lparr>ix_timer := (if trim (ix_search v) = ix_query v then None else Some (trim (ix_search v)))\<rparr>"

definition set_search :: "string \<Rightarrow> batches_view \<Rightarrow> batches_view" where
  "set_search s v = (if s = ix_search v then v else search_effect (v\<lparr>ix_search := s\<rparr>))"

definition search_due :: "string \<Rightarrow> batches_view \<Rightarrow> batches_view" where
  "search_due index v =
     (case ix_timer v of
        None \<Rightarrow> v
      | Some s \<Rightarrow> index_visit index [(''query'', QString s)] (v\<lparr>ix_timer := None\<rparr>))"

definition null_or :: "string option \<Rightarrow> QueryParameterValue" where
  "null_or v = (case v of None \<Rightarrow> QNull | Some s \<Rightarrow> QString s)"

definition updateFilters :: "string \<Rightarrow> BatchFilterValues \<Rightarrow> batches_view \<Rightarrow> batches_view" where
  "updateFilters index f =
     index_visit index
       [(''queue'', null_or (bf_queue f)), (''connection'', null_or (bf_connection f)),
        (''created'', null_or (map_option created_literal (bf_created f)))]"

definition updateStatus :: "string \<Rightarrow> BatchStatus \<Rightarrow> batches_view \<Rightarrow> batches_view" where
  "updateStatus index status = index_visit index [(''status'', QString (batch_status_literal status))]"

definition updateSort :: "string \<Rightarrow> string \<Rightarrow> batches_view \<Rightarrow> batches_view" where
  "updateSort index s v =
     (let direction = (if batch_sort_literal (bq_sort (ix_filters v)) = s \<and> bq_direction (ix_filters v) = Asc
                       then Desc else Asc)
      in index_visit index [(''sort'', QString s), (''direction'', QString (direction_text direction))] v)"

text \<open>\<open>server\<close> reads the query and the filters from a URL. The effect runs when the query has changed.\<close>

definition answer :: "(url \<Rightarrow> string \<times> BatchQueryFilters) \<Rightarrow> batches_view \<Rightarrow> batches_view" where
  "answer server v =
     (case ix_visit v of
        None \<Rightarrow> v
      | Some target \<Rightarrow>
          let u = new_URL target (origin (ix_location v));
              w = v\<lparr>ix_visit := None, ix_location := u, ix_query := fst (server u), ix_filters := snd (server u)\<rparr>
          in if ix_query w = ix_query v then w else search_effect w)"

datatype index_event =
    Search_typed string
  | Search_due
  | Filters_chosen BatchFilterValues
  | Status_chosen BatchStatus
  | Column_chosen string
  | Visit_answered

fun index_step :: "string \<Rightarrow> (url \<Rightarrow> string \<times> BatchQueryFilters) \<Rightarrow> index_event \<Rightarrow> batches_view \<Rightarrow> batches_view" where
  "index_step index server (Search_typed s) v = set_search s v"
| "index_step index server Search_due v = search_due index v"
| "index_step index server (Filters_chosen f) v = updateFilters index f v"
| "index_step index server (Status_chosen s) v = updateStatus index s v"
| "index_step index server (Column_chosen c) v = updateSort index c v"
| "index_step index server Visit_answered v = answer server v"

definition mount_index :: "(url \<Rightarrow> string \<times> BatchQueryFilters) \<Rightarrow> url \<Rightarrow> batches_view" where
  "mount_index server location =
     search_effect \<lparr>ix_search = fst (server location), ix_query = fst (server location), ix_filters = snd (server location),
       ix_location = location, ix_timer = None, ix_visit = None\<rparr>"

definition index_run ::
  "string \<Rightarrow> (url \<Rightarrow> string \<times> BatchQueryFilters) \<Rightarrow> url \<Rightarrow> index_event list \<Rightarrow> batches_view" where
  "index_run index server location es = fold (index_step index server) es (mount_index server location)"

text \<open>Whether the list is refreshed by itself.\<close>

definition index_polling :: "batches_view \<Rightarrow> bool" where
  "index_polling v \<longleftrightarrow> trim (ix_search v) = ix_query v"

section \<open>The page\<close>

definition batchSetupCommands :: string where
  "batchSetupCommands = ''php artisan make:queue-batches-table'' @ [CHR 0x0A] @ ''php artisan migrate''"

text \<open>\<open>message.includes(part)\<close>.\<close>

definition text_includes :: "string \<Rightarrow> string \<Rightarrow> bool" where
  "text_includes s part \<longleftrightarrow> list_ex (\<lambda>n. prefix part (drop n s)) [0..<Suc (length s)]"

definition BatchesStorageUnavailable :: "string option \<Rightarrow> json_action node list" where
  "BatchesStorageUnavailable message =
     (let showSetupCommands = (case message of None \<Rightarrow> True | Some m \<Rightarrow> text_includes m ''make:queue-batches-table'')
      in [El ''Head'' [(''title'', Str ''Batches'')] [],
          El ''Card'' []
            [ListPageHeader ''Batches'' [],
             El ''CardContent'' []
               [El ''Empty'' []
                  ([El ''EmptyHeader'' []
                      [El ''EmptyMedia'' [] [El ''DatabaseIcon'' [] []],
                       text_of ''EmptyTitle'' ''Job batching is not configured'',
                       text_of ''EmptyDescription''
                         (if showSetupCommands then ''Run the batches migration to enable job batching.''
                          else nullish message ''Batches are currently unavailable.'')]] @
                   child_if showSetupCommands
                     [El ''EmptyContent'' []
                        [CodeBlock ''commands'' (Some batchSetupCommands) [text_of ''code'' batchSetupCommands]]])]]])"

definition BatchActionsControl ::
  "(int \<Rightarrow> string) \<Rightarrow> BatchClearCounts \<Rightarrow> (BatchClearScope option, bool, batch_request) action_menu \<Rightarrow>
   BatchClearScope option menu_act node list" where
  "BatchActionsControl toLocaleString counts m =
     (case bcc_message counts of
        Some message \<Rightarrow>
          if bcc_completeScan counts then BatchesActions toLocaleString counts m
          else [El ''Tooltip'' []
                  [El ''TooltipTrigger'' []
                     [El ''render'' []
                        [El ''Button''
                           [(''type'', Str ''button''), (''aria-label'', Str (''Batch actions unavailable. '' @ message)),
                            (''aria-disabled'', Str ''true'')] []],
                      El ''EllipsisIcon'' [] []],
                   text_of ''TooltipContent'' message]]
      | None \<Rightarrow> BatchesActions toLocaleString counts m)"

definition hasActiveQuery :: "batches_view \<Rightarrow> bool" where
  "hasActiveQuery v \<longleftrightarrow> ix_query v \<noteq> [] \<or> bf_queue (ix_filters v) \<noteq> None \<or> bf_connection (ix_filters v) \<noteq> None \<or>
     bf_created (ix_filters v) \<noteq> None"

definition index_empty :: "batches_view \<Rightarrow> (string \<times> string) option" where
  "index_empty v =
     (if hasActiveQuery v then Some (''No matching batches'', ''No retained batches match the current query.'')
      else map_option emptyBatchStatusCopy (bq_status (ix_filters v)))"

definition index_table_props :: "batches_view \<Rightarrow> bool \<Rightarrow> string option \<Rightarrow> bool \<Rightarrow> BatchQueryCapability \<Rightarrow> table_props" where
  "index_table_props v available message hasNewEntries capability =
     \<lparr>tp_available = available, tp_message = message, tp_hasNewEntries = hasNewEntries, tp_onLoadNewEntries = True,
      tp_emptyTitle = map_option fst (index_empty v), tp_emptyDescription = map_option snd (index_empty v),
      tp_sorting = (if bqc_supported capability
        then Some \<lparr>cs_key = Some (batch_sort_literal (bq_sort (ix_filters v))), cs_direction = bq_direction (ix_filters v),
                   cs_columns = map batch_sort_literal index_sort_columns\<rparr> else None)\<rparr>"

datatype index_act =
    Index_table "operation menu_act table_act"
  | Index_menu "BatchClearScope option menu_act"
  | Index_filter batch_filter_act
  | Choose_status
  | Type_search
  | Clear_search_text

text \<open>What the page takes from the server beside the query, and from its surroundings.\<close>

record batches_props =
  bx_rows :: "BatchRow list"
  bx_available :: bool
  bx_message :: "string option"
  bx_counts :: "BatchStatus \<Rightarrow> rat"
  bx_clear :: BatchClearCounts
  bx_catalog :: BatchFilterCatalog
  bx_capability :: BatchQueryCapability
  bx_newEntries :: bool

definition index_results :: "table_env \<Rightarrow> batches_props \<Rightarrow> batches_view \<Rightarrow> index_act node" where
  "index_results e p v =
     El ''InfiniteScroll''
       [(''key'', Str (filterScope (ix_query v) (ix_filters v) @ '':'' @ (if bx_available p then ''true'' else ''false''))),
        (''data'', Str ''batches'')]
       (embed Index_table
          (BatchTable e (index_table_props v (bx_available p) (bx_message p) (bx_newEntries p) (bx_capability p)) True
             (bx_rows p)))"

definition search_field :: "batches_view \<Rightarrow> index_act node" where
  "search_field v =
     El ''Field'' []
       [text_of ''FieldLabel'' ''Search batches by name or ID'',
        El ''InputGroup'' []
          ([El ''InputGroupInput''
              [(''type'', Str ''text''), (''value'', Str (ix_search v)), (''aria-label'', Str ''Search batches by name or ID''),
               (''placeholder'', Str ''Search batches by name or ID''), (''onChange'', On Type_search)] [],
            El ''SearchIcon'' [(''aria-hidden'', Str ''true'')] []] @
           child_if (ix_search v \<noteq> [])
             [El ''InputGroupButton'' [(''aria-label'', Str ''Clear search''), (''onClick'', On Clear_search_text)] []])]"

definition status_label :: "BatchStatus option \<Rightarrow> string" where
  "status_label status =
     (case find (\<lambda>(_, t). Some t = status) batchTabs of Some (label, _) \<Rightarrow> label | None \<Rightarrow> [])"

definition BatchesIndexContent ::
  "(string \<Rightarrow> string \<Rightarrow> rat) \<Rightarrow> (rat \<Rightarrow> string) \<Rightarrow> table_env \<Rightarrow> batches_props \<Rightarrow> batches_view \<Rightarrow>
   (BatchClearScope option, bool, batch_request) action_menu \<Rightarrow> index_act node list" where
  "BatchesIndexContent collate shown_count e p v m =
     (let filters = ix_filters v; capability = bx_capability p
      in [El ''Head'' [(''title'', Str ''Batches'')] [],
          El ''Card'' []
            [ListPageHeader ''Batches'' (embed Index_menu (BatchActionsControl (te_number e) (bx_clear p) m)),
             El ''CardContent'' []
               (if bqc_supported capability
                then [El ''Tabs'' [(''value'', Str (status_scope (bq_status filters))), (''onValueChange'', On Choose_status)]
                        [map_node (\<lambda>a. case a of Select_tab \<Rightarrow> Choose_status | Own x \<Rightarrow> x)
                           (ResponsiveTabsHeader (status_scope (bq_status filters))
                              (map (\<lambda>(label, t). \<lparr>tab_value = batch_status_literal t, tab_label = label,
                                      tab_count = Some (shown_count (bx_counts p t)), tab_render = []\<rparr>) batchTabs)
                              ''Batch status'' []),
                         El ''div'' []
                           [search_field v,
                            map_node Index_filter
                              (BatchFilters (batchFilterOptions collate (bfc_queues (bx_catalog p)) (bf_queue filters))
                                 (batchFilterOptions collate (bfc_connections (bx_catalog p)) (bf_connection filters))
                                 (BatchFilterValues.truncate filters) (bqc_attributionSupported capability)
                                 (bqc_attributionMessage capability))],
                         El ''h2'' [] [Text (status_label (bq_status filters) @ '' batches'')],
                         El ''TabsContent'' [(''value'', Str (status_scope (bq_status filters)))] [index_results e p v]]]
                else [El ''Alert'' [(''variant'', Str ''warning'')]
                        [El ''TriangleAlertIcon'' [] [],
                         text_of ''AlertTitle'' ''Exact batch queries unavailable'',
                         text_of ''AlertDescription''
                           (nullish (bqc_message capability)
                              (''This batch repository supports only Laravel'' @ [CHR 0x27] @ ''s standard retained order.''))],
                      index_results e p v])]])"

section \<open>The search reaches the list\<close>

text \<open>The route of the list is a path, and the server takes the query from the URL.\<close>

definition index_ok :: "string \<Rightarrow> bool" where
  "index_ok index \<longleftrightarrow> take 1 index = ''/'' \<and> CHR ''?'' \<notin> set index \<and> CHR ''#'' \<notin> set index"

definition reads_query :: "(url \<Rightarrow> string \<times> BatchQueryFilters) \<Rightarrow> bool" where
  "reads_query server \<longleftrightarrow> (\<forall>u. fst (server u) = nullish (currentQueryParameter u ''query'') [])"

lemma index_url:
  "index_ok index \<Longrightarrow> new_URL index b = \<lparr>origin = b, pathname = index, query_text = [], fragment_text = []\<rparr>"
  using new_URL_relative [of "\<lparr>origin = b, pathname = index, query_text = [], fragment_text = []\<rparr>" b]
  by (simp add: index_ok_def url_ok_def url_search_def url_hash_def)

lemma origin_query_url: "origin (query_url current destination ps rs) = origin (new_URL destination (origin current))"
proof -
  have c: "origin (fold copy_missing ps u) = origin u" for ps u
    by (induction ps arbitrary: u) (simp_all add: copy_missing_def)
  have r: "origin (fold remove_parameter rs u) = origin u" for rs u
    by (induction rs arbitrary: u) (simp_all add: remove_parameter_def)
  show ?thesis
    by (simp add: query_url_def Let_def c r)
qed

text \<open>Where the answer of a visit moves the page: every parameter of its URL.\<close>

lemma visited_url:
  assumes "index_ok index"
  shows "new_URL (urlWithCurrentQuery u index ps rs) (origin u) = query_url u index ps rs \<and>
    url_ok (query_url u index ps rs)"
proof -
  let ?q = "query_url u index ps rs"
  note i = index_url [OF assms, of "origin u"]
  have ok: "url_ok ?q"
    using assms by (intro url_ok_query_url) (simp add: i url_ok_def index_ok_def)
  moreover have "new_URL (relativeUrl ?q) (origin u) = ?q"
    using new_URL_relative [OF ok, of "origin u"] by (simp add: relativeUrl_def origin_query_url i)
  ultimately show ?thesis
    by (simp add: urlWithCurrentQuery_def)
qed

lemma visited_removing:
  assumes "index_ok index" "distinct (map fst ps)"
  shows "currentQueryParameter (new_URL (urlWithCurrentQuery u index ps rs) (origin u)) n =
    (case map_of ps n of Some v \<Rightarrow> wanted v
     | None \<Rightarrow> if n \<in> set rs then None else currentQueryParameter u n)"
proof -
  have e: "params_get m (searchParams (new_URL index (origin u))) = None" for m
    by (simp add: index_url [OF assms(1)] searchParams_def parse_params_def params_get_def)
  show ?thesis
    unfolding conjunct1 [OF visited_url [OF assms(1)]] currentQueryParameter_def query_url_get [OF assms(2)] e
    by (simp split: option.split)
qed

lemmas visited_get = visited_removing [where rs = "[''before_id'']", simplified list.set insert_iff empty_iff simp_thms]

fun choice :: "index_event \<Rightarrow> bool" where
  "choice (Filters_chosen f) \<longleftrightarrow> True"
| "choice (Status_chosen s) \<longleftrightarrow> True"
| "choice (Column_chosen c) \<longleftrightarrow> True"
| "choice e \<longleftrightarrow> False"

text \<open>A run in which filters, tabs and columns are chosen only when no visit is under way.\<close>

fun calm :: "string \<Rightarrow> (url \<Rightarrow> string \<times> BatchQueryFilters) \<Rightarrow> index_event list \<Rightarrow> batches_view \<Rightarrow> bool" where
  "calm index server [] v \<longleftrightarrow> True"
| "calm index server (e # es) v \<longleftrightarrow> (choice e \<longrightarrow> ix_visit v = None) \<and> calm index server es (index_step index server e v)"

definition search_inv :: "(url \<Rightarrow> string \<times> BatchQueryFilters) \<Rightarrow> batches_view \<Rightarrow> bool" where
  "search_inv server v \<longleftrightarrow>
     (case ix_timer v of
        Some s \<Rightarrow> s = trim (ix_search v)
      | None \<Rightarrow> trim (ix_search v) = ix_query v \<or>
          (\<exists>t. ix_visit v = Some t \<and> fst (server (new_URL t (origin (ix_location v)))) = trim (ix_search v)))"

lemma search_inv_effect: "search_inv server (search_effect v)"
  by (simp add: search_inv_def search_effect_def)

lemma search_inv_due:
  assumes "index_ok index" "reads_query server" "search_inv server v"
  shows "search_inv server (search_due index v)"
proof (cases "ix_timer v")
  case (Some s)
  have "fst (server (new_URL (urlWithCurrentQuery (ix_location v) index [(''query'', QString s)] [''before_id''])
      (origin (ix_location v)))) = s"
    using assms(2) visited_get [OF assms(1), of "[(''query'', QString s)]" "ix_location v" "''query''"]
    by (simp add: reads_query_def wanted_def)
  with Some assms(3) show ?thesis
    by (simp add: search_inv_def search_due_def index_visit_def)
qed (use assms in \<open>simp add: search_due_def\<close>)

lemma search_inv_answer:
  assumes "search_inv server v"
  shows "search_inv server (answer server v)"
proof (cases "ix_visit v")
  case (Some t)
  let ?u = "new_URL t (origin (ix_location v))"
  show ?thesis
  proof (cases "fst (server ?u) = ix_query v")
    case True
    with assms Some show ?thesis
      by (simp add: answer_def search_inv_def Let_def split: option.splits) metis
  next
    case False
    with Some show ?thesis
      by (simp add: answer_def search_inv_effect Let_def)
  qed
qed (use assms in \<open>simp add: answer_def\<close>)

lemma search_inv_choice: "search_inv server v \<Longrightarrow> ix_visit v = None \<Longrightarrow> search_inv server (index_visit index ps v)"
  by (auto simp: search_inv_def index_visit_def split: option.splits)

lemma search_inv_step:
  assumes "index_ok index" "reads_query server" "search_inv server v" "choice e \<longrightarrow> ix_visit v = None"
  shows "search_inv server (index_step index server e v)"
  using assms search_inv_due search_inv_effect search_inv_answer search_inv_choice
  by (cases e) (auto simp: set_search_def updateFilters_def updateStatus_def updateSort_def Let_def)

lemma search_inv_run:
  assumes "index_ok index" "reads_query server"
  shows "search_inv server v \<Longrightarrow> calm index server es v \<Longrightarrow> search_inv server (fold (index_step index server) es v)"
  using search_inv_step [OF assms] by (induction es arbitrary: v) simp_all

lemma settles_after:
  assumes "index_ok index" "reads_query server" "search_inv server v" "ix_timer v \<noteq> None"
    and "w = index_step index server Visit_answered (index_step index server Search_due v)"
  shows "ix_timer w = None \<and> ix_visit w = None \<and> trim (ix_search w) = ix_query w"
proof -
  obtain s where s: "ix_timer v = Some s" "trim (ix_search v) = s"
    using assms(3,4) by (auto simp: search_inv_def)
  let ?u = "new_URL (urlWithCurrentQuery (ix_location v) index [(''query'', QString s)] [''before_id'']) (origin (ix_location v))"
  have "fst (server ?u) = s"
    using assms(2) visited_get [OF assms(1), of "[(''query'', QString s)]" "ix_location v" "''query''"]
    by (simp add: reads_query_def wanted_def)
  with s show ?thesis
    unfolding assms(5)
    by (cases "ix_query v = s") (simp_all add: search_due_def answer_def index_visit_def search_effect_def Let_def)
qed


definition sample_server :: "url \<Rightarrow> string \<times> BatchQueryFilters" where
  "sample_server u = (nullish (currentQueryParameter u ''query'') [], emptyBatchFilters)"

lemma sample_server_reads: "reads_query sample_server"
  by (simp add: reads_query_def sample_server_def)

lemma sample_index: "index_ok ''/horizon/batches''"
  by (simp add: index_ok_def)


text \<open>
  C14: a choice drops the search under way, and the search a choice. When a tab of the list is
  chosen after the timer of a search has run and before its answer, the search's visit is dropped
  and nothing sends it again: once all is answered the field still shows the search, the list is
  that of the old query, no timer is armed and the list no longer refreshes itself. And a tab that
  is chosen while a timer is armed is dropped in turn when the timer runs before the tab's answer:
  the page stays at the old status.
\<close>

theorem lost_search:
  assumes "index_ok index" "reads_query server" "trim s \<noteq> fst (server location)"
  shows "(let v = index_run index server location [Search_typed s, Search_due, Status_chosen status, Visit_answered]
      in ix_search v = s \<and> ix_query v = fst (server location) \<and> ix_timer v = None \<and> ix_visit v = None \<and>
         \<not> index_polling v) \<and>
    (let v = index_run index server location [Search_typed s, Status_chosen status, Search_due, Visit_answered]
      in ix_query v = trim s \<and> ix_timer v = None \<and> ix_visit v = None \<and>
         currentQueryParameter (ix_location v) ''status'' = currentQueryParameter location ''status'')"
proof -
  let ?v0 = "mount_index server location"
  have m: "ix_location ?v0 = location" "ix_query ?v0 = fst (server location)" "ix_search ?v0 = fst (server location)"
    "ix_visit ?v0 = None" by (simp_all add: mount_index_def search_effect_def)
  have q: "fst (server u) = nullish (currentQueryParameter u ''query'') []" for u
    using assms(2) by (simp add: reads_query_def)
  let ?status = "[(''status'', QString (batch_status_literal status))]" and ?query = "[(''query'', QString (trim s))]"
  define a where "a = new_URL (urlWithCurrentQuery location index ?status [''before_id'']) (origin location)"
  define b where "b = new_URL (urlWithCurrentQuery location index ?query [''before_id'']) (origin location)"
  have a: "fst (server a) = fst (server location)"
    unfolding q a_def using visited_get [OF assms(1), of ?status location "''query''"] by simp
  have b: "fst (server b) = trim s" "currentQueryParameter b ''status'' = currentQueryParameter location ''status''"
    using visited_get [OF assms(1), of ?query location] unfolding q b_def by (simp_all add: wanted_def)
  have typed: "set_search s ?v0 = ?v0\<lparr>ix_search := s, ix_timer := Some (trim s)\<rparr>"
    using assms(3)
    by (cases "s = fst (server location)") (simp_all add: set_search_def search_effect_def mount_index_def)
  have "index_run index server location [Search_typed s, Search_due, Status_chosen status, Visit_answered] =
      ?v0\<lparr>ix_search := s, ix_timer := None, ix_visit := None, ix_location := a, ix_filters := snd (server a)\<rparr>"
    using m a by (simp add: index_run_def typed search_due_def updateStatus_def index_visit_def answer_def Let_def a_def [symmetric])
  moreover have "index_run index server location [Search_typed s, Status_chosen status, Search_due, Visit_answered] =
      ?v0\<lparr>ix_search := s, ix_timer := None, ix_visit := None, ix_location := b, ix_query := trim s,
        ix_filters := snd (server b)\<rparr>"
    using m b assms(3)
    by (simp add: index_run_def typed search_due_def updateStatus_def index_visit_def answer_def search_effect_def Let_def
        b_def [symmetric])
  ultimately show ?thesis
    using m assms(3) b by (simp add: index_polling_def Let_def)
qed

theorem lost_search_witness:
  "let v = index_run ''/horizon/batches'' sample_server jobs_url [Search_typed ''mail'', Search_due, Status_chosen Batch_finished, Visit_answered]
   in ix_search v = ''mail'' \<and> ix_query v = [] \<and> \<not> index_polling v"
proof -
  have q: "fst (sample_server jobs_url) = []"
    by (simp add: sample_server_def currentQueryParameter_def jobs_url_def searchParams_def parse_params_def parse_pair_def
        params_get_def)
  then have "trim ''mail'' \<noteq> fst (sample_server jobs_url)"
    by (simp add: trim_def is_space_def)
  from lost_search [OF sample_index sample_server_reads this] q show ?thesis
    by (simp add: Let_def)
qed

section \<open>Options of a filter\<close>

lemma distinct_positions: "distinct xs \<Longrightarrow> \<exists>pos :: 'a \<Rightarrow> nat. sorted_wrt (\<lambda>a b. pos a < pos b) xs"
proof (induction xs)
  case (Cons x xs)
  then obtain pos :: "'a \<Rightarrow> nat" where p: "sorted_wrt (\<lambda>a b. pos a < pos b) xs" by auto
  let ?pos = "\<lambda>a. if a = x then 0 else Suc (pos a)"
  have "sorted_wrt (\<lambda>a b. ?pos a < ?pos b) xs"
    using Cons.prems by (intro sorted_wrt_mono_rel [OF _ p]) auto
  then have "sorted_wrt (\<lambda>a b. ?pos a < ?pos b) (x # xs)"
    using Cons.prems by auto
  then show ?case by (rule exI [where x = ?pos])
qed simp

lemma sorted_sort_by_distinct:
  assumes "consistent (\<lambda>a b. order_sign (cmp a b)) (set xs)" "distinct xs"
  shows "sorted_wrt (\<lambda>a b. order_sign (cmp a b) \<le> 0) (sort_by cmp xs)"
proof -
  obtain pos :: "'a \<Rightarrow> nat" where "sorted_wrt (\<lambda>a b. pos a < pos b) xs"
    using distinct_positions [OF assms(2)] by blast
  from sorted_sort_by [OF assms(1) this] show ?thesis
    by (rule sorted_wrt_mono_rel [rotated]) (auto simp: stably_before_def)
qed

text \<open>
  A filter offers each value once. The options hold exactly the values of the catalogue that
  are not empty, and the active one, each exactly once, and they stand in the order of the collator.
\<close>

lemma filter_options_exact:
  assumes "collator_law collate"
  shows "set (batchFilterOptions collate vs active) = (set vs \<union> set_option active) - {[]} \<and>
    distinct (batchFilterOptions collate vs active) \<and>
    sorted_wrt (\<lambda>a b. collate a b \<le> 0) (batchFilterOptions collate vs active)"
proof -
  let ?o = "uniq (filter (\<lambda>v. v \<noteq> []) (case active of None \<Rightarrow> vs | Some a \<Rightarrow> vs @ [a]))"
  let ?cmp = "\<lambda>left right. Num (collate left right)"
  have m: "mset (batchFilterOptions collate vs active) = mset ?o"
    unfolding batchFilterOptions_def Let_def by (rule mset_sort_by)
  then have "set (batchFilterOptions collate vs active) = set ?o" "distinct (batchFilterOptions collate vs active)"
    by (metis set_mset_mset, metis distinct_uniq mset_eq_imp_distinct_iff)
  moreover have "set ?o = (set vs \<union> set_option active) - {[]}"
    by (cases active) auto
  moreover have "sorted_wrt (\<lambda>a b. order_sign (?cmp a b) \<le> 0) (sort_by ?cmp ?o)"
  proof (rule sorted_sort_by_distinct)
    show "consistent (\<lambda>a b. order_sign (?cmp a b)) (set ?o)"
      using assms unfolding collator_law_def consistent_def by blast
  qed simp
  then have "sorted_wrt (\<lambda>a b. collate a b \<le> 0) (batchFilterOptions collate vs active)"
    unfolding batchFilterOptions_def Let_def
    by (rule sorted_wrt_mono_rel [rotated]) (auto split: if_splits)
  ultimately show ?thesis by blast
qed

end
