(* ===== verification/Jobs_Index.thy ===== *)
theory Jobs_Index
  imports Batches_Index Job_Query
begin

text \<open>
  The lists of jobs: \<^verbatim>\<open>resources/js/components/jobs/jobs-page.tsx\<close>, \<^verbatim>\<open>pages/jobs/index.tsx\<close> and
  \<^verbatim>\<open>pages/failed-jobs/index.tsx\<close>. The search and the filters are those of \<open>Job_Query\<close>, whose
  submissions are visits here; the entries are loaded as \<open>Auto_Load\<close> says. The scope of a list is
  its type, or the failed jobs. The routes' URLs and the texts of counts are arguments.
\<close>

section \<open>The frame of the lists\<close>

fun scope_text :: "job_scope \<Rightarrow> string" where
  "scope_text (List_scope t) = type_text t"
| "scope_text Failed_scope = ''failed''"

definition jobs_tabs :: "(string \<times> job_scope) list" where
  "jobs_tabs =
     [(''Pending'', List_scope PendingList), (''Failed'', Failed_scope), (''Completed'', List_scope CompletedList),
      (''Silenced'', List_scope SilencedList)]"

text \<open>The tab of the page's navigation entry; other entries show the pending jobs.\<close>

definition active_jobs_tab :: "HorizonNavigation \<Rightarrow> job_scope" where
  "active_jobs_tab nav =
     (case nav of
        NavPending \<Rightarrow> List_scope PendingList | NavFailed \<Rightarrow> Failed_scope
      | NavCompleted \<Rightarrow> List_scope CompletedList | NavSilenced \<Rightarrow> List_scope SilencedList
      | _ \<Rightarrow> List_scope PendingList)"

definition scope_count :: "NavigationCounts \<Rightarrow> job_scope \<Rightarrow> rat option" where
  "scope_count c scope =
     (case scope of
        Failed_scope \<Rightarrow> nc_failed c
      | List_scope PendingList \<Rightarrow> nc_pending c
      | List_scope CompletedList \<Rightarrow> nc_completed c
      | List_scope SilencedList \<Rightarrow> nc_silenced c)"

definition resolved_tabs :: "(job_scope \<Rightarrow> string) \<Rightarrow> NavigationCounts option \<Rightarrow> TabbedResultsTab list" where
  "resolved_tabs tab_url counts =
     map (\<lambda>(label, scope). \<lparr>trt_count = (case counts of None \<Rightarrow> None | Some c \<Rightarrow> scope_count c scope),
            trt_href = tab_url scope, trt_label = label, trt_preserveState = None, trt_value = scope_text scope\<rparr>)
       jobs_tabs"

text \<open>The props of the page inside: of a list of its type, or of the failed jobs.\<close>

datatype jobs_page_props = List_page JobsPageProps | Failed_page FailedJobsPageProps

datatype jobs_layout_act =
    Pending_action "PendingCancellationScope option menu_act"
  | Failed_action "operation menu_act"

record jobs_menus =
  jm_pending :: "(PendingCancellationScope option, bool, pending_request) action_menu"
  jm_failed :: "(bool, bool, job_request) action_menu"

definition pending_action_props :: "JobsPageProps \<Rightarrow> pending_jobs_props" where
  "pending_action_props p =
     \<lparr>pp_disabled = (\<not> jc_available (jp_jobs p) \<or> \<not> (case jp_pendingCounts p of Some c \<Rightarrow> pc_available c | None \<Rightarrow> False)),
      pp_queue = None,
      pp_ready = Option.bind (jp_pendingCounts p) pc_ready,
      pp_delayed = Option.bind (jp_pendingCounts p) pc_delayed\<rparr>"

definition jobsActions :: "jobs_page_props \<Rightarrow> job_scope \<Rightarrow> jobs_menus \<Rightarrow> jobs_layout_act node list" where
  "jobsActions p activeTab m =
     (case (activeTab, p) of
        (List_scope PendingList, List_page props) \<Rightarrow>
          if jp_type props = PendingList
          then embed Pending_action (PendingJobsActions (pending_action_props props) (jm_pending m)) else []
      | (Failed_scope, Failed_page props) \<Rightarrow>
          embed Failed_action (FailedJobsActionsMenu (fjp_actions props) (jm_failed m))
      | _ \<Rightarrow> [])"

definition JobsLayout ::
  "(rat \<Rightarrow> string) \<Rightarrow> (job_scope \<Rightarrow> string) \<Rightarrow> NavigationCounts option \<Rightarrow> HorizonNavigation \<Rightarrow> jobs_page_props \<Rightarrow> jobs_menus \<Rightarrow>
   jobs_layout_act node list \<Rightarrow> jobs_layout_act tabs_action node" where
  "JobsLayout shown_count tab_url counts nav p m children =
     (let activeTab = active_jobs_tab nav
      in TabbedResultsLayout shown_count ''Jobs'' (scope_text activeTab) (resolved_tabs tab_url counts) ''Job status''
           (jobsActions p activeTab m)
           [El ''TabsContent'' [(''value'', Str (scope_text activeTab))] children])"

definition jobs_heading :: "job_scope \<Rightarrow> string" where
  "jobs_heading activeTab =
     (case find (\<lambda>(_, scope). scope = activeTab) jobs_tabs of
        Some (label, _) \<Rightarrow> label @ '' jobs'' | None \<Rightarrow> ''undefined jobs'')"

section \<open>Submitting a query\<close>

text \<open>The parameter of the search, and the parameters of a submission.\<close>

definition search_parameter :: "job_scope \<Rightarrow> string" where
  "search_parameter scope = (if scope = Failed_scope then ''tag'' else ''query'')"

definition query_parameters :: "job_scope \<Rightarrow> string \<Rightarrow> JobFilterValues \<Rightarrow> (string \<times> QueryParameterValue) list" where
  "query_parameters scope nextQuery f =
     [(search_parameter scope, QString nextQuery), (''filter_job'', null_or (jf_job f)),
      (''filter_queue'', null_or (jf_queue f)), (''filter_connection'', null_or (jf_connection f)),
      (''filter_state'', if scope = List_scope PendingList then null_or (jf_state f) else QNull)]"

definition queryJobs :: "string \<Rightarrow> job_scope \<Rightarrow> url \<Rightarrow> string \<Rightarrow> JobFilterValues \<Rightarrow> string" where
  "queryJobs route scope current nextQuery nextFilters =
     urlWithCurrentQuery current route (query_parameters scope nextQuery nextFilters) [''starting_at'']"

text \<open>Only a filter of the list's own keys is changed.\<close>

definition set_scope_filter :: "job_scope \<Rightarrow> JobFilterKey \<Rightarrow> string option \<Rightarrow> query_controls \<Rightarrow> query_controls" where
  "set_scope_filter scope filterKey v c =
     (if filterKey \<notin> set (jobFilterKeys scope) then c else setFilterValue filterKey v c)"

section \<open>Options of the filters\<close>

definition emptyFilterCatalog :: JobFilterCatalog where
  "emptyFilterCatalog =
     \<lparr>jfc_available = False, jfc_jobs = [], jfc_queues = [], jfc_connections = [],
      jfc_message = Some ''Preparing exact server-side filters.''\<rparr>"

text \<open>A \<open>Map\<close> by value: a later option replaces an earlier one in its place.\<close>

definition catalogOptions :: "JobOption list \<Rightarrow> string option \<Rightarrow> string option \<Rightarrow> JobOption list" where
  "catalogOptions options activeValue activeLabel =
     (let resolved = (case activeValue of
            None \<Rightarrow> options
          | Some v \<Rightarrow> options @ [\<lparr>jo_value = v, jo_label = nullish activeLabel v\<rparr>])
      in map snd (from_entries (map (\<lambda>o'. (jo_value o', o')) resolved)))"

definition jobLabel :: "string option \<Rightarrow> string option" where
  "jobLabel job = map_option (\<lambda>s. last (split_on (CHR 0x5C) s)) job"

definition page_filter_options :: "JobFilterCatalog option \<Rightarrow> JobFilterValues \<Rightarrow> JobFilterKey \<Rightarrow> JobOption list option" where
  "page_filter_options catalog f key =
     (let c = nullish catalog emptyFilterCatalog
      in case key of
           JobKey \<Rightarrow> Some (catalogOptions (jfc_jobs c) (jf_job f) (jobLabel (jf_job f)))
         | QueueKey \<Rightarrow> Some (catalogOptions (map option_of (jfc_queues c)) (jf_queue f) (jf_queue f))
         | ConnectionKey \<Rightarrow> Some (catalogOptions (map option_of (jfc_connections c)) (jf_connection f) (jf_connection f))
         | StateKey \<Rightarrow> None)"

section \<open>The lists\<close>

definition list_sort_columns :: "job_scope \<Rightarrow> JobRow SortColumn list" where
  "list_sort_columns scope =
     (case scope of
        List_scope PendingList \<Rightarrow> sortColumns Act_pending
      | List_scope CompletedList \<Rightarrow> sortColumns Act_completed
      | List_scope SilencedList \<Rightarrow> sortColumns Act_silenced
      | Failed_scope \<Rightarrow> sortColumns Act_failed)"

definition list_sort_options :: "job_scope \<Rightarrow> SortUrlOptions" where
  "list_sort_options scope =
     \<lparr>opt_persist = Some True, opt_prefix = None,
      opt_defaultSort = (if scope \<in> {List_scope PendingList, Failed_scope} then None else Some completedAtDescending)\<rparr>"

definition quoted :: "string \<Rightarrow> string" where
  "quoted s = [CHR 0xE2, CHR 0x80, CHR 0x9C] @ s @ [CHR 0xE2, CHR 0x80, CHR 0x9D]"

definition list_hasFilters :: "job_scope \<Rightarrow> JobFilterValues \<Rightarrow> bool" where
  "list_hasFilters scope f \<longleftrightarrow> list_ex (\<lambda>k. get_filter k f \<noteq> None) (jobFilterKeys scope)"

definition list_title :: "job_scope \<Rightarrow> string \<Rightarrow> bool \<Rightarrow> string option" where
  "list_title scope query hasFilters =
     (if query \<noteq> [] \<or> hasFilters then Some (''No matching '' @ scope_text scope @ '' jobs'') else None)"

definition failed_description :: "string \<Rightarrow> bool \<Rightarrow> string option" where
  "failed_description query hasFilters =
     (if query \<noteq> [] \<and> hasFilters then Some ''No failed jobs match this exact tag and filters.''
      else if query \<noteq> [] then Some (''No failed jobs match the exact tag '' @ quoted query @ ''.'')
      else if hasFilters then Some ''No retained failed jobs match the current filters.'' else None)"

definition list_description :: "job_scope \<Rightarrow> string \<Rightarrow> bool \<Rightarrow> string option" where
  "list_description scope query hasFilters =
     (case scope of
        Failed_scope \<Rightarrow> failed_description query hasFilters
      | List_scope t \<Rightarrow>
          if query \<noteq> [] \<and> hasFilters then Some (''No retained '' @ type_text t @ '' jobs match this search and filters.'')
          else if query \<noteq> [] then Some (''No retained '' @ type_text t @ '' jobs match '' @ quoted query @ ''.'')
          else if hasFilters then Some (''No retained '' @ type_text t @ '' jobs match the current filters.'') else None)"

definition filters_description :: "job_scope \<Rightarrow> JobFilterCatalog option \<Rightarrow> string" where
  "filters_description scope catalog =
     (let c = nullish catalog emptyFilterCatalog
      in if \<not> jfc_available c then nullish (jfc_message c) ''Global job filters are currently unavailable.''
         else case scope of
                Failed_scope \<Rightarrow> ''Narrow all retained failed jobs with exact server-side filters.''
              | List_scope t \<Rightarrow> nullish (jfc_message c) (''Narrow all retained '' @ type_text t @ '' jobs with exact server-side filters.''))"

text \<open>What a list takes from the server.\<close>

record listed_jobs =
  jl_query :: string
  jl_filters :: JobFilterValues
  jl_catalog :: "JobFilterCatalog option"
  jl_signature :: string
  jl_jobs :: JobCollection
  jl_newEntries :: bool

datatype jobs_list_act =
    List_table "operation menu_act table_act"
  | List_filter filter_act
  | Edit_search results_action

definition list_table_props :: "job_scope \<Rightarrow> listed_jobs \<Rightarrow> JobFilterValues \<Rightarrow> SortState option \<Rightarrow> table_props" where
  "list_table_props scope l f sorting =
     \<lparr>tp_available = jc_available (jl_jobs l), tp_message = jc_message (jl_jobs l),
      tp_hasNewEntries = jl_newEntries l, tp_onLoadNewEntries = True,
      tp_emptyTitle = list_title scope (jl_query l) (list_hasFilters scope f),
      tp_emptyDescription = list_description scope (jl_query l) (list_hasFilters scope f),
      tp_sorting = Some (controlled sorting (list_sort_columns scope))\<rparr>"

definition list_table ::
  "(string \<Rightarrow> string \<Rightarrow> rat) \<Rightarrow> (number \<Rightarrow> string) \<Rightarrow> table_env \<Rightarrow> rat \<Rightarrow> job_scope \<Rightarrow> listed_jobs \<Rightarrow> JobFilterValues \<Rightarrow>
   SortState option \<Rightarrow> operation menu_act table_act node list" where
  "list_table collate number_text e now scope l f sorting =
     (let rows = sortRows collate number_text (jc_data (jl_jobs l)) (list_sort_columns scope) sorting;
          p = list_table_props scope l f sorting
      in case scope of
           Failed_scope \<Rightarrow> FailedJobTable e p rows
         | List_scope t \<Rightarrow>
             JobTable e (table_props.extend p \<lparr>jt_type = t, jt_notice = None, jt_showPendingActions = True\<rparr>) now rows)"

definition list_key :: "job_scope \<Rightarrow> listed_jobs \<Rightarrow> string" where
  "list_key scope l =
     (case scope of Failed_scope \<Rightarrow> [] | List_scope t \<Rightarrow> type_text t @ '':'') @
     jl_signature l @ '':'' @ (if jc_available (jl_jobs l) then ''true'' else ''false'')"

definition list_search_texts :: "job_scope \<Rightarrow> string \<times> string" where
  "list_search_texts scope =
     (case scope of
        Failed_scope \<Rightarrow> (''Filter failed jobs by exact tag'', ''Enter an exact tag'')
      | List_scope t \<Rightarrow> (''Search '' @ type_text t @ '' jobs by class or ID'', ''Search by job class or exact ID''))"

definition JobsPage ::
  "job_scope \<Rightarrow> string option \<Rightarrow> (string \<times> string) option \<Rightarrow> jobs_list_act node list \<Rightarrow> jobs_list_act node list \<Rightarrow>
   jobs_list_act node list" where
  "JobsPage activeTab searched search_props filters children =
     TabbedResultsBody Edit_search (jobs_heading activeTab) searched search_props filters children"

definition JobsIndex ::
  "(string \<Rightarrow> string \<Rightarrow> rat) \<Rightarrow> (number \<Rightarrow> string) \<Rightarrow> table_env \<Rightarrow> rat \<Rightarrow> job_scope \<Rightarrow> listed_jobs \<Rightarrow> query_controls \<Rightarrow>
   SortState option \<Rightarrow> jobs_list_act node list" where
  "JobsIndex collate number_text e now scope l c sorting =
     (let f = selectedFilters c
      in El ''Head'' [(''title'', Str ''Jobs'')] [] #
         JobsPage scope (Some (search c)) (Some (list_search_texts scope))
           [map_node List_filter
              (JobFilters (jobFilterKeys scope) (page_filter_options (jl_catalog l) f) f
                 (filters_description scope (jl_catalog l)))]
           [El ''InfiniteScroll'' [(''key'', Str (list_key scope l)), (''data'', Str ''jobs'')]
              (embed List_table (list_table collate number_text e now scope l f sorting))])"

text \<open>The page of the failed jobs is written out in its own file; it is the same page over the failed scope.\<close>

definition FailedJobsIndex ::
  "(string \<Rightarrow> string \<Rightarrow> rat) \<Rightarrow> (number \<Rightarrow> string) \<Rightarrow> table_env \<Rightarrow> rat \<Rightarrow> listed_jobs \<Rightarrow> query_controls \<Rightarrow>
   SortState option \<Rightarrow> jobs_list_act node list" where
  "FailedJobsIndex collate number_text e now l c sorting =
     JobsIndex collate number_text e now Failed_scope l c sorting"

section \<open>A submission can be read back\<close>

text \<open>Reading the query and the filters of a list from the parameters of a URL; an empty one is none.\<close>

definition read_parameter :: "url \<Rightarrow> string \<Rightarrow> string option" where
  "read_parameter u n = (case currentQueryParameter u n of Some [] \<Rightarrow> None | v \<Rightarrow> v)"

definition read_query :: "job_scope \<Rightarrow> url \<Rightarrow> string \<times> JobFilterValues" where
  "read_query scope u =
     (nullish (currentQueryParameter u (search_parameter scope)) [],
      \<lparr>jf_job = read_parameter u ''filter_job'', jf_queue = read_parameter u ''filter_queue'',
       jf_connection = read_parameter u ''filter_connection'', jf_state = read_parameter u ''filter_state''\<rparr>)"

definition filters_ok :: "job_scope \<Rightarrow> JobFilterValues \<Rightarrow> bool" where
  "filters_ok scope f \<longleftrightarrow>
     (\<forall>k. get_filter k f \<noteq> Some []) \<and> (scope \<noteq> List_scope PendingList \<longrightarrow> jf_state f = None)"

text \<open>
  C15: What is submitted can be read back. From the URL a list visits for a submission, whatever
  characters the search and the filters contain and whatever URL the page had, exactly the
  submitted search and filters are read; the position in the list is forgotten, and every other
  parameter, such as the sorting, stays.
\<close>

theorem submission_reads_back:
  assumes "index_ok route" "filters_ok scope f"
    and "u = new_URL (queryJobs route scope location q f) (origin location)"
  shows "read_query scope u = (q, f) \<and> currentQueryParameter u ''starting_at'' = None \<and>
    (\<forall>n. n \<notin> {''query'', ''tag'', ''filter_job'', ''filter_queue'', ''filter_connection'', ''filter_state'', ''starting_at''} \<longrightarrow>
      currentQueryParameter u n = currentQueryParameter location n)"
proof -
  let ?ps = "query_parameters scope q f"
  have d: "distinct (map fst ?ps)"
    by (simp add: query_parameters_def search_parameter_def)
  have g: "currentQueryParameter u n = (case map_of ?ps n of Some v \<Rightarrow> wanted v
      | None \<Rightarrow> if n \<in> set [''starting_at''] then None else currentQueryParameter location n)" for n
    unfolding assms(3) queryJobs_def by (rule visited_removing [OF assms(1) d])
  have f: "jf_job f \<noteq> Some []" "jf_queue f \<noteq> Some []" "jf_connection f \<noteq> Some []" "jf_state f \<noteq> Some []"
    using assms(2) unfolding filters_ok_def by (metis get_filter.simps)+
  have w: "wanted (null_or v) = v" if "v \<noteq> Some []" for v
    using that by (auto simp: wanted_def null_or_def split: option.splits)
  have p: "read_parameter u n = v" if "currentQueryParameter u n = v" "v \<noteq> Some []" for n v
    using that by (auto simp: read_parameter_def split: option.splits list.splits)
  have "read_parameter u ''filter_job'' = jf_job f" "read_parameter u ''filter_queue'' = jf_queue f"
      "read_parameter u ''filter_connection'' = jf_connection f"
    using f by (intro p; simp add: g query_parameters_def search_parameter_def w)+
  moreover have "read_parameter u ''filter_state'' = jf_state f"
  proof (cases "scope = List_scope PendingList")
    case True
    then show ?thesis
      using f by (intro p) (simp_all add: g query_parameters_def search_parameter_def w)
  next
    case False
    then have "jf_state f = None"
      using assms(2) by (simp add: filters_ok_def)
    then show ?thesis
      using False by (intro p) (simp_all add: g query_parameters_def search_parameter_def wanted_def)
  qed
  moreover have "nullish (currentQueryParameter u (search_parameter scope)) [] = q"
    by (simp add: g query_parameters_def wanted_def)
  moreover have "currentQueryParameter u n = currentQueryParameter location n"
    if "n \<notin> {''query'', ''tag'', ''filter_job'', ''filter_queue'', ''filter_connection'', ''filter_state'', ''starting_at''}" for n
    using that by (simp add: g query_parameters_def search_parameter_def)
  moreover have "currentQueryParameter u ''starting_at'' = None"
    by (simp add: g query_parameters_def search_parameter_def)
  ultimately show ?thesis
    by (simp add: read_query_def)
qed

theorem submission_reads_back_witness:
  "read_query Failed_scope
     (new_URL (queryJobs ''/horizon/failed'' Failed_scope jobs_url ''a&b=#'' \<lparr>jf_job = Some ''App+Job'', jf_queue = None,
        jf_connection = Some ''redis'', jf_state = None\<rparr>) (origin jobs_url)) =
   (''a&b=#'', \<lparr>jf_job = Some ''App+Job'', jf_queue = None, jf_connection = Some ''redis'', jf_state = None\<rparr>)"
proof -
  let ?f = "\<lparr>jf_job = Some ''App+Job'', jf_queue = None, jf_connection = Some ''redis'', jf_state = None\<rparr>"
  have "index_ok ''/horizon/failed''" by (simp add: index_ok_def)
  moreover have "get_filter k ?f \<noteq> Some []" for k by (cases k) simp_all
  then have "filters_ok Failed_scope ?f" by (simp add: filters_ok_def)
  ultimately show ?thesis
    using submission_reads_back [OF _ _ refl, of "''/horizon/failed''" Failed_scope ?f] by simp
qed

section \<open>Actions and options\<close>

text \<open>
  The frame of the lists offers the actions of the list it shows. On any page the actions on
  pending jobs are offered only above the pending list, those on failed jobs only above the failed
  ones; cancelling in a scope needs the counts of the server and jobs in that scope, and nothing
  can be cancelled while the list or the counts are unavailable.
\<close>

lemma frame_actions_fit:
  "(Pending_action a \<in> set (offers (jobsActions p tab m)) \<longrightarrow>
      tab = List_scope PendingList \<and> (\<exists>props. p = List_page props \<and> jp_type props = PendingList)) \<and>
    (Failed_action b \<in> set (offers (jobsActions p tab m)) \<longrightarrow> tab = Failed_scope \<and> (\<exists>props. p = Failed_page props)) \<and>
    (\<forall>props s. p = List_page props \<and> Pending_action (Ask (Some s)) \<in> set (offers (jobsActions p tab m)) \<longrightarrow>
      jc_available (jp_jobs props) \<and>
      (\<exists>c r d. jp_pendingCounts props = Some c \<and> pc_available c \<and> pc_ready c = Some r \<and> pc_delayed c = Some d \<and>
        scope_has_jobs r d s))"
proof -
  have shape: "jobsActions p tab m =
      (if tab = List_scope PendingList \<and> (\<exists>props. p = List_page props \<and> jp_type props = PendingList)
       then embed Pending_action (PendingJobsActions (pending_action_props (case p of List_page props \<Rightarrow> props)) (jm_pending m))
       else if tab = Failed_scope \<and> (\<exists>props. p = Failed_page props)
       then embed Failed_action (FailedJobsActionsMenu (case p of Failed_page props \<Rightarrow> fjp_actions props) (jm_failed m))
       else [])"
    by (cases p; cases tab) (auto simp: jobsActions_def split: JobListType.splits)
  have asked: "Ask (Some s) \<in> set (offers (PendingJobsActions q pm)) \<Longrightarrow>
      \<not> pp_disabled q \<and> s \<in> set (availableScopes (pp_ready q) (pp_delayed q))" for s q pm
    by (auto simp: PendingJobsActions_def Let_def dropdown_def offers_trigger busy_button_def offers_set split: option.splits if_splits)
  have scopes: "s \<in> set (availableScopes r d) \<Longrightarrow> \<exists>x y. r = Some x \<and> d = Some y \<and> scope_has_jobs x y s" for s r d
    by (auto simp: availableScopes_def split: option.splits)
  show ?thesis
    unfolding shape
    by (auto dest!: asked scopes simp: pending_action_props_def bind_eq_Some_conv split: option.splits if_splits)
qed

end
