(* ===== verification/Queues_Index.thy ===== *)
theory Queues_Index
  imports Batches_Index Workload_Table Page_Refresh Queue_Activity
begin

text \<open>
  The list of queues: \<^verbatim>\<open>resources/js/components/queues/queue-filters.tsx\<close>, \<^verbatim>\<open>components/queues/queue-table.tsx\<close>,
  \<^verbatim>\<open>lib/queue-detail-navigation.ts\<close> and \<^verbatim>\<open>pages/queues/index.tsx\<close>. The search and the filters live in
  the page and narrow the queues the server sent. The lower case of a text (\<open>lower\<close>), the collator,
  the URLs and the texts of numbers are arguments.
\<close>

section \<open>Filters\<close>

datatype PauseFilter = Filter_active | Filter_paused

record QueueFilterValues =
  qf_connection :: "string option"
  qf_pause :: "PauseFilter option"
  qf_waitThreshold :: "QueueWaitThresholdStatus option"

definition emptyQueueFilterValues :: QueueFilterValues where
  "emptyQueueFilterValues = \<lparr>qf_connection = None, qf_pause = None, qf_waitThreshold = None\<rparr>"

fun pause_literal :: "PauseFilter \<Rightarrow> string" where
  "pause_literal Filter_active = ''active''"
| "pause_literal Filter_paused = ''paused''"

definition pauseOptions :: "JobOption list" where
  "pauseOptions =
     [\<lparr>jo_value = ''active'', jo_label = ''Not paused''\<rparr>, \<lparr>jo_value = ''paused'', jo_label = ''Paused''\<rparr>]"

definition waitThresholdOptions :: "JobOption list" where
  "waitThresholdOptions =
     [\<lparr>jo_value = ''exceeded'', jo_label = ''Exceeded''\<rparr>, \<lparr>jo_value = ''calculating'', jo_label = ''Calculating''\<rparr>,
      \<lparr>jo_value = ''within_bounds'', jo_label = ''Within bounds''\<rparr>, \<lparr>jo_value = ''disabled'', jo_label = ''Disabled''\<rparr>]"

text \<open>The value of the option that was chosen; every option is one.\<close>

definition pause_of :: "string option \<Rightarrow> PauseFilter option" where
  "pause_of v = (case v of None \<Rightarrow> None | Some s \<Rightarrow> find (\<lambda>p. pause_literal p = s) [Filter_active, Filter_paused])"

definition wait_of :: "string option \<Rightarrow> QueueWaitThresholdStatus option" where
  "wait_of v =
     (case v of None \<Rightarrow> None
      | Some s \<Rightarrow> find (\<lambda>w. wait_literal w = s) [Exceeded, Calculating, Within_bounds, Disabled])"

definition active_queue_filters :: "QueueFilterValues \<Rightarrow> nat" where
  "active_queue_filters v =
     length (filter id [qf_connection v \<noteq> None, qf_pause v \<noteq> None, qf_waitThreshold v \<noteq> None])"

definition queue_connections :: "(string \<Rightarrow> string \<Rightarrow> rat) \<Rightarrow> QueueRow list \<Rightarrow> string list" where
  "queue_connections collate queues =
     sort_by (\<lambda>left right. Num (collate left right)) (uniq (concat (map qr_connections queues)))"

datatype queue_filter_act = Change_queue_connection | Change_pause | Change_wait | Clear_queue_filters

text \<open>What the handlers pass to \<open>onChange\<close>, for the value of the chosen item.\<close>

fun queue_filter_change :: "queue_filter_act \<Rightarrow> string \<Rightarrow> QueueFilterValues \<Rightarrow> QueueFilterValues" where
  "queue_filter_change Change_queue_connection nextValue v = v\<lparr>qf_connection := select_passes nextValue\<rparr>"
| "queue_filter_change Change_pause nextValue v = v\<lparr>qf_pause := pause_of (select_passes nextValue)\<rparr>"
| "queue_filter_change Change_wait nextValue v = v\<lparr>qf_waitThreshold := wait_of (select_passes nextValue)\<rparr>"
| "queue_filter_change Clear_queue_filters nextValue v = emptyQueueFilterValues"

definition QueueFilters ::
  "(string \<Rightarrow> string \<Rightarrow> rat) \<Rightarrow> QueueRow list \<Rightarrow> QueueFilterValues \<Rightarrow> queue_filter_act node" where
  "QueueFilters collate queues v =
     (let active = active_queue_filters v
      in filter_dialog (filter_trigger (filter_label ''queues'' active) ''Filter queues'' active [])
           ''Filter queues'' ''Narrow the supervised queues shown in this view.''
           [FilterSelect ''Connection'' ''All connections'' (map option_of (queue_connections collate queues))
              (qf_connection v) Change_queue_connection,
            FilterSelect ''Pause status'' ''All pause states'' pauseOptions
              (map_option pause_literal (qf_pause v)) Change_pause,
            FilterSelect ''Wait threshold'' ''All wait thresholds'' waitThresholdOptions
              (map_option wait_literal (qf_waitThreshold v)) Change_wait]
           (filter_footer active Clear_queue_filters) [])"

definition matchesQueueFilters :: "QueueRow \<Rightarrow> QueueFilterValues \<Rightarrow> bool" where
  "matchesQueueFilters queue v =
     (if (case qf_connection v of None \<Rightarrow> False | Some c \<Rightarrow> c \<notin> set (qr_connections queue)) then False
      else let paused = list_ex qt_paused (qr_pauseTargets queue)
           in if qf_pause v = Some Filter_paused \<and> \<not> paused then False
              else if qf_pause v = Some Filter_active \<and> paused then False
              else qf_waitThreshold v = None \<or> qf_waitThreshold v = Some (qwt_status (qr_waitThreshold queue)))"

section \<open>The table\<close>

definition queue_columns :: "QueueRow SortColumn list" where
  "queue_columns =
     [\<lparr>column_key = ''name'', column_value = (\<lambda>q. SortString (qr_name q))\<rparr>,
      \<lparr>column_key = ''waitThreshold'',
       column_value = (\<lambda>q. count_value (queueWaitThresholdSortRank (qwt_status (qr_waitThreshold q))))\<rparr>,
      \<lparr>column_key = ''ready'', column_value = (\<lambda>q. count_value (qr_ready q))\<rparr>,
      \<lparr>column_key = ''delayed'', column_value = (\<lambda>q. count_value (qr_delayed q))\<rparr>,
      \<lparr>column_key = ''processes'', column_value = (\<lambda>q. count_value (qr_processes q))\<rparr>,
      \<lparr>column_key = ''wait'', column_value = (\<lambda>q. SortNumber (Num (qr_wait q)))\<rparr>]"

definition queue_sort_options :: SortUrlOptions where
  "queue_sort_options = \<lparr>opt_persist = Some True, opt_prefix = Some ''queues'', opt_defaultSort = None\<rparr>"

datatype queue_list_act =
    Enter_queue string
  | Click_queue string
  | Menu_of_queue string queue_action
  | Sort_queues string

text \<open>The client's cache of pages decides whether a page is prefetched.\<close>

definition prefetchQueueDetail :: "(string \<Rightarrow> bool) \<Rightarrow> string \<Rightarrow> string list \<Rightarrow> string list" where
  "prefetchQueueDetail cached url prefetches = (if \<not> cached url then prefetches @ [url] else prefetches)"

definition visitQueueDetail :: "string \<Rightarrow> string list \<Rightarrow> string list" where
  "visitQueueDetail url visits = visits @ [url]"

definition queue_row_click :: "(string \<times> string option) list \<Rightarrow> string \<Rightarrow> string list \<Rightarrow> string list" where
  "queue_row_click ancestors detailUrl visits =
     (if isInteractiveTarget ancestors then visits else visitQueueDetail detailUrl visits)"

text \<open>What the table is given: the texts, the URLs, the state of the menus and what the server can do.\<close>

record queue_table_env =
  qe_number :: "int \<Rightarrow> string"
  qe_deadline :: "rat \<Rightarrow> string"
  qe_url :: "string \<Rightarrow> string"
  qe_menus :: "string \<Rightarrow> queue_menu"
  qe_queuePausing :: bool
  qe_timedQueuePausing :: bool

definition row_menu_props :: "queue_table_env \<Rightarrow> QueueRow \<Rightarrow> queue_menu_props" where
  "row_menu_props e q =
     \<lparr>qp_connection = None, qp_queue = qr_name q, qp_paused = None, qp_pausedUntil = None,
      qp_targets = Some (map action_target (qr_pauseTargets q)), qp_pendingJobs = None, qp_failedJobs = None,
      qp_queuePausing = qe_queuePausing e, qp_timedQueuePausing = qe_timedQueuePausing e, qp_scope = Scope_all\<rparr>"

definition queue_row :: "queue_table_env \<Rightarrow> QueueRow \<Rightarrow> queue_list_act node" where
  "queue_row e q =
     (let detailUrl = qe_url e (qr_name q)
      in El ''TableRow''
           [(''key'', Str (qr_name q)), (''onMouseEnter'', On (Enter_queue detailUrl)), (''onClick'', On (Click_queue detailUrl))]
           [El ''TableCell'' []
              (El ''Link'' [(''href'', Str detailUrl), (''prefetch'', Flag True)]
                 (text_of ''span'' (qr_name q) #
                  concat (map (\<lambda>t. QueuePauseBadge (qe_deadline e) (qt_paused t) (qt_pausedUntil t)
                    (if length (qr_pauseTargets q) > 1 then Some (qt_connection t) else None)) (qr_pauseTargets q))) #
               child_if (length (qr_connections q) > 1) [text_of ''p'' (join '', '' (qr_connections q))]),
            El ''TableCell'' [] [QueueWaitThresholdCell (Some (qr_waitThreshold q)) None],
            text_of ''TableCell'' (qe_number e (qr_ready q)),
            text_of ''TableCell'' (qe_number e (qr_delayed q)),
            text_of ''TableCell'' (qe_number e (qr_processes q)),
            El ''TableCell'' [] [Duration (qr_wait q) Approximate False],
            El ''TableCell'' []
              (embed (Menu_of_queue (qr_name q)) (QueueActionsMenu (row_menu_props e q) (qe_menus e (qr_name q))))])"

definition queue_heads :: "SortState option \<Rightarrow> queue_list_act node list" where
  "queue_heads sorting =
     map (\<lambda>(label, key). SortableTableHead label key (directionFor key sorting) (Sort_queues key))
       [(''Queue'', ''name''), (''Wait threshold'', ''waitThreshold''), (''Ready Jobs'', ''ready''),
        (''Delayed Jobs'', ''delayed''), (''Processes'', ''processes''), (''Wait'', ''wait'')]"

definition QueueTable ::
  "(string \<Rightarrow> string \<Rightarrow> rat) \<Rightarrow> (number \<Rightarrow> string) \<Rightarrow> queue_table_env \<Rightarrow> QueueList \<Rightarrow> SortState option \<Rightarrow>
   string option \<Rightarrow> string option \<Rightarrow> queue_list_act node list" where
  "QueueTable collate sort_num e queues sorting emptyTitle emptyDescription =
     (let rows = sortRows collate sort_num (ql_queues queues) queue_columns sorting
      in if \<not> ql_available queues
         then [unavailable_alert ''Queues unavailable''
                 (nullish (ql_message queues) ''Horizon queues are currently unavailable.'')]
         else [El ''Table'' []
                 [El ''TableHeader'' []
                    [El ''TableRow'' [] (queue_heads sorting @ [text_of ''TableHead'' ''Actions''])],
                  El ''TableBody'' []
                    (child_if (rows = [])
                       [TableEmpty 7 (nullish emptyTitle ''All queues are clear'')
                          (nullish emptyDescription ''Horizon has no supervised queues right now.'')] @
                     map (queue_row e) rows)]])"

section \<open>The page\<close>

record queues_view =
  qv_search :: string
  qv_filters :: QueueFilterValues

definition mounted_queues :: queues_view where
  "mounted_queues = \<lparr>qv_search = [], qv_filters = emptyQueueFilterValues\<rparr>"

datatype queues_page_act =
    Type_queue_search
  | Clear_queue_search
  | Queue_filter queue_filter_act
  | Queues_menu "operation menu_act"
  | Queue_list queue_list_act

text \<open>The handlers; \<open>t\<close> is the value of the search field or of the chosen item.\<close>

fun queues_step :: "queues_page_act \<Rightarrow> string \<Rightarrow> queues_view \<Rightarrow> queues_view" where
  "queues_step Type_queue_search t v = v\<lparr>qv_search := t\<rparr>"
| "queues_step Clear_queue_search t v = v\<lparr>qv_search := []\<rparr>"
| "queues_step (Queue_filter a) t v = v\<lparr>qv_filters := queue_filter_change a t (qv_filters v)\<rparr>"
| "queues_step _ t v = v"

definition normalizedSearch :: "(string \<Rightarrow> string) \<Rightarrow> queues_view \<Rightarrow> string" where
  "normalizedSearch lower v = lower (trim (qv_search v))"

definition matches_search :: "(string \<Rightarrow> string) \<Rightarrow> queues_view \<Rightarrow> QueueRow \<Rightarrow> bool" where
  "matches_search lower v q \<longleftrightarrow>
     normalizedSearch lower v = [] \<or>
     text_includes (lower (join '' '' (qr_name q # qr_connections q))) (normalizedSearch lower v)"

definition visibleQueues :: "(string \<Rightarrow> string) \<Rightarrow> QueueList \<Rightarrow> queues_view \<Rightarrow> QueueRow list" where
  "visibleQueues lower queues v =
     filter (\<lambda>q. matches_search lower v q \<and> matchesQueueFilters q (qv_filters v)) (ql_queues queues)"

definition hasQuery :: "(string \<Rightarrow> string) \<Rightarrow> queues_view \<Rightarrow> bool" where
  "hasQuery lower v \<longleftrightarrow> normalizedSearch lower v \<noteq> [] \<or> active_queue_filters (qv_filters v) > 0"

definition pending_total :: "QueueRow list \<Rightarrow> int" where
  "pending_total queues = foldl (\<lambda>total q. total + qr_ready q + qr_reserved q + qr_delayed q) 0 queues"

definition queues_refresh :: "(string \<Rightarrow> string) \<Rightarrow> int \<Rightarrow> bool \<Rightarrow> queues_view \<Rightarrow> page_refresh_props" where
  "queues_refresh lower interval autoLoad v =
     \<lparr>pr_interval = interval, pr_props = [''queues''], pr_enabled = (autoLoad \<and> \<not> hasQuery lower v),
      pr_includeSharedProps = True\<rparr>"

definition queue_search_field :: "queues_view \<Rightarrow> queues_page_act node" where
  "queue_search_field v =
     El ''Field'' []
       [text_of ''FieldLabel'' ''Search queues'',
        El ''InputGroup'' []
          ([El ''InputGroupInput''
              [(''type'', Str ''text''), (''role'', Str ''searchbox''), (''value'', Str (qv_search v)),
               (''aria-label'', Str ''Search queues''), (''placeholder'', Str ''Search queues''),
               (''onChange'', On Type_queue_search)] [],
            El ''SearchIcon'' [(''aria-hidden'', Str ''true'')] []] @
           child_if (qv_search v \<noteq> [])
             [El ''InputGroupButton'' [(''aria-label'', Str ''Clear search''), (''onClick'', On Clear_queue_search)] []])]"

definition QueuesIndex ::
  "(string \<Rightarrow> string) \<Rightarrow> (string \<Rightarrow> string \<Rightarrow> rat) \<Rightarrow> (string \<Rightarrow> string \<Rightarrow> rat) \<Rightarrow> (number \<Rightarrow> string) \<Rightarrow> queue_table_env \<Rightarrow>
   QueueList \<Rightarrow> queues_view \<Rightarrow> SortState option \<Rightarrow> (bool, bool, batch_request) action_menu \<Rightarrow>
   queues_page_act node list" where
  "QueuesIndex lower collate_base collate sort_num e queues v sorting m =
     [El ''Head'' [(''title'', Str ''Queues'')] [],
      El ''Card'' []
        [ListPageHeader ''Queues''
           (embed Queues_menu (QueuesActions (int (length (ql_queues queues))) (pending_total (ql_queues queues)) m)),
         El ''CardContent'' []
           (El ''div'' []
              [queue_search_field v,
               map_node Queue_filter (QueueFilters collate_base (ql_queues queues) (qv_filters v))] #
            embed Queue_list
              (QueueTable collate sort_num e (queues\<lparr>ql_queues := visibleQueues lower queues v\<rparr>) sorting
                 (if hasQuery lower v then Some ''No matching queues'' else None)
                 (if hasQuery lower v then Some ''No supervised queues match your search and filters.'' else None)))]]"

section \<open>Properties of the filters\<close>

lemma matches_connection:
  "matchesQueueFilters q (emptyQueueFilterValues\<lparr>qf_connection := Some c\<rparr>) \<longleftrightarrow> c \<in> set (qr_connections q)"
  by (simp add: matchesQueueFilters_def emptyQueueFilterValues_def)

lemma matches_all [simp]: "matchesQueueFilters q emptyQueueFilterValues"
  by (simp add: matchesQueueFilters_def emptyQueueFilterValues_def)

interpretation pauses: select_choice pause_literal "pause_of \<circ> select_passes" ALL_OPTIONS
proof unfold_locales
  show "(pause_of \<circ> select_passes) (pause_literal p) = Some p" for p
    by (cases p) (simp_all add: pause_of_def select_passes_def ALL_OPTIONS_def)
qed (simp add: pause_of_def select_passes_def)

interpretation waits: select_choice wait_literal "wait_of \<circ> select_passes" ALL_OPTIONS
proof unfold_locales
  show "(wait_of \<circ> select_passes) (wait_literal w) = Some w" for w
    by (cases w) (simp_all add: wait_of_def select_passes_def ALL_OPTIONS_def)
qed (simp add: wait_of_def select_passes_def)

text \<open>What the selects of a queue's state show is what choosing it sets.\<close>

lemma queue_selects_shown:
  "qf_pause (queue_filter_change Change_pause (select_shows (map_option pause_literal v)) f) = v"
  "qf_waitThreshold (queue_filter_change Change_wait (select_shows (map_option wait_literal w)) f) = w"
  using pauses.shown_again [of v] waits.shown_again [of w]
  by (cases v; cases w; simp add: select_shows_def)+

text \<open>
  C40: no connection on offer leads to an empty list, and none is missing. The filter of queues
  offers every connection of a supervised queue once, in the collator's order; choosing one that
  is on offer shows exactly the queues that use it, at least one, and clearing the filters and
  the search shows every queue again.
\<close>

theorem connection_filter_finds:
  assumes "collator_law collate" "c \<noteq> ALL_OPTIONS" "lower [] = []"
  shows "distinct (queue_connections collate qs) \<and>
    sorted_wrt (\<lambda>a b. collate a b \<le> 0) (queue_connections collate qs) \<and>
    (let v = queue_filter_change Change_queue_connection c (queue_filter_change Clear_queue_filters s old);
         chosen = filter (\<lambda>q. matchesQueueFilters q v) qs
     in (c \<in> set (queue_connections collate qs) \<longleftrightarrow> chosen \<noteq> []) \<and>
        set chosen = {q \<in> set qs. c \<in> set (qr_connections q)}) \<and>
    visibleQueues lower l (queues_step (Queue_filter Clear_queue_filters) s (queues_step Clear_queue_search t w)) =
      ql_queues l"
proof -
  let ?o = "uniq (concat (map qr_connections qs))"
  let ?cmp = "\<lambda>left right. Num (collate left right)"
  have m: "mset (queue_connections collate qs) = mset ?o"
    unfolding queue_connections_def by (rule mset_sort_by)
  then have s: "set (queue_connections collate qs) = set ?o" and d: "distinct (queue_connections collate qs)"
    by (metis set_mset_mset, metis distinct_uniq mset_eq_imp_distinct_iff)
  have "sorted_wrt (\<lambda>a b. order_sign (?cmp a b) \<le> 0) (sort_by ?cmp ?o)"
  proof (rule sorted_sort_by_distinct)
    show "consistent (\<lambda>a b. order_sign (?cmp a b)) (set ?o)"
      using assms unfolding collator_law_def consistent_def by blast
  qed simp
  then have "sorted_wrt (\<lambda>a b. collate a b \<le> 0) (queue_connections collate qs)"
    unfolding queue_connections_def by (rule sorted_wrt_mono_rel [rotated]) (auto split: if_splits)
  moreover have "select_passes c = Some c"
    using assms(2) by (simp add: select_passes_def)
  moreover have "filter (\<lambda>q. c \<in> set (qr_connections q)) qs \<noteq> [] \<longleftrightarrow> c \<in> set (queue_connections collate qs)"
    by (auto simp: s filter_empty_conv)
  moreover have "visibleQueues lower l (w\<lparr>qv_search := [], qv_filters := emptyQueueFilterValues\<rparr>) = ql_queues l"
    using assms(3) by (simp add: visibleQueues_def matches_search_def normalizedSearch_def trim_def)
  ultimately show ?thesis
    using d by (simp add: matches_connection)
qed

definition sample_queue :: "string \<Rightarrow> string list \<Rightarrow> QueueWaitThresholdStatus \<Rightarrow> QueueRow" where
  "sample_queue name connections status =
     \<lparr>qr_name = name, qr_connections = connections, qr_pauseTargets = [], qr_ready = 0, qr_reserved = 0,
      qr_delayed = 0, qr_processes = 1, qr_wait = 0,
      qr_waitThreshold = \<lparr>qwt_status = status, qwt_decisiveConnection = [], qwt_waitSeconds = None,
        qwt_thresholdSeconds = 60, qwt_oldestReadyAgeSeconds = None, qwt_oldestReadyConnection = None, qwt_targets = []\<rparr>\<rparr>"

theorem connection_filter_finds_witness:
  "let qs = [sample_queue ''mail'' [''redis'', ''sqs''] Exceeded, sample_queue ''media'' [''sqs''] Disabled];
       v = queue_filter_change Change_queue_connection ''redis''
             (queue_filter_change Clear_queue_filters [] emptyQueueFilterValues)
   in set (filter (\<lambda>q. matchesQueueFilters q v) qs) = {hd qs}"
proof -
  let ?qs = "[sample_queue ''mail'' [''redis'', ''sqs''] Exceeded, sample_queue ''media'' [''sqs''] Disabled]"
  have "''redis'' \<noteq> ALL_OPTIONS" by (simp add: ALL_OPTIONS_def)
  from connection_filter_finds [OF plain_collator_law this, of id ?qs]
  have "set (filter (\<lambda>q. matchesQueueFilters q (queue_filter_change Change_queue_connection ''redis''
      (queue_filter_change Clear_queue_filters [] emptyQueueFilterValues))) ?qs) =
      {q \<in> set ?qs. ''redis'' \<in> set (qr_connections q)}"
    unfolding Let_def by simp
  moreover have "{q \<in> set ?qs. ''redis'' \<in> set (qr_connections q)} = {hd ?qs}"
    by (auto simp: sample_queue_def)
  ultimately show ?thesis unfolding Let_def by (rule trans)
qed

section \<open>The order of the threshold column\<close>

text \<open>The states of a threshold in the order the table sorts them.\<close>

instantiation QueueWaitThresholdStatus :: linorder
begin

definition less_eq_QueueWaitThresholdStatus :: "QueueWaitThresholdStatus \<Rightarrow> QueueWaitThresholdStatus \<Rightarrow> bool" where
  "less_eq_QueueWaitThresholdStatus a b \<longleftrightarrow> queueWaitThresholdSortRank a \<le> queueWaitThresholdSortRank b"

definition less_QueueWaitThresholdStatus :: "QueueWaitThresholdStatus \<Rightarrow> QueueWaitThresholdStatus \<Rightarrow> bool" where
  "less_QueueWaitThresholdStatus a b \<longleftrightarrow> queueWaitThresholdSortRank a < queueWaitThresholdSortRank b"

instance
proof
  fix a b c :: QueueWaitThresholdStatus
  show "a < b \<longleftrightarrow> a \<le> b \<and> \<not> b \<le> a" "a \<le> a" "a \<le> b \<or> b \<le> a"
    by (auto simp: less_eq_QueueWaitThresholdStatus_def less_QueueWaitThresholdStatus_def)
  show "a \<le> b \<Longrightarrow> b \<le> c \<Longrightarrow> a \<le> c"
    by (simp add: less_eq_QueueWaitThresholdStatus_def)
  show "a \<le> b \<Longrightarrow> b \<le> a \<Longrightarrow> a = b"
    by (cases a; cases b) (simp_all add: less_eq_QueueWaitThresholdStatus_def)
qed

end

text \<open>Sorted by the threshold, the exceeded queues lead, then those without data, the unmonitored and the healthy.\<close>

lemma exceeded_queues_lead:
  assumes "collator_law collate"
  shows "sorted (map (qwt_status \<circ> qr_waitThreshold)
    (sortRows collate num queues queue_columns (Some \<lparr>state_key = ''waitThreshold'', state_direction = Asc\<rparr>)))"
proof -
  let ?s = "\<lparr>state_key = ''waitThreshold'', state_direction = Asc\<rparr>" and ?c = "queue_columns ! 1"
  have f: "find (\<lambda>candidate. column_key candidate = state_key ?s) queue_columns = Some ?c"
    by (simp add: queue_columns_def)
  have u: "uniform (column_values ?c queues)"
    by (auto simp: uniform_def column_values_def queue_columns_def count_value_def)
  from sorted_rows [OF assms u f, of num] obtain "is" where
    s: "sortRows collate num queues queue_columns (Some ?s) = map ((!) queues) is"
      "sorted_wrt (row_before collate num ?c Asc queues) is"
    by auto
  have "sorted_wrt (\<lambda>i j. qwt_status (qr_waitThreshold (queues ! i)) \<le> qwt_status (qr_waitThreshold (queues ! j))) is"
    by (rule sorted_wrt_mono_rel [OF _ s(2)])
      (auto simp: row_before_def queue_columns_def count_value_def compare_numbers less_eq_QueueWaitThresholdStatus_def Let_def
        split: if_splits)
  then show ?thesis
    unfolding s(1) by (simp add: sorted_wrt_map)
qed

section \<open>Properties of the page\<close>

lemma table_head_offers: "Menu_of_queue k a \<notin> set (offers (queue_heads sorting))"
  by (auto simp: queue_heads_def SortableTableHead_def Let_def child_if_def)

lemma pause_badges_offer [simp]: "offers (concat (map (\<lambda>t. QueuePauseBadge d (f t) (g t) (h t)) ts)) = []"
  by (induction ts) simp_all

lemma queue_row_menus:
  "Menu_of_queue k a \<in> set (offered (queue_row e q)) \<longleftrightarrow>
     k = qr_name q \<and> a \<in> set (offers (QueueActionsMenu (row_menu_props e q) (qe_menus e k)))"
  by (auto simp: queue_row_def Let_def child_if_def)

lemma queue_table_menus:
  "Menu_of_queue k a \<in> set (offers (QueueTable collate num e queues sorting t d)) \<longleftrightarrow>
     ql_available queues \<and> (\<exists>q \<in> set (ql_queues queues). k = qr_name q \<and>
       a \<in> set (offers (QueueActionsMenu (row_menu_props e q) (qe_menus e k))))"
proof -
  have rows: "Menu_of_queue k a \<in> set (offers (map (queue_row e) qs)) \<longleftrightarrow>
      (\<exists>q \<in> set qs. Menu_of_queue k a \<in> set (offered (queue_row e q)))" for qs
    by (auto simp: offers_set)
  show ?thesis
    using table_head_offers [of k a sorting]
    by (auto simp: QueueTable_def Let_def unavailable_alert_def child_if_def TableEmpty_def rows queue_row_menus)
qed

lemma header_offers [simp]: "offered (ListPageHeader title acts) = offers acts"
  by (cases acts) (simp_all add: ListPageHeader_def)


section \<open>Refreshes of the page\<close>

definition queries_cleared :: "(string \<Rightarrow> string) \<Rightarrow> queues_view list \<Rightarrow> nat" where
  "queries_cleared lower vs =
     length (filter (\<lambda>(old, v). hasQuery lower old \<and> \<not> hasQuery lower v) (zip vs (tl vs)))"

lemma queues_poll: "shouldPoll (queues_refresh lower i autoLoad v) \<longleftrightarrow> autoLoad \<and> 0 < i \<and> \<not> hasQuery lower v"
  by (auto simp: shouldPoll_def queues_refresh_def)

lemma switched_on_queues:
  "length (switched_on (queues_refresh lower i autoLoad v) (map (queues_refresh lower i autoLoad) vs)) =
     (if autoLoad \<and> 0 < i then queries_cleared lower (v # vs) else 0)"
  by (induction vs arbitrary: v) (auto simp: queues_poll queries_cleared_def)



end
