(* ===== verification/Monitoring.thy ===== *)
theory Monitoring
  imports Queues_Index Active_Tab Json_Payload
begin

text \<open>
  Monitored tags: \<^verbatim>\<open>resources/js/components/monitoring/monitored-tags-table.tsx\<close>,
  \<^verbatim>\<open>monitoring/monitoring-job-table.tsx\<close>, \<^verbatim>\<open>monitoring/monitoring-tabs.tsx\<close>, \<^verbatim>\<open>pages/monitoring/index.tsx\<close>
  and \<^verbatim>\<open>pages/monitoring/show.tsx\<close>. The form of the dialog is the client library's; its state
  (the tag, its error, whether a request is under way) changes as its documentation says.
\<close>

section \<open>The table of monitored tags\<close>

fun monitoring_literal :: "MonitoringStatus \<Rightarrow> string" where
  "monitoring_literal Monitored_jobs = ''jobs''"
| "monitoring_literal Monitored_failed = ''failed''"

definition tag_columns :: "MonitoredTag SortColumn list" where
  "tag_columns =
     [\<lparr>column_key = ''tag'', column_value = (\<lambda>t. SortString (mt_tag t))\<rparr>,
      \<lparr>column_key = ''trackedCount'', column_value = (\<lambda>t. count_value (mt_trackedCount t))\<rparr>,
      \<lparr>column_key = ''failedCount'', column_value = (\<lambda>t. count_value (mt_failedCount t))\<rparr>,
      \<lparr>column_key = ''lastActivityAt'', column_value = (\<lambda>t. time_value (mt_lastActivityAt t))\<rparr>]"

text \<open>The URL of a tag's page for a status is the argument \<open>url\<close>, the state of a tag's menu \<open>menus\<close>.\<close>

definition tag_row ::
  "table_env \<Rightarrow> (string \<Rightarrow> MonitoringStatus \<Rightarrow> string) \<Rightarrow> (string \<Rightarrow> monitoring_menu) \<Rightarrow> MonitoredTag \<Rightarrow>
   operation menu_act table_act node" where
  "tag_row e url menus item =
     (let jobsUrl = url (mt_tag item) Monitored_jobs; failedUrl = url (mt_tag item) Monitored_failed
      in El ''TableRow''
           [(''key'', Str (mt_tag item)), (''onClick'', On (Row_visit jobsUrl)), (''onMouseEnter'', On (Row_prefetch jobsUrl))]
           [El ''TableCell'' []
              [El ''div'' []
                 (El ''Link'' [(''href'', Str jobsUrl), (''prefetch'', Flag True)] [Text (mt_tag item)] #
                  child_if (mt_silenced item) [El ''Badge'' [(''variant'', Str ''secondary'')] [Text ''Silenced'']])],
            El ''TableCell'' []
              [El ''Link'' [(''href'', Str jobsUrl), (''prefetch'', Flag True)] [Text (te_number e (mt_trackedCount item))]],
            El ''TableCell'' []
              [El ''Link'' [(''href'', Str failedUrl), (''prefetch'', Flag True)] [Text (te_number e (mt_failedCount item))]],
            text_of ''TableCell'' (formatTimestamp e (mt_lastActivityAt item)),
            El ''TableCell'' []
              (embed (Row_menu (mt_tag item))
                 (MonitoringActionsMenu (mt_tag item) (Some (mt_trackedCount item)) (Some (mt_failedCount item))
                    (menus (mt_tag item))))])"

definition tag_heads :: "SortState option \<Rightarrow> 'm table_act node list" where
  "tag_heads sorting =
     map (\<lambda>(label, key). SortableTableHead label key (directionFor key sorting) (Sort_column key))
       [(''Tag'', ''tag''), (''Tracked jobs'', ''trackedCount''), (''Failed'', ''failedCount''),
        (''Last activity'', ''lastActivityAt'')] @
     [El ''TableHead'' [(''scope'', Str ''col'')] [Text ''Actions'']]"

definition MonitoredTagsTable ::
  "(string \<Rightarrow> string \<Rightarrow> rat) \<Rightarrow> (number \<Rightarrow> string) \<Rightarrow> table_env \<Rightarrow> (string \<Rightarrow> MonitoringStatus \<Rightarrow> string) \<Rightarrow>
   (string \<Rightarrow> monitoring_menu) \<Rightarrow> MonitoredTagCollection \<Rightarrow> SortState option \<Rightarrow> operation menu_act table_act node list" where
  "MonitoredTagsTable collate sort_num e url menus tags sorting =
     (let rows = sortRows collate sort_num (mtc_data tags) tag_columns sorting
      in if \<not> mtc_available tags
         then [unavailable_alert ''Monitoring unavailable''
                 (nullish (mtc_message tags) ''Monitored tags are currently unavailable.'')]
         else [El ''Table'' []
                 [El ''TableHeader'' [] [El ''TableRow'' [] (tag_heads sorting)],
                  El ''TableBody'' []
                    (child_if (rows = [])
                       [TableEmpty 5 ''No monitored tags'' ''Monitor exact tag matches to track recent and failed jobs.''] @
                     map (tag_row e url menus) rows)]])"

section \<open>The dialog that starts monitoring\<close>

record tag_form =
  tf_tag :: string
  tf_error :: "string option"
  tf_processing :: bool

text \<open>\<open>mi_posts\<close> are the tags that were sent, in order.\<close>

record monitoring_index =
  mi_open :: bool
  mi_form :: tag_form
  mi_posts :: "string list"

definition mounted_monitoring :: monitoring_index where
  "mounted_monitoring = \<lparr>mi_open = False, mi_form = \<lparr>tf_tag = [], tf_error = None, tf_processing = False\<rparr>, mi_posts = []\<rparr>"

datatype tag_event =
    Create_tag
  | Dialog_changes bool
  | Tag_typed string
  | Tag_submitted
  | Post_started
  | Post_failed string
  | Post_succeeded
  | Post_finished

text \<open>The library keeps \<open>processing\<close> and the errors; what the page does itself is the rest.\<close>

fun tag_step :: "tag_event \<Rightarrow> monitoring_index \<Rightarrow> monitoring_index" where
  "tag_step Create_tag s = s\<lparr>mi_open := True\<rparr>"
| "tag_step (Dialog_changes b) s =
     (let s' = s\<lparr>mi_open := b\<rparr> in if \<not> b then s'\<lparr>mi_form := (mi_form s')\<lparr>tf_error := None\<rparr>\<rparr> else s')"
| "tag_step (Tag_typed t) s = s\<lparr>mi_form := (mi_form s)\<lparr>tf_tag := t\<rparr>\<rparr>"
| "tag_step Tag_submitted s = s\<lparr>mi_posts := mi_posts s @ [tf_tag (mi_form s)]\<rparr>"
| "tag_step Post_started s = s\<lparr>mi_form := (mi_form s)\<lparr>tf_processing := True\<rparr>\<rparr>"
| "tag_step (Post_failed e) s = s\<lparr>mi_form := (mi_form s)\<lparr>tf_error := Some e\<rparr>\<rparr>"
| "tag_step Post_succeeded s = s\<lparr>mi_open := False, mi_form := (mi_form s)\<lparr>tf_tag := [], tf_error := None\<rparr>\<rparr>"
| "tag_step Post_finished s = s\<lparr>mi_form := (mi_form s)\<lparr>tf_processing := False\<rparr>\<rparr>"

datatype monitoring_act =
    Open_tag_dialog
  | Change_tag_dialog
  | Type_tag
  | Submit_tag
  | Tag_table "operation menu_act table_act"

definition tag_dialog :: "monitoring_index \<Rightarrow> monitoring_act node" where
  "tag_dialog s =
     (let invalid = prop_if (\<not> falsy_text (tf_error (mi_form s)))
      in El ''Dialog'' [(''open'', Flag (mi_open s)), (''onOpenChange'', On Change_tag_dialog)]
           [El ''DialogContent'' []
              [El ''form'' [(''onSubmit'', On Submit_tag)]
                 [El ''DialogHeader'' []
                    [text_of ''DialogTitle'' ''Monitor New Tag'',
                     text_of ''DialogDescription''
                       (''Keep a dedicated history of recent and failed jobs for an exact tag match. History starts after monitoring is enabled and is retained by Horizon'' @
                        [CHR 0x27] @ ''s trim settings.'')],
                  El ''FieldGroup'' []
                    [El ''Field'' (invalid (''data-invalid'', Flag True))
                       [El ''FieldLabel'' [(''htmlFor'', Str ''monitoring-tag'')] [Text ''Tag''],
                        El ''Input''
                          ([(''id'', Str ''monitoring-tag''), (''value'', Str (tf_tag (mi_form s))),
                            (''placeholder'', Str (''App'' @ [CHR 0x5C] @ ''Models'' @ [CHR 0x5C] @ ''User:6352''))] @
                           invalid (''aria-invalid'', Flag True) @
                           [(''autoFocus'', Flag True), (''onChange'', On Type_tag)]) [],
                        El ''FieldError'' [] (case tf_error (mi_form s) of None \<Rightarrow> [] | Some e \<Rightarrow> [Text e])]],
                  El ''DialogFooter'' []
                    [close_button False,
                     El ''Button'' [(''type'', Str ''submit''), (''disabled'', Flag (tf_processing (mi_form s)))]
                       [Text (if tf_processing (mi_form s) then ''Monitoring'' @ ellipsis else ''Monitor'')]]]]])"

definition MonitoringIndex ::
  "operation menu_act table_act node list \<Rightarrow> monitoring_index \<Rightarrow> monitoring_act node list" where
  "MonitoringIndex table s =
     [El ''Head'' [(''title'', Str ''Monitoring'')] [],
      El ''Card'' []
        [ListPageHeader ''Monitoring''
           [El ''DropdownMenu'' []
              (ActionMenuTrigger True ''Monitor Tag'' False [] @
               [El ''DropdownMenuContent'' []
                  [El ''DropdownMenuItem'' [(''onSelect'', On Open_tag_dialog)]
                     [El ''TagIcon'' [] [], Text ''Create tag'']]])],
         El ''CardContent'' [] (embed Tag_table table)],
      tag_dialog s]"

definition monitoring_refresh :: "int \<Rightarrow> bool \<Rightarrow> page_refresh_props" where
  "monitoring_refresh interval autoLoad =
     \<lparr>pr_interval = interval, pr_props = [''tags''], pr_enabled = autoLoad, pr_includeSharedProps = True\<rparr>"

section \<open>The jobs of a tag\<close>

definition tagged_columns :: "MonitoringStatus \<Rightarrow> int" where
  "tagged_columns status = (if status = Monitored_failed then 4 else 3)"

text \<open>Where a row leads: a failed job to its own page, any other to that of its list.\<close>

definition tagged_url :: "table_env \<Rightarrow> MonitoringStatus \<Rightarrow> JobRow \<Rightarrow> string" where
  "tagged_url e status job =
     (let failedDetail = (status = Monitored_failed \<or> jr_status job = ''failed'')
      in if failedDetail then te_failed_url e (jr_id job)
         else te_job_url e (if jr_status job = ''completed'' then CompletedList else PendingList) (jr_id job))"

definition tagged_row :: "table_env \<Rightarrow> MonitoringStatus \<Rightarrow> rat \<Rightarrow> JobRow \<Rightarrow> operation menu_act table_act node" where
  "tagged_row e status now job =
     (let failed = (status = Monitored_failed); detailUrl = tagged_url e status job;
          delayed = (jr_status job = ''pending'' \<and> job_state now job = Delayed)
      in El ''TableRow''
           [(''key'', Str (jr_id job)), (''onClick'', On (Row_visit detailUrl)), (''onMouseEnter'', On (Row_prefetch detailUrl))]
           ([JobTablePrimaryCell (row_tags e (jr_id job)) (jr_shortName job) (Some (jr_name job)) (jr_queue job)
               (jr_tags job) (Some detailUrl)
               (child_if delayed [El ''Badge'' [(''variant'', Str ''delayed'')] [Text ''Delayed'']]) [] (Some 3),
             text_of ''TableCell'' (formatTimestamp e (jr_pushedAt job)),
             if failed then text_of ''TableCell'' (formatTimestamp e (jr_failedAt job))
             else El ''TableCell'' [] [precise_duration (jr_runtime job)]] @
            child_if failed
              [El ''TableCell'' []
                 (embed (Row_menu (jr_id job)) (FailedJobActionsMenu True (te_failed_menu e (jr_id job))))]))"

definition MonitoringJobTable ::
  "table_env \<Rightarrow> MonitoringStatus \<Rightarrow> JobCollection \<Rightarrow> bool \<Rightarrow> rat \<Rightarrow> operation menu_act table_act node list" where
  "MonitoringJobTable e status jobs hasNewEntries now =
     (let failed = (status = Monitored_failed); cols = tagged_columns status
      in if \<not> jc_available jobs
         then [unavailable_alert ''Tagged jobs unavailable''
                 (nullish (jc_message jobs) ''Jobs for this tag are currently unavailable.'')]
         else [El ''Table'' []
                 [El ''TableHeader'' []
                    [El ''TableRow'' []
                       (map (\<lambda>label. sort_head None label [])
                          ([''Job'', ''Queued At'', if failed then ''Failed At'' else ''Runtime''] @
                           (if failed then [''Actions''] else [])))],
                  El ''TableBody'' [(''role'', Str ''presentation'')]
                    (child_if hasNewEntries [NewEntriesTableRow cols Load_new_entries] @
                     child_if (jc_data jobs = [])
                       [TableEmpty cols ''No jobs for this tag''
                          ''No jobs for this tag yet. History starts after jobs use this exact tag.'']),
                  El ''TableBody'' [] (map (tagged_row e status now) (jc_data jobs))]])"

section \<open>The tabs of a tag\<close>

definition dropped_parameters :: "string list" where
  "dropped_parameters = [''starting_at'', ''tab'', ''job'', ''queue'', ''sort'', ''direction'']"

definition monitoring_route :: "(string \<Rightarrow> MonitoringStatus \<Rightarrow> string) \<Rightarrow> string \<Rightarrow> url \<Rightarrow> MonitoringStatus \<Rightarrow> string" where
  "monitoring_route url tag location nextStatus =
     urlWithCurrentQuery location (url tag nextStatus) [] dropped_parameters"

text \<open>Choosing from the list of tabs visits the other status.\<close>

definition select_status ::
  "(string \<Rightarrow> MonitoringStatus \<Rightarrow> string) \<Rightarrow> string \<Rightarrow> url \<Rightarrow> MonitoringStatus \<Rightarrow> MonitoringStatus option \<Rightarrow> string list \<Rightarrow>
   string list" where
  "select_status url tag location status chosen visits =
     (case chosen of
        Some v \<Rightarrow> if v \<noteq> status then visits @ [monitoring_route url tag location v] else visits
      | None \<Rightarrow> visits)"

definition MonitoringTabs ::
  "(string \<Rightarrow> MonitoringStatus \<Rightarrow> string) \<Rightarrow> (rat \<Rightarrow> string) \<Rightarrow> (rat \<Rightarrow> string) \<Rightarrow> url \<Rightarrow> string \<Rightarrow> MonitoringStatus \<Rightarrow>
   int \<Rightarrow> int \<Rightarrow> 'a tabs_action node" where
  "MonitoringTabs url full compact_text location tag status trackedCount failedCount =
     El ''Tabs'' [(''value'', Str (monitoring_literal status))]
       [ResponsiveTabsHeader (monitoring_literal status)
          (map (\<lambda>(t, label, n).
             \<lparr>tab_value = monitoring_literal t, tab_label = label,
              tab_count = Some (formatCount full compact_text (of_int n)),
              tab_render = [El ''Link''
                [(''href'', Str (monitoring_route url tag location t)), (''prefetch'', Flag True),
                 (''preserveScroll'', Flag True), (''preserveState'', Flag True)] []]\<rparr>)
             [(Monitored_jobs, ''Recent Jobs'', trackedCount), (Monitored_failed, ''Failed Jobs'', failedCount)])
          ''Monitored tag job status'' []]"

section \<open>The page of a tag\<close>

definition formatTagRetention :: "int \<Rightarrow> string" where
  "formatTagRetention minutes =
     (if minutes \<le> 0 then ''disabled'' else formatDuration (Num (of_int (minutes * 60))) Precise)"

definition copyTag :: "string \<Rightarrow> clipboard \<times> string list \<Rightarrow> clipboard \<times> string list" where
  "copyTag tag s =
     (let (ok, c) = copyToClipboard tag (fst s)
      in (c, snd s @ [if ok then ''Tag copied.'' else ''Tag could not be copied.'']))"

definition quotation :: "string \<Rightarrow> string" where
  "quotation s = [CHR 0x22] @ s @ [CHR 0x22]"

definition tag_title :: "string \<Rightarrow> MonitoringStatus \<Rightarrow> string" where
  "tag_title tag status =
     (if status = Monitored_failed then ''Failed Jobs for '' @ quotation tag else ''Recent Jobs for '' @ quotation tag)"

definition tag_scope :: "string \<Rightarrow> MonitoringStatus \<Rightarrow> string" where
  "tag_scope tag status = tag @ '':'' @ monitoring_literal status"

datatype tag_page_act =
    Copy_tag
  | Tag_page_menu "operation menu_act"
  | Status_tabs "unit tabs_action"
  | Tagged_jobs "operation menu_act table_act"

definition MonitoringShow ::
  "table_env \<Rightarrow> unit tabs_action node \<Rightarrow> string \<Rightarrow> MonitoringStatus \<Rightarrow> MonitoringTagSummary \<Rightarrow> JobCollection \<Rightarrow> bool \<Rightarrow> rat \<Rightarrow>
   monitoring_menu \<Rightarrow> tag_page_act node list" where
  "MonitoringShow e tabs tag status summary jobs hasNewEntries now m =
     [El ''Head'' [(''title'', Str (tag_title tag status))] [],
      El ''Card'' []
        [El ''CardHeader'' []
           [El ''div'' []
              [El ''div'' []
                 (El ''CardTitle'' []
                    [El ''Tooltip'' []
                       [El ''TooltipTrigger'' []
                          [El ''button''
                             [(''type'', Str ''button''), (''aria-label'', Str (''Copy tag '' @ tag)), (''onClick'', On Copy_tag)] [],
                           El ''span'' [(''title'', Str tag)] [Text tag]],
                        text_of ''TooltipContent'' ''Copy tag'']] #
                  child_if (mts_silenced summary) [El ''Badge'' [(''variant'', Str ''secondary'')] [Text ''Silenced'']]),
               text_of ''p''
                 (''Retention: '' @ formatTagRetention (mts_monitoredRetentionMinutes summary) @ '' for recent jobs, '' @
                  formatTagRetention (mts_failedRetentionMinutes summary) @ '' for failed jobs'')],
            El ''CardAction'' []
              (embed Tag_page_menu
                 (MonitoringActionsMenu tag (Some (mts_trackedCount summary)) (Some (mts_failedCount summary)) m))],
         El ''div'' [] [map_node Status_tabs tabs],
         El ''CardContent'' []
           [El ''InfiniteScroll''
              [(''key'', Str (tag_scope tag status @ '':'' @ (if jc_available jobs then ''true'' else ''false''))),
               (''data'', Str ''jobs'')]
              (embed Tagged_jobs (MonitoringJobTable e status jobs hasNewEntries now))]]]"

section \<open>Properties\<close>

text \<open>
  The tabs of a tag lead to the tag's own pages. From the URL a tab leads to, whatever the
  page's URL is, the parameters that position, narrow or sort the other list are gone and every
  other parameter is kept; and when the new page has written its tab into the query, a reload
  reads the tab that is shown.
\<close>

lemma status_tab_drops_position:
  assumes "index_ok (url tag t)"
    and "u = new_URL (monitoring_route url tag location t) (origin location)"
    and "v = follow u (sync_tab (monitoring_literal t) u)"
  shows "(\<forall>n \<in> set dropped_parameters - {''tab''}. currentQueryParameter v n = None) \<and>
    currentQueryParameter v ''tab'' = Some (monitoring_literal t) \<and>
    (\<forall>n. n \<notin> set dropped_parameters \<longrightarrow> currentQueryParameter v n = currentQueryParameter location n)"
proof -
  have get: "currentQueryParameter u n = (if n \<in> set dropped_parameters then None else currentQueryParameter location n)" for n
    unfolding assms(2) monitoring_route_def by (subst visited_removing [OF assms(1)]) simp_all
  have "url_ok u"
    unfolding assms(2) monitoring_route_def using visited_url [OF assms(1)] by simp
  from sync_location_get(1) [of "\<lparr>ts_tab = t, ts_location = u, ts_timer = False\<rparr>" monitoring_literal] this
  have "currentQueryParameter v n =
      (if n = ''tab'' then wanted (QString (monitoring_literal t)) else currentQueryParameter u n)" for n
    by (simp add: assms(3) sync_location_def)
  then show ?thesis
    by (cases t) (auto simp: get wanted_def dropped_parameters_def)
qed

lemma tag_heads_offer: "Row_menu k a \<notin> set (offers (tag_heads sorting))"
  by (auto simp: tag_heads_def SortableTableHead_def Let_def child_if_def)

lemma tag_row_menus:
  "Row_menu k a \<in> set (offered (tag_row e url menus item)) \<longleftrightarrow>
     k = mt_tag item \<and>
     a \<in> set (offers (MonitoringActionsMenu k (Some (mt_trackedCount item)) (Some (mt_failedCount item)) (menus k)))"
  by (auto simp: tag_row_def Let_def child_if_def)

lemma monitoring_asks:
  "Ask Retry_op \<in> set (offers (MonitoringActionsMenu tag tracked f m)) \<longleftrightarrow> nullish f 0 > 0"
  "Ask Clear_op \<in> set (offers (MonitoringActionsMenu tag tracked f m)) \<longleftrightarrow> nullish tracked 0 > 0"
  by (auto simp: MonitoringActionsMenu_def Let_def child_if_def dropdown_def offers_trigger)

lemma tagged_row_menus:
  "Row_menu k a \<in> set (offered (tagged_row e status now job)) \<longleftrightarrow>
     status = Monitored_failed \<and> k = jr_id job \<and> a \<in> set (offers (FailedJobActionsMenu True (te_failed_menu e k)))"
  by (auto simp: tagged_row_def Let_def child_if_def primary_offers)

text \<open>
  The tables of monitoring offer what there is to act on. The menu of a tag is offered for
  each monitored tag while the tags are available, retrying only where the tag has failed jobs and
  clearing only where it has tracked ones; a tag's jobs have a menu exactly in the list of the
  failed ones, each its own.
\<close>

lemma monitoring_menus_exact:
  "(Row_menu k a \<in> set (offers (MonitoredTagsTable collate num e url menus tags sorting)) \<longleftrightarrow>
      mtc_available tags \<and> (\<exists>item \<in> set (mtc_data tags). k = mt_tag item \<and>
        a \<in> set (offers (MonitoringActionsMenu k (Some (mt_trackedCount item)) (Some (mt_failedCount item)) (menus k))))) \<and>
   (Row_menu k (Ask Retry_op) \<in> set (offers (MonitoredTagsTable collate num e url menus tags sorting)) \<longleftrightarrow>
      mtc_available tags \<and> (\<exists>item \<in> set (mtc_data tags). k = mt_tag item \<and> mt_failedCount item > 0)) \<and>
   (Row_menu k (Ask Clear_op) \<in> set (offers (MonitoredTagsTable collate num e url menus tags sorting)) \<longleftrightarrow>
      mtc_available tags \<and> (\<exists>item \<in> set (mtc_data tags). k = mt_tag item \<and> mt_trackedCount item > 0)) \<and>
   (Row_menu k a \<in> set (offers (MonitoringJobTable e status jobs fresh now)) \<longleftrightarrow>
      jc_available jobs \<and> status = Monitored_failed \<and>
      (\<exists>job \<in> set (jc_data jobs). k = jr_id job \<and> a \<in> set (offers (FailedJobActionsMenu True (te_failed_menu e k)))))"
proof -
  have tags: "Row_menu k b \<in> set (offers (MonitoredTagsTable collate num e url menus tags sorting)) \<longleftrightarrow>
      mtc_available tags \<and> (\<exists>item \<in> set (mtc_data tags). k = mt_tag item \<and>
        b \<in> set (offers (MonitoringActionsMenu k (Some (mt_trackedCount item)) (Some (mt_failedCount item)) (menus k))))" for b
    using tag_heads_offer [of k b sorting]
    by (auto simp: MonitoredTagsTable_def Let_def unavailable_alert_def child_if_def TableEmpty_def offers_set [of _ "map f xs" for f xs]
        tag_row_menus)
  have heads [simp]: "offered (sort_head None label [] :: operation menu_act table_act node) = []" for label
    by (simp add: sort_head_def controlledSortHeader_def)
  have jobs: "Row_menu k a \<in> set (offers (MonitoringJobTable e status jobs fresh now)) \<longleftrightarrow>
      jc_available jobs \<and> (\<exists>job \<in> set (jc_data jobs). Row_menu k a \<in> set (offered (tagged_row e status now job)))"
    by (auto simp: MonitoringJobTable_def Let_def unavailable_alert_def child_if_def TableEmpty_def NewEntriesTableRow_def
        TableNoticeRow_def
        offers_set [of _ "map f xs" for f xs])
  show ?thesis
    unfolding tags jobs tagged_row_menus monitoring_asks by auto
qed

end
