(* ===== verification/Metrics.thy ===== *)
theory Metrics
  imports Queues_Index Tabs Active_Tab
begin

text \<open>
  The pages of metrics: \<^verbatim>\<open>resources/js/components/metrics/metrics-filters.tsx\<close>, \<^verbatim>\<open>metrics/metrics-table.tsx\<close>,
  \<^verbatim>\<open>metrics/metric-chart.tsx\<close>, \<^verbatim>\<open>pages/metrics/index.tsx\<close> and \<^verbatim>\<open>pages/metrics/show.tsx\<close>. The chart is drawn by a
  library; its data, its description and the texts of its labels are modelled.
\<close>

section \<open>Filters\<close>

datatype RuntimeFilter = Subsecond | One_second_plus
datatype ThroughputFilter = Throughput_active | Throughput_idle

record MetricFilterValues =
  mf_runtime :: "RuntimeFilter option"
  mf_throughput :: "ThroughputFilter option"

definition emptyMetricFilterValues :: MetricFilterValues where
  "emptyMetricFilterValues = \<lparr>mf_runtime = None, mf_throughput = None\<rparr>"

fun runtime_literal :: "RuntimeFilter \<Rightarrow> string" where
  "runtime_literal Subsecond = ''subsecond''"
| "runtime_literal One_second_plus = ''one-second-plus''"

fun throughput_literal :: "ThroughputFilter \<Rightarrow> string" where
  "throughput_literal Throughput_active = ''active''"
| "throughput_literal Throughput_idle = ''idle''"

text \<open>This select has its own value for all of them.\<close>

definition metric_all_options :: string where
  "metric_all_options = ''all''"

text \<open>What the select's handler passes on for the value of the chosen item, one of the options'.\<close>

definition metric_passes :: "('f \<Rightarrow> string) \<Rightarrow> 'f list \<Rightarrow> string \<Rightarrow> 'f option" where
  "metric_passes literal filters nextValue =
     (if nextValue = metric_all_options then None else find (\<lambda>f. literal f = nextValue) filters)"

definition MetricFilterSelect :: "string \<Rightarrow> string \<Rightarrow> JobOption list \<Rightarrow> string option \<Rightarrow> 'a \<Rightarrow> 'a node" where
  "MetricFilterSelect label allLabel options v change =
     El ''Field'' []
       [text_of ''FieldLabel'' label,
        El ''Select'' [(''value'', Str (nullish v metric_all_options)), (''onValueChange'', On change)]
          [El ''SelectTrigger'' [] [El ''SelectValue'' [] []],
           El ''SelectContent'' [(''listLabel'', Str (label @ '' options''))]
             [El ''SelectGroup'' []
                (map (\<lambda>item. El ''SelectItem'' [(''value'', Str (jo_value item))] [Text (jo_label item)])
                   (\<lparr>jo_value = metric_all_options, jo_label = allLabel\<rparr> # options))]]]"

definition active_metric_filters :: "MetricFilterValues \<Rightarrow> nat" where
  "active_metric_filters v = length (filter id [mf_runtime v \<noteq> None, mf_throughput v \<noteq> None])"

definition singular :: "MetricType \<Rightarrow> string" where
  "singular type = (if type = JobMetrics then ''job'' else ''queue'')"

datatype metric_filter_act = Change_throughput | Change_runtime | Clear_metric_filters

fun metric_filter_change :: "metric_filter_act \<Rightarrow> string \<Rightarrow> MetricFilterValues \<Rightarrow> MetricFilterValues" where
  "metric_filter_change Change_throughput nextValue v =
     v\<lparr>mf_throughput := metric_passes throughput_literal [Throughput_active, Throughput_idle] nextValue\<rparr>"
| "metric_filter_change Change_runtime nextValue v =
     v\<lparr>mf_runtime := metric_passes runtime_literal [Subsecond, One_second_plus] nextValue\<rparr>"
| "metric_filter_change Clear_metric_filters nextValue v = emptyMetricFilterValues"

definition MetricsFilters :: "MetricType \<Rightarrow> MetricFilterValues \<Rightarrow> metric_filter_act node" where
  "MetricsFilters type v =
     (let active = active_metric_filters v; subject = singular type @ '' metrics''
      in filter_dialog (filter_trigger (filter_label subject active) (''Filter '' @ subject) active [])
           (''Filter '' @ subject)
           (''Narrow the recorded '' @ subject @ '' by the values available in this view.'')
           [MetricFilterSelect ''Throughput'' ''Any throughput''
              [\<lparr>jo_value = ''active'', jo_label = ''Active''\<rparr>, \<lparr>jo_value = ''idle'', jo_label = ''Idle''\<rparr>]
              (map_option throughput_literal (mf_throughput v)) Change_throughput,
            MetricFilterSelect ''Runtime'' ''Any runtime''
              [\<lparr>jo_value = ''subsecond'', jo_label = ''Under one second''\<rparr>,
               \<lparr>jo_value = ''one-second-plus'', jo_label = ''One second or longer''\<rparr>]
              (map_option runtime_literal (mf_runtime v)) Change_runtime]
           (filter_footer active Clear_metric_filters) [])"

definition matchesThroughputFilter :: "rat \<Rightarrow> ThroughputFilter option \<Rightarrow> bool" where
  "matchesThroughputFilter v f =
     (case f of None \<Rightarrow> True | Some Throughput_active \<Rightarrow> v > 0 | Some Throughput_idle \<Rightarrow> v = 0)"

definition matchesRuntimeFilter :: "rat \<Rightarrow> RuntimeFilter option \<Rightarrow> bool" where
  "matchesRuntimeFilter v f =
     (case f of None \<Rightarrow> True | Some Subsecond \<Rightarrow> v < 1 | Some One_second_plus \<Rightarrow> v \<ge> 1)"

section \<open>The table\<close>

definition metric_columns :: "MetricRow SortColumn list" where
  "metric_columns = [\<lparr>column_key = ''name'', column_value = (\<lambda>m. SortString (mr_name m))\<rparr>]"

text \<open>The URL of a metric's page is the argument \<open>url\<close>.\<close>

definition metric_row :: "(string \<Rightarrow> string) \<Rightarrow> MetricRow \<Rightarrow> 'm table_act node" where
  "metric_row url metric =
     (let detailUrl = url (mr_name metric)
      in El ''TableRow''
           [(''key'', Str (mr_name metric)), (''onClick'', On (Row_visit detailUrl)), (''onMouseEnter'', On (Row_prefetch detailUrl))]
           [El ''TableCell'' []
              [El ''Link'' [(''href'', Str detailUrl), (''prefetch'', Flag True)] [Text (mr_name metric)]]])"

definition capitalized :: "string \<Rightarrow> string" where
  "capitalized s = (case s of [] \<Rightarrow> [] | c # cs \<Rightarrow> upper_char c # cs)"

definition MetricsTable ::
  "(string \<Rightarrow> string \<Rightarrow> rat) \<Rightarrow> (number \<Rightarrow> string) \<Rightarrow> (string \<Rightarrow> string) \<Rightarrow> MetricType \<Rightarrow> MetricRow list \<Rightarrow> bool \<Rightarrow>
   string option \<Rightarrow> string option \<Rightarrow> string option \<Rightarrow> SortState option \<Rightarrow> 'm table_act node list" where
  "MetricsTable collate sort_num url type metrics available message emptyTitle emptyDescription sorting =
     (let rows = sortRows collate sort_num metrics metric_columns sorting
      in if \<not> available
         then [unavailable_alert ''Metrics unavailable''
                 (nullish message (capitalized (singular type) @ '' metrics are unavailable.''))]
         else [El ''Table'' []
                 [El ''TableHeader'' []
                    [El ''TableRow'' []
                       [SortableTableHead (if type = JobMetrics then ''Job'' else ''Queue'') ''name''
                          (directionFor ''name'' sorting) (Sort_column ''name'')]],
                  El ''TableBody'' []
                    (child_if (rows = [])
                       [TableEmpty 1 (nullish emptyTitle (''No '' @ singular type @ '' metrics yet''))
                          (nullish emptyDescription
                             (''Once Horizon records its first '' @ singular type @
                              '' snapshot, throughput and runtime history will settle in here.''))] @
                     map (metric_row url) rows)]])"

section \<open>The list of metrics\<close>

record metrics_view =
  mv_search :: string
  mv_filters :: MetricFilterValues

definition visibleMetrics :: "(string \<Rightarrow> string) \<Rightarrow> MetricRow list \<Rightarrow> metrics_view \<Rightarrow> MetricRow list" where
  "visibleMetrics lower metrics v =
     (let query = lower (trim (mv_search v))
      in filter (\<lambda>m. (query = [] \<or> text_includes (lower (mr_name m)) query) \<and>
             matchesThroughputFilter (mr_throughput m) (mf_throughput (mv_filters v)) \<and>
             matchesRuntimeFilter (mr_runtime m) (mf_runtime (mv_filters v))) metrics)"

fun metric_type_literal :: "MetricType \<Rightarrow> string" where
  "metric_type_literal JobMetrics = ''jobs''"
| "metric_type_literal MetricType.QueueMetrics = ''queues''"

definition metric_tabs :: "(MetricType \<Rightarrow> string) \<Rightarrow> TabbedResultsTab list" where
  "metric_tabs url =
     map (\<lambda>t. \<lparr>trt_count = None, trt_href = url t, trt_label = (if t = JobMetrics then ''Jobs'' else ''Queues''),
            trt_preserveState = Some True, trt_value = metric_type_literal t\<rparr>) [JobMetrics, MetricType.QueueMetrics]"

definition has_metric_search :: "metrics_view \<Rightarrow> bool" where
  "has_metric_search v \<longleftrightarrow> length (trim (mv_search v)) > 0"

definition metrics_empty_description :: "MetricType \<Rightarrow> metrics_view \<Rightarrow> string option" where
  "metrics_empty_description type v =
     (let hasSearch = has_metric_search v; hasFilters = (active_metric_filters (mv_filters v) > 0)
      in if hasSearch \<and> hasFilters then Some (''No '' @ singular type @ '' metrics match your search and filters.'')
         else if hasSearch then Some (''No '' @ singular type @ '' metrics match your search.'')
         else if hasFilters then Some (''No '' @ singular type @ '' metrics match the current filters.'')
         else None)"

text \<open>The page's card holds the actions of its search field, its filters, its tabs and its table.\<close>

datatype metrics_act =
    Metrics_search results_action
  | Metrics_filter metric_filter_act
  | Metrics_table "unit table_act"

fun metrics_step :: "metrics_act \<Rightarrow> string \<Rightarrow> metrics_view \<Rightarrow> metrics_view" where
  "metrics_step (Metrics_search Search_changed) t v = v\<lparr>mv_search := t\<rparr>"
| "metrics_step (Metrics_search Clear_search) t v = v\<lparr>mv_search := []\<rparr>"
| "metrics_step (Metrics_filter a) t v = v\<lparr>mv_filters := metric_filter_change a t (mv_filters v)\<rparr>"
| "metrics_step (Metrics_table a) t v = v"

definition MetricsIndex ::
  "(rat \<Rightarrow> string) \<Rightarrow> (string \<Rightarrow> string) \<Rightarrow> (string \<Rightarrow> string \<Rightarrow> rat) \<Rightarrow> (number \<Rightarrow> string) \<Rightarrow> (MetricType \<Rightarrow> string) \<Rightarrow>
   (string \<Rightarrow> string) \<Rightarrow> MetricType \<Rightarrow> MetricRow list \<Rightarrow> bool \<Rightarrow> string option \<Rightarrow> metrics_view \<Rightarrow> SortState option \<Rightarrow>
   metrics_act tabs_action node list" where
  "MetricsIndex shown_count lower collate sort_num tab_url metric_url type metrics available message v sorting =
     (let label = ''Search '' @ singular type @ '' metrics'';
          hasQuery = (has_metric_search v \<or> active_metric_filters (mv_filters v) > 0)
      in [El ''Head'' [(''title'', Str ''Metrics'')] [],
          TabbedResultsCard shown_count Metrics_search ''Metrics'' (metric_type_literal type) (metric_tabs tab_url) ''Metrics type''
            ((if type = JobMetrics then ''Job'' else ''Queue'') @ '' metrics'') (Some (mv_search v)) (Some (label, label))
            [map_node Metrics_filter (MetricsFilters type (mv_filters v))] []
            (embed Metrics_table
               (MetricsTable collate sort_num metric_url type (visibleMetrics lower metrics v) available message
                  (if hasQuery then Some (''No matching '' @ singular type @ '' metrics'') else None)
                  (metrics_empty_description type v) sorting))])"

definition metrics_refresh :: "string list \<Rightarrow> int \<Rightarrow> bool \<Rightarrow> page_refresh_props" where
  "metrics_refresh props interval autoLoad =
     \<lparr>pr_interval = interval, pr_props = props, pr_enabled = autoLoad, pr_includeSharedProps = True\<rparr>"

section \<open>The chart\<close>

datatype MetricKind = Kind_throughput | Kind_runtime

fun kind_title :: "MetricKind \<Rightarrow> string" where
  "kind_title Kind_throughput = ''Throughput''"
| "kind_title Kind_runtime = ''Runtime''"

fun snapshot_value :: "MetricKind \<Rightarrow> MetricSnapshot \<Rightarrow> rat option" where
  "snapshot_value Kind_throughput s = Some (ms_throughput s)"
| "snapshot_value Kind_runtime s = ms_runtime s"

definition chart_data :: "MetricKind \<Rightarrow> MetricSnapshot list \<Rightarrow> (rat \<times> rat option) list" where
  "chart_data kind snapshots = map (\<lambda>s. (ms_timestamp s, snapshot_value kind s)) snapshots"

definition formatMetricRuntime :: "rat \<Rightarrow> string" where
  "formatMetricRuntime seconds = formatDuration (Num seconds) Precise"

text \<open>\<open>Math.round\<close> rounds halves up; \<open>number_text\<close> is the whole number in the user's locale.\<close>

definition integer :: "(int \<Rightarrow> string) \<Rightarrow> rat \<Rightarrow> string" where
  "integer number_text v = number_text \<lfloor>v + 1 / 2\<rfloor>"

definition latestDescription :: "(int \<Rightarrow> string) \<Rightarrow> MetricKind \<Rightarrow> MetricSnapshot list \<Rightarrow> string" where
  "latestDescription number_text kind snapshots =
     (let latest = (if snapshots = [] then None else Some (last snapshots))
      in case kind of
           Kind_throughput \<Rightarrow>
             ''Latest throughput: '' @ integer number_text (nullish (map_option ms_throughput latest) 0) @ '' jobs per minute.''
         | Kind_runtime \<Rightarrow>
             (case Option.bind latest ms_runtime of
                None \<Rightarrow> ''Latest runtime: no observation.''
              | Some r \<Rightarrow> ''Latest runtime: '' @ formatMetricRuntime r @ ''.''))"

text \<open>
  The label of a tooltip. \<open>moment\<close> is what the library's payload gives as a number, \<open>v\<close> the
  label it would show when that is a string; \<open>time_text\<close> is the time of day in the user's locale.
\<close>

definition formatMetricTooltipLabel :: "(rat \<Rightarrow> string) \<Rightarrow> string option \<Rightarrow> number \<Rightarrow> string" where
  "formatMetricTooltipLabel time_text v moment =
     (case moment of Num t \<Rightarrow> time_text (t * 1000) | _ \<Rightarrow> nullish v [])"

definition axis_label :: "(int \<Rightarrow> string) \<Rightarrow> MetricKind \<Rightarrow> rat \<Rightarrow> string" where
  "axis_label number_text kind v =
     (if kind = Kind_throughput then integer number_text v else formatMetricRuntime v)"

text \<open>The bars stand in the tree by their times and values, an absent value as no bar.\<close>

definition MetricChart :: "(int \<Rightarrow> string) \<Rightarrow> (rat \<Rightarrow> string) \<Rightarrow> MetricKind \<Rightarrow> MetricSnapshot list \<Rightarrow> 'a node" where
  "MetricChart number_text time_text kind snapshots =
     (if snapshots = []
      then El ''Empty'' []
             [El ''EmptyHeader'' []
                [El ''EmptyMedia'' [] [El ''MetricsNavigationIcon'' [] []],
                 text_of ''EmptyTitle'' ''Not Enough Data'',
                 text_of ''EmptyDescription'' ''Horizon needs at least one metrics snapshot to draw this chart.'']]
      else El ''div'' []
             [text_of ''span'' (latestDescription number_text kind snapshots),
              El ''ChartContainer'' [(''role'', Str ''img''), (''aria-label'', Str (kind_title kind @ '' metric chart''))]
                [El ''BarChart'' []
                   (concat (map (\<lambda>(t, v). case v of
                        None \<Rightarrow> []
                      | Some x \<Rightarrow> [El ''Bar'' [(''x'', Str (time_text (t * 1000)))] [Text (axis_label number_text kind x)]])
                      (chart_data kind snapshots)))]])"

definition MetricCard :: "string \<Rightarrow> 'a node list \<Rightarrow> 'a node" where
  "MetricCard title children =
     El ''Card'' []
       [El ''CardHeader'' [] [El ''CardTitle'' [(''title'', Str title)] [Text title]],
        El ''CardContent'' [] children]"

definition MetricShow :: "(int \<Rightarrow> string) \<Rightarrow> (rat \<Rightarrow> string) \<Rightarrow> string \<Rightarrow> MetricPreview \<Rightarrow> 'a node list" where
  "MetricShow number_text time_text name preview =
     [El ''Head'' [(''title'', Str (''Metrics for '' @ name))] [],
      El ''div'' []
        (child_if (\<not> mp_available preview)
           [unavailable_alert ''Metrics unavailable''
              (nullish (mp_message preview) ''Metrics for this item are currently unavailable.'')] @
         map (\<lambda>kind. MetricCard (kind_title kind @ '' '' @ em_dash @ '' '' @ name)
                [MetricChart number_text time_text kind (mp_data preview)]) [Kind_throughput, Kind_runtime])]"

section \<open>Properties\<close>

text \<open>The filters divide what is recorded: no metric has a value both choices leave out, or both keep.\<close>

lemma runtime_choices: "matchesRuntimeFilter r (Some Subsecond) \<longleftrightarrow> \<not> matchesRuntimeFilter r (Some One_second_plus)"
  by (auto simp: matchesRuntimeFilter_def)

lemma throughput_choices:
  "0 \<le> t \<Longrightarrow> matchesThroughputFilter t (Some Throughput_active) \<longleftrightarrow> \<not> matchesThroughputFilter t (Some Throughput_idle)"
  by (auto simp: matchesThroughputFilter_def)

interpretation runtimes: select_choice runtime_literal "metric_passes runtime_literal [Subsecond, One_second_plus]" metric_all_options
proof unfold_locales
  show "metric_passes runtime_literal [Subsecond, One_second_plus] (runtime_literal f) = Some f" for f
    by (cases f) (simp_all add: metric_passes_def metric_all_options_def)
qed (simp add: metric_passes_def)

interpretation throughputs: select_choice throughput_literal
  "metric_passes throughput_literal [Throughput_active, Throughput_idle]" metric_all_options
proof unfold_locales
  show "metric_passes throughput_literal [Throughput_active, Throughput_idle] (throughput_literal f) = Some f" for f
    by (cases f) (simp_all add: metric_passes_def metric_all_options_def)
qed (simp add: metric_passes_def)

text \<open>
  The filters of metrics split the list without loss. With any search, the metrics the page
  shows under the two choices of a filter are, together, exactly those it shows with that filter
  cleared, and no metric is shown under both, when no throughput is negative.
\<close>

lemma metric_filters_partition:
  assumes "\<forall>m \<in> set metrics. 0 \<le> mr_throughput m"
  shows "(let shown = (\<lambda>a s. visibleMetrics lower metrics (metrics_step (Metrics_filter a) s v));
           all = visibleMetrics lower metrics (v\<lparr>mv_filters := (mv_filters v)\<lparr>mf_runtime := None\<rparr>\<rparr>);
           every = visibleMetrics lower metrics (v\<lparr>mv_filters := (mv_filters v)\<lparr>mf_throughput := None\<rparr>\<rparr>)
       in mset (shown Change_runtime ''subsecond'') + mset (shown Change_runtime ''one-second-plus'') = mset all \<and>
          set (shown Change_runtime ''subsecond'') \<inter> set (shown Change_runtime ''one-second-plus'') = {} \<and>
          mset (shown Change_throughput ''active'') + mset (shown Change_throughput ''idle'') = mset every \<and>
          set (shown Change_throughput ''active'') \<inter> set (shown Change_throughput ''idle'') = {})"
proof -
  have two: "mset (filter B ms) + mset (filter C ms) = mset (filter A ms)"
    if "\<forall>m \<in> set ms. (A m \<longleftrightarrow> B m \<or> C m) \<and> \<not> (B m \<and> C m)" for A B C :: "MetricRow \<Rightarrow> bool" and ms
    using that by (induction ms) auto
  note passes = runtimes.passes_literal [of Subsecond] runtimes.passes_literal [of One_second_plus]
    throughputs.passes_literal [of Throughput_active] throughputs.passes_literal [of Throughput_idle]
  have all: "matchesRuntimeFilter r None" "matchesThroughputFilter t None" for r t
    by (simp_all add: matchesRuntimeFilter_def matchesThroughputFilter_def)
  have t: "m \<in> set metrics \<Longrightarrow> matchesThroughputFilter (mr_throughput m) (Some Throughput_idle) \<longleftrightarrow>
      \<not> matchesThroughputFilter (mr_throughput m) (Some Throughput_active)" for m
    using assms throughput_choices by blast
  show ?thesis
    unfolding Let_def visibleMetrics_def metrics_step.simps metric_filter_change.simps
      passes [unfolded runtime_literal.simps throughput_literal.simps]
    using t by (intro conjI two) (auto simp: all runtime_choices)
qed

end
