(* ===== verification/Charts.thy ===== *)
theory Charts
  imports Metrics Json_Value
begin

text \<open>
  The chart kit of \<^verbatim>\<open>resources/js/components/ui/chart.tsx\<close>: the series a chart is configured with,
  their colours per theme, and the tooltip and the legend, which look a series up from what the
  drawing library reports; and the tooltip of the metric charts of
  \<^verbatim>\<open>resources/js/components/metrics/metric-chart.tsx\<close>. A reported item is a value whose members the
  library chooses. A label is a text and an icon a component by name, as the configurations of the
  program have them. \<open>num\<close> is the text of a number, \<open>locale_text\<close> the one in the user's locale.
\<close>

section \<open>Configuration\<close>

record chart_entry =
  ce_label :: "string option"
  ce_icon :: "string option"
  ce_color :: "string option"
  ce_theme :: "(string \<times> string) list option"

type_synonym ChartConfig = "(string \<times> chart_entry) list"

definition THEMES :: "(string \<times> string) list" where
  "THEMES = [(''light'', []), (''dark'', ''.dark'')]"

text \<open>
  Reading a member also finds what every object inherits; none of that has a label, an icon or a
  colour, and it does not stand in the entries.
\<close>

definition inherited_names :: "string list" where
  "inherited_names =
     [''constructor'', ''__defineGetter__'', ''__defineSetter__'', ''hasOwnProperty'', ''__lookupGetter__'',
      ''__lookupSetter__'', ''isPrototypeOf'', ''propertyIsEnumerable'', ''toString'', ''valueOf'', ''__proto__'',
      ''toLocaleString'']"

definition bare_entry :: chart_entry where
  "bare_entry = \<lparr>ce_label = None, ce_icon = None, ce_color = None, ce_theme = None\<rparr>"

definition config_entry :: "ChartConfig \<Rightarrow> string \<Rightarrow> chart_entry option" where
  "config_entry config key =
     (case map_of config key of
        Some e \<Rightarrow> Some e
      | None \<Rightarrow> if key \<in> set inherited_names then Some bare_entry else None)"

definition useChart :: "ChartConfig option \<Rightarrow> string + ChartConfig" where
  "useChart context_value =
     (case context_value of
        None \<Rightarrow> Inl ''useChart must be used within a <ChartContainer />''
      | Some config \<Rightarrow> Inr config)"

section \<open>Colours\<close>

definition is_coloured :: "chart_entry \<Rightarrow> bool" where
  "is_coloured e = (ce_theme e \<noteq> None \<or> \<not> falsy_text (ce_color e))"

definition theme_color :: "string \<Rightarrow> chart_entry \<Rightarrow> string option" where
  "theme_color theme e =
     (case Option.bind (ce_theme e) (\<lambda>t. map_of t theme) of Some c \<Rightarrow> Some c | None \<Rightarrow> ce_color e)"

definition color_declaration :: "string \<Rightarrow> string \<times> chart_entry \<Rightarrow> string list" where
  "color_declaration theme entry =
     (case theme_color theme (snd entry) of
        None \<Rightarrow> []
      | Some c \<Rightarrow> if c = [] then [] else [''  --color-'' @ fst entry @ '': '' @ c @ '';''])"

definition theme_css :: "string \<Rightarrow> ChartConfig \<Rightarrow> string \<times> string \<Rightarrow> string" where
  "theme_css chart colorConfig entry =
     snd entry @ '' [data-chart='' @ chart @ ''] {'' @ [newline] @
     join [newline] (concat (map (color_declaration (fst entry)) colorConfig)) @ [newline] @ ''}''"

definition ChartStyle :: "string \<Rightarrow> ChartConfig \<Rightarrow> 'a node list" where
  "ChartStyle chart config =
     (let colorConfig = filter (\<lambda>entry. is_coloured (snd entry)) config
      in if colorConfig = [] then []
         else [El ''style''
                 [(''dangerouslySetInnerHTML'', Str (join [newline] (map (theme_css chart colorConfig) THEMES)))] []])"

definition ChartContainer :: "string option \<Rightarrow> string \<Rightarrow> ChartConfig \<Rightarrow> (string \<times> 'a attr) list \<Rightarrow> 'a node list \<Rightarrow> 'a node" where
  "ChartContainer given uniqueId config props children =
     (let chart = ''chart-'' @ nullish given (filter (\<lambda>c. c \<noteq> CHR '':'') uniqueId)
      in El ''div'' (from_entries ([(''data-slot'', Str ''chart''), (''data-chart'', Str chart)] @ props))
           (ChartStyle chart config @ [El ''ResponsiveContainer'' [] children]))"

section \<open>Looking a series up\<close>

fun chartConfigKey :: "(rat \<Rightarrow> string) \<Rightarrow> json option list \<Rightarrow> string" where
  "chartConfigKey num [] = ''value''"
| "chartConfigKey num (candidate # candidates) =
     (case candidate of
        Some (JStr s) \<Rightarrow> s
      | Some (JNum n) \<Rightarrow> num n
      | _ \<Rightarrow> chartConfigKey num candidates)"

text \<open>The members of an object or an array, and none of any other value.\<close>

definition members_of :: "json \<Rightarrow> (string \<times> json) list option" where
  "members_of v =
     (case v of
        JObj ms \<Rightarrow> Some ms
      | JArr vs \<Rightarrow> Some (zip (map nat_text [0..<length vs]) vs @ [(''length'', JNum (of_nat (length vs)))])
      | _ \<Rightarrow> None)"

definition json_field :: "json \<Rightarrow> string \<Rightarrow> json option" where
  "json_field v key = Option.bind (members_of v) (\<lambda>ms. map_of ms key)"

fun text_member :: "json option \<Rightarrow> string option" where
  "text_member (Some (JStr s)) = Some s"
| "text_member v = None"

definition config_label_key :: "json \<Rightarrow> string \<Rightarrow> string" where
  "config_label_key payload key =
     (case text_member (json_field payload key) of
        Some s \<Rightarrow> s
      | None \<Rightarrow>
          (case text_member (Option.bind (json_field payload ''payload'') (\<lambda>v. json_field v key)) of
             Some s \<Rightarrow> s
           | None \<Rightarrow> key))"

definition getPayloadConfigFromPayload :: "ChartConfig \<Rightarrow> json \<Rightarrow> string \<Rightarrow> chart_entry option" where
  "getPayloadConfigFromPayload config payload key =
     (if members_of payload = None then None
      else case config_entry config (config_label_key payload key) of
             Some e \<Rightarrow> Some e
           | None \<Rightarrow> config_entry config key)"

section \<open>Tooltip and legend\<close>

datatype indicator_kind = Dot | Line | Dashed

record 'a tooltip_props =
  tp_active :: bool
  tp_payload :: "json list"
  tp_indicator :: indicator_kind
  tp_hideLabel :: bool
  tp_hideIndicator :: bool
  tp_label :: "json option"
  tp_labelFormatter :: "(string option \<Rightarrow> json list \<Rightarrow> string) option"
  tp_formatter :: "(json \<Rightarrow> json \<Rightarrow> json \<Rightarrow> nat \<Rightarrow> json option \<Rightarrow> 'a node list) option"
  tp_color :: "string option"
  tp_nameKey :: "string option"
  tp_labelKey :: "string option"

definition series_name :: "chart_entry option \<Rightarrow> string option" where
  "series_name e = Option.bind e ce_label"

definition tooltip_value :: "(rat \<Rightarrow> string) \<Rightarrow> ChartConfig \<Rightarrow> 'a tooltip_props \<Rightarrow> json \<Rightarrow> string option" where
  "tooltip_value num config p item =
     (let key = chartConfigKey num
                  [map_option JStr (tp_labelKey p), json_field item ''dataKey'', json_field item ''name''];
          itemConfig = getPayloadConfigFromPayload config item key
      in case text_member (tp_label p) of
           Some l \<Rightarrow>
             if falsy_text (tp_labelKey p) then Some (nullish (series_name (config_entry config l)) l)
             else series_name itemConfig
         | None \<Rightarrow> series_name itemConfig)"

definition tooltipLabel :: "(rat \<Rightarrow> string) \<Rightarrow> ChartConfig \<Rightarrow> 'a tooltip_props \<Rightarrow> 'a node list" where
  "tooltipLabel num config p =
     (if tp_hideLabel p \<or> tp_payload p = [] then []
      else let v = tooltip_value num config p (hd (tp_payload p))
           in case tp_labelFormatter p of
                Some f \<Rightarrow> [text_of ''div'' (f v (tp_payload p))]
              | None \<Rightarrow> if falsy_text v then [] else [text_of ''div'' (nullish v [])])"

text \<open>What is truthy, what an element shows of a value, and the text of a value.\<close>

fun json_truthy :: "json option \<Rightarrow> bool" where
  "json_truthy None = False"
| "json_truthy (Some JNull) = False"
| "json_truthy (Some (JBool b)) = b"
| "json_truthy (Some (JNum n)) = (n \<noteq> 0)"
| "json_truthy (Some (JStr s)) = (s \<noteq> [])"
| "json_truthy (Some (JArr vs)) = True"
| "json_truthy (Some (JObj ms)) = True"

fun json_child :: "(rat \<Rightarrow> string) \<Rightarrow> json option \<Rightarrow> 'a node list" where
  "json_child num (Some (JStr s)) = [Text s]"
| "json_child num (Some (JNum n)) = [Text (num n)]"
| "json_child num v = []"

fun String_of :: "(rat \<Rightarrow> string) \<Rightarrow> json \<Rightarrow> string" where
  "String_of num JNull = ''null''"
| "String_of num (JBool b) = (if b then ''true'' else ''false'')"
| "String_of num (JNum n) = num n"
| "String_of num (JStr s) = s"
| "String_of num (JArr vs) = join '','' (map (\<lambda>v. if v = JNull then [] else String_of num v) vs)"
| "String_of num (JObj ms) = ''[object Object]''"

definition item_value_text :: "(rat \<Rightarrow> string) \<Rightarrow> (rat \<Rightarrow> string) \<Rightarrow> json \<Rightarrow> string" where
  "item_value_text num locale_text v = (case v of JNum n \<Rightarrow> locale_text n | _ \<Rightarrow> String_of num v)"

text \<open>\<open>color ?? item.payload?.fill ?? item.color\<close>\<close>

fun not_null :: "json option \<Rightarrow> json option" where
  "not_null (Some JNull) = None"
| "not_null v = v"

definition indicatorColor :: "string option \<Rightarrow> json \<Rightarrow> json option" where
  "indicatorColor color item =
     (case color of
        Some c \<Rightarrow> Some (JStr c)
      | None \<Rightarrow>
          (case not_null (Option.bind (json_field item ''payload'') (\<lambda>v. json_field v ''fill'')) of
             Some c \<Rightarrow> Some c
           | None \<Rightarrow> json_field item ''color''))"

definition color_props :: "json option \<Rightarrow> (string \<times> 'a attr) list" where
  "color_props c =
     (case text_member c of None \<Rightarrow> [] | Some s \<Rightarrow> [(''--color-bg'', Str s), (''--color-border'', Str s)])"

definition tooltip_mark :: "'a tooltip_props \<Rightarrow> chart_entry option \<Rightarrow> json \<Rightarrow> 'a node list" where
  "tooltip_mark p itemConfig item =
     (case Option.bind itemConfig ce_icon of
        Some icon \<Rightarrow> [El icon [] []]
      | None \<Rightarrow> child_if (\<not> tp_hideIndicator p) [El ''div'' (color_props (indicatorColor (tp_color p) item)) []])"

definition nestLabel :: "'a tooltip_props \<Rightarrow> bool" where
  "nestLabel p = (length (tp_payload p) = 1 \<and> tp_indicator p \<noteq> Dot)"

definition tooltip_line ::
  "(rat \<Rightarrow> string) \<Rightarrow> (rat \<Rightarrow> string) \<Rightarrow> ChartConfig \<Rightarrow> 'a tooltip_props \<Rightarrow> json \<Rightarrow> 'a node list" where
  "tooltip_line num locale_text config p item =
     (let itemConfig = getPayloadConfigFromPayload config item
            (chartConfigKey num [map_option JStr (tp_nameKey p), json_field item ''name'', json_field item ''dataKey''])
      in tooltip_mark p itemConfig item @
         [El ''div'' []
            (El ''div'' []
               (child_if (nestLabel p) (tooltipLabel num config p) @
                [El ''span'' [] (case series_name itemConfig of
                                   Some l \<Rightarrow> [Text l]
                                 | None \<Rightarrow> json_child num (json_field item ''name''))]) #
             (case not_null (json_field item ''value'') of
                None \<Rightarrow> []
              | Some v \<Rightarrow> [text_of ''span'' (item_value_text num locale_text v)]))])"

definition tooltip_item ::
  "(rat \<Rightarrow> string) \<Rightarrow> (rat \<Rightarrow> string) \<Rightarrow> ChartConfig \<Rightarrow> 'a tooltip_props \<Rightarrow> nat \<times> json \<Rightarrow> 'a node" where
  "tooltip_item num locale_text config p entry =
     (let item = snd entry
      in El ''div'' [(''key'', Count (int (fst entry)))]
           (case (tp_formatter p, json_field item ''value'', json_field item ''name'') of
              (Some f, Some v, Some name) \<Rightarrow>
                if json_truthy (Some name) then f v name item (fst entry) (json_field item ''payload'')
                else tooltip_line num locale_text config p item
            | _ \<Rightarrow> tooltip_line num locale_text config p item))"

definition shown_items :: "json list \<Rightarrow> json list" where
  "shown_items payload = filter (\<lambda>item. json_field item ''type'' \<noteq> Some (JStr ''none'')) payload"

definition ChartTooltipContent ::
  "(rat \<Rightarrow> string) \<Rightarrow> (rat \<Rightarrow> string) \<Rightarrow> ChartConfig option \<Rightarrow> 'a tooltip_props \<Rightarrow> string + 'a node list" where
  "ChartTooltipContent num locale_text context_value p =
     (case useChart context_value of
        Inl e \<Rightarrow> Inl e
      | Inr config \<Rightarrow>
          Inr (if \<not> tp_active p \<or> tp_payload p = [] then []
               else [El ''div'' []
                       (child_if (\<not> nestLabel p) (tooltipLabel num config p) @
                        [El ''div'' []
                           (map (tooltip_item num locale_text config p) (enumerate 0 (shown_items (tp_payload p))))])]))"

definition legend_item :: "(rat \<Rightarrow> string) \<Rightarrow> ChartConfig \<Rightarrow> bool \<Rightarrow> string option \<Rightarrow> nat \<times> json \<Rightarrow> 'a node" where
  "legend_item num config hideIcon nameKey entry =
     (let item = snd entry;
          itemConfig = getPayloadConfigFromPayload config item
            (chartConfigKey num [map_option JStr nameKey, json_field item ''dataKey''])
      in El ''div'' [(''key'', Count (int (fst entry)))]
           ((case Option.bind itemConfig ce_icon of
               Some icon \<Rightarrow>
                 if hideIcon then [El ''div'' (color_props (json_field item ''color'')) []] else [El icon [] []]
             | None \<Rightarrow> [El ''div'' (color_props (json_field item ''color'')) []]) @
            (case series_name itemConfig of None \<Rightarrow> [] | Some l \<Rightarrow> [Text l])))"

definition ChartLegendContent ::
  "(rat \<Rightarrow> string) \<Rightarrow> ChartConfig option \<Rightarrow> bool \<Rightarrow> json list \<Rightarrow> string option \<Rightarrow> string + 'a node list" where
  "ChartLegendContent num context_value hideIcon payload nameKey =
     (case useChart context_value of
        Inl e \<Rightarrow> Inl e
      | Inr config \<Rightarrow>
          Inr (if payload = [] then []
               else [El ''div'' [] (map (legend_item num config hideIcon nameKey) (enumerate 0 (shown_items payload)))]))"

section \<open>The tooltip of a metric chart\<close>

fun metricChartConfigs :: "MetricKind \<Rightarrow> ChartConfig" where
  "metricChartConfigs Kind_throughput =
     [(''value'', bare_entry\<lparr>ce_label := Some ''Jobs per minute'', ce_color := Some ''var(--chart-1)''\<rparr>)]"
| "metricChartConfigs Kind_runtime =
     [(''value'', bare_entry\<lparr>ce_label := Some ''Runtime'', ce_color := Some ''var(--chart-1)''\<rparr>)]"

text \<open>\<open>Number(v)\<close>; \<open>parse\<close> is what it reads in a text, that of an array or object included.\<close>

definition Number_of :: "(rat \<Rightarrow> string) \<Rightarrow> (string \<Rightarrow> number) \<Rightarrow> json option \<Rightarrow> number" where
  "Number_of num parse v =
     (case v of
        None \<Rightarrow> NaN
      | Some JNull \<Rightarrow> Num 0
      | Some (JBool b) \<Rightarrow> Num (if b then 1 else 0)
      | Some (JNum n) \<Rightarrow> Num n
      | Some w \<Rightarrow> parse (String_of num w))"

text \<open>The moment of the first item, which the label of the tooltip is made of.\<close>

definition tooltip_moment :: "(rat \<Rightarrow> string) \<Rightarrow> (string \<Rightarrow> number) \<Rightarrow> json list \<Rightarrow> number" where
  "tooltip_moment num parse payload =
     Number_of num parse
       (case payload of
          [] \<Rightarrow> None
        | item # _ \<Rightarrow> Option.bind (json_field item ''payload'') (\<lambda>v. json_field v ''timestamp''))"

definition runtime_formatter :: "(rat \<Rightarrow> string) \<Rightarrow> (string \<Rightarrow> number) \<Rightarrow> json \<Rightarrow> 'a node list" where
  "runtime_formatter num parse v =
     [El ''div'' []
        [text_of ''span'' ''Runtime'',
         text_of ''span'' (formatDuration (Number_of num parse (Some v)) Precise)]]"

definition metric_tooltip_props ::
  "(rat \<Rightarrow> string) \<Rightarrow> (string \<Rightarrow> number) \<Rightarrow> (rat \<Rightarrow> string) \<Rightarrow> MetricKind \<Rightarrow> bool \<Rightarrow> json list \<Rightarrow> json option \<Rightarrow> 'a tooltip_props" where
  "metric_tooltip_props num parse time_text kind active payload label =
     \<lparr>tp_active = active, tp_payload = payload, tp_indicator = Line, tp_hideLabel = False, tp_hideIndicator = False,
      tp_label = label,
      tp_labelFormatter = Some (\<lambda>v ps. formatMetricTooltipLabel time_text v (tooltip_moment num parse ps)),
      tp_formatter = (if kind = Kind_runtime then Some (\<lambda>v _ _ _ _. runtime_formatter num parse v) else None),
      tp_color = None, tp_nameKey = None, tp_labelKey = None\<rparr>"

definition metric_tooltip ::
  "(rat \<Rightarrow> string) \<Rightarrow> (rat \<Rightarrow> string) \<Rightarrow> (string \<Rightarrow> number) \<Rightarrow> (rat \<Rightarrow> string) \<Rightarrow> MetricKind \<Rightarrow> bool \<Rightarrow> json list \<Rightarrow>
   json option \<Rightarrow> string + 'a node list" where
  "metric_tooltip num locale_text parse time_text kind active payload label =
     ChartTooltipContent num locale_text (Some (metricChartConfigs kind))
       (metric_tooltip_props num parse time_text kind active payload label)"

section \<open>Properties\<close>

text \<open>A series that is coloured without a theme gets its colour in both themes, and no other does.\<close>

lemma plain_colour_declared:
  assumes "ce_theme e = None"
  shows "color_declaration theme (key, e) =
    (if is_coloured e then [''  --color-'' @ key @ '': '' @ nullish (ce_color e) [] @ '';''] else [])"
  using assms by (cases "ce_color e") (simp_all add: color_declaration_def theme_color_def is_coloured_def falsy_text_def)

lemma no_style_without_colours: "ChartStyle chart config = [] \<longleftrightarrow> \<not> (\<exists>e \<in> set config. is_coloured (snd e))"
  by (auto simp: ChartStyle_def Let_def filter_empty_conv)

text \<open>Outside a chart there is no tooltip and no legend: the hook throws.\<close>

lemma outside_chart:
  "ChartTooltipContent num locale_text None p = Inl ''useChart must be used within a <ChartContainer />''"
  "ChartLegendContent num None hide payload nameKey = Inl ''useChart must be used within a <ChartContainer />''"
  by (simp_all add: ChartTooltipContent_def ChartLegendContent_def useChart_def)

text \<open>The legend reads as the labels of the series it does not leave out, in their order.\<close>

definition series_label :: "(rat \<Rightarrow> string) \<Rightarrow> ChartConfig \<Rightarrow> string option \<Rightarrow> json \<Rightarrow> string" where
  "series_label num config nameKey item =
     nullish (series_name (getPayloadConfigFromPayload config item
       (chartConfigKey num [map_option JStr nameKey, json_field item ''dataKey'']))) []"

lemma legend_item_text:
  "node_text (legend_item num config hide nameKey entry) = series_label num config nameKey (snd entry)"
  by (simp add: legend_item_def series_label_def Let_def split: option.split)

lemma map_snd_entries: "map (\<lambda>e. f (snd e)) (enumerate n xs) = map f xs"
  by (induction xs arbitrary: n) simp_all

lemma legend_text:
  assumes "payload \<noteq> []"
  shows "\<exists>ns. ChartLegendContent num (Some config) hide payload nameKey = Inr ns \<and>
    concat (map node_text ns) = concat (map (series_label num config nameKey) (shown_items payload))"
  using assms by (simp add: ChartLegendContent_def useChart_def comp_def legend_item_text map_snd_entries)

text \<open>
  What the library reports for one bar of a metric chart: the series by its data key, the value
  and the snapshot's data.
\<close>

definition bar_report :: "rat \<Rightarrow> rat \<Rightarrow> json \<Rightarrow> bool" where
  "bar_report t x item \<longleftrightarrow>
     json_field item ''name'' = Some (JStr ''value'') \<and> json_field item ''value'' = Some (JNum x) \<and>
     json_field item ''type'' \<noteq> Some (JStr ''none'') \<and>
     json_field item ''payload'' = Some (JObj [(''timestamp'', JNum t), (''value'', JNum x)])"

lemma bar_label:
  assumes "bar_report t x item"
  shows "getPayloadConfigFromPayload (metricChartConfigs kind) item ''value'' =
    Some (bare_entry\<lparr>ce_label := Some (if kind = Kind_runtime then ''Runtime'' else ''Jobs per minute''),
      ce_color := Some ''var(--chart-1)''\<rparr>)"
proof -
  have "members_of item \<noteq> None"
    using assms unfolding bar_report_def json_field_def by (cases "members_of item") simp_all
  moreover have "config_label_key item ''value'' = ''value''"
    using assms unfolding bar_report_def config_label_key_def by (simp add: json_field_def [of "JObj ms" for ms] members_of_def)
  ultimately show ?thesis
    by (cases kind) (simp_all add: getPayloadConfigFromPayload_def config_entry_def)
qed

lemma bar_moment:
  assumes "bar_report t x item"
  shows "tooltip_moment num parse [item] = Num t"
  using assms unfolding bar_report_def
  by (simp add: tooltip_moment_def Number_of_def json_field_def [of "JObj ms" for ms] members_of_def)

lemma bar_tooltip_label:
  assumes "bar_report t x item"
  shows "tooltipLabel num config (metric_tooltip_props num parse time_text kind True [item] label) =
    [text_of ''div'' (time_text (t * 1000))]"
  by (simp add: tooltipLabel_def metric_tooltip_props_def Let_def bar_moment [OF assms] formatMetricTooltipLabel_def)

text \<open>
  C31: the tooltips of the two metric charts are not alike. Whatever label the library gives, the
  tooltip of a bar of the throughput chart reads as the time of the snapshot, the name of the series
  and the value; that of the runtime chart, to which the same formatter of the label is given,
  reads as the name and the duration only: the time is lost.
\<close>

theorem runtime_tooltip_loses_time:
  assumes "bar_report t x item"
  shows "\<exists>throughput runtime.
    metric_tooltip num locale_text parse time_text Kind_throughput True [item] label = Inr throughput \<and>
    concat (map node_text throughput) = time_text (t * 1000) @ ''Jobs per minute'' @ locale_text x \<and>
    metric_tooltip num locale_text parse time_text Kind_runtime True [item] label = Inr runtime \<and>
    concat (map node_text runtime) = ''Runtime'' @ formatMetricRuntime x \<and>
    tp_labelFormatter (metric_tooltip_props num parse time_text Kind_runtime True [item] label :: 'a tooltip_props) =
      tp_labelFormatter (metric_tooltip_props num parse time_text Kind_throughput True [item] label :: 'a tooltip_props)"
proof -
  note f = assms [unfolded bar_report_def]
  have shown: "shown_items [item] = [item]"
    using f by (simp add: shown_items_def)
  note props = metric_tooltip_def metric_tooltip_props_def ChartTooltipContent_def useChart_def nestLabel_def shown
    tooltip_item_def tooltip_line_def Let_def f bar_label [OF assms] child_if_def text_of_def
  have "concat (map node_text (projr (metric_tooltip num locale_text parse time_text Kind_throughput True [item] label))) =
      time_text (t * 1000) @ ''Jobs per minute'' @ locale_text x"
    by (simp add: props bar_tooltip_label [OF assms, where kind = Kind_throughput, unfolded metric_tooltip_props_def, simplified]
        tooltip_mark_def series_name_def bare_entry_def item_value_text_def del: metricChartConfigs.simps)
  moreover have "concat (map node_text (projr (metric_tooltip num locale_text parse time_text Kind_runtime True [item] label))) =
      ''Runtime'' @ formatMetricRuntime x"
    by (simp add: props runtime_formatter_def Number_of_def formatMetricRuntime_def)
  ultimately show ?thesis
    by (simp add: metric_tooltip_def ChartTooltipContent_def useChart_def metric_tooltip_props_def)
qed

theorem runtime_tooltip_loses_time_witness:
  "(let item = JObj [(''name'', JStr ''value''), (''value'', JNum 2), (''payload'', JObj [(''timestamp'', JNum 60), (''value'', JNum 2)])]
    in \<exists>runtime. metric_tooltip (\<lambda>_. ''2'') (\<lambda>_. ''2'') (\<lambda>_. NaN) (\<lambda>_. ''00:01'') Kind_runtime True [item] None = Inr runtime \<and>
         concat (map node_text runtime) = ''Runtime'' @ formatMetricRuntime 2)"
proof -
  have "bar_report 60 2 (JObj [(''name'', JStr ''value''), (''value'', JNum 2), (''payload'', JObj [(''timestamp'', JNum 60), (''value'', JNum 2)])])"
    by (simp add: bar_report_def json_field_def members_of_def)
  from runtime_tooltip_loses_time [OF this, of "\<lambda>_. ''2''" "\<lambda>_. ''2''" "\<lambda>_. NaN" "\<lambda>_. ''00:01''" None]
  show ?thesis
    unfolding Let_def by blast
qed

end
