(* ===== verification/Ui_Kit.thy ===== *)
theory Ui_Kit
  imports Sidebar Instance_Commands
begin

text \<open>
  The parts of the UI kit (\<^verbatim>\<open>resources/js/components/ui\<close>) that decide something: the trigger, the
  content and the items of a menu (\<^verbatim>\<open>dropdown-menu.tsx\<close>), the sheet's and the dialog's buttons
  (\<^verbatim>\<open>sheet.tsx\<close>, \<^verbatim>\<open>dialog.tsx\<close>), the forms of the sidebar (\<^verbatim>\<open>sidebar.tsx\<close>), the error of a field
  (\<^verbatim>\<open>field.tsx\<close>), the press on an input's addon (\<^verbatim>\<open>input-group.tsx\<close>) and the toasts (\<^verbatim>\<open>toast.tsx\<close>).
  The primitives below the kit are a library: they stand in the tree by name, and a menu's handle is
  given by its three operations.
\<close>

section \<open>Menus\<close>

text \<open>
  An event as the kit's handlers see it: \<open>prevented\<close> is \<open>defaultPrevented\<close> after the handler the
  program gave has run, \<open>lib\<close> whether the library's own handler still runs.
\<close>

record pointer_event =
  pe_prevented :: bool
  pe_button :: int
  pe_ctrlKey :: bool

record click_event =
  cl_prevented :: bool
  cl_detail :: int

record 'h menu_handle =
  mh_isOpen :: "'h \<Rightarrow> bool"
  mh_open :: "string \<Rightarrow> 'h \<Rightarrow> 'h"
  mh_close :: "'h \<Rightarrow> 'h"

text \<open>The handle and the identifier a trigger uses: its own, or the menu's and a generated one.\<close>

definition menu_handle_of :: "'h menu_handle option \<Rightarrow> 'h menu_handle \<Rightarrow> 'h menu_handle" where
  "menu_handle_of external internal = nullish external internal"

definition trigger_handle :: "'h menu_handle option \<Rightarrow> 'h menu_handle option \<Rightarrow> 'h menu_handle option" where
  "trigger_handle external internal = (case external of Some h \<Rightarrow> Some h | None \<Rightarrow> internal)"

definition trigger_id :: "string option \<Rightarrow> string \<Rightarrow> string" where
  "trigger_id external generated = nullish external generated"

definition menu_toggle :: "'h menu_handle option \<Rightarrow> string \<Rightarrow> 'h \<Rightarrow> 'h" where
  "menu_toggle handle i w =
     (case handle of
        None \<Rightarrow> w
      | Some h \<Rightarrow> if mh_isOpen h w then mh_close h w else mh_open h i w)"

text \<open>The answers: the world, and whether the library's handler still runs.\<close>

definition trigger_pointer_down :: "'h menu_handle option \<Rightarrow> string \<Rightarrow> pointer_event \<Rightarrow> 'h \<Rightarrow> 'h \<times> bool" where
  "trigger_pointer_down handle i e w =
     (if \<not> pe_prevented e \<and> pe_button e = 0 \<and> \<not> pe_ctrlKey e \<and> handle \<noteq> None
      then (menu_toggle handle i w, False) else (w, True))"

definition trigger_click :: "'h menu_handle option \<Rightarrow> string \<Rightarrow> click_event \<Rightarrow> 'h \<Rightarrow> 'h \<times> bool" where
  "trigger_click handle i e w =
     (if \<not> cl_prevented e \<and> cl_detail e = 0 \<and> handle \<noteq> None then menu_toggle handle i w else w, handle = None)"

text \<open>
  What a reader does to a trigger, as the events a browser sends: a press of a mouse button, of which
  the primary one is followed by a click, a touch, and a key that activates the trigger. \<open>press\<close> and
  \<open>click\<close> are the library's own handlers.
\<close>

datatype gesture = Press int bool | Touch | Activate_key

definition pointer_down ::
  "(pointer_event \<Rightarrow> 'h \<Rightarrow> 'h) \<Rightarrow> 'h menu_handle option \<Rightarrow> string \<Rightarrow> pointer_event \<Rightarrow> 'h \<Rightarrow> 'h" where
  "pointer_down press handle i e w =
     (let (w', library) = trigger_pointer_down handle i e w in if library then press e w' else w')"

definition clicked ::
  "(click_event \<Rightarrow> 'h \<Rightarrow> 'h) \<Rightarrow> 'h menu_handle option \<Rightarrow> string \<Rightarrow> click_event \<Rightarrow> 'h \<Rightarrow> 'h" where
  "clicked click handle i e w =
     (let (w', library) = trigger_click handle i e w in if library then click e w' else w')"

fun gesture_step ::
  "(pointer_event \<Rightarrow> 'h \<Rightarrow> 'h) \<Rightarrow> (click_event \<Rightarrow> 'h \<Rightarrow> 'h) \<Rightarrow> 'h menu_handle option \<Rightarrow> string \<Rightarrow> gesture \<Rightarrow> 'h \<Rightarrow> 'h" where
  "gesture_step press click handle i (Press button ctrl) w =
     (let w' = pointer_down press handle i \<lparr>pe_prevented = False, pe_button = button, pe_ctrlKey = ctrl\<rparr> w
      in if button = 0 then clicked click handle i \<lparr>cl_prevented = False, cl_detail = 1\<rparr> w' else w')"
| "gesture_step press click handle i Touch w =
     clicked click handle i \<lparr>cl_prevented = False, cl_detail = 1\<rparr>
       (pointer_down press handle i \<lparr>pe_prevented = False, pe_button = 0, pe_ctrlKey = False\<rparr> w)"
| "gesture_step press click handle i Activate_key w =
     clicked click handle i \<lparr>cl_prevented = False, cl_detail = 0\<rparr> w"

text \<open>The content stops the event before its own handler; an item is chosen unless its click was prevented.\<close>

definition menu_content_click :: "('w \<Rightarrow> 'w) option \<Rightarrow> 'w \<times> bool \<Rightarrow> 'w \<times> bool" where
  "menu_content_click onClick s = (case onClick of None \<Rightarrow> fst s | Some f \<Rightarrow> f (fst s), True)"

text \<open>\<open>onClick\<close> answers the world and whether it prevented the default, which may hold before.\<close>

definition menu_item_click ::
  "bool \<Rightarrow> ('w \<Rightarrow> 'w \<times> bool) option \<Rightarrow> ('w \<Rightarrow> 'w) option \<Rightarrow> 'w \<Rightarrow> 'w" where
  "menu_item_click prevented onClick onSelect w =
     (let (w', p) = (case onClick of None \<Rightarrow> (w, prevented) | Some f \<Rightarrow> let (v, q) = f w in (v, prevented \<or> q))
      in if p then w' else (case onSelect of None \<Rightarrow> w' | Some f \<Rightarrow> f w'))"

section \<open>Dialogs and sheets\<close>

text \<open>Props that are spread last replace those of the same name.\<close>

definition kit_close :: "'a node list" where
  "kit_close = [El ''XIcon'' [] [], text_of ''span'' ''Close'']"

definition DialogContent :: "bool \<Rightarrow> 'a node list \<Rightarrow> 'a node" where
  "DialogContent showCloseButton children =
     El ''DialogPortal'' []
       [El ''DialogOverlay'' [] [],
        El ''Popup'' [(''data-slot'', Str ''dialog-content'')]
          (children @ child_if showCloseButton [El ''Close'' [(''data-slot'', Str ''dialog-close'')] kit_close])]"

definition DialogFooter :: "bool \<Rightarrow> 'a node list \<Rightarrow> 'a node" where
  "DialogFooter showCloseButton children =
     El ''div'' [(''data-slot'', Str ''dialog-footer'')] (children @ child_if showCloseButton [text_of ''Close'' ''Close''])"

definition SheetContent ::
  "string \<Rightarrow> bool \<Rightarrow> bool \<Rightarrow> (string \<times> 'a attr) list \<Rightarrow> 'a node list \<Rightarrow> 'a node" where
  "SheetContent side showCloseButton showNonModalBackdrop props children =
     El ''SheetPortal'' []
       (El ''SheetOverlay'' [] [] #
        child_if showNonModalBackdrop
          [El ''div'' [(''aria-hidden'', Str ''true''), (''data-slot'', Str ''sheet-backdrop'')] []] @
        [El ''Popup'' (from_entries ([(''data-slot'', Str ''sheet-content''), (''data-side'', Str side)] @ props))
           (children @ child_if showCloseButton [El ''Close'' [(''data-slot'', Str ''sheet-close'')] kit_close])])"

section \<open>Sidebar\<close>

definition useSidebar :: "sidebar option \<Rightarrow> string + sidebar" where
  "useSidebar context_value =
     (case context_value of
        None \<Rightarrow> Inl ''useSidebar must be used within a SidebarProvider.''
      | Some s \<Rightarrow> Inr s)"

datatype collapsible_kind = Offcanvas | Icon_only | Not_collapsible

fun collapsible_literal :: "collapsible_kind \<Rightarrow> string" where
  "collapsible_literal Offcanvas = ''offcanvas''"
| "collapsible_literal Icon_only = ''icon''"
| "collapsible_literal Not_collapsible = ''none''"

definition sidebar_state :: "sidebar \<Rightarrow> string" where
  "sidebar_state s = (if sb_open s then ''expanded'' else ''collapsed'')"

datatype kit_act = Toggle_sidebar | Sheet_changes

definition sidebar_element ::
  "string \<Rightarrow> string \<Rightarrow> collapsible_kind \<Rightarrow> sidebar \<Rightarrow> kit_act node list \<Rightarrow> kit_act node" where
  "sidebar_element side variant collapsible s children =
     (if collapsible = Not_collapsible then El ''div'' [(''data-slot'', Str ''sidebar'')] children
      else if viewport_mobile s
      then El ''Sheet'' [(''open'', Flag (openMobile s)), (''onOpenChange'', On Sheet_changes), (''modal'', Flag False)]
             [SheetContent side True True
                [(''data-sidebar'', Str ''sidebar''), (''data-slot'', Str ''sidebar''), (''data-mobile'', Str ''true'')]
                [El ''SheetHeader'' []
                   [text_of ''SheetTitle'' ''Sidebar'', text_of ''SheetDescription'' ''Displays the mobile sidebar.''],
                 El ''div'' [] children]]
      else El ''div''
             [(''data-state'', Str (sidebar_state s)),
              (''data-collapsible'', Str (if sb_open s then [] else collapsible_literal collapsible)),
              (''data-variant'', Str variant), (''data-side'', Str side), (''data-slot'', Str ''sidebar'')]
             [El ''div'' [(''data-slot'', Str ''sidebar-gap'')] [],
              El ''div'' [(''data-slot'', Str ''sidebar-container''), (''data-side'', Str side)]
                [El ''div'' [(''data-sidebar'', Str ''sidebar''), (''data-slot'', Str ''sidebar-inner'')] children]])"

definition SidebarTrigger :: "kit_act node list \<Rightarrow> kit_act node" where
  "SidebarTrigger children =
     El ''Button'' [(''data-sidebar'', Str ''trigger''), (''data-slot'', Str ''sidebar-trigger''), (''onClick'', On Toggle_sidebar)]
       ((if children = [] then [El ''PanelLeftIcon'' [] []] else children) @ [text_of ''span'' ''Toggle Sidebar''])"

definition SidebarRail :: "kit_act node" where
  "SidebarRail =
     El ''button''
       [(''data-sidebar'', Str ''rail''), (''data-slot'', Str ''sidebar-rail''), (''aria-label'', Str ''Toggle Sidebar''),
        (''tabIndex'', Count (- 1)), (''onClick'', On Toggle_sidebar), (''title'', Str ''Toggle Sidebar'')] []"

text \<open>A tooltip is a text here; the empty one is none.\<close>

definition SidebarMenuButton ::
  "sidebar \<Rightarrow> string \<Rightarrow> string option \<Rightarrow> bool \<Rightarrow> 'a node list \<Rightarrow> 'a node list \<Rightarrow> 'a node" where
  "SidebarMenuButton s buttonSize tooltip isActive render children =
     (let state = [(''slot'', Str ''sidebar-menu-button''), (''sidebar'', Str ''menu-button''),
                   (''size'', Str buttonSize), (''active'', Flag isActive)];
          inner = child_if (render \<noteq> []) [El ''render'' [] render] @ children
      in if falsy_text tooltip then El ''button'' state inner
         else El ''Tooltip'' []
                [El ''TooltipTrigger'' state inner,
                 El ''TooltipContent''
                   [(''side'', Str ''right''), (''align'', Str ''center''),
                    (''hidden'', Flag (sidebar_state s \<noteq> ''collapsed'' \<or> viewport_mobile s))]
                   [Text (nullish tooltip [])]])"

text \<open>\<open>random\<close> is what \<open>Math.random()\<close> gives.\<close>

definition skeleton_percent :: "rat \<Rightarrow> int" where
  "skeleton_percent random = \<lfloor>random * 40\<rfloor> + 50"

definition SidebarMenuSkeleton :: "rat \<Rightarrow> bool \<Rightarrow> 'a node" where
  "SidebarMenuSkeleton random showIcon =
     El ''div'' [(''data-slot'', Str ''sidebar-menu-skeleton''), (''data-sidebar'', Str ''menu-skeleton'')]
       (child_if showIcon [El ''Skeleton'' [(''data-sidebar'', Str ''menu-skeleton-icon'')] []] @
        [El ''Skeleton''
           [(''data-sidebar'', Str ''menu-skeleton-text''), (''--skeleton-width'', Str (int_text (skeleton_percent random) @ ''%''))] []])"

section \<open>Fields\<close>

text \<open>
  An error may be absent or without a message. The errors are kept in a map by their message, so of
  equal messages the first gives the place.
\<close>

type_synonym field_error = "string option option"

definition error_message :: "field_error \<Rightarrow> string option" where
  "error_message e = Option.bind e id"

definition uniqueErrors :: "field_error list \<Rightarrow> field_error list" where
  "uniqueErrors errors = map snd (from_entries (map (\<lambda>e. (error_message e, e)) errors))"

definition error_item :: "nat \<times> field_error \<Rightarrow> 'a node list" where
  "error_item entry =
     (case error_message (snd entry) of
        None \<Rightarrow> []
      | Some m \<Rightarrow> if m = [] then [] else [El ''li'' [(''key'', Count (int (fst entry)))] [Text m]])"

definition error_content :: "string option \<Rightarrow> field_error list \<Rightarrow> 'a node list" where
  "error_content children errors =
     (if \<not> falsy_text children then [Text (nullish children [])]
      else if errors = [] then []
      else let unique = uniqueErrors errors
           in if length unique = 1
              then (if falsy_text (error_message (hd unique)) then [] else [Text (nullish (error_message (hd unique)) [])])
              else [El ''ul'' [] (concat (map error_item (enumerate 0 unique)))])"

definition FieldError :: "string option \<Rightarrow> field_error list \<Rightarrow> 'a node list" where
  "FieldError children errors =
     (let content = error_content children errors
      in if content = [] then []
         else [El ''div'' [(''role'', Str ''alert''), (''data-slot'', Str ''field-error'')] content])"

definition FieldSeparator :: "'a node list \<Rightarrow> 'a node" where
  "FieldSeparator children =
     El ''div'' [(''data-slot'', Str ''field-separator''), (''data-content'', Flag (children \<noteq> []))]
       (El ''Separator'' [] [] #
        child_if (children \<noteq> []) [El ''span'' [(''data-slot'', Str ''field-separator-content'')] children])"

text \<open>A press on an addon moves the focus to the group's input, if there is one, unless it was on a button.\<close>

definition addon_press :: "bool \<Rightarrow> 'i option \<Rightarrow> 'i option \<Rightarrow> 'i option" where
  "addon_press on_button input focus = (if on_button then focus else case input of None \<Rightarrow> focus | Some i \<Rightarrow> Some i)"

section \<open>Toasts\<close>

definition ToastIcon :: "string option \<Rightarrow> 'a node list" where
  "ToastIcon type =
     (case map_of [(''success'', ''CircleCheckIcon''), (''info'', ''InfoIcon''), (''warning'', ''TriangleAlertIcon''),
                   (''error'', ''OctagonXIcon''), (''loading'', ''Loader2Icon'')] (nullish type []) of
        None \<Rightarrow> []
      | Some icon \<Rightarrow> [El ''span'' [(''data-slot'', Str ''toast-icon'')] [El icon [(''aria-hidden'', Str ''true'')] []]])"

record toast_item =
  toast_id :: string
  toast_type :: "string option"

definition ToastList :: "toast_item list \<Rightarrow> 'a node list" where
  "ToastList items =
     map (\<lambda>t. El ''Toast'' [(''key'', Str (toast_id t))]
            [El ''ToastContent'' []
               (ToastIcon (toast_type t) @
                [El ''div'' [] [El ''ToastTitle'' [] [], El ''ToastDescription'' [] []],
                 El ''ToastAction'' [] [], El ''ToastClose'' [] []])]) items"

section \<open>Properties\<close>

text \<open>The documented behaviour of a handle: opening opens, closing closes.\<close>

definition handle_law :: "'h menu_handle \<Rightarrow> bool" where
  "handle_law h \<longleftrightarrow> (\<forall>i w. mh_isOpen h (mh_open h i w)) \<and> (\<forall>w. \<not> mh_isOpen h (mh_close h w))"

fun activates :: "gesture \<Rightarrow> bool" where
  "activates (Press button ctrl) = (button = 0 \<and> \<not> ctrl)"
| "activates g = True"

lemma toggle_flips: "handle_law h \<Longrightarrow> mh_isOpen h (menu_toggle (Some h) i w) \<longleftrightarrow> \<not> mh_isOpen h w"
  by (simp add: handle_law_def menu_toggle_def)

lemma gesture_toggles:
  "activates g \<Longrightarrow> gesture_step press click (Some h) i g w = menu_toggle (Some h) i w"
  by (cases g) (simp_all add: pointer_down_def clicked_def trigger_pointer_down_def trigger_click_def Let_def)

lemma press_left_to_library:
  "button \<noteq> 0 \<or> ctrl \<Longrightarrow> gesture_step press click (Some h) i (Press button ctrl) w =
     press \<lparr>pe_prevented = False, pe_button = button, pe_ctrlKey = ctrl\<rparr> w"
  by (auto simp: pointer_down_def clicked_def trigger_pointer_down_def trigger_click_def Let_def)

text \<open>
  C21: a trigger toggles its menu once per gesture. After any sequence of primary presses, touches
  and activating keys the menu is open exactly if it was open and their number is even, or it was
  closed and the number is odd: no press is counted twice, as press and as click, and the library's
  handlers never answer as well. A press of another button, or with the control key, is left to the
  library alone.
\<close>

theorem menu_trigger_toggles_once:
  assumes "handle_law h" "list_all activates gs"
  shows "(mh_isOpen h (fold (gesture_step press click (Some h) i) gs w) \<longleftrightarrow> (mh_isOpen h w \<longleftrightarrow> even (length gs))) \<and>
    gesture_step press click (Some h) i (Press button ctrl) w =
      (if button = 0 \<and> \<not> ctrl then menu_toggle (Some h) i w
       else press \<lparr>pe_prevented = False, pe_button = button, pe_ctrlKey = ctrl\<rparr> w)"
proof
  show "mh_isOpen h (fold (gesture_step press click (Some h) i) gs w) \<longleftrightarrow> (mh_isOpen h w \<longleftrightarrow> even (length gs))"
    using assms(2) by (induction gs arbitrary: w) (auto simp: gesture_toggles toggle_flips [OF assms(1)])
qed (use gesture_toggles [of "Press button ctrl"] press_left_to_library [of button ctrl] in auto)

text \<open>A handle that remembers the trigger by which its menu was opened.\<close>

theorem menu_trigger_toggles_once_witness:
  "(let h = \<lparr>mh_isOpen = (\<lambda>w. w \<noteq> None), mh_open = (\<lambda>i _. Some i), mh_close = (\<lambda>_. None)\<rparr>
    in \<not> mh_isOpen h (fold (gesture_step (\<lambda>_. id) (\<lambda>_. id) (Some h) ''menu'') [Press 0 False, Activate_key, Touch, Touch] None))"
proof -
  let ?h = "\<lparr>mh_isOpen = (\<lambda>w. w \<noteq> None), mh_open = (\<lambda>i _. Some i), mh_close = (\<lambda>_. None)\<rparr> :: string option menu_handle"
  let ?gs = "[Press 0 False, Activate_key, Touch, Touch]"
  have "handle_law ?h" "list_all activates ?gs"
    by (simp_all add: handle_law_def)
  from conjunct1 [OF menu_trigger_toggles_once [OF this, of "\<lambda>_. id" "\<lambda>_. id" "''menu''" None]]
  have "mh_isOpen ?h (fold (gesture_step (\<lambda>_. id) (\<lambda>_. id) (Some ?h) ''menu'') ?gs None) \<longleftrightarrow>
      (mh_isOpen ?h None \<longleftrightarrow> even (length ?gs))" .
  moreover have "\<not> mh_isOpen ?h None" "even (length ?gs)"
    by simp_all
  ultimately show ?thesis
    unfolding Let_def by blast
qed

text \<open>An item is chosen exactly when nothing prevented its click.\<close>

lemma item_chosen:
  "menu_item_click p (Some f) (Some g) w = (if p \<or> snd (f w) then fst (f w) else g (fst (f w)))"
  "menu_item_click p None (Some g) w = (if p then w else g w)"
  by (simp_all add: menu_item_click_def Let_def split: prod.split)

text \<open>The sidebar shows its navigation in each of its forms, and the tooltips on the folded one only.\<close>

lemma sidebar_keeps_children:
  "\<exists>before. node_text (sidebar_element side variant collapsible s children) =
     before @ concat (map node_text children) @ (if collapsible \<noteq> Not_collapsible \<and> viewport_mobile s then ''Close'' else [])"
  by (auto simp: sidebar_element_def SheetContent_def kit_close_def child_if_def text_of_def)

lemma skeleton_width_bounds: "0 \<le> r \<Longrightarrow> r < 1 \<Longrightarrow> 50 \<le> skeleton_percent r \<and> skeleton_percent r < 90"
  unfolding skeleton_percent_def by linarith

text \<open>A field shows every message once.\<close>

lemma unique_messages: "distinct (map error_message (uniqueErrors errors))"
proof -
  have "map fst m = map (error_message \<circ> snd) m"
    if "m = from_entries (map (\<lambda>e. (error_message e, e)) errors)" for m
  proof -
    have "k = error_message e" if "(k, e) \<in> set m" for k e
    proof -
      from that have "map_of m k = Some e"
        unfolding \<open>m = _\<close> by simp
      then have "map_of (rev (map (\<lambda>e. (error_message e, e)) errors)) k = Some e"
        unfolding \<open>m = _\<close> map_of_from_entries .
      then show ?thesis
        by (auto dest: map_of_SomeD)
    qed
    then show ?thesis by auto
  qed
  then show ?thesis
    unfolding uniqueErrors_def by (metis distinct_keys_from_entries map_map)
qed

end
