(* ===== verification/Process_Pages.thy ===== *)
theory Process_Pages
  imports Process_Transitions Supervisors_Table Overview Detail_List Page_Refresh Job_Tables
begin

text \<open>
  The pages that show processes: \<^verbatim>\<open>resources/js/pages/dashboard.tsx\<close>, \<^verbatim>\<open>pages/instances/index.tsx\<close> and
  \<^verbatim>\<open>pages/supervisors/show.tsx\<close>. The first two compose the hook of process transitions with the
  refresh of the page: while the server has not reported a requested transition they poll, whatever
  the reader chose.
\<close>

section \<open>Transitions and refreshes together\<close>

definition autoRefreshEnabled :: "bool \<Rightarrow> int \<Rightarrow> bool" where
  "autoRefreshEnabled autoLoad pollInterval \<longleftrightarrow> autoLoad \<and> pollInterval > 0"

definition fallbackPolling :: "bool \<Rightarrow> int \<Rightarrow> transitions_hook \<Rightarrow> bool" where
  "fallbackPolling autoLoad pollInterval h \<longleftrightarrow> \<not> autoRefreshEnabled autoLoad pollInterval \<and> hasPendingTransitions h"

definition process_refresh :: "string list \<Rightarrow> bool \<Rightarrow> int \<Rightarrow> transitions_hook \<Rightarrow> page_refresh_props" where
  "process_refresh props autoLoad pollInterval h =
     \<lparr>pr_interval = resolveProcessPollInterval pollInterval, pr_props = props,
      pr_enabled = (autoRefreshEnabled autoLoad pollInterval \<or> fallbackPolling autoLoad pollInterval h),
      pr_includeSharedProps = True\<rparr>"

text \<open>The dashboard refreshes its own props, the list of instances the supervisors.\<close>

definition dashboard_refresh :: "bool \<Rightarrow> int \<Rightarrow> transitions_hook \<Rightarrow> page_refresh_props" where
  "dashboard_refresh = process_refresh dashboardProps"

definition instances_refresh :: "bool \<Rightarrow> int \<Rightarrow> transitions_hook \<Rightarrow> page_refresh_props" where
  "instances_refresh = process_refresh [''supervisors'']"

text \<open>
  A page over time: events of the hook, and new values of the reader's preference or of the
  configured interval. Every event ends in a render, whose effects the world keeps.
\<close>

record process_page =
  pg_hook :: transitions_hook
  pg_autoLoad :: bool
  pg_interval :: int
  pg_world :: page_refresh_world

datatype process_event =
    Hook_event hook_event
  | Preference_set bool
  | Interval_reported int

definition page_props :: "string list \<Rightarrow> process_page \<Rightarrow> page_refresh_props" where
  "page_props props s = process_refresh props (pg_autoLoad s) (pg_interval s) (pg_hook s)"

fun page_change :: "process_event \<Rightarrow> process_page \<Rightarrow> process_page" where
  "page_change (Hook_event e) s = s\<lparr>pg_hook := hook_step (pg_hook s) e\<rparr>"
| "page_change (Preference_set b) s = s\<lparr>pg_autoLoad := b\<rparr>"
| "page_change (Interval_reported i) s = s\<lparr>pg_interval := i\<rparr>"

definition process_step :: "string list \<Rightarrow> process_page \<Rightarrow> process_event \<Rightarrow> process_page" where
  "process_step props s e =
     (let s' = page_change e s
      in s'\<lparr>pg_world := render_page_refresh (page_props props s) (page_props props s') (pg_world s)\<rparr>)"

definition mount_process_page :: "string list \<Rightarrow> bool \<Rightarrow> int \<Rightarrow> process_page" where
  "mount_process_page props autoLoad pollInterval =
     \<lparr>pg_hook = initial_transitions, pg_autoLoad = autoLoad, pg_interval = pollInterval,
      pg_world = mount_page_refresh (process_refresh props autoLoad pollInterval initial_transitions) initial_refresh\<rparr>"

definition process_run :: "string list \<Rightarrow> bool \<Rightarrow> int \<Rightarrow> process_event list \<Rightarrow> process_page" where
  "process_run props autoLoad pollInterval es =
     foldl (process_step props) (mount_process_page props autoLoad pollInterval) es"

section \<open>The dashboard\<close>

definition WorkloadStat :: "string \<Rightarrow> 'a node \<Rightarrow> string option \<Rightarrow> string option \<Rightarrow> 'a node" where
  "WorkloadStat label v detail valueTooltip =
     El ''Statistic'' []
       ([text_of ''StatisticLabel'' label,
         El ''StatisticValue'' []
           [if falsy_text valueTooltip then v
            else El ''Tooltip'' []
                   [El ''TooltipTrigger'' [] [El ''span'' [(''tabIndex'', Count 0)] [], v],
                    text_of ''TooltipContent'' (the valueTooltip)]]] @
        child_if (\<not> falsy_text detail) [text_of ''StatisticSupportingText'' (''('' @ the detail @ '')'')])"

definition hasWorkload :: "DashboardWorkload \<Rightarrow> bool" where
  "hasWorkload workload \<longleftrightarrow> dw_available workload \<and> length (dw_items workload) > 0"

text \<open>A number that is a child is shown as it is, by \<open>int_text\<close>.\<close>

definition workload_stats :: "DashboardSummary \<Rightarrow> 'a node list" where
  "workload_stats summary =
     [WorkloadStat ''Total Processes'' (Text (int_text (ds_processes summary))) None None,
      WorkloadStat ''Max Wait Time''
        (if ds_maxWaitSeconds summary > 0 then Duration (ds_maxWaitSeconds summary) Approximate False else Text em_dash)
        None None,
      WorkloadStat ''Max Runtime'' (Text (nullish (ds_queueWithMaxRuntime summary) em_dash)) None None,
      WorkloadStat ''Max Throughput'' (Text (nullish (ds_queueWithMaxThroughput summary) em_dash)) None None,
      WorkloadStat ''Hourly Pressure'' (Text (int_text (ds_recentJobs summary))) None
        (Some ''The number of jobs received by Horizon in the past hour.'')]"

datatype dashboard_act =
    Workload_act workload_action
  | Process_act page_action

text \<open>The tables stand in the page as the trees they return; the capabilities decide their menus.\<close>

definition queue_capabilities :: "HorizonProps \<Rightarrow> bool \<times> bool" where
  "queue_capabilities horizon =
     (case hz_capabilities horizon of
        None \<Rightarrow> (False, False)
      | Some c \<Rightarrow> (cap_queuePausing c, cap_timedQueuePausing c))"

definition Dashboard ::
  "DashboardPageProps \<Rightarrow> dashboard_act node \<Rightarrow> (bool \<Rightarrow> bool \<Rightarrow> DashboardWorkload \<Rightarrow> workload_action node list) \<Rightarrow>
   (DashboardSupervisors \<Rightarrow> page_action node list) \<Rightarrow> dashboard_act node list" where
  "Dashboard p overview workload_table supervisors_table =
     (let (queuePausing, timedQueuePausing) = queue_capabilities (dpp_horizon p)
      in [El ''Head'' [(''title'', Str ''Dashboard'')] [],
          El ''div'' []
            ([overview,
              El ''Card'' []
                [El ''CardHeader'' [] [text_of ''CardTitle'' ''Workload''],
                 El ''CardContent'' []
                   (child_if (hasWorkload (dpp_workload p)) [El ''StatisticGrid'' [] (workload_stats (dpp_summary p))] @
                    embed Workload_act (workload_table queuePausing timedQueuePausing (dpp_workload p)))]] @
             (case dpp_supervisors p of None \<Rightarrow> [] | Some s \<Rightarrow> embed Process_act (supervisors_table s)))])"

definition RunningInstancesIndex ::
  "(DashboardSupervisors \<Rightarrow> page_action node list) \<Rightarrow> DashboardSupervisors \<Rightarrow> page_action node list" where
  "RunningInstancesIndex supervisors_table sups =
     El ''Head'' [(''title'', Str ''Instances'')] [] # supervisors_table sups"

section \<open>The page of a supervisor\<close>

definition supervisorStatus :: "string \<Rightarrow> HorizonStatus" where
  "supervisorStatus status =
     (if status = ''running'' then Running else if status = ''paused'' then Paused
      else if status = ''unavailable'' then Unavailable else Inactive)"

definition namedValue :: "string option \<Rightarrow> string" where
  "namedValue v =
     (case v of
        None \<Rightarrow> em_dash
      | Some s \<Rightarrow> if s = ''off'' then ''Disabled'' else (case s of [] \<Rightarrow> [] | c # cs \<Rightarrow> upper_char c # cs))"

text \<open>\<open>num\<close> is a whole number in the user's locale.\<close>

definition numberValue :: "(int \<Rightarrow> string) \<Rightarrow> int option \<Rightarrow> string" where
  "numberValue num v = or_dash num v"

definition seconds_text :: "int option \<Rightarrow> string" where
  "seconds_text v = (case v of None \<Rightarrow> em_dash | Some s \<Rightarrow> formatDuration (Num (of_int s)) Precise)"

definition backoff :: "Backoff option \<Rightarrow> string" where
  "backoff v =
     (case v of
        Some (Backoff_many vs) \<Rightarrow> if vs = [] then em_dash else join '', '' (map (\<lambda>s. seconds_text (Some s)) vs)
      | Some (Backoff_one s) \<Rightarrow> seconds_text (Some s)
      | None \<Rightarrow> seconds_text None)"

definition maximum :: "(int \<Rightarrow> string) \<Rightarrow> int option \<Rightarrow> string" where
  "maximum num v = (case v of None \<Rightarrow> em_dash | Some n \<Rightarrow> if n = 0 then ''Unlimited'' else num n)"

definition maximumDuration :: "int option \<Rightarrow> string" where
  "maximumDuration v = (case v of None \<Rightarrow> em_dash | Some n \<Rightarrow> if n = 0 then ''Unlimited'' else seconds_text v)"

definition tries_text :: "(int \<Rightarrow> string) \<Rightarrow> int option \<Rightarrow> string" where
  "tries_text num v =
     (case v of None \<Rightarrow> em_dash | Some n \<Rightarrow> if n = 0 then ''Unlimited unless defined by the job'' else num n)"

definition identityProperties :: "(int \<Rightarrow> string) \<Rightarrow> (string \<Rightarrow> string) \<Rightarrow> SupervisorDetails \<Rightarrow> 'a detail list" where
  "identityProperties num queue_url s =
     [node_detail ''Status'' [StatusBadge (Reported (supervisorStatus (sd_status s)))],
      text_detail ''Master'' (sd_master s),
      text_detail ''PID'' (or_dash int_text (sd_pid s)),
      text_detail ''Connection'' (sd_connection s),
      (if length (sd_queues s) > 0
       then node_detail ''Queues''
              [El ''span'' []
                 (map (\<lambda>(index, queue). El ''span'' [(''key'', Str queue)]
                    (child_if (index > 0) [Text '', ''] @
                     [El ''Link'' [(''href'', Str (queue_url queue)), (''prefetch'', Flag True)] [Text queue]]))
                    (zip [0..<length (sd_queues s)] (sd_queues s)))]
       else text_detail ''Queues'' em_dash),
      text_detail ''Current processes'' (num (sd_processes s))]"

definition scalingProperties :: "(int \<Rightarrow> string) \<Rightarrow> SupervisorDetails \<Rightarrow> 'a detail list" where
  "scalingProperties num s =
     [text_detail ''Balance strategy'' (namedValue (sd_balance s)),
      text_detail ''Auto-scaling strategy'' (namedValue (sd_autoScalingStrategy s)),
      text_detail ''Minimum processes'' (numberValue num (sd_minProcesses s)),
      text_detail ''Maximum processes'' (numberValue num (sd_maxProcesses s)),
      text_detail ''Balance cooldown'' (seconds_text (sd_balanceCooldown s)),
      text_detail ''Maximum shift'' (numberValue num (sd_balanceMaxShift s))]"

definition workerProperties :: "(int \<Rightarrow> string) \<Rightarrow> SupervisorDetails \<Rightarrow> 'a detail list" where
  "workerProperties num s =
     [text_detail ''Memory'' (case sd_memory s of None \<Rightarrow> em_dash | Some m \<Rightarrow> int_text m @ '' MB''),
      text_detail ''Timeout'' (seconds_text (sd_timeout s)),
      text_detail ''Retry after'' (seconds_text (sd_retryAfter s)),
      text_detail ''Tries'' (tries_text num (sd_maxTries s)),
      text_detail ''Backoff'' (backoff (sd_backoff s)),
      text_detail ''Maximum jobs'' (maximum num (sd_maxJobs s)),
      text_detail ''Maximum lifetime'' (maximumDuration (sd_maxTime s)),
      text_detail ''Sleep'' (seconds_text (sd_sleep s)),
      text_detail ''Rest'' (seconds_text (sd_rest s)),
      text_detail ''Force in maintenance''
        (case sd_force s of None \<Rightarrow> em_dash | Some f \<Rightarrow> if f then ''Enabled'' else ''Disabled''),
      text_detail ''Niceness'' (numberValue num (sd_nice s))]"

text \<open>No value of the page scrolls, so no edges are given.\<close>

definition PropertyList :: "'a detail list \<Rightarrow> 'a node" where
  "PropertyList properties = DetailList (\<lambda>_. (False, False)) properties"

definition PolicyCard :: "string \<Rightarrow> 'a detail list \<Rightarrow> 'a node" where
  "PolicyCard title properties =
     El ''Card'' []
       [El ''CardHeader'' [] [text_of ''CardTitle'' title], El ''CardContent'' [] [PropertyList properties]]"

definition SupervisorShow ::
  "(int \<Rightarrow> string) \<Rightarrow> (string \<Rightarrow> string) \<Rightarrow> bool \<Rightarrow> SupervisorDetails option \<Rightarrow> string option \<Rightarrow> 'a node list" where
  "SupervisorShow num queue_url available supervisor message =
     (case (available, supervisor) of
        (True, Some s) \<Rightarrow>
          [El ''Head'' [(''title'', Str (sd_name s))] [],
           El ''div'' []
             (El ''Card'' []
                [El ''CardHeader'' [] [El ''CardTitle'' [(''title'', Str (sd_id s))] [Text (sd_name s)]],
                 El ''CardContent'' [] [PropertyList (identityProperties num queue_url s)]] #
              map (\<lambda>w. El ''Alert'' [(''variant'', Str ''warning''), (''key'', Str (sw_title w @ '':'' @ sw_description w))]
                     [El ''TriangleAlertIcon'' [] [], text_of ''AlertTitle'' (sw_title w),
                      text_of ''AlertDescription'' (sw_description w)]) (sd_warnings s) @
              [El ''div'' []
                 [PolicyCard ''Scaling Policy'' (scalingProperties num s),
                  PolicyCard ''Worker Policy'' (workerProperties num s)]])]
      | _ \<Rightarrow>
          [El ''Head'' [(''title'', Str ''Supervisor'')] [],
           unavailable_alert ''Supervisor unavailable''
             (nullish message ''Horizon supervisor details are currently unavailable.'')])"

section \<open>Properties\<close>

lemma process_polls:
  "shouldPoll (process_refresh props autoLoad i h) \<longleftrightarrow> autoLoad \<and> 0 < i \<or> hasPendingTransitions h"
  using transition_timeout_bounds [of i]
  by (auto simp: shouldPoll_def process_refresh_def autoRefreshEnabled_def fallbackPolling_def)

lemma process_step_world:
  assumes "page_refresh_inv (page_props props s) (pg_world s)"
  shows "page_refresh_inv (page_props props (process_step props s e)) (pg_world (process_step props s e)) \<and>
    map snd (reloads (pg_world (process_step props s e))) = map snd (reloads (pg_world s)) @
      (if shouldPoll (page_props props (process_step props s e)) \<and> \<not> shouldPoll (page_props props s)
       then [uniq (props @ [''horizon'', ''navigationCounts''])] else [])"
proof -
  have p: "page_props props (process_step props s e) = page_props props (page_change e s)"
    by (simp add: process_step_def page_props_def Let_def)
  have w: "pg_world (process_step props s e) =
      render_page_refresh (page_props props s) (page_props props (page_change e s)) (pg_world s)"
    by (simp add: process_step_def Let_def)
  from render_step [OF assms, of "page_props props (page_change e s)"] show ?thesis
    unfolding p w by (simp add: page_props_def process_refresh_def)
qed

lemma process_run_inv:
  "page_refresh_inv (page_props props (process_run props a i es)) (pg_world (process_run props a i es))"
proof -
  have "page_refresh_inv (page_props props s) (pg_world s) \<Longrightarrow>
      page_refresh_inv (page_props props (foldl (process_step props) s es)) (pg_world (foldl (process_step props) s es))" for s
    by (induction es arbitrary: s) (simp_all add: process_step_world)
  moreover have "page_refresh_inv (page_props props (mount_process_page props a i)) (pg_world (mount_process_page props a i))"
    by (simp add: mount_process_page_def page_props_def mounted_page_inv refresh_inv_initial)
  ultimately show ?thesis
    by (simp add: process_run_def)
qed

text \<open>
  C3: a requested transition is watched until it is settled. After any run of the page, whatever
  the server reported, the reader chose and the timers did, the page polls exactly while automatic
  loading is on with a positive interval or a transition is pending, always with a positive
  interval; and an event that starts the polling asks for fresh data at once, exactly once, for the
  page's props, while no other event sends a request of its own.
\<close>

theorem pending_is_watched:
  "let s = process_run props autoLoad interval es; s' = process_step props s e;
       polls = (\<lambda>s. pg_autoLoad s \<and> 0 < pg_interval s \<or> hasPendingTransitions (pg_hook s))
   in pagePolling (pg_world s) = polls s \<and> 0 < pr_interval (page_props props s) \<and>
      map snd (reloads (pg_world s')) = map snd (reloads (pg_world s)) @
        (if polls s' \<and> \<not> polls s then [uniq (props @ [''horizon'', ''navigationCounts''])] else [])"
proof -
  let ?s = "process_run props autoLoad interval es"
  have polls: "shouldPoll (page_props props s) \<longleftrightarrow> pg_autoLoad s \<and> 0 < pg_interval s \<or> hasPendingTransitions (pg_hook s)" for s
    by (simp add: page_props_def process_polls)
  note inv = process_run_inv [of props autoLoad interval es]
  then have "pagePolling (pg_world ?s) = shouldPoll (page_props props ?s)"
    by (simp add: page_refresh_inv_def)
  moreover have "0 < pr_interval (page_props props ?s)"
    using transition_timeout_bounds [of "pg_interval ?s"] by (simp add: page_props_def process_refresh_def)
  ultimately show ?thesis
    using process_step_world [OF inv, of e] unfolding polls Let_def by blast
qed

end
