(* ===== verification/Spec2Isabelle.thy ===== *)
theory Spec2Isabelle
  imports Prelude Request_Coordination Process_Transitions Auto_Load Page_Refresh Job_Query Url_Query Horizon_Route
    Wayfinder Sort_Rows Format Types_Pages Instance_Commands Supervisors_Table Queue_Actions Workload_Table
    Json_Payload Preferences Sidebar Queue_Summary Overview Tabs Action_Menu Job_Actions Batch_Actions Data_Table
    Job_Tables Queue_Activity Detail_List Active_Tab Job_Pages
    Batch_Page Filters Batches_Index Jobs_Index Queues_Index Monitoring Metrics Charts Ui_Kit Process_Pages
begin

text \<open>
  Horizon New Dawn is a replacement interface for Laravel Horizon: a PHP package that answers with
  page data and actions, and an interface in TypeScript that shows the data, keeps it fresh and
  sends the actions. This development models the interface (\<^verbatim>\<open>resources/js\<close>), where the
  program keeps its own state; the server's answers are inputs of the given types.

  \<^bold>\<open>How the program is modelled.\<close> A hook or a component is a record of its state and refs, a
  definition per effect, callback and handler, and a step function over the events that can
  happen, in the order they happen: a render, a timer, a click, an answer. An asynchronous
  function is cut at its \<open>await\<close>. A visit of the client library is a record of options with its
  callbacks (\<open>Inertia\<close>); what the library does (when it calls them, when it cancels) is the input
  of the step functions. What a component returns is a tree of elements (\<open>Jsx\<close>): names, props,
  handlers as the actions they perform, and children, without style. Errors and absent values are
  options. The URLs of generated routes, the formats of the user's locale, the collator and the
  window are arguments; the laws used of them are named hypotheses (\<open>collator_law\<close>,
  \<open>number_law\<close>, \<open>whole_law\<close>, \<open>handle_law\<close>), each shown to be satisfiable by a witness.

  \<^bold>\<open>Foundations.\<close> \<open>Prelude\<close> (insertion-ordered maps, sets and strings), \<open>Number\<close> (numbers and their
  texts), \<open>Json_Text\<close> and \<open>Json_Value\<close> (JSON of the language's library, with the round trip),
  \<open>Web_Url\<close> (the parts of the URL standard the code uses), \<open>Inertia\<close>, \<open>Jsx\<close>, and the types
  \<open>Types_Dashboard\<close>, \<open>Types_Jobs\<close>, \<open>Types_Pages\<close> (\<^verbatim>\<open>types/*.ts\<close>).

  \<^bold>\<open>Keeping data fresh.\<close> \<open>Auto_Refresh\<close> (\<^verbatim>\<open>lib/auto-refresh-status.ts\<close>): one tracker per background
  request; the active count and the status are exact. \<open>Request_Coordination\<close>
  (\<^verbatim>\<open>lib/inertia-request-coordination.ts\<close>): a foreground visit cancels the polls that are running.
  \<open>Auto_Load\<close> (\<^verbatim>\<open>hooks/use-auto-load.ts\<close>): polling never replaces a list the reader is browsing and
  announces new entries exactly. \<open>Page_Refresh\<close> (\<^verbatim>\<open>hooks/use-dashboard-refresh.ts\<close>, the filter
  catalogue and the clock of scheduled jobs), \<open>Job_Query\<close> (\<^verbatim>\<open>hooks/use-job-query-controls.ts\<close>):
  every edit of a query is committed, submitted or waiting, and two orders of events that lose
  one. \<open>Preferences\<close>: what is kept in the browser's storage.

  \<^bold>\<open>Commands.\<close> \<open>Process_Transitions\<close> and \<open>Instance_Commands\<close>: pausing and continuing processes, the
  pending transitions that exclude each other, are settled by the server's report, expire, or are
  rolled back with the command that failed; \<open>Supervisors_Table\<close> offers just what they accept.
  \<open>Queue_Actions\<close>: the menu of a queue. \<open>Action_Menu\<close> states the contract of a menu as two locales
  (\<open>single_request\<close>, and \<open>confirmed_request\<close>, which extends it); \<open>Job_Actions\<close>, \<open>Batch_Actions\<close> and
  \<open>Data_Table\<close> interpret them on the thirteen menus, buttons and badges of the program, so that
  none ever has two requests under way and what destroys work is confirmed first.

  \<^bold>\<open>Lists and pages.\<close> \<open>Sort_Rows\<close> (stable sorting and its URL), \<open>Url_Query\<close>, \<open>Wayfinder\<close>, \<open>Horizon_Route\<close>
  (queries and routes), \<open>Format\<close> (durations), \<open>Data_Table\<close>, \<open>Job_Tables\<close>, \<open>Workload_Table\<close> (tables: shape,
  menus, order), \<open>Queue_Summary\<close>, \<open>Overview\<close>, \<open>Queue_Activity\<close> (a queue's page), \<open>Tabs\<close>, \<open>Sidebar\<close> (the frame
  of every page), \<open>Json_Payload\<close> (the payload view: what is shown is what is copied). \<open>Detail_List\<close>: lists
  of details, values that scroll, stack traces. \<open>Active_Tab\<close>: the tab written into the query, a locale
  (\<open>remembered_tab\<close>) that the pages of jobs and batches interpret. \<open>Job_Pages\<close>, \<open>Batch_Page\<close>: the pages of
  one job and of one batch. \<open>Filters\<close>: the dialogs of filters, whose
  selects are a locale (\<open>select_choice\<close>) that the filters of batches, queues and metrics interpret. \<open>Batches_Index\<close>: the list of batches, with
  the search that always settles when choices wait for their visits, and the two orders that lose one.
  \<open>Jobs_Index\<close>: the lists of jobs; what a list submits is read back from the URL it visits.
  \<open>Queues_Index\<close>: queues, searched and filtered in the page, whose refresh waits for the query.
  \<open>Monitoring\<close> and \<open>Metrics\<close>: tags and metrics with their tables and pages. \<open>Charts\<close>: the charts' series,
  tooltips and legends, and what the tooltips of the metric charts read. \<open>Ui_Kit\<close>: the parts of
  \<^verbatim>\<open>components/ui\<close> that decide something, the trigger that toggles a menu once per gesture first. \<open>Process_Pages\<close>: the dashboard
  and the instances, where the hook of transitions and the refresh run together, so that a requested
  transition is watched whatever the reader chose.

  \<^bold>\<open>Abstractions.\<close> Finite numbers are exact rationals, with infinities and \<open>NaN\<close> where the code can
  meet them; the rounding of binary floating point is not modelled. Strings are lists of bytes in
  UTF-8 and white space is that of ASCII. Objects are association lists in insertion order; keys
  that look like array indices are not reordered. Times are milliseconds (or seconds, where the
  code has seconds) given with each event, so a delay is a comparison. Class names, sizes and
  other style are left out of the trees.

  \<^bold>\<open>Bounds and fuel.\<close> All recursion is structural or by a measure, except the JSON parser, which has
  fuel: one more than twice the length of its input, which is enough (\<open>fuel_enough\<close>).
  Runs are of any length; no bound is put on lists, histories or times.

  \<^bold>\<open>Not modelled.\<close> The PHP package (another language); generated routes; the UI kit's other wrappers
  and icons, which are styled markup of a third-party library; two panels that no page renders; recovery from stale assets (a reload of
  the browser); tests, build files and the built assets.
\<close>

end
